(* ===== verification/Prelude.thy ===== *)
theory Prelude
  imports Main "HOL-Library.AList" "HOL-Library.Char_ord" "HOL-Library.List_Lexorder"
    "HOL-Library.Product_Lexorder" "HOL-Library.Sublist"
begin

text \<open>
  Shared vocabulary of the development: the result type of a Python function that may raise,
  insertion-ordered dictionaries, the types that name identifiers and digests, and the locale
  of a loop whose body may raise.  Nothing here is specific to one source file.
\<close>

section \<open>Names of the model's basic types\<close>

type_synonym ident = string
type_synonym sha256 = string
type_synonym timestamp = string

text \<open>
  Two collections of simplification rules: \<open>dict_simps\<close> for the dictionary operations and
  \<open>guard_simps\<close> for the unfolding of guarded steps that returned normally.
\<close>

named_theorems dict_simps \<open>laws of insertion-ordered dictionaries\<close>
named_theorems guard_simps \<open>inversion of guarded steps\<close>

section \<open>Results\<close>

text \<open>
  A function that may raise returns \<open>Inl\<close> the exception or \<open>Inr\<close> its value.  \<open>guard b x k\<close> is
  the Python idiom \<open>if b: raise x\<close> followed by the rest of the body \<open>k\<close>.
\<close>

type_synonym ('e, 'a) result = "'e + 'a"

definition guard :: "bool \<Rightarrow> 'e \<Rightarrow> ('e, 'a) result \<Rightarrow> ('e, 'a) result" where
  "guard b x k = (if b then Inl x else k)"

definition rbind :: "('e, 'a) result \<Rightarrow> ('a \<Rightarrow> ('e, 'b) result) \<Rightarrow> ('e, 'b) result" where
  "rbind r f = (case r of Inl x \<Rightarrow> Inl x | Inr a \<Rightarrow> f a)"

definition require_some :: "'a option \<Rightarrow> 'e \<Rightarrow> ('a \<Rightarrow> ('e, 'b) result) \<Rightarrow> ('e, 'b) result" where
  "require_some m x f = (case m of None \<Rightarrow> Inl x | Some a \<Rightarrow> f a)"

definition is_ok :: "('e, 'a) result \<Rightarrow> bool" where
  "is_ok r = (case r of Inl _ \<Rightarrow> False | Inr _ \<Rightarrow> True)"

text \<open>
  The exceptions a kernel function may raise.  The first three are subclasses of \<open>ValueError\<close> of the
  kernel's own, the next three its subclasses of \<open>RuntimeError\<close>, the others are the interpreter's.
\<close>

datatype py_error =
  ReducerError string | WorkflowDefinitionError string | ExecutionProvenanceError string
| ManifestError string | RecoveryError string | JournalError string
| PyValueError string | PyAttributeError string | PyAssertionError | PyKeyError string
| PyTypeError string | PyOSError string | PyStopIteration

lemma guard_Inr [guard_simps]: "guard b x k = Inr v \<longleftrightarrow> \<not> b \<and> k = Inr v"
  by (simp add: guard_def)

lemma guard_Inl [guard_simps]: "guard b x k = Inl y \<longleftrightarrow> b \<and> y = x \<or> \<not> b \<and> k = Inl y"
  by (auto simp: guard_def)

lemma guard_True [simp]: "guard True x k = Inl x"
  by (simp add: guard_def)

lemma guard_False [simp]: "guard False x k = k"
  by (simp add: guard_def)

lemma rbind_Inr [guard_simps]: "rbind r f = Inr v \<longleftrightarrow> (\<exists>a. r = Inr a \<and> f a = Inr v)"
  by (simp add: rbind_def split: sum.split)

lemma rbind_Inl [guard_simps]:
  "rbind r f = Inl x \<longleftrightarrow> r = Inl x \<or> (\<exists>a. r = Inr a \<and> f a = Inl x)"
  by (simp add: rbind_def split: sum.split)

lemma rbind_simps [simp]: "rbind (Inl x) f = Inl x" "rbind (Inr a) f = f a"
  by (simp_all add: rbind_def)

lemma require_some_Inr [guard_simps]:
  "require_some m x f = Inr v \<longleftrightarrow> (\<exists>a. m = Some a \<and> f a = Inr v)"
  by (simp add: require_some_def split: option.split)

lemma require_some_simps [simp]: "require_some None x f = Inl x" "require_some (Some a) x f = f a"
  by (simp_all add: require_some_def)

lemma is_ok_iff: "is_ok r \<longleftrightarrow> (\<exists>v. r = Inr v)"
  by (simp add: is_ok_def split: sum.split)

lemma is_ok_simps [simp]: "is_ok (Inr v)" "\<not> is_ok (Inl x)"
  by (simp_all add: is_ok_def)

section \<open>Insertion-ordered dictionaries\<close>

text \<open>
  A Python \<open>dict\<close> iterates in insertion order, and storing under a key that is present keeps its
  place.  The association lists of the library have exactly these operations:
  \<open>AList.update\<close> overwrites in place or appends, \<open>AList.delete\<close> removes the key.
\<close>

type_synonym ('k, 'v) dict = "('k \<times> 'v) list"

abbreviation dget :: "('k, 'v) dict \<Rightarrow> 'k \<Rightarrow> 'v option" where
  "dget d k \<equiv> map_of d k"

abbreviation dset :: "'k \<Rightarrow> 'v \<Rightarrow> ('k, 'v) dict \<Rightarrow> ('k, 'v) dict" where
  "dset k v d \<equiv> AList.update k v d"

abbreviation dpop :: "'k \<Rightarrow> ('k, 'v) dict \<Rightarrow> ('k, 'v) dict" where
  "dpop k d \<equiv> AList.delete k d"

definition dvalues :: "('k, 'v) dict \<Rightarrow> 'v list" where
  "dvalues d = map snd d"

definition dkeys :: "('k, 'v) dict \<Rightarrow> 'k set" where
  "dkeys d = fst ` set d"

definition dhas :: "('k, 'v) dict \<Rightarrow> 'k \<Rightarrow> bool" where
  "dhas d k = (map_of d k \<noteq> None)"

definition wf_dict :: "('k, 'v) dict \<Rightarrow> bool" where
  "wf_dict d = distinct (map fst d)"

lemma dget_dset [dict_simps]: "dget (dset k v d) k' = (if k' = k then Some v else dget d k')"
  by (simp add: update_conv')

lemma dget_dpop [dict_simps]: "dget (dpop k d) k' = (if k' = k then None else dget d k')"
  by (simp add: delete_conv')

lemma dkeys_dset [dict_simps]: "dkeys (dset k v d) = insert k (dkeys d)"
  by (simp add: dkeys_def dom_update)

lemma dkeys_dpop [dict_simps]: "dkeys (dpop k d) = dkeys d - {k}"
proof -
  have "set (map fst (dpop k d)) = set (map fst d) - {k}"
    by (simp only: delete_keys set_removeAll)
  then show ?thesis by (simp add: dkeys_def)
qed

lemma dhas_iff: "dhas d k \<longleftrightarrow> k \<in> dkeys d"
  by (simp add: dhas_def dkeys_def map_of_eq_None_iff)

lemma dget_None_iff: "dget d k = None \<longleftrightarrow> k \<notin> dkeys d"
  by (simp add: dkeys_def map_of_eq_None_iff)

lemma dget_SomeD: "dget d k = Some v \<Longrightarrow> k \<in> dkeys d"
  by (metis dget_None_iff option.distinct(1))

lemma dget_in_set: "dget d k = Some v \<Longrightarrow> (k, v) \<in> set d"
  by (rule map_of_SomeD)

lemma wf_dict_dset [dict_simps, intro]: "wf_dict d \<Longrightarrow> wf_dict (dset k v d)"
  by (simp add: wf_dict_def distinct_update)

lemma wf_dict_dpop [dict_simps, intro]: "wf_dict d \<Longrightarrow> wf_dict (dpop k d)"
  by (simp add: wf_dict_def distinct_delete)

lemma wf_dict_Nil [simp]: "wf_dict []"
  by (simp add: wf_dict_def)

lemma dkeys_Nil [simp]: "dkeys [] = {}"
  by (simp add: dkeys_def)

lemma dset_new: "k \<notin> dkeys d \<Longrightarrow> dset k v d = d @ [(k, v)]"
  by (induction d) (auto simp: dkeys_def)

lemma set_dset_new: "k \<notin> dkeys d \<Longrightarrow> set (dset k v d) = insert (k, v) (set d)"
  by (simp add: dset_new)

lemma set_dset_subset: "set (dset k v d) \<subseteq> insert (k, v) (set d)"
  by (induction d) auto

lemma set_dpop_subset: "set (dpop k d) \<subseteq> set d"
  by (auto simp: AList.delete_eq)

lemma in_dvalues_iff: "wf_dict d \<Longrightarrow> v \<in> set (dvalues d) \<longleftrightarrow> (\<exists>k. dget d k = Some v)"
  by (force simp: wf_dict_def dvalues_def map_of_eq_Some_iff)

lemma wf_dict_get: "wf_dict d \<Longrightarrow> (k, v) \<in> set d \<Longrightarrow> dget d k = Some v"
  by (simp add: wf_dict_def)

text \<open>
  If any two selected values with the same \<open>f\<close> sit under the same key, the \<open>f\<close> of the selected values
  are different.
\<close>

lemma distinct_dvalues:
  assumes "wf_dict d"
    and "\<And>k a k' b. dget d k = Some a \<Longrightarrow> dget d k' = Some b \<Longrightarrow> P a \<Longrightarrow> P b \<Longrightarrow> f a = f b \<Longrightarrow> k = k'"
  shows "distinct (map f (filter P (dvalues d)))"
  using assms
proof (induction d)
  case (Cons x d)
  obtain k a where x: "x = (k, a)" by fastforce
  have wf: "wf_dict d" and k: "k \<notin> fst ` set d" using Cons.prems(1) x by (auto simp: wf_dict_def)
  have get: "dget (x # d) i = Some b" if "dget d i = Some b" for i b
    using that k x by (auto dest: map_of_SomeD intro!: image_eqI [where x = "(i, b)"])
  have "distinct (map f (filter P (dvalues d)))"
    using Cons.IH [OF wf] Cons.prems(2) get by metis
  moreover have "f b \<noteq> f a" if b: "b \<in> set (dvalues d)" "P b" "P a" for b
  proof
    assume "f b = f a"
    obtain i where i: "(i, b) \<in> set d" using b(1) by (auto simp: dvalues_def)
    then have "dget (x # d) i = Some b" using get wf_dict_get [OF wf] by blast
    moreover have "dget (x # d) k = Some a" by (simp add: x)
    ultimately have "i = k" using Cons.prems(2) b \<open>f b = f a\<close> by blast
    with i k show False by force
  qed
  then have "P a \<Longrightarrow> f a \<notin> set (map f (filter P (dvalues d)))" by force
  ultimately show ?case by (simp add: x dvalues_def)
qed (simp add: dvalues_def)

section \<open>Loops whose body may raise\<close>

text \<open>
  \<open>for x in xs: body\<close> where the body updates a state and may raise: the loop stops at the first
  exception.  The laws are proved once, for any body, in the locale below; each loop of the model
  is an interpretation of it.
\<close>

fun fold_result :: "('s \<Rightarrow> 'x \<Rightarrow> ('e, 's) result) \<Rightarrow> 's \<Rightarrow> 'x list \<Rightarrow> ('e, 's) result" where
  "fold_result f s [] = Inr s"
| "fold_result f s (x # xs) = (case f s x of Inl e \<Rightarrow> Inl e | Inr s' \<Rightarrow> fold_result f s' xs)"

locale checked_loop =
  fixes body :: "'s \<Rightarrow> 'x \<Rightarrow> ('e, 's) result"
    and run :: "'s \<Rightarrow> 'x list \<Rightarrow> ('e, 's) result"
  assumes run_Nil: "run s [] = Inr s"
    and run_Cons: "run s (x # xs) = (case body s x of Inl e \<Rightarrow> Inl e | Inr s' \<Rightarrow> run s' xs)"
begin

lemma run_append:
  "run s (xs @ ys) = (case run s xs of Inl e \<Rightarrow> Inl e | Inr s' \<Rightarrow> run s' ys)"
proof (induction xs arbitrary: s)
  case Nil
  show ?case by (simp add: run_Nil)
next
  case (Cons x xs)
  show ?case
    by (cases "body s x") (simp_all add: run_Cons Cons.IH)
qed

lemma run_snoc:
  "run s (xs @ [x]) = (case run s xs of Inl e \<Rightarrow> Inl e | Inr s' \<Rightarrow> body s' x)"
  by (simp add: run_append run_Cons run_Nil split: sum.split)

lemma run_prefix:
  assumes "run s (xs @ ys) = Inr t"
  shows "\<exists>u. run s xs = Inr u \<and> run u ys = Inr t"
  using assms by (auto simp: run_append split: sum.splits)

lemma run_prefix_error:
  assumes "run s xs = Inl e"
  shows "run s (xs @ ys) = Inl e"
  using assms by (simp add: run_append)

lemma run_invariant:
  assumes "run s xs = Inr t" and "I s"
    and "\<And>s x s'. I s \<Longrightarrow> x \<in> set xs \<Longrightarrow> body s x = Inr s' \<Longrightarrow> I s'"
  shows "I t"
  using assms
proof (induction xs arbitrary: s)
  case Nil
  then show ?case by (simp add: run_Nil)
next
  case (Cons x xs)
  from Cons.prems(1) obtain s' where s': "body s x = Inr s'" and t: "run s' xs = Inr t"
    by (auto simp: run_Cons split: sum.splits)
  have "I s'" using Cons.prems(2) s' Cons.prems(3) [of s x s'] by simp
  with t show ?case
    using Cons.IH [of s'] Cons.prems(3) by (meson list.set_intros(2))
qed

lemma run_monotone:
  assumes "run s xs = Inr t"
    and "\<And>s x s'. x \<in> set xs \<Longrightarrow> body s x = Inr s' \<Longrightarrow> le s s'"
    and "\<And>s. le s s" and "\<And>a b c. le a b \<Longrightarrow> le b c \<Longrightarrow> le a c"
  shows "le s t"
  using assms(1)
  by (rule run_invariant) (use assms(2-4) in blast)+

lemma run_split_at:
  assumes "run s (xs @ x # ys) = Inr t"
  shows "\<exists>u v. run s xs = Inr u \<and> body u x = Inr v \<and> run v ys = Inr t"
  using assms by (auto simp: run_append run_Cons split: sum.splits)

end

interpretation fr: checked_loop f "fold_result f" for f
  by unfold_locales (simp_all split: sum.split)

section \<open>Lists\<close>

lemma find_SomeD: "List.find P xs = Some x \<Longrightarrow> x \<in> set xs \<and> P x"
  by (auto simp: find_Some_iff)

lemma find_None_iff_ball: "List.find P xs = None \<longleftrightarrow> (\<forall>x \<in> set xs. \<not> P x)"
  by (auto simp: find_None_iff)

lemma find_rev_SomeD: "List.find P (rev xs) = Some x \<Longrightarrow> x \<in> set xs \<and> P x"
  using find_SomeD [of P "rev xs" x] by simp

text \<open>
  The \<open>k\<close>-th element that satisfies \<open>P\<close> has a position in the list, and the elements before that
  position that satisfy \<open>P\<close> are the first \<open>k\<close> of them.
\<close>

lemma filter_nth_position:
  "k < length (filter P xs) \<Longrightarrow>
     \<exists>j < length xs. P (xs ! j) \<and> xs ! j = filter P xs ! k
       \<and> filter P (take j xs) = take k (filter P xs)"
proof (induction xs rule: rev_induct)
  case (snoc x xs)
  show ?case
  proof (cases "k < length (filter P xs)")
    case True
    with snoc.IH obtain j where "j < length xs" "P (xs ! j)" "xs ! j = filter P xs ! k"
      "filter P (take j xs) = take k (filter P xs)" by blast
    with True show ?thesis by (intro exI [of _ j]) (auto simp: nth_append)
  next
    case False
    with snoc.prems have "P x" "k = length (filter P xs)" by (auto split: if_splits)
    then show ?thesis by (intro exI [of _ "length xs"]) auto
  qed
qed simp

text \<open>
  \<open>accepted_history f xs\<close>: every element of the history passed the check \<open>f\<close> against the elements
  before it.
\<close>

definition accepted_history :: "('a list \<Rightarrow> 'a \<Rightarrow> ('e, unit) result) \<Rightarrow> 'a list \<Rightarrow> bool" where
  "accepted_history f xs = (\<forall>i < length xs. f (take i xs) (xs ! i) = Inr ())"

lemma accepted_historyD: "accepted_history f xs \<Longrightarrow> i < length xs \<Longrightarrow> f (take i xs) (xs ! i) = Inr ()"
  by (simp add: accepted_history_def)

lemma accepted_history_snoc:
  "accepted_history f (xs @ [x]) \<longleftrightarrow> accepted_history f xs \<and> f xs x = Inr ()"
  by (auto simp: accepted_history_def less_Suc_eq nth_append)

text \<open>\<open>tuple(dict.fromkeys(xs))\<close>: the first occurrences, in order.\<close>

fun dedup :: "'a list \<Rightarrow> 'a list" where
  "dedup [] = []"
| "dedup (x # xs) = x # dedup (filter (\<lambda>y. y \<noteq> x) xs)"

lemma set_dedup [simp]: "set (dedup xs) = set xs"
  by (induction xs rule: dedup.induct) auto

lemma distinct_dedup: "distinct (dedup xs)"
  by (induction xs rule: dedup.induct) auto

end
