(* ===== verification/Paths.thy ===== *)
theory Paths
  imports Prelude
begin

text \<open>
  Relative path validation.  The kernel has three versions of the same check: \<open>\<open>_execution_relative_path\<close>\<close>
  and the \<open>ImmutableInput\<close>, \<open>ArtifactManifest\<close> and \<open>RecoveryReceipt\<close> validators of
  \<^verbatim>\<open>kernel/state/models.py\<close>, and \<open>_normalized_relative_path\<close> of
  \<^verbatim>\<open>kernel/state/orchestration_models.py\<close>.  They rest on \<open>str.split\<close> and on the
  standard library's \<open>PurePosixPath\<close>, which drops empty and \<^verbatim>\<open>.\<close> components when it parses.
\<close>

section \<open>The standard library's path parsing\<close>

fun split_on :: "char \<Rightarrow> string \<Rightarrow> string list" where
  "split_on c [] = [[]]"
| "split_on c (x # xs) =
     (if x = c then [] # split_on c xs
      else (case split_on c xs of [] \<Rightarrow> [[x]] | p # ps \<Rightarrow> (x # p) # ps))"

fun join_with :: "char \<Rightarrow> string list \<Rightarrow> string" where
  "join_with c [] = []"
| "join_with c [p] = p"
| "join_with c (p # q # ps) = p @ c # join_with c (q # ps)"

definition slash :: char where
  "slash = CHR ''/''"

definition is_absolute :: "string \<Rightarrow> bool" where
  "is_absolute s = (case s of [] \<Rightarrow> False | c # _ \<Rightarrow> c = slash)"

definition posix_parts :: "string \<Rightarrow> string list" where
  "posix_parts s = filter (\<lambda>p. p \<noteq> [] \<and> p \<noteq> ''.'') (split_on slash s)"

definition as_posix :: "string \<Rightarrow> string" where
  "as_posix s = (if posix_parts s = [] then ''.'' else join_with slash (posix_parts s))"

lemma split_on_not_Nil [simp]: "split_on c s \<noteq> []"
  by (induction s) (auto split: list.splits)

lemma join_split: "join_with c (split_on c s) = s"
proof (induction s)
  case Nil
  show ?case by simp
next
  case (Cons x s)
  show ?case
  proof (cases "split_on c s")
    case Nil
    then show ?thesis by simp
  next
    case (Cons p ps)
    with Cons.IH show ?thesis by (cases ps) auto
  qed
qed

lemma split_on_no_sep: "p \<in> set (split_on c s) \<Longrightarrow> c \<notin> set p"
  by (induction s arbitrary: p) (auto split: list.splits if_splits)

lemma split_on_append_sep:
  "c \<notin> set p \<Longrightarrow> split_on c (p @ c # s) = p # split_on c s"
  by (induction p) auto

lemma split_on_single: "c \<notin> set p \<Longrightarrow> split_on c p = [p]"
  by (induction p) auto

lemma split_join: "ps \<noteq> [] \<Longrightarrow> (\<forall>p \<in> set ps. c \<notin> set p) \<Longrightarrow> split_on c (join_with c ps) = ps"
  by (induction c ps rule: join_with.induct) (auto simp: split_on_single split_on_append_sep)

section \<open>The validators\<close>

definition bad_chars :: "string \<Rightarrow> bool" where
  "bad_chars s = (s = [] \<or> CHR 0x00 \<in> set s \<or> CHR 0x5C \<in> set s)"

definition dotted :: "string \<Rightarrow> bool" where
  "dotted p = (p \<in> {'''', ''.'', ''..''})"

definition execution_relative_path :: "string \<Rightarrow> (string, string) result" where
  "execution_relative_path s =
     guard (bad_chars s \<or> is_absolute s \<or> list_ex dotted (split_on slash s) \<or> as_posix s \<noteq> s)
       ''execution source path must be normalized and relative'' (Inr s)"

definition immutable_input_path :: "string \<Rightarrow> (string, string) result" where
  "immutable_input_path s =
     guard (bad_chars s) ''immutable input path must be a non-empty POSIX path''
    (guard (is_absolute s \<or> list_ex dotted (posix_parts s))
       ''immutable input path must be normalized and relative'' (Inr s))"

definition normalized_content_path :: "string \<Rightarrow> (string, string) result" where
  "normalized_content_path s =
     guard (bad_chars s) ''content path must be a normalized relative POSIX path''
    (guard (is_absolute s \<or> list_ex dotted (posix_parts s))
       ''content path must be a normalized relative POSIX path'' (Inr s))"

definition recovery_path :: "string \<Rightarrow> (string, string) result" where
  "recovery_path s =
     guard (bad_chars s \<or> is_absolute s \<or> list_ex dotted (posix_parts s))
       ''recovery paths must be normalized relative POSIX paths'' (Inr s)"

definition normalized_relative_path :: "string \<Rightarrow> (string, string) result" where
  "normalized_relative_path s =
     guard (bad_chars s \<or> is_absolute s \<or> s \<noteq> as_posix s \<or> list_ex dotted (posix_parts s))
       ''path must be a normalized relative POSIX path'' (Inr s)"

definition attempt_path_template :: "string \<Rightarrow> (string, string) result" where
  "attempt_path_template s =
     rbind (normalized_relative_path s) (\<lambda>v. let parts = posix_parts v in
       guard (length parts < 3 \<or> parts ! 0 \<noteq> ''attempts'' \<or> parts ! 1 \<noteq> ''{attempt_id}'')
         ''attempt path templates must be rooted at attempts/{attempt_id}'' (Inr v))"

definition direct_child_path :: "string \<Rightarrow> (string, string) result" where
  "direct_child_path s =
     rbind (normalized_relative_path s) (\<lambda>v.
       guard (length (posix_parts v) \<noteq> 1)
         ''proposal artifact path must be a direct result-file child'' (Inr v))"

section \<open>What an accepted path can name\<close>

text \<open>
  A path is resolved component by component from a directory given by its own components:
  \<^verbatim>\<open>..\<close> drops the last one, \<^verbatim>\<open>.\<close> and the empty component stay, any other name descends.
  \<open>confined\<close> says that the walk never leaves the starting directory.
\<close>

fun resolve :: "string list \<Rightarrow> string list \<Rightarrow> string list" where
  "resolve d [] = d"
| "resolve d (p # ps) =
     (if p = ''..'' then resolve (butlast d) ps
      else if p = [] \<or> p = ''.'' then resolve d ps
      else resolve (d @ [p]) ps)"

lemma resolve_no_dotdot:
  "''..'' \<notin> set ps \<Longrightarrow> resolve d ps = d @ filter (\<lambda>p. p \<noteq> [] \<and> p \<noteq> ''.'') ps"
  by (induction ps arbitrary: d) auto

lemma no_dotdot_split:
  "\<not> list_ex dotted (posix_parts s) \<Longrightarrow> ''..'' \<notin> set (split_on slash s)"
  by (auto simp: posix_parts_def dotted_def list_ex_iff)

lemma resolve_posix_parts:
  assumes "\<not> list_ex dotted (posix_parts s)"
  shows "resolve d (split_on slash s) = d @ posix_parts s"
  using resolve_no_dotdot [OF no_dotdot_split [OF assms], of d] by (simp add: posix_parts_def)

text \<open>
  C36.  Path confinement.  Whatever relative path the kernel's validators accept (source paths,
  immutable inputs, artifact contents, recovery evidence, orchestration paths), resolving it below
  a directory stays below that directory: the result is the directory followed by the path's own
  components.
\<close>

theorem accepted_paths_are_confined:
  assumes "v \<in> {execution_relative_path, immutable_input_path, normalized_content_path,
                 recovery_path, normalized_relative_path}"
    and "v s = Inr s'"
  shows "s' = s \<and> resolve d (split_on slash s) = d @ posix_parts s
           \<and> ''..'' \<notin> set (split_on slash s) \<and> \<not> is_absolute s"
proof -
  have acc: "s' = s \<and> \<not> is_absolute s \<and> \<not> list_ex dotted (posix_parts s)"
    using assms
    by (auto simp: execution_relative_path_def immutable_input_path_def
        normalized_content_path_def recovery_path_def normalized_relative_path_def guard_simps
        posix_parts_def list_ex_iff)
  then show ?thesis using resolve_posix_parts no_dotdot_split by blast
qed

theorem accepted_paths_are_confined_witness:
  "immutable_input_path ''in/a.txt'' = Inr ''in/a.txt''
    \<and> resolve [''run''] (split_on slash ''in/a.txt'') = [''run'', ''in'', ''a.txt'']"
proof -
  have p: "immutable_input_path ''in/a.txt'' = Inr ''in/a.txt''" by code_simp
  have q: "posix_parts ''in/a.txt'' = [''in'', ''a.txt'']" by code_simp
  show ?thesis
    using accepted_paths_are_confined [of immutable_input_path "''in/a.txt''" _ "[''run'']", OF _ p] p q
    by simp
qed

text \<open>
  The strict validators are injective on names.  Two source paths accepted by
  \<open>_execution_relative_path\<close> that resolve to the same file are the same string, so the accepted
  string is the file's identity.
\<close>

theorem execution_paths_are_canonical:
  assumes "execution_relative_path s = Inr s'" and "execution_relative_path t = Inr t'"
    and "resolve d (split_on slash s) = resolve d (split_on slash t)"
  shows "s = t"
proof -
  have facts: "as_posix u = u \<and> \<not> list_ex dotted (posix_parts u)"
    if "execution_relative_path u = Inr u'" for u u'
  proof -
    from that have "as_posix u = u" and no: "\<not> list_ex dotted (split_on slash u)"
      by (auto simp: execution_relative_path_def guard_simps)
    moreover from no have "\<not> list_ex dotted (posix_parts u)"
      by (auto simp: posix_parts_def list_ex_iff)
    ultimately show ?thesis by blast
  qed
  have "resolve d (split_on slash s) = d @ posix_parts s"
    "resolve d (split_on slash t) = d @ posix_parts t"
    using facts [OF assms(1)] facts [OF assms(2)] resolve_posix_parts by blast+
  with assms(3) have "posix_parts s = posix_parts t" by simp
  then have "as_posix s = as_posix t" by (simp add: as_posix_def)
  with facts [OF assms(1)] facts [OF assms(2)] show ?thesis by metis
qed

theorem execution_paths_are_canonical_witness:
  "execution_relative_path ''src/a.py'' = Inr ''src/a.py''
   \<and> execution_relative_path ''src/b.py'' = Inr ''src/b.py''
   \<and> resolve [''run''] (split_on slash ''src/a.py'') \<noteq> resolve [''run''] (split_on slash ''src/b.py'')"
proof -
  have a: "execution_relative_path ''src/a.py'' = Inr ''src/a.py''" by code_simp
  have b: "execution_relative_path ''src/b.py'' = Inr ''src/b.py''" by code_simp
  have ne: "''src/a.py'' \<noteq> ''src/b.py''" by simp
  show ?thesis
    using a b ne execution_paths_are_canonical [OF a b, of "[''run'']"] by blast
qed


end
