(* ===== verification/Contracts.thy ===== *)
theory Contracts
  imports Paths Complex_Main
begin

text \<open>
  The immutable orchestration records of \<^verbatim>\<open>kernel/state/orchestration_models.py\<close> and their
  validators.  Each class is a record with the fields of the class (constant \<open>Literal\<close> fields, such
  as the schema tags, carry no information and are left out); each \<open>model_validator\<close> and
  \<open>field_validator\<close> is a function that returns the error it raises or the record itself.  The
  pattern constraints on single strings and the length limits of arrays, which the validation
  library checks, are not repeated here.
\<close>

section \<open>Enumerations\<close>

datatype execution_mode =
  Native_profile | Assignment_injected_subagent | Degraded_inline | Blocked_mode

datatype execution_provenance =
  Prov_native_profile | Prov_assignment_injected_subagent | Prov_degraded_inline | Prov_unavailable

datatype gate_verdict = Verdict_PASS | Verdict_FAIL | Verdict_BLOCKED

datatype attempt_status =
  St_prepared | St_active | St_cancel_requested | St_force_terminated | St_interrupted
| St_completed | St_failed | St_cancelled | St_rejected_stale | St_superseded | St_blocked

datatype retry_reason =
  Rr_timeout | Rr_process_failure | Rr_repairable_envelope | Rr_permission_denied
| Rr_stale_inputs | Rr_superseded | Rr_cancelled | Rr_scientific_disagreement
| Rr_identity_mismatch | Rr_policy_violation | Rr_digest_mismatch

datatype review_classification = Consensus | Majority | Split_review | DA_critical

datatype output_role = Role_analysis | Role_outline | Role_blueprint | Role_draft

definition FORMAL_REVIEW_ROLE_IDS :: "ident set" where
  "FORMAL_REVIEW_ROLE_IDS =
     {''methodology_reviewer'', ''domain_reviewer'', ''perspective_reviewer'',
      ''devils_advocate_reviewer''}"

definition DEFERRED_EXECUTOR_ROLE_IDS :: "ident set" where
  "DEFERRED_EXECUTOR_ROLE_IDS = {''code_runner'', ''study_manager''}"

definition RETRYABLE_FAILURES :: "retry_reason set" where
  "RETRYABLE_FAILURES = {Rr_timeout, Rr_process_failure, Rr_repairable_envelope}"

definition NON_RETRYABLE_FAILURES :: "retry_reason set" where
  "NON_RETRYABLE_FAILURES =
     {Rr_permission_denied, Rr_stale_inputs, Rr_superseded, Rr_cancelled,
      Rr_scientific_disagreement, Rr_identity_mismatch, Rr_policy_violation, Rr_digest_mismatch}"

definition require_unique :: "'a list \<Rightarrow> string \<Rightarrow> (string, 'b) result \<Rightarrow> (string, 'b) result" where
  "require_unique vs label k = guard (\<not> distinct vs) (label @ '' must be unique'') k"

lemma require_unique_Inr [guard_simps]:
  "require_unique vs l k = Inr r \<longleftrightarrow> distinct vs \<and> k = Inr r"
  by (simp add: require_unique_def guard_simps)

lemma retryable_disjoint: "RETRYABLE_FAILURES \<inter> NON_RETRYABLE_FAILURES = {}"
  by (simp add: RETRYABLE_FAILURES_def NON_RETRYABLE_FAILURES_def)

lemma retryable_exhaustive: "RETRYABLE_FAILURES \<union> NON_RETRYABLE_FAILURES = UNIV"
proof -
  have "r \<in> RETRYABLE_FAILURES \<union> NON_RETRYABLE_FAILURES" for r
    by (cases r) (simp_all add: RETRYABLE_FAILURES_def NON_RETRYABLE_FAILURES_def)
  then show ?thesis by blast
qed

section \<open>Execution claims\<close>

definition validate_execution_claim ::
  "execution_mode \<Rightarrow> execution_provenance \<Rightarrow> bool \<Rightarrow> (string, 'a) result \<Rightarrow> (string, 'a) result" where
  "validate_execution_claim mode prov eligible k =
    (case mode of
       Degraded_inline \<Rightarrow>
         guard (prov \<noteq> Prov_degraded_inline)
           ''degraded_inline requires degraded_inline provenance''
        (guard eligible ''degraded_inline cannot carry a formal-independence claim'' k)
     | Blocked_mode \<Rightarrow>
         guard (prov \<noteq> Prov_unavailable)
           ''blocked execution mode requires unavailable provenance''
        (guard eligible ''blocked execution mode cannot carry a formal-independence claim'' k)
     | Native_profile \<Rightarrow>
         guard (prov \<noteq> Prov_native_profile)
           ''native_profile requires native_profile provenance'' k
     | Assignment_injected_subagent \<Rightarrow>
         guard (prov \<noteq> Prov_assignment_injected_subagent)
           ''assignment_injected_subagent requires assignment_injected_subagent provenance'' k)"

definition formal_mode :: "execution_mode \<Rightarrow> bool" where
  "formal_mode m = (m \<in> {Native_profile, Assignment_injected_subagent})"

lemma execution_claim_Inr:
  assumes "validate_execution_claim mode prov eligible k = Inr v"
  shows "k = Inr v" and "eligible \<Longrightarrow> formal_mode mode"
  using assms
  by (auto simp: validate_execution_claim_def formal_mode_def guard_simps
      split: execution_mode.splits)

section \<open>Assignments\<close>

type_synonym accept_key = "int \<times> int \<times> ident"

record assignment_key =
  key_topological_layer :: int
  key_task_ordinal :: int
  key_assignment_id :: ident

definition key_value :: "assignment_key \<Rightarrow> accept_key" where
  "key_value k = (key_topological_layer k, key_task_ordinal k, key_assignment_id k)"

record output_policy =
  op_schema_id :: ident
  op_schema_sha256 :: sha256
  op_max_bytes :: int
  op_max_artifacts :: int

record blind_review =
  br_required :: bool
  br_subject_sha256 :: "sha256 option"
  br_rubric_sha256 :: "sha256 option"
  br_forbidden_peer_role_ids :: "ident list"

record completion_contract =
  cc_requires_completed_proposal :: bool
  cc_required_artifact_kinds :: "ident list"
  cc_requires_human_gate :: bool

definition blind_constraints_are_complete :: "blind_review \<Rightarrow> (string, blind_review) result" where
  "blind_constraints_are_complete b =
     require_unique (br_forbidden_peer_role_ids b) ''forbidden peer role IDs''
    (guard (br_required b \<and> (br_subject_sha256 b = None \<or> br_rubric_sha256 b = None))
       ''blind review requires subject and rubric digests''
    (guard (\<not> br_required b \<and>
        (br_subject_sha256 b \<noteq> None \<or> br_rubric_sha256 b \<noteq> None \<or> br_forbidden_peer_role_ids b \<noteq> []))
       ''non-blind assignments cannot carry blind-review bindings'' (Inr b)))"

record assignment =
  asg_assignment_id :: ident
  asg_supersedes_assignment_id :: "ident option"
  asg_run_id :: ident
  asg_stage_id :: ident
  asg_task_id :: ident
  asg_role_id :: ident
  asg_worker_identity_id :: ident
  asg_execution_mode :: execution_mode
  asg_execution_provenance :: execution_provenance
  asg_independence_eligible :: bool
  asg_base_revision :: int
  asg_input_sha256 :: "sha256 list"
  asg_capability_ids :: "ident list"
  asg_allowed_read_root_ids :: "ident list"
  asg_scratch_path_template :: string
  asg_result_path_template :: string
  asg_output_policy :: output_policy
  asg_policy_sha256 :: sha256
  asg_context_manifest_sha256 :: sha256
  asg_blind_review :: blind_review
  asg_deadline_at :: timestamp
  asg_completion_contract :: completion_contract
  asg_acceptance_key :: assignment_key
  asg_narrative_snapshot :: "sha256 option"
  asg_paper_output_role :: output_role
  asg_narrative_instructions :: "string option"

definition immutable_bindings_are_coherent :: "assignment \<Rightarrow> (string, assignment) result" where
  "immutable_bindings_are_coherent a =
     guard ((asg_narrative_snapshot a = None) \<noteq> (asg_narrative_instructions a = None))
       ''paper narrative snapshot and instructions must occur together''
    (guard (asg_narrative_snapshot a = None \<and> asg_paper_output_role a \<noteq> Role_analysis)
       ''paper output role requires a selected paper narrative''
    (guard (asg_paper_output_role a = Role_analysis \<and>
        (asg_stage_id a \<in> {''paper-body'', ''writing'', ''drafting''} \<or>
         list_ex (\<lambda>k. k \<in> {''paper-body'', ''paper-draft'', ''manuscript'', ''draft''})
           (cc_required_artifact_kinds (asg_completion_contract a))))
       ''paper body assignment must declare a draft output role''
    (validate_execution_claim (asg_execution_mode a) (asg_execution_provenance a)
       (asg_independence_eligible a)
    (guard (key_assignment_id (asg_acceptance_key a) \<noteq> asg_assignment_id a)
       ''acceptance key assignment_id must echo assignment_id''
    (guard (asg_supersedes_assignment_id a = Some (asg_assignment_id a))
       ''an assignment cannot supersede itself''
    (guard (br_required (asg_blind_review a) \<and> \<not> asg_independence_eligible a)
       ''blind-review assignments must be independence eligible''
    (guard (asg_role_id a \<in> DEFERRED_EXECUTOR_ROLE_IDS)
       ''deferred executor roles are prohibited from assignments''
    (guard (list_ex (\<lambda>c. sublist ''execution'' c) (asg_capability_ids a))
       ''controlled execution capabilities are disabled in Phase 4'' (Inr a)))))))))"

definition assignment_valid :: "assignment \<Rightarrow> (string, assignment) result" where
  "assignment_valid a =
     require_unique (asg_input_sha256 a) ''assignment bindings''
    (require_unique (asg_capability_ids a) ''assignment bindings''
    (require_unique (asg_allowed_read_root_ids a) ''assignment bindings''
    (rbind (attempt_path_template (asg_scratch_path_template a)) (\<lambda>_.
     rbind (attempt_path_template (asg_result_path_template a)) (\<lambda>_.
     rbind (blind_constraints_are_complete (asg_blind_review a)) (\<lambda>_.
     require_unique (cc_required_artifact_kinds (asg_completion_contract a)) ''required artifact kinds''
       (immutable_bindings_are_coherent a)))))))"

definition validate_supersedes :: "assignment \<Rightarrow> assignment \<Rightarrow> (string, unit) result" where
  "validate_supersedes a predecessor =
     guard (asg_assignment_id a = asg_assignment_id predecessor)
       ''a superseding assignment requires a new assignment_id''
    (guard (asg_supersedes_assignment_id a \<noteq> Some (asg_assignment_id predecessor))
       ''a changed assignment must explicitly supersede its predecessor''
    (guard (asg_run_id a \<noteq> asg_run_id predecessor)
       ''a superseding assignment must remain in the same run'' (Inr ())))"

section \<open>Attempts and proposals\<close>

record attempt_descriptor =
  att_assignment_id :: ident
  att_attempt_id :: ident
  att_attempt_number :: int
  att_proposal_nonce :: ident
  att_status :: attempt_status
  att_retry_reason :: "retry_reason option"
  att_retry_eligible :: bool
  att_continuation_count :: int
  att_host_agent_id :: "string option"
  att_cancellation_deadline_at :: "timestamp option"

definition attempt_bounds_are_coherent ::
  "attempt_descriptor \<Rightarrow> (string, attempt_descriptor) result" where
  "attempt_bounds_are_coherent a =
     guard (att_attempt_number a < 1 \<or> 2 < att_attempt_number a
          \<or> att_continuation_count a < 0 \<or> 1 < att_continuation_count a)
       ''Input should be within the attempt and continuation budget''
    (guard (att_retry_reason a = None \<and> att_retry_eligible a)
       ''retry eligibility requires a retry reason''
    (guard (\<exists>r. att_retry_reason a = Some r \<and> r \<in> RETRYABLE_FAILURES \<and> \<not> att_retry_eligible a)
       ''repairable failures must be marked retry eligible''
    (guard (\<exists>r. att_retry_reason a = Some r \<and> r \<in> NON_RETRYABLE_FAILURES \<and> att_retry_eligible a)
       ''non-retryable failures cannot receive an automatic retry''
    (guard (att_retry_eligible a \<and> att_attempt_number a \<ge> 2)
       ''retry budget is exhausted after two attempts''
    (guard (att_status a = St_cancel_requested \<and> att_cancellation_deadline_at a = None)
       ''cancellation requests require a grace deadline''
    (guard (att_status a = St_active \<and> att_host_agent_id a = None)
       ''active attempts require an observed host agent ID'' (Inr a)))))))"

record proposed_artifact =
  pa_relative_path :: string
  pa_sha256 :: sha256
  pa_media_type :: string
  pa_schema_id :: "ident option"
  pa_byte_count :: int
  pa_paper_output_role :: output_role

datatype proposal_status = Ps_completed | Ps_partial | Ps_blocked | Ps_failed | Ps_cancelled
datatype result_provenance_mode = Executed | Reported | Simulated
datatype next_action = Next_accept | Next_retry | Next_human_decision | Next_none

record worker_proposal =
  wp_run_id :: ident
  wp_assignment_id :: ident
  wp_attempt_id :: ident
  wp_role_id :: ident
  wp_worker_identity_id :: ident
  wp_host_agent_id :: string
  wp_execution_mode :: execution_mode
  wp_execution_provenance :: execution_provenance
  wp_independence_eligible :: bool
  wp_assignment_sha256 :: sha256
  wp_context_manifest_sha256 :: sha256
  wp_policy_sha256 :: sha256
  wp_base_revision :: int
  wp_input_sha256 :: "sha256 list"
  wp_proposal_nonce :: ident
  wp_status :: proposal_status
  wp_result_provenance_mode :: result_provenance_mode
  wp_requested_next_action :: next_action
  wp_artifacts :: "proposed_artifact list"
  wp_evidence_sha256 :: "sha256 list"
  wp_summary :: string
  wp_narrative_realization :: "sha256 option"
  wp_unresolved :: "string list"

definition proposal_is_coherent :: "worker_proposal \<Rightarrow> (string, worker_proposal) result" where
  "proposal_is_coherent p =
     validate_execution_claim (wp_execution_mode p) (wp_execution_provenance p)
       (wp_independence_eligible p)
    (guard (wp_status p = Ps_completed \<and> wp_artifacts p = [])
       ''completed proposal requires at least one artifact''
    (guard (wp_requested_next_action p = Next_accept \<and> wp_status p \<noteq> Ps_completed)
       ''only completed proposals may request acceptance''
    (guard (\<not> distinct (map pa_relative_path (wp_artifacts p)))
       ''proposal artifact paths must be unique'' (Inr p))))"

text \<open>
  \<open>validate_against_assignment\<close> compares fifteen echoed fields in the order of its dictionary and
  reports the first that differs; \<open>assignment_sha256\<close> is the digest of the assignment's canonical
  bytes, which the caller supplies here.
\<close>

definition echo_checks ::
  "sha256 \<Rightarrow> assignment \<Rightarrow> attempt_descriptor \<Rightarrow> worker_proposal \<Rightarrow> (string \<times> bool) list" where
  "echo_checks digest a t p =
    [(''run_id'', wp_run_id p = asg_run_id a),
     (''assignment_id'', wp_assignment_id p = asg_assignment_id a),
     (''attempt_id'', wp_attempt_id p = att_attempt_id t),
     (''role_id'', wp_role_id p = asg_role_id a),
     (''worker_identity_id'', wp_worker_identity_id p = asg_worker_identity_id a),
     (''host_agent_id'', Some (wp_host_agent_id p) = att_host_agent_id t),
     (''execution_mode'', wp_execution_mode p = asg_execution_mode a),
     (''execution_provenance'', wp_execution_provenance p = asg_execution_provenance a),
     (''independence_eligible'', wp_independence_eligible p = asg_independence_eligible a),
     (''assignment_sha256'', wp_assignment_sha256 p = digest),
     (''context_manifest_sha256'', wp_context_manifest_sha256 p = asg_context_manifest_sha256 a),
     (''policy_sha256'', wp_policy_sha256 p = asg_policy_sha256 a),
     (''base_revision'', wp_base_revision p = asg_base_revision a),
     (''input_sha256'', wp_input_sha256 p = asg_input_sha256 a),
     (''proposal_nonce'', wp_proposal_nonce p = att_proposal_nonce t)]"

definition validate_against_assignment ::
  "sha256 \<Rightarrow> assignment \<Rightarrow> attempt_descriptor \<Rightarrow> worker_proposal \<Rightarrow> (string, unit) result" where
  "validate_against_assignment digest a t p =
    (case List.find (\<lambda>(n, ok). \<not> ok) (echo_checks digest a t p) of
       Some (n, _) \<Rightarrow> Inl (''proposal '' @ n @ '' does not echo the immutable assignment'')
     | None \<Rightarrow>
         guard (int (length (wp_artifacts p)) > op_max_artifacts (asg_output_policy a))
           ''proposal exceeds assignment artifact limit''
        (guard (sum_list (map pa_byte_count (wp_artifacts p)) > op_max_bytes (asg_output_policy a))
           ''proposal exceeds assignment output byte limit''
        (guard (list_ex (\<lambda>f. pa_byte_count f > op_max_bytes (asg_output_policy a)) (wp_artifacts p))
           ''proposal artifact exceeds assignment output byte limit'' (Inr ()))))"

end
