(* ===== verification/Roles.thy ===== *)
theory Roles
  imports Contracts
begin

text \<open>
  The role catalog of \<^verbatim>\<open>kernel/state/orchestration_models.py\<close>: which roles a workflow may
  dispatch, which pairs of roles must never share an identity, and the deterministic minimum catalog
  \<open>locked_role_catalog\<close>.  The digest of a role's instructions is the hash function's, a parameter.
\<close>

section \<open>Role definitions and conflicts\<close>

datatype role_execution_capability = Proposal_only | No_execution

definition LOCKED_ROLE_IDS :: "ident list" where
  "LOCKED_ROLE_IDS =
     [''research_architect'', ''methodology_reviewer'', ''domain_reviewer'',
      ''perspective_reviewer'', ''devils_advocate_reviewer'', ''editorial_synthesizer'',
      ''experiment_designer'']"

definition formal_reviewers :: "ident list" where
  "formal_reviewers =
     [''devils_advocate_reviewer'', ''domain_reviewer'', ''methodology_reviewer'',
      ''perspective_reviewer'']"

lemma set_formal_reviewers: "set formal_reviewers = FORMAL_REVIEW_ROLE_IDS"
  by (auto simp: formal_reviewers_def FORMAL_REVIEW_ROLE_IDS_def)

record role_definition =
  rd_role_id :: ident
  rd_execution_capability :: role_execution_capability
  rd_independence_eligible :: bool
  rd_capability_ids :: "ident list"
  rd_allowed_execution_modes :: "execution_mode list"
  rd_developer_instructions_sha256 :: sha256

definition role_definition_valid :: "role_definition \<Rightarrow> (string, role_definition) result" where
  "role_definition_valid r =
     require_unique (rd_capability_ids r) ''role values''
    (require_unique (rd_allowed_execution_modes r) ''role values''
    (guard (rd_role_id r \<in> DEFERRED_EXECUTOR_ROLE_IDS)
       (rd_role_id r @ '' is a deferred execution adapter'')
    (guard (rd_role_id r = ''experiment_designer'' \<and> rd_execution_capability r \<noteq> Proposal_only)
       ''experiment_designer must remain proposal-only''
    (guard (rd_role_id r = ''experiment_designer'' \<and>
        list_ex (\<lambda>c. sublist ''execution'' c) (rd_capability_ids r))
       ''experiment_designer cannot receive execution capability''
    (guard (Degraded_inline \<in> set (rd_allowed_execution_modes r) \<and> rd_independence_eligible r)
       ''independence-eligible roles cannot use degraded_inline'' (Inr r))))))"

type_synonym role_pair = "ident \<times> ident"

definition role_conflict_valid :: "role_pair \<Rightarrow> (string, role_pair) result" where
  "role_conflict_valid p =
     guard (fst p = snd p) ''role conflict pairs must name two distinct roles''
    (guard (fst p > snd p) ''role conflict pairs must be lexicographically ordered'' (Inr p))"

definition conflict_key :: "ident \<Rightarrow> ident \<Rightarrow> role_pair" where
  "conflict_key a b = (if b < a then (b, a) else (a, b))"

fun unordered_pairs :: "ident list \<Rightarrow> role_pair list" where
  "unordered_pairs [] = []"
| "unordered_pairs (r # rs) = map (conflict_key r) rs @ unordered_pairs rs"

definition required_conflict_keys :: "role_pair list" where
  "required_conflict_keys =
     concat (map (\<lambda>r. [conflict_key ''research_architect'' r, conflict_key ''editorial_synthesizer'' r])
       formal_reviewers)
     @ unordered_pairs (sort formal_reviewers)
     @ [conflict_key ''experiment_designer'' ''methodology_reviewer'']"

record role_catalog =
  rc_roles :: "role_definition list"
  rc_conflict_pairs :: "role_pair list"

definition locked_roles_and_conflicts_are_present ::
  "role_catalog \<Rightarrow> (string, role_catalog) result" where
  "locked_roles_and_conflicts_are_present c = (let ids = map rd_role_id (rc_roles c) in
     guard (\<not> distinct ids) ''role catalog role IDs must be unique''
    (guard (\<exists>i \<in> set ids. i \<in> DEFERRED_EXECUTOR_ROLE_IDS) ''deferred executor roles are prohibited''
    (guard (\<not> set LOCKED_ROLE_IDS \<subseteq> set ids) ''role catalog is missing locked roles''
    (guard (ids \<noteq> sort ids) ''role catalog roles must be sorted by role_id''
    (guard (\<not> distinct (rc_conflict_pairs c)) ''role conflict pairs must be unique''
    (guard (rc_conflict_pairs c \<noteq> sort (rc_conflict_pairs c)) ''role conflict pairs must be sorted''
    (guard (\<not> set required_conflict_keys \<subseteq> set (rc_conflict_pairs c))
       ''role catalog is missing required identity-conflict pairs'' (Inr c))))))))"

fun check_all :: "('a \<Rightarrow> (string, 'b) result) \<Rightarrow> 'a list \<Rightarrow> (string, 'c) result \<Rightarrow> (string, 'c) result"
  where
  "check_all f [] k = k"
| "check_all f (x # xs) k = rbind (f x) (\<lambda>_. check_all f xs k)"

lemma check_all_Inr [guard_simps]:
  "check_all f xs k = Inr v \<longleftrightarrow> (\<forall>x \<in> set xs. is_ok (f x)) \<and> k = Inr v"
  by (induction xs) (auto simp: guard_simps is_ok_iff)

definition role_catalog_valid :: "role_catalog \<Rightarrow> (string, role_catalog) result" where
  "role_catalog_valid c =
     check_all role_definition_valid (rc_roles c)
    (check_all role_conflict_valid (rc_conflict_pairs c)
      (locked_roles_and_conflicts_are_present c))"

section \<open>The locked catalog\<close>

definition role_digest :: "(string \<Rightarrow> sha256) \<Rightarrow> ident \<Rightarrow> sha256" where
  "role_digest H r = H (''arw.role.v1:'' @ r)"

definition reviewer_role :: "(string \<Rightarrow> sha256) \<Rightarrow> ident \<Rightarrow> role_definition" where
  "reviewer_role H r =
     \<lparr> rd_role_id = r, rd_execution_capability = Proposal_only, rd_independence_eligible = True,
       rd_capability_ids = [''files.read''],
       rd_allowed_execution_modes = [Native_profile, Assignment_injected_subagent, Blocked_mode],
       rd_developer_instructions_sha256 = role_digest H r \<rparr>"

definition inline_role :: "(string \<Rightarrow> sha256) \<Rightarrow> ident \<Rightarrow> role_definition" where
  "inline_role H r = (reviewer_role H r)
     \<lparr> rd_independence_eligible := False,
       rd_allowed_execution_modes :=
         [Native_profile, Assignment_injected_subagent, Degraded_inline, Blocked_mode] \<rparr>"

definition locked_role_catalog :: "(string \<Rightarrow> sha256) \<Rightarrow> role_catalog" where
  "locked_role_catalog H =
     \<lparr> rc_roles =
         [reviewer_role H ''devils_advocate_reviewer'',
          reviewer_role H ''domain_reviewer'',
          inline_role H ''editorial_synthesizer'',
          inline_role H ''experiment_designer'',
          reviewer_role H ''methodology_reviewer'',
          reviewer_role H ''perspective_reviewer'',
          inline_role H ''research_architect''],
       rc_conflict_pairs = sort (remdups required_conflict_keys) \<rparr>"

section \<open>What an accepted catalog guarantees\<close>

lemma conflict_key_swap: "a \<noteq> b \<Longrightarrow> conflict_key a b = conflict_key b a"
  by (auto simp: conflict_key_def)

lemma conflict_key_ordered: "a \<noteq> b \<Longrightarrow> is_ok (role_conflict_valid (conflict_key a b))"
  by (auto simp: role_conflict_valid_def conflict_key_def is_ok_iff guard_simps)

lemma unordered_pairs_complete:
  "a \<in> set rs \<Longrightarrow> b \<in> set rs \<Longrightarrow> a \<noteq> b \<Longrightarrow> conflict_key a b \<in> set (unordered_pairs rs)"
proof (induction rs)
  case (Cons r rs)
  then consider "a = r" "b \<in> set rs" | "b = r" "a \<in> set rs" | "a \<in> set rs" "b \<in> set rs" by auto
  then show ?case
  proof cases
    case 2
    then show ?thesis using conflict_key_swap [OF Cons.prems(3)] by auto
  qed (use Cons in auto)
qed simp

lemma required_pairs:
  assumes "a \<in> FORMAL_REVIEW_ROLE_IDS"
    and "b \<in> FORMAL_REVIEW_ROLE_IDS \<union> {''research_architect'', ''editorial_synthesizer''}"
    and "a \<noteq> b"
  shows "conflict_key a b \<in> set required_conflict_keys"
proof (cases "b \<in> FORMAL_REVIEW_ROLE_IDS")
  case True
  then have "conflict_key a b \<in> set (unordered_pairs (sort formal_reviewers))"
    using assms by (intro unordered_pairs_complete) (simp_all add: set_formal_reviewers)
  then show ?thesis by (simp add: required_conflict_keys_def)
next
  case False
  then have "b = ''research_architect'' \<or> b = ''editorial_synthesizer''" using assms(2) by blast
  moreover have "a \<in> set formal_reviewers" using assms(1) by (simp add: set_formal_reviewers)
  ultimately show ?thesis
    using assms(3) conflict_key_swap [of a b] unfolding required_conflict_keys_def by auto
qed

lemma catalog_facts:
  assumes "role_catalog_valid c = Inr c'"
  shows "c' = c" and "distinct (map rd_role_id (rc_roles c))"
    and "set LOCKED_ROLE_IDS \<subseteq> set (map rd_role_id (rc_roles c))"
    and "set required_conflict_keys \<subseteq> set (rc_conflict_pairs c)"
    and "r \<in> set (rc_roles c) \<Longrightarrow> is_ok (role_definition_valid r)"
    and "p \<in> set (rc_conflict_pairs c) \<Longrightarrow> is_ok (role_conflict_valid p)"
  using assms
  by (auto simp: role_catalog_valid_def locked_roles_and_conflicts_are_present_def Let_def guard_simps)


lemma locked_role_definitions_valid:
  "\<forall>r \<in> set (rc_roles (locked_role_catalog H)). is_ok (role_definition_valid r)"
proof -
  have "is_ok (role_definition_valid (reviewer_role H r))"
    if "r \<in> {''devils_advocate_reviewer'', ''domain_reviewer'', ''methodology_reviewer'',
              ''perspective_reviewer''}" for r
    using that
    by (auto simp: role_definition_valid_def reviewer_role_def DEFERRED_EXECUTOR_ROLE_IDS_def
        require_unique_def guard_def)
  moreover have "is_ok (role_definition_valid (inline_role H r))"
    if "r \<in> {''editorial_synthesizer'', ''experiment_designer'', ''research_architect''}" for r
  proof -
    have "\<not> sublist ''execution'' ''files.read''" by code_simp
    then show ?thesis using that
      by (auto simp: role_definition_valid_def inline_role_def reviewer_role_def
          DEFERRED_EXECUTOR_ROLE_IDS_def require_unique_def guard_def)
  qed
  ultimately show ?thesis by (simp add: locked_role_catalog_def)
qed

lemma locked_conflicts_valid:
  "\<forall>p \<in> set required_conflict_keys. is_ok (role_conflict_valid p)"
  by code_simp

lemma locked_role_ids:
  "map rd_role_id (rc_roles (locked_role_catalog H)) = sort LOCKED_ROLE_IDS"
proof -
  have "sort LOCKED_ROLE_IDS =
     [''devils_advocate_reviewer'', ''domain_reviewer'', ''editorial_synthesizer'',
      ''experiment_designer'', ''methodology_reviewer'', ''perspective_reviewer'',
      ''research_architect'']" by code_simp
  then show ?thesis by (simp add: locked_role_catalog_def reviewer_role_def inline_role_def)
qed

lemma locked_catalog_accepted:
  "role_catalog_valid (locked_role_catalog H) = Inr (locked_role_catalog H)"
proof -
  have "distinct LOCKED_ROLE_IDS" and "\<forall>i \<in> set LOCKED_ROLE_IDS. i \<notin> DEFERRED_EXECUTOR_ROLE_IDS"
    by code_simp+
  moreover have pairs: "rc_conflict_pairs (locked_role_catalog H) = sort (remdups required_conflict_keys)"
    by (simp add: locked_role_catalog_def)
  ultimately have
    "locked_roles_and_conflicts_are_present (locked_role_catalog H) = Inr (locked_role_catalog H)"
    by (simp add: locked_roles_and_conflicts_are_present_def locked_role_ids sorted_sort_id Let_def)
  then show ?thesis
    using locked_role_definitions_valid [of H] locked_conflicts_valid pairs
    by (simp add: role_catalog_valid_def guard_simps)
qed

text \<open>
  The built-in catalog is one the validator accepts, whatever the hash function: its seven
  roles are exactly the locked roles in order, and its conflicts are exactly the required ones.
\<close>

theorem locked_catalog_is_valid:
  "role_catalog_valid (locked_role_catalog H) = Inr (locked_role_catalog H)
   \<and> map rd_role_id (rc_roles (locked_role_catalog H)) = sort LOCKED_ROLE_IDS
   \<and> set (rc_conflict_pairs (locked_role_catalog H)) = set required_conflict_keys"
  using locked_catalog_accepted locked_role_ids by (simp add: locked_role_catalog_def)


end
