(* ===== verification/Panels.thy ===== *)
theory Panels
  imports Contracts
begin

text \<open>
  Review panels, human authority, gates and hooks, from the second half of
  \<^verbatim>\<open>kernel/state/orchestration_models.py\<close>: the records and the validators that decide which of
  them are well formed.  A confidence, a float between 0 and 1 in the code, is only ever compared
  for equality and is a rational here.
\<close>

section \<open>Findings and host identity\<close>

datatype severity = Sev_low | Sev_moderate | Sev_high | Sev_critical
datatype resolution = Resolved | Unresolved

record review_finding =
  rf_finding_id :: ident
  rf_source_report_sha256 :: "sha256 list"
  rf_evidence_sha256 :: "sha256 list"
  rf_severity :: severity
  rf_confidence :: rat
  rf_classification :: review_classification
  rf_resolution :: resolution
  rf_rationale :: string

definition finding_hashes_are_unique :: "review_finding \<Rightarrow> (string, review_finding) result" where
  "finding_hashes_are_unique f =
     require_unique (rf_source_report_sha256 f) ''finding hash bindings''
    (require_unique (rf_evidence_sha256 f) ''finding hash bindings'' (Inr f))"

datatype transport = Isolated_codex_exec | Native_in_session_subagent

record host_identity_receipt =
  hr_receipt_id :: ident
  hr_role_id :: ident
  hr_worker_identity_id :: ident
  hr_host_agent_id :: string
  hr_transport :: transport
  hr_codex_version :: string
  hr_assignment_mapping_proven :: bool
  hr_isolation_proven :: bool
  hr_peer_isolation_proven :: bool
  hr_credential_isolation_proven :: bool
  hr_observed_at :: timestamp
  hr_evidence_sha256 :: "sha256 list"

definition formal_identity_claim_is_complete ::
  "host_identity_receipt \<Rightarrow> (string, host_identity_receipt) result" where
  "formal_identity_claim_is_complete r =
     require_unique (hr_evidence_sha256 r) ''host identity evidence hashes''
    (guard (\<not> (hr_assignment_mapping_proven r \<and> hr_isolation_proven r
        \<and> hr_peer_isolation_proven r \<and> hr_credential_isolation_proven r))
       ''formal host identity receipt requires every retained proof'' (Inr r))"

record host_identity_receipt_v2 =
  hr2_receipt_id :: ident
  hr2_assignment_id :: ident
  hr2_attempt_id :: ident
  hr2_role_id :: ident
  hr2_worker_identity_id :: ident
  hr2_host_agent_id :: string
  hr2_transport :: string
  hr2_harness_kind :: string
  hr2_harness_config_sha256 :: sha256
  hr2_runtime_sha256 :: sha256
  hr2_request_sha256 :: sha256
  hr2_observation_sha256 :: sha256
  hr2_assignment_mapping_proven :: bool
  hr2_isolation_proven :: bool
  hr2_peer_isolation_proven :: bool
  hr2_credential_isolation_proven :: bool
  hr2_observed_at :: timestamp
  hr2_evidence_sha256 :: "sha256 list"

definition formal_identity_claim_is_complete_v2 ::
  "host_identity_receipt_v2 \<Rightarrow> (string, host_identity_receipt_v2) result" where
  "formal_identity_claim_is_complete_v2 r =
     require_unique (hr2_evidence_sha256 r) ''host identity evidence hashes''
    (guard (\<not> (hr2_assignment_mapping_proven r \<and> hr2_isolation_proven r
        \<and> hr2_peer_isolation_proven r \<and> hr2_credential_isolation_proven r))
       ''formal host identity receipt requires every retained proof'' (Inr r))"

section \<open>Panels\<close>

record panel_seat =
  seat_assignment_id :: ident
  seat_attempt_id :: ident
  seat_role_id :: ident
  seat_worker_identity_id :: ident
  seat_host_agent_id :: string
  seat_identity_receipt_sha256 :: sha256
  seat_acceptance_key :: accept_key
  seat_blind_envelope_sha256 :: sha256
  seat_required :: bool
  seat_round_number :: int
  seat_synthesizer :: bool

definition seat_binding_is_exact :: "panel_seat \<Rightarrow> (string, panel_seat) result" where
  "seat_binding_is_exact s =
     guard (snd (snd (seat_acceptance_key s)) \<noteq> seat_assignment_id s)
       ''panel seat acceptance key must bind assignment_id''
    (guard (seat_synthesizer s \<noteq> (seat_role_id s = ''editorial_synthesizer''))
       ''only the editorial synthesizer seat may synthesize'' (Inr s))"

datatype panel_status = Panel_ready | Panel_blocked

record panel_manifest =
  pm_panel_id :: ident
  pm_subject_sha256 :: sha256
  pm_rubric_sha256 :: sha256
  pm_policy_sha256 :: sha256
  pm_execution_mode :: execution_mode
  pm_status :: panel_status
  pm_reviewer_seats :: "panel_seat list"
  pm_synthesizer_seat :: "panel_seat option"
  pm_required_report_roles :: "ident list"
  pm_blockers :: "string list"
  pm_limitations :: "string list"

definition identity_separated :: "panel_seat list \<Rightarrow> panel_seat \<Rightarrow> bool" where
  "identity_separated seats syn =
     (card (set (map seat_worker_identity_id seats)) = length seats
    \<and> card (set (map seat_host_agent_id seats)) = length seats
    \<and> seat_worker_identity_id syn \<notin> set (map seat_worker_identity_id seats)
    \<and> seat_host_agent_id syn \<notin> set (map seat_host_agent_id seats))"

definition panel_manifest_is_complete :: "panel_manifest \<Rightarrow> (string, panel_manifest) result" where
  "panel_manifest_is_complete m = (let seats = pm_reviewer_seats m; roles = map seat_role_id seats in
     guard (pm_execution_mode m = Degraded_inline)
       ''Input should be native_profile, assignment_injected_subagent or blocked''
     (rbind
       (case pm_status m of
          Panel_ready \<Rightarrow>
            guard (set roles \<noteq> FORMAL_REVIEW_ROLE_IDS \<or> \<not> distinct roles)
              ''ready panel requires exactly the four formal reviewer roles''
           (require_some (pm_synthesizer_seat m)
              ''ready panel requires a separate synthesizer seat'' (\<lambda>syn.
            guard (\<not> identity_separated seats syn)
              ''panel seats and synthesizer must be identity-separated''
           (guard (pm_blockers m \<noteq> []) ''ready panel cannot carry blockers'' (Inr ()))))
        | Panel_blocked \<Rightarrow>
            guard (seats \<noteq> [] \<or> pm_synthesizer_seat m \<noteq> None \<or> pm_blockers m = [])
              ''blocked panel must retain blockers and no dispatchable seats'' (Inr ()))
       (\<lambda>_. guard (sort (pm_required_report_roles m) \<noteq> sorted_list_of_set FORMAL_REVIEW_ROLE_IDS)
              ''panel manifest must require the locked four-role report set'' (Inr m))))"

definition panel_seats :: "panel_manifest \<Rightarrow> panel_seat list" where
  "panel_seats m = pm_reviewer_seats m
     @ (case pm_synthesizer_seat m of None \<Rightarrow> [] | Some s \<Rightarrow> [s])"

section \<open>Human authority\<close>

datatype accountable_role =
  Acc_operator | Acc_review_authority | Acc_access_authority | Acc_parent_control_plane

datatype decision_kind =
  Dk_waiver | Dk_correction | Dk_access_decision | Dk_capability_escalation
| Dk_root_escalation | Dk_replacement | Dk_approval

primrec kind_id :: "decision_kind \<Rightarrow> ident" where
  "kind_id Dk_waiver = ''waiver''"
| "kind_id Dk_correction = ''correction''"
| "kind_id Dk_access_decision = ''access_decision''"
| "kind_id Dk_capability_escalation = ''capability_escalation''"
| "kind_id Dk_root_escalation = ''root_escalation''"
| "kind_id Dk_replacement = ''replacement''"
| "kind_id Dk_approval = ''approval''"

record human_authority =
  ha_authority_id :: ident
  ha_authenticated_actor_id :: ident
  ha_accountable_role :: accountable_role
  ha_validated_by_actor_id :: ident
  ha_allowed_decision_kinds :: "ident list"
  ha_allowed_gate_ids :: "ident list"
  ha_allowed_scopes :: "string list"
  ha_authenticated_at :: timestamp
  ha_expires_at :: timestamp
  ha_evidence_sha256 :: "sha256 list"

definition human_authority_valid :: "human_authority \<Rightarrow> (string, human_authority) result" where
  "human_authority_valid a =
     guard (ha_accountable_role a = Acc_parent_control_plane)
       ''Input should be operator, review_authority or access_authority''
    (require_unique (ha_allowed_decision_kinds a) ''human authority bindings''
    (require_unique (ha_allowed_gate_ids a) ''human authority bindings''
    (require_unique (ha_allowed_scopes a) ''human authority bindings''
    (require_unique (ha_evidence_sha256 a) ''human authority bindings''
    (guard (ha_expires_at a \<le> ha_authenticated_at a)
       ''human authority expiry must follow authentication'' (Inr a))))))"

section \<open>Reports, synthesis and the finding matrix\<close>

record review_report =
  rr_report_id :: ident
  rr_panel_manifest_sha256 :: sha256
  rr_assignment_id :: ident
  rr_attempt_id :: ident
  rr_identity_receipt_sha256 :: sha256
  rr_role_id :: ident
  rr_worker_identity_id :: ident
  rr_host_agent_id :: string
  rr_subject_sha256 :: sha256
  rr_rubric_sha256 :: sha256
  rr_report_sha256 :: "sha256 option"
  rr_findings :: "review_finding list"

text \<open>
  \<open>body_sha256\<close> is \<open>review_report_body_sha256\<close>: the digest of the canonical report without its own
  digest field, so it is a function of \<open>report\<lparr>rr_report_sha256 := None\<rparr>\<close>.
\<close>

definition report_hash_is_parent_derivable ::
  "(review_report \<Rightarrow> sha256) \<Rightarrow> review_report \<Rightarrow> (string, review_report) result" where
  "report_hash_is_parent_derivable body_sha256 r =
     (let expected = body_sha256 (r\<lparr>rr_report_sha256 := None\<rparr>) in
      guard (rr_report_sha256 r \<noteq> None \<and> rr_report_sha256 r \<noteq> Some expected)
        ''review report hash is not derived from canonical report body''
        (Inr (r\<lparr>rr_report_sha256 := Some expected\<rparr>)))"

record review_synthesis =
  rs_synthesis_id :: ident
  rs_panel_manifest_sha256 :: sha256
  rs_identity_receipt_sha256 :: sha256
  rs_worker_identity_id :: ident
  rs_host_agent_id :: string
  rs_source_report_sha256 :: "sha256 list"
  rs_findings :: "review_finding list"
  rs_limitations :: "string list"

record review_finding_matrix =
  mx_panel_id :: ident
  mx_panel_manifest_sha256 :: sha256
  mx_subject_sha256 :: sha256
  mx_rubric_sha256 :: sha256
  mx_reports :: "review_report list"
  mx_synthesis :: review_synthesis
  mx_gate_verdict :: gate_verdict

definition carries_finding :: "sha256 option \<Rightarrow> review_finding \<Rightarrow> review_finding \<Rightarrow> bool" where
  "carries_finding report_sha f c =
     (rf_finding_id c = rf_finding_id f \<and> rf_evidence_sha256 c = rf_evidence_sha256 f
    \<and> rf_severity c = rf_severity f \<and> rf_confidence c = rf_confidence f
    \<and> rf_classification c = rf_classification f \<and> rf_resolution c = rf_resolution f
    \<and> rf_rationale c = rf_rationale f \<and> report_sha \<in> Some ` set (rf_source_report_sha256 c))"

definition critical_dissent :: "review_finding \<Rightarrow> bool" where
  "critical_dissent f =
     (rf_resolution f = Unresolved
      \<and> (rf_severity f = Sev_critical \<or> rf_classification f = DA_critical))"

definition panel_is_independent_and_complete ::
  "review_finding_matrix \<Rightarrow> (string, review_finding_matrix) result" where
  "panel_is_independent_and_complete m =
    (let reports = mx_reports m; syn = mx_synthesis m; roles = map rr_role_id reports;
         workers = map rr_worker_identity_id reports; hosts = map rr_host_agent_id reports in
     guard (\<not> FORMAL_REVIEW_ROLE_IDS \<subseteq> set roles)
       ''formal panel is missing a required independent review role''
    (guard (\<not> distinct roles) ''formal panel role reports must be unique''
    (guard (\<not> distinct workers \<or> \<not> distinct hosts)
       ''formal panel requires distinct worker and host identities''
    (guard (rs_worker_identity_id syn \<in> set workers \<or> rs_host_agent_id syn \<in> set hosts)
       ''editorial synthesis requires a separate identity''
    (guard (list_ex (\<lambda>r. rr_subject_sha256 r \<noteq> mx_subject_sha256 m
                       \<or> rr_rubric_sha256 r \<noteq> mx_rubric_sha256 m) reports)
       ''all first-round reports must share the frozen subject and rubric''
    (guard (Some ` set (rs_source_report_sha256 syn) \<noteq> rr_report_sha256 ` set reports)
       ''synthesis must bind every accepted first-round report''
    (guard (rs_panel_manifest_sha256 syn \<noteq> mx_panel_manifest_sha256 m
         \<or> list_ex (\<lambda>r. rr_panel_manifest_sha256 r \<noteq> mx_panel_manifest_sha256 m) reports)
       ''reports and synthesis must bind one canonical panel manifest''
    (guard (list_ex (\<lambda>r. list_ex
              (\<lambda>f. \<not> list_ex (carries_finding (rr_report_sha256 r) f) (rs_findings syn))
              (rr_findings r)) reports)
       ''synthesis omitted or altered a reviewer finding/dissent''
    (guard (list_ex critical_dissent (rs_findings syn) \<and> mx_gate_verdict m \<noteq> Verdict_BLOCKED)
       ''unresolved critical dissent keeps the review gate BLOCKED'' (Inr m))))))))))"

section \<open>Human decisions, gates and hooks\<close>

datatype blocker_action = Ba_none | Ba_release | Ba_restore

record human_decision_record =
  hd_decision_id :: ident
  hd_decision_kind :: decision_kind
  hd_gate_id :: ident
  hd_subject_sha256 :: sha256
  hd_evidence_sha256 :: "sha256 list"
  hd_applicable_transition :: ident
  hd_accountable_actor_id :: ident
  hd_accountable_role :: accountable_role
  hd_scope :: string
  hd_rationale :: string
  hd_prior_verdict_sha256 :: sha256
  hd_authority_sha256 :: sha256
  hd_supersedes_decision_id :: "ident option"
  hd_blocker_action :: blocker_action
  hd_blocker_code :: "ident option"

definition py_space :: "char \<Rightarrow> bool" where
  "py_space c = (c \<in> {CHR '' '', CHR 0x09, CHR 0x0A, CHR 0x0B, CHR 0x0C, CHR 0x0D,
                      CHR 0x1C, CHR 0x1D, CHR 0x1E, CHR 0x1F})"

definition py_strip :: "string \<Rightarrow> string" where
  "py_strip s = rev (dropWhile py_space (rev (dropWhile py_space s)))"

definition human_decision_valid :: "human_decision_record \<Rightarrow> (string, human_decision_record) result"
  where
  "human_decision_valid d =
     require_unique (hd_evidence_sha256 d) ''human-decision evidence hashes''
    (guard (py_strip (hd_scope d) \<in> {''*'', ''all'', ''future'', ''any''})
       ''human-decision scope must be exact, not blanket''
    (guard (hd_decision_kind d = Dk_correction \<and> hd_supersedes_decision_id d = None)
       ''corrections must explicitly supersede a prior decision''
    (guard (hd_blocker_action d = Ba_none \<and> hd_blocker_code d \<noteq> None)
       ''blocker_code requires an explicit blocker action''
    (guard (hd_blocker_action d \<noteq> Ba_none \<and> hd_blocker_code d = None)
       ''blocker actions require one exact blocker_code'' (Inr d)))))"

record gate_decision =
  gd_gate_id :: ident
  gd_subject_sha256 :: sha256
  gd_evidence_sha256 :: "sha256 list"
  gd_verdict :: gate_verdict
  gd_rationale :: string
  gd_fresh_until :: "timestamp option"
  gd_required :: bool
  gd_human_decision :: "human_decision_record option"

definition gate_decision_valid :: "gate_decision \<Rightarrow> (string, gate_decision) result" where
  "gate_decision_valid g =
     require_unique (gd_evidence_sha256 g) ''gate evidence hashes''
    (guard (\<exists>d. gd_human_decision g = Some d \<and> hd_gate_id d \<noteq> gd_gate_id g)
       ''human decision must bind the same gate''
    (guard (\<exists>d. gd_human_decision g = Some d \<and> hd_subject_sha256 d \<noteq> gd_subject_sha256 g)
       ''human decision must bind the same subject'' (Inr g)))"

datatype hook_name =
  Hook_SessionStart | Hook_SubagentStart | Hook_SubagentStop | Hook_PreToolUse
| Hook_PostToolUse | Hook_Stop

datatype hook_status =
  Hs_trusted_enabled | Hs_disabled | Hs_untrusted | Hs_timeout | Hs_failed

record hook_observation =
  ho_hook_name :: hook_name
  ho_hook_definition_sha256 :: sha256
  ho_target_id :: ident
  ho_status :: hook_status
  ho_observation_sha256 :: sha256
  ho_redacted_error_code :: "ident option"
  ho_idempotency_key :: ident
  ho_continuation_requested :: bool
  ho_continuation_count :: int

definition continuation_is_bounded_and_exact ::
  "hook_observation \<Rightarrow> (string, hook_observation) result" where
  "continuation_is_bounded_and_exact h =
     guard (\<not> (0 \<le> ho_continuation_count h \<and> ho_continuation_count h \<le> 1))
       ''Input should be between 0 and 1''
    (guard (ho_continuation_requested h \<noteq> (ho_continuation_count h = 1))
       ''hook continuation request and count must agree'' (Inr h))"

record host_qualification =
  hq_qualification_id :: ident
  hq_codex_version :: string
  hq_stage_sha256 :: sha256
  hq_adapter_sha256 :: sha256
  hq_plugin_sha256 :: sha256
  hq_execution_mode :: execution_mode
  hq_status :: gate_verdict
  hq_worker_identity_id :: "ident option"
  hq_host_agent_id :: "string option"
  hq_evidence_sha256 :: "sha256 list"

definition qualification_claim_is_honest ::
  "host_qualification \<Rightarrow> (string, host_qualification) result" where
  "qualification_claim_is_honest q =
     require_unique (hq_evidence_sha256 q) ''host qualification evidence hashes''
    (guard (hq_status q = Verdict_PASS \<and> \<not> formal_mode (hq_execution_mode q))
       ''host qualification PASS requires a formal native execution mode''
    (guard (hq_status q = Verdict_PASS \<and> (hq_worker_identity_id q = None \<or> hq_host_agent_id q = None))
       ''host qualification PASS requires observed distinct identity evidence''
    (guard (hq_execution_mode q = Blocked_mode \<and> hq_status q \<noteq> Verdict_BLOCKED)
       ''blocked execution mode must record a BLOCKED host qualification'' (Inr q))))"

section \<open>What an accepted panel and an accepted matrix guarantee\<close>

lemma card_map_eq_length: "card (set (map f xs)) = length xs \<longleftrightarrow> distinct (map f xs)"
  by (metis card_distinct distinct_card length_map)

lemma identity_separated_iff:
  "identity_separated seats syn \<longleftrightarrow>
     distinct (map seat_worker_identity_id (seats @ [syn]))
   \<and> distinct (map seat_host_agent_id (seats @ [syn]))"
  using card_map_eq_length [of seat_worker_identity_id seats]
    card_map_eq_length [of seat_host_agent_id seats]
  by (auto simp: identity_separated_def simp del: set_map list.set_map)

text \<open>
  C29.  A panel that may be dispatched has exactly the four formal reviewer seats, one of each role,
  and a synthesizer, and its five workers and its five hosts are pairwise different; a blocked
  panel has no seat at all and says why.
\<close>

theorem accepted_panel_is_separated:
  assumes "panel_manifest_is_complete m = Inr m'"
  shows "(pm_status m = Panel_ready \<longrightarrow>
            length (pm_reviewer_seats m) = 4
          \<and> set (map seat_role_id (pm_reviewer_seats m)) = FORMAL_REVIEW_ROLE_IDS
          \<and> length (panel_seats m) = 5
          \<and> distinct (map seat_worker_identity_id (panel_seats m))
          \<and> distinct (map seat_host_agent_id (panel_seats m)) \<and> pm_blockers m = [])
       \<and> (pm_status m = Panel_blocked \<longrightarrow> panel_seats m = [] \<and> pm_blockers m \<noteq> [])"
proof (cases "pm_status m")
  case Panel_ready
  then obtain syn where syn: "pm_synthesizer_seat m = Some syn"
    and sep: "identity_separated (pm_reviewer_seats m) syn"
    and roles: "set (map seat_role_id (pm_reviewer_seats m)) = FORMAL_REVIEW_ROLE_IDS"
    and dist: "distinct (map seat_role_id (pm_reviewer_seats m))" and nb: "pm_blockers m = []"
    using assms by (auto simp: panel_manifest_is_complete_def Let_def guard_simps)
  have "card FORMAL_REVIEW_ROLE_IDS = 4" by (simp add: FORMAL_REVIEW_ROLE_IDS_def)
  with roles dist have "length (pm_reviewer_seats m) = 4"
    using distinct_card by fastforce
  with roles nb syn sep Panel_ready show ?thesis
    by (simp add: panel_seats_def identity_separated_iff)
next
  case Panel_blocked
  then show ?thesis
    using assms by (auto simp: panel_manifest_is_complete_def panel_seats_def Let_def guard_simps)
qed

text \<open>
  C30.  No critical dissent can be synthesized away.  In every matrix the kernel accepts, each
  finding of each report reappears in the synthesis with the same evidence, severity, confidence,
  classification, resolution and rationale, bound to that report; and if any report holds an
  unresolved finding that is critical or a devil's-advocate veto, the gate verdict is BLOCKED.
\<close>

theorem critical_dissent_blocks_the_gate:
  assumes "panel_is_independent_and_complete m = Inr m'"
    and "r \<in> set (mx_reports m)" and "f \<in> set (rr_findings r)"
  shows "(\<exists>c \<in> set (rs_findings (mx_synthesis m)). carries_finding (rr_report_sha256 r) f c)
       \<and> (critical_dissent f \<longrightarrow> mx_gate_verdict m = Verdict_BLOCKED)"
proof -
  have carried: "\<exists>c \<in> set (rs_findings (mx_synthesis m)). carries_finding (rr_report_sha256 r) f c"
    using assms
    by (auto simp: panel_is_independent_and_complete_def Let_def guard_simps list_ex_iff)
  then obtain c where c: "c \<in> set (rs_findings (mx_synthesis m))"
    and same: "carries_finding (rr_report_sha256 r) f c" by blast
  have "critical_dissent c" if "critical_dissent f"
    using that same by (simp add: critical_dissent_def carries_finding_def)
  moreover have "mx_gate_verdict m = Verdict_BLOCKED" if "critical_dissent c"
    using that c assms(1)
    by (auto simp: panel_is_independent_and_complete_def Let_def guard_simps list_ex_iff)
  ultimately show ?thesis using carried by blast
qed

section \<open>A panel and a matrix\<close>

text \<open>
  A ready panel and its four first-round reports.  The devil's advocate raises an unresolved
  critical finding, so the only verdict the matrix may carry is BLOCKED.
\<close>

definition sample_seat :: "ident \<Rightarrow> ident \<Rightarrow> panel_seat" where
  "sample_seat i role =
     \<lparr> seat_assignment_id = i, seat_attempt_id = ''attempt.'' @ i, seat_role_id = role,
       seat_worker_identity_id = ''worker.'' @ i, seat_host_agent_id = ''host.'' @ i,
       seat_identity_receipt_sha256 = ''receipt.'' @ i, seat_acceptance_key = (0, 1, i),
       seat_blind_envelope_sha256 = ''envelope'', seat_required = True, seat_round_number = 1,
       seat_synthesizer = (role = ''editorial_synthesizer'') \<rparr>"

definition sample_panel :: panel_manifest where
  "sample_panel =
     \<lparr> pm_panel_id = ''panel'', pm_subject_sha256 = ''subject'', pm_rubric_sha256 = ''rubric'',
       pm_policy_sha256 = ''policy'', pm_execution_mode = Assignment_injected_subagent,
       pm_status = Panel_ready,
       pm_reviewer_seats =
         [sample_seat ''a'' ''methodology_reviewer'', sample_seat ''b'' ''domain_reviewer'',
          sample_seat ''c'' ''perspective_reviewer'', sample_seat ''d'' ''devils_advocate_reviewer''],
       pm_synthesizer_seat = Some (sample_seat ''e'' ''editorial_synthesizer''),
       pm_required_report_roles =
         [''methodology_reviewer'', ''domain_reviewer'', ''perspective_reviewer'',
          ''devils_advocate_reviewer''],
       pm_blockers = [], pm_limitations = [] \<rparr>"

definition sample_finding :: "sha256 list \<Rightarrow> review_finding" where
  "sample_finding sources =
     \<lparr> rf_finding_id = ''finding'', rf_source_report_sha256 = sources, rf_evidence_sha256 = [''evidence''],
       rf_severity = Sev_critical, rf_confidence = 1, rf_classification = DA_critical,
       rf_resolution = Unresolved, rf_rationale = ''leak'' \<rparr>"

definition sample_report :: "ident \<Rightarrow> ident \<Rightarrow> review_finding list \<Rightarrow> review_report" where
  "sample_report i role fs =
     \<lparr> rr_report_id = ''report.'' @ i, rr_panel_manifest_sha256 = ''manifest'', rr_assignment_id = i,
       rr_attempt_id = ''attempt.'' @ i, rr_identity_receipt_sha256 = ''receipt.'' @ i,
       rr_role_id = role, rr_worker_identity_id = ''worker.'' @ i, rr_host_agent_id = ''host.'' @ i,
       rr_subject_sha256 = ''subject'', rr_rubric_sha256 = ''rubric'',
       rr_report_sha256 = Some (''sha.'' @ i), rr_findings = fs \<rparr>"

definition sample_matrix :: "gate_verdict \<Rightarrow> review_finding_matrix" where
  "sample_matrix v =
     \<lparr> mx_panel_id = ''panel'', mx_panel_manifest_sha256 = ''manifest'', mx_subject_sha256 = ''subject'',
       mx_rubric_sha256 = ''rubric'',
       mx_reports =
         [sample_report ''a'' ''methodology_reviewer'' [], sample_report ''b'' ''domain_reviewer'' [],
          sample_report ''c'' ''perspective_reviewer'' [],
          sample_report ''d'' ''devils_advocate_reviewer'' [sample_finding []]],
       mx_synthesis =
         \<lparr> rs_synthesis_id = ''synthesis'', rs_panel_manifest_sha256 = ''manifest'',
           rs_identity_receipt_sha256 = ''receipt.e'', rs_worker_identity_id = ''worker.e'',
           rs_host_agent_id = ''host.e'',
           rs_source_report_sha256 = [''sha.a'', ''sha.b'', ''sha.c'', ''sha.d''],
           rs_findings = [sample_finding [''sha.d'']], rs_limitations = [] \<rparr>,
       mx_gate_verdict = v \<rparr>"

theorem accepted_panel_is_separated_witness:
  "panel_manifest_is_complete sample_panel = Inr sample_panel
   \<and> length (panel_seats sample_panel) = 5"
proof
  show ok: "panel_manifest_is_complete sample_panel = Inr sample_panel" by code_simp
  have "pm_status sample_panel = Panel_ready" by (simp add: sample_panel_def)
  with accepted_panel_is_separated [OF ok] show "length (panel_seats sample_panel) = 5" by blast
qed

theorem critical_dissent_blocks_the_gate_witness:
  "panel_is_independent_and_complete (sample_matrix Verdict_PASS)
     = Inl ''unresolved critical dissent keeps the review gate BLOCKED''
   \<and> panel_is_independent_and_complete (sample_matrix Verdict_BLOCKED) = Inr (sample_matrix Verdict_BLOCKED)
   \<and> mx_gate_verdict (sample_matrix Verdict_BLOCKED) = Verdict_BLOCKED"
proof (intro conjI)
  show "panel_is_independent_and_complete (sample_matrix Verdict_PASS)
     = Inl ''unresolved critical dissent keeps the review gate BLOCKED''" by code_simp
  show ok: "panel_is_independent_and_complete (sample_matrix Verdict_BLOCKED)
      = Inr (sample_matrix Verdict_BLOCKED)" by code_simp
  let ?r = "sample_report ''d'' ''devils_advocate_reviewer'' [sample_finding []]"
  have r: "?r \<in> set (mx_reports (sample_matrix Verdict_BLOCKED))" by (simp add: sample_matrix_def)
  have f: "sample_finding [] \<in> set (rr_findings ?r)" by (simp add: sample_report_def)
  have "critical_dissent (sample_finding [])" by (simp add: critical_dissent_def sample_finding_def)
  with critical_dissent_blocks_the_gate [OF ok r f]
  show "mx_gate_verdict (sample_matrix Verdict_BLOCKED) = Verdict_BLOCKED" by blast
qed

end
