(* ===== verification/Event_Types.thy ===== *)
theory Event_Types
  imports Prelude
begin

text \<open>
  The closed vocabulary of the journal: the event types of \<^verbatim>\<open>CanonicalEvent.event_type\<close> in
  \<^verbatim>\<open>kernel/state/models.py\<close> with their names on the wire, the families they fall into, and
  the schema version each family is written with (\<^verbatim>\<open>kernel/state/event_versions.py\<close>).
\<close>

datatype event_type =
  Ep_context_accepted | Ep_dataset_metadata_accepted | Ep_action_started | Ep_action_finished
| Ep_artifact_bound
| Learning_observation_recorded | Heuristic_proposed | Heuristic_evaluated | Heuristic_qualified
| Heuristic_rejected | Heuristic_promoted | Heuristic_superseded
| Memory_created | Handoff_created | Memory_superseded | Memory_rejected | Memory_distilled
| Memory_activated | Memory_verified
| Artifact_ir_frozen | Artifact_rendered | Artifact_validated | Research_artifact_accepted
| Research_artifact_superseded
| Run_initialized | Baseline_probe_recorded | Lifecycle_transitioned | Human_decision_requested
| Human_decision_resolved | Attempt_started | Attempt_closed | Artifact_accepted | Passport_accepted
| Resume_accepted | Recovery_completed
| Execution_mode_selected | Assignment_prepared | Assignment_superseded | Attempt_prepared
| Attempt_lifecycle | Proposal_accepted | Proposal_rejected | Host_identity_accepted
| Panel_prepared | Review_report_accepted | Review_synthesis_accepted | Hook_observed
| Gate_evaluated | Human_authority_accepted | Human_decision_recorded
| Claim_attestation_anchored | Experiment_provenance_accepted | Experiment_contract_accepted

definition all_event_types :: "event_type list" where
  "all_event_types =
     [Ep_context_accepted, Ep_dataset_metadata_accepted, Ep_action_started, Ep_action_finished,
      Ep_artifact_bound,
      Learning_observation_recorded, Heuristic_proposed, Heuristic_evaluated, Heuristic_qualified,
      Heuristic_rejected, Heuristic_promoted, Heuristic_superseded,
      Memory_created, Handoff_created, Memory_superseded, Memory_rejected, Memory_distilled,
      Memory_activated, Memory_verified,
      Artifact_ir_frozen, Artifact_rendered, Artifact_validated, Research_artifact_accepted,
      Research_artifact_superseded,
      Run_initialized, Baseline_probe_recorded, Lifecycle_transitioned, Human_decision_requested,
      Human_decision_resolved, Attempt_started, Attempt_closed, Artifact_accepted, Passport_accepted,
      Resume_accepted, Recovery_completed,
      Execution_mode_selected, Assignment_prepared, Assignment_superseded, Attempt_prepared,
      Attempt_lifecycle, Proposal_accepted, Proposal_rejected, Host_identity_accepted,
      Panel_prepared, Review_report_accepted, Review_synthesis_accepted, Hook_observed,
      Gate_evaluated, Human_authority_accepted, Human_decision_recorded,
      Claim_attestation_anchored, Experiment_provenance_accepted, Experiment_contract_accepted]"

lemma in_all_event_types: "t \<in> set all_event_types"
  by (cases t) (simp_all add: all_event_types_def)

primrec event_name :: "event_type \<Rightarrow> string" where
  "event_name Ep_context_accepted = ''execution_provenance.context_accepted''"
| "event_name Ep_dataset_metadata_accepted = ''execution_provenance.dataset_metadata_accepted''"
| "event_name Ep_action_started = ''execution_provenance.action_started''"
| "event_name Ep_action_finished = ''execution_provenance.action_finished''"
| "event_name Ep_artifact_bound = ''execution_provenance.artifact_bound''"
| "event_name Learning_observation_recorded = ''learning_observation_recorded''"
| "event_name Heuristic_proposed = ''research_heuristic_proposed''"
| "event_name Heuristic_evaluated = ''research_heuristic_evaluated''"
| "event_name Heuristic_qualified = ''research_heuristic_qualified''"
| "event_name Heuristic_rejected = ''research_heuristic_rejected''"
| "event_name Heuristic_promoted = ''research_heuristic_promoted''"
| "event_name Heuristic_superseded = ''research_heuristic_superseded''"
| "event_name Memory_created = ''research_memory_created''"
| "event_name Handoff_created = ''research_handoff_created''"
| "event_name Memory_superseded = ''research_memory_superseded''"
| "event_name Memory_rejected = ''research_memory_rejected''"
| "event_name Memory_distilled = ''research_memory_distilled''"
| "event_name Memory_activated = ''research_memory_activated''"
| "event_name Memory_verified = ''research_memory_verified''"
| "event_name Artifact_ir_frozen = ''research_artifact_ir_frozen''"
| "event_name Artifact_rendered = ''research_artifact_rendered''"
| "event_name Artifact_validated = ''research_artifact_validated''"
| "event_name Research_artifact_accepted = ''research_artifact_accepted''"
| "event_name Research_artifact_superseded = ''research_artifact_superseded''"
| "event_name Run_initialized = ''run.initialized''"
| "event_name Baseline_probe_recorded = ''baseline.probe_recorded''"
| "event_name Lifecycle_transitioned = ''lifecycle.transitioned''"
| "event_name Human_decision_requested = ''human_decision.requested''"
| "event_name Human_decision_resolved = ''human_decision.resolved''"
| "event_name Attempt_started = ''attempt.started''"
| "event_name Attempt_closed = ''attempt.closed''"
| "event_name Artifact_accepted = ''artifact.accepted''"
| "event_name Passport_accepted = ''passport.accepted''"
| "event_name Resume_accepted = ''resume.accepted''"
| "event_name Recovery_completed = ''recovery.completed''"
| "event_name Execution_mode_selected = ''execution.mode_selected''"
| "event_name Assignment_prepared = ''assignment.prepared''"
| "event_name Assignment_superseded = ''assignment.superseded''"
| "event_name Attempt_prepared = ''attempt.prepared''"
| "event_name Attempt_lifecycle = ''attempt.lifecycle''"
| "event_name Proposal_accepted = ''proposal.accepted''"
| "event_name Proposal_rejected = ''proposal.rejected''"
| "event_name Host_identity_accepted = ''host_identity.accepted''"
| "event_name Panel_prepared = ''panel.prepared''"
| "event_name Review_report_accepted = ''review.report_accepted''"
| "event_name Review_synthesis_accepted = ''review.synthesis_accepted''"
| "event_name Hook_observed = ''hook.observed''"
| "event_name Gate_evaluated = ''gate.evaluated''"
| "event_name Human_authority_accepted = ''human_authority.accepted''"
| "event_name Human_decision_recorded = ''human_decision.recorded''"
| "event_name Claim_attestation_anchored = ''claim.attestation_anchored''"
| "event_name Experiment_provenance_accepted = ''experiment.provenance.accepted''"
| "event_name Experiment_contract_accepted = ''experiment.contract.accepted''"

section \<open>Families\<close>

definition EXECUTION_PROVENANCE_EVENT_TYPES :: "event_type list" where
  "EXECUTION_PROVENANCE_EVENT_TYPES =
     [Ep_context_accepted, Ep_dataset_metadata_accepted, Ep_action_started, Ep_action_finished,
      Ep_artifact_bound]"

definition RESEARCH_LEARNING_EVENT_TYPES :: "event_type list" where
  "RESEARCH_LEARNING_EVENT_TYPES =
     [Learning_observation_recorded, Heuristic_proposed, Heuristic_evaluated, Heuristic_qualified,
      Heuristic_rejected, Heuristic_promoted, Heuristic_superseded]"

definition RESEARCH_MEMORY_EVENT_TYPES :: "event_type list" where
  "RESEARCH_MEMORY_EVENT_TYPES =
     [Memory_created, Handoff_created, Memory_superseded, Memory_rejected, Memory_distilled,
      Memory_activated, Memory_verified]"

definition RESEARCH_ARTIFACT_EVENT_TYPES :: "event_type list" where
  "RESEARCH_ARTIFACT_EVENT_TYPES =
     [Artifact_ir_frozen, Artifact_rendered, Artifact_validated, Research_artifact_accepted,
      Research_artifact_superseded]"

definition PHASE4_EVENT_TYPES :: "event_type list" where
  "PHASE4_EVENT_TYPES =
     [Execution_mode_selected, Assignment_prepared, Assignment_superseded, Attempt_prepared,
      Attempt_lifecycle, Proposal_accepted, Proposal_rejected, Host_identity_accepted,
      Panel_prepared, Review_report_accepted, Review_synthesis_accepted, Hook_observed,
      Gate_evaluated, Human_authority_accepted, Human_decision_recorded,
      Claim_attestation_anchored, Experiment_provenance_accepted, Experiment_contract_accepted]"

lemmas event_families =
  EXECUTION_PROVENANCE_EVENT_TYPES_def RESEARCH_LEARNING_EVENT_TYPES_def
  RESEARCH_MEMORY_EVENT_TYPES_def RESEARCH_ARTIFACT_EVENT_TYPES_def PHASE4_EVENT_TYPES_def

section \<open>Schema versions\<close>

definition MIGRATIONS :: "(nat \<times> string \<times> event_type list) list" where
  "MIGRATIONS =
     [(6, ''1.6.0'', [Claim_attestation_anchored]),
      (5, ''1.5.0'', [Experiment_contract_accepted]),
      (4, ''1.4.0'', EXECUTION_PROVENANCE_EVENT_TYPES),
      (3, ''1.3.0'', RESEARCH_LEARNING_EVENT_TYPES),
      (2, ''1.2.0'', RESEARCH_MEMORY_EVENT_TYPES),
      (1, ''1.1.0'', RESEARCH_ARTIFACT_EVENT_TYPES)]"

definition event_schema_version :: "event_type \<Rightarrow> string" where
  "event_schema_version t =
     (case List.find (\<lambda>(_, _, families). t \<in> set families) MIGRATIONS of
        Some (_, version, _) \<Rightarrow> version
      | None \<Rightarrow> ''1.0.0'')"

lemma migration_families_disjoint: "distinct (concat (map (\<lambda>(_, _, fs). fs) MIGRATIONS))"
  by (simp add: MIGRATIONS_def event_families)

end
