(* ===== verification/Json.thy ===== *)
theory Json
  imports Prelude
begin

text \<open>
  JSON as the kernel writes and reads it: \<open>canonical_json_bytes\<close> and \<open>strict_json_loads\<close> of
  \<^verbatim>\<open>kernel/core/canonical.py\<close>, with the part of the standard library's \<^verbatim>\<open>json\<close> module they
  use.  A Python string is represented by its UTF-8 bytes (a HOL \<open>string\<close>): the escapes of
  \<^verbatim>\<open>json.dumps(ensure_ascii=False)\<close> touch ASCII characters only, and the order of the code points of
  two strings is the order of their UTF-8 bytes, so sorting keys by bytes is what Python does.  A
  float is kept as its \<open>repr\<close>; \<open>fr\<close>, the composition of \<open>float\<close> and \<open>repr\<close> on a literal, is a parameter.
  An escape that denotes a lone surrogate is refused here at parsing (Python refuses it when the
  value is encoded again), and byte-order marks and the UTF-16/32 detection are outside the model.
\<close>

datatype json =
  JNull | JBool bool | JInt int | JFloat string | JStr string | JArr "json list"
| JObj "(string \<times> json) list"

datatype json_error = Unicode_decode_error | Invalid_json

section \<open>Writing\<close>

definition code :: "char \<Rightarrow> nat" where
  "code c = of_char c"

definition chr :: "nat \<Rightarrow> char" where
  "chr n = char_of n"

definition digit :: "nat \<Rightarrow> char" where
  "digit n = char_of (48 + n)"

fun nat_str :: "nat \<Rightarrow> string" where
  "nat_str n = (if n < 10 then [digit n] else nat_str (n div 10) @ [digit (n mod 10)])"

declare nat_str.simps [simp del]

definition int_str :: "int \<Rightarrow> string" where
  "int_str i = (if i < 0 then CHR ''-'' # nat_str (nat (- i)) else nat_str (nat i))"

definition hex_digit :: "nat \<Rightarrow> char" where
  "hex_digit n = (if n < 10 then char_of (48 + n) else char_of (87 + n))"

definition esc_char :: "char \<Rightarrow> string" where
  "esc_char c =
     (if c = CHR 0x22 then [CHR 0x5C, CHR 0x22]
      else if c = CHR 0x5C then [CHR 0x5C, CHR 0x5C]
      else if c = CHR 0x0A then [CHR 0x5C, CHR ''n'']
      else if c = CHR 0x0D then [CHR 0x5C, CHR ''r'']
      else if c = CHR 0x09 then [CHR 0x5C, CHR ''t'']
      else if c = CHR 0x0C then [CHR 0x5C, CHR ''f'']
      else if c = CHR 0x08 then [CHR 0x5C, CHR ''b'']
      else if code c < 32 then
        [CHR 0x5C, CHR ''u'', CHR ''0'', CHR ''0'', hex_digit (code c div 16), hex_digit (code c mod 16)]
      else [c])"

definition quote_str :: "string \<Rightarrow> string" where
  "quote_str s = CHR 0x22 # concat (map esc_char s) @ [CHR 0x22]"

fun comma :: "string list \<Rightarrow> string" where
  "comma [] = []"
| "comma [p] = p"
| "comma (p # q # ps) = p @ CHR '','' # comma (q # ps)"

definition member_str :: "string \<times> string \<Rightarrow> string" where
  "member_str kv = quote_str (fst kv) @ CHR '':'' # snd kv"

fun dumps :: "json \<Rightarrow> string" where
  "dumps JNull = ''null''"
| "dumps (JBool b) = (if b then ''true'' else ''false'')"
| "dumps (JInt i) = int_str i"
| "dumps (JFloat t) = t"
| "dumps (JStr s) = quote_str s"
| "dumps (JArr vs) = CHR ''['' # comma (map dumps vs) @ '']''"
| "dumps (JObj kvs) =
     CHR ''{'' # comma (map member_str (sort_key fst (map (\<lambda>(k, v). (k, dumps v)) kvs))) @ ''}''"

definition newline :: char where
  "newline = CHR 0x0A"

definition canonical_json_bytes :: "json \<Rightarrow> string" where
  "canonical_json_bytes v = dumps v @ [newline]"

section \<open>Reading\<close>

text \<open>
  Well-formed UTF-8, as \<^verbatim>\<open>bytes.decode("utf-8")\<close> checks it (overlong forms, surrogates and values
  above U+10FFFF are refused).
\<close>

definition cont :: "char \<Rightarrow> bool" where
  "cont c = (128 \<le> code c \<and> code c < 192)"

definition between :: "nat \<Rightarrow> nat \<Rightarrow> char \<Rightarrow> bool" where
  "between lo hi c = (lo \<le> code c \<and> code c \<le> hi)"

fun utf8_valid :: "string \<Rightarrow> bool" where
  "utf8_valid [] = True"
| "utf8_valid (a # s) =
    (if code a < 128 then utf8_valid s
     else case s of
       [] \<Rightarrow> False
     | b # s1 \<Rightarrow>
         if between 194 223 a then cont b \<and> utf8_valid s1
         else case s1 of
           [] \<Rightarrow> False
         | c # s2 \<Rightarrow>
             if between 224 239 a then
               cont b \<and> cont c \<and> (code a = 224 \<longrightarrow> 160 \<le> code b) \<and> (code a = 237 \<longrightarrow> code b < 160)
               \<and> utf8_valid s2
             else case s2 of
               [] \<Rightarrow> False
             | d # s3 \<Rightarrow>
                 between 240 244 a \<and> cont b \<and> cont c \<and> cont d \<and> (code a = 240 \<longrightarrow> 144 \<le> code b)
                 \<and> (code a = 244 \<longrightarrow> code b < 144) \<and> utf8_valid s3)"

definition ws :: "char \<Rightarrow> bool" where
  "ws c = (c \<in> {CHR '' '', CHR 0x09, CHR 0x0A, CHR 0x0D})"

definition skip_ws :: "string \<Rightarrow> string" where
  "skip_ws s = dropWhile ws s"

definition is_digit :: "char \<Rightarrow> bool" where
  "is_digit c = (48 \<le> code c \<and> code c \<le> 57)"

definition digits_value :: "string \<Rightarrow> nat" where
  "digits_value s = foldl (\<lambda>n c. 10 * n + (code c - 48)) 0 s"

definition hex_value :: "char \<Rightarrow> nat option" where
  "hex_value c =
     (if is_digit c then Some (code c - 48)
      else if between 97 102 c then Some (code c - 87)
      else if between 65 70 c then Some (code c - 55) else None)"

fun hex4 :: "string \<Rightarrow> (nat \<times> string) option" where
  "hex4 (a # b # c # d # s) =
     (case (hex_value a, hex_value b, hex_value c, hex_value d) of
        (Some w, Some x, Some y, Some z) \<Rightarrow> Some (w * 4096 + x * 256 + y * 16 + z, s)
      | _ \<Rightarrow> None)"
| "hex4 _ = None"

definition utf8_encode :: "nat \<Rightarrow> string" where
  "utf8_encode n =
     (if n < 128 then [char_of n]
      else if n < 2048 then [char_of (192 + n div 64), char_of (128 + n mod 64)]
      else if n < 65536 then
        [char_of (224 + n div 4096), char_of (128 + n div 64 mod 64), char_of (128 + n mod 64)]
      else [char_of (240 + n div 262144), char_of (128 + n div 4096 mod 64),
            char_of (128 + n div 64 mod 64), char_of (128 + n mod 64)])"

definition simple_escape :: "char \<Rightarrow> char option" where
  "simple_escape c =
     (if c = CHR 0x22 \<or> c = CHR 0x5C \<or> c = CHR ''/'' then Some c
      else if c = CHR ''b'' then Some (CHR 0x08)
      else if c = CHR ''f'' then Some (CHR 0x0C)
      else if c = CHR ''n'' then Some (CHR 0x0A)
      else if c = CHR ''r'' then Some (CHR 0x0D)
      else if c = CHR ''t'' then Some (CHR 0x09) else None)"

text \<open>
  \<open>scan_u\<close> reads after \<^verbatim>\<open>\u\<close>: four hexadecimal digits, or the eight of a surrogate pair.  \<open>scan_char\<close>
  reads one character of a string body, \<open>scan_string\<close> a body up to and over the closing quote.
\<close>

definition scan_u :: "string \<Rightarrow> (nat \<times> string) option" where
  "scan_u s =
     (case hex4 s of
        None \<Rightarrow> None
      | Some (n, r) \<Rightarrow>
          if n < 55296 \<or> 57344 \<le> n then Some (n, r)
          else if 56320 \<le> n \<or> take 2 r \<noteq> [CHR 0x5C, CHR ''u''] then None
          else (case hex4 (drop 2 r) of
                  None \<Rightarrow> None
                | Some (m, r') \<Rightarrow>
                    if 56320 \<le> m \<and> m < 57344
                    then Some (65536 + (n - 55296) * 1024 + (m - 56320), r') else None))"

fun scan_char :: "string \<Rightarrow> (string \<times> string) option" where
  "scan_char [] = None"
| "scan_char (c # s) =
     (if c = CHR 0x5C then
        (case s of
           [] \<Rightarrow> None
         | e # s1 \<Rightarrow>
             if e = CHR ''u'' then map_option (\<lambda>(n, r). (utf8_encode n, r)) (scan_u s1)
             else map_option (\<lambda>x. ([x], s1)) (simple_escape e))
      else if code c < 32 then None else Some ([c], s))"

lemma hex4_shorter: "hex4 s = Some (n, r) \<Longrightarrow> length r < length s"
  by (induction s rule: hex4.induct) (auto split: option.splits)

lemma scan_u_shorter:
  assumes "scan_u s = Some (n, r)" shows "length r < length s"
proof -
  obtain m q where q: "hex4 s = Some (m, q)"
    using assms by (auto simp: scan_u_def split: option.splits)
  have "length r \<le> length q"
    using assms q hex4_shorter [of "drop 2 q"]
    by (auto simp: scan_u_def split: option.splits if_splits intro: less_imp_le order.strict_trans2)
  with hex4_shorter [OF q] show ?thesis by simp
qed

lemma scan_char_shorter: "scan_char s = Some (x, r) \<Longrightarrow> length r < length s"
  by (cases s) (auto split: if_splits list.splits dest: scan_u_shorter)

declare scan_char.simps [simp del]

function scan_string :: "string \<Rightarrow> (string \<times> string) option" where
  "scan_string s =
     (case s of
        [] \<Rightarrow> None
      | c # s' \<Rightarrow>
          if c = CHR 0x22 then Some ([], s')
          else (case scan_char s of
                  None \<Rightarrow> None
                | Some (x, r) \<Rightarrow> map_option (\<lambda>(v, q). (x @ v, q)) (scan_string r)))"
  by pat_completeness auto
termination by (relation "measure length") (auto dest: scan_char_shorter)

declare scan_string.simps [simp del]

lemma scan_string_shorter: "scan_string s = Some (v, r) \<Longrightarrow> length r < length s"
proof (induction s arbitrary: v r rule: scan_string.induct)
  case (1 s)
  show ?case
  proof (cases s)
    case (Cons c s')
    show ?thesis
    proof (cases "c = CHR 0x22")
      case False
      then obtain x q v' where "scan_char s = Some (x, q)" "scan_string q = Some (v', r)"
        using "1.prems" Cons by (subst (asm) scan_string.simps) (auto split: option.splits)
      then show ?thesis
        using "1.IH" [OF Cons False] scan_char_shorter [of s x q] by fastforce
    next
      case True
      then show ?thesis using "1.prems" Cons by (subst (asm) scan_string.simps) simp
    qed
  next
    case Nil
    then show ?thesis using "1.prems" by (subst (asm) scan_string.simps) simp
  qed
qed

text \<open>
  Numbers: an optional sign, an integer part without leading zeros, an optional fraction and an
  optional exponent, each part taken as far as it goes.
\<close>

definition scan_int :: "string \<Rightarrow> (string \<times> string) option" where
  "scan_int s =
     (case s of
        [] \<Rightarrow> None
      | c # r \<Rightarrow>
          if c = CHR ''0'' then Some ([c], r)
          else if is_digit c then Some (takeWhile is_digit s, dropWhile is_digit s) else None)"

definition scan_frac :: "string \<Rightarrow> string \<times> string" where
  "scan_frac s =
     (case s of
        c # r \<Rightarrow>
          if c = CHR ''.'' \<and> takeWhile is_digit r \<noteq> []
          then (c # takeWhile is_digit r, dropWhile is_digit r) else ([], s)
      | [] \<Rightarrow> ([], s))"

definition scan_exp :: "string \<Rightarrow> string \<times> string" where
  "scan_exp s =
     (case s of
        c # r \<Rightarrow>
          let sign = takeWhile (\<lambda>x. x \<in> {CHR ''+'', CHR ''-''}) (take 1 r);
              r' = drop (length sign) r in
          if c \<in> {CHR ''e'', CHR ''E''} \<and> takeWhile is_digit r' \<noteq> []
          then (c # sign @ takeWhile is_digit r', dropWhile is_digit r') else ([], s)
      | [] \<Rightarrow> ([], s))"

definition scan_number :: "(string \<Rightarrow> string) \<Rightarrow> string \<Rightarrow> (json \<times> string) option" where
  "scan_number fr s =
     (let neg = (take 1 s = ''-''); body = (if neg then drop 1 s else s) in
      case scan_int body of
        None \<Rightarrow> None
      | Some (i, r) \<Rightarrow>
          let (f, r1) = scan_frac r; (e, r2) = scan_exp r1 in
          if f = [] \<and> e = []
          then Some (JInt (if neg then - int (digits_value i) else int (digits_value i)), r2)
          else Some (JFloat (fr ((if neg then ''-'' else []) @ i @ f @ e)), r2))"

lemma length_dropWhile_less: "takeWhile P s \<noteq> [] \<Longrightarrow> length (dropWhile P s) < length s"
  by (cases s) (auto intro: le_imp_less_Suc length_dropWhile_le split: if_splits)

lemma scan_int_shorter: "scan_int s = Some (i, r) \<Longrightarrow> length r < length s"
  by (cases s) (auto simp: scan_int_def le_imp_less_Suc length_dropWhile_le split: if_splits)

lemma scan_frac_le: "length (snd (scan_frac s)) \<le> length s"
  by (auto simp: scan_frac_def le_SucI length_dropWhile_le split: list.splits)

lemma scan_exp_le: "length (snd (scan_exp s)) \<le> length s"
proof -
  have "length (dropWhile is_digit (drop n r)) \<le> Suc (length r)" for n r
    using length_dropWhile_le [of is_digit "drop n r"] by simp
  then show ?thesis by (auto simp: scan_exp_def Let_def split: list.splits)
qed

lemma scan_number_shorter:
  assumes "scan_number fr s = Some (v, r)" shows "length r < length s"
proof -
  let ?b = "if take 1 s = ''-'' then drop 1 s else s"
  obtain i q where q: "scan_int ?b = Some (i, q)"
    using assms by (auto simp: scan_number_def Let_def split: option.splits)
  have "r = snd (scan_exp (snd (scan_frac q)))"
    using assms q by (auto simp: scan_number_def Let_def split: prod.splits if_splits)
  then have "length r \<le> length q"
    using scan_exp_le [of "snd (scan_frac q)"] scan_frac_le [of q] by simp
  moreover have "length q < length ?b" using scan_int_shorter [OF q] .
  moreover have "length ?b \<le> length s" by simp
  ultimately show ?thesis by linarith
qed

text \<open>
  Values.  The tests \<open>length q < length s\<close> only make the recursion evidently terminating: they hold
  whenever they are reached (\<open>parse_shorter\<close> below).  An object with two equal keys is refused,
  as \<open>reject_duplicate_keys\<close> does.
\<close>

lemma length_skip_ws: "length (skip_ws s) \<le> length s"
  by (simp add: skip_ws_def length_dropWhile_le)

lemma skip_ws_Cons_le: "skip_ws r = d # q \<Longrightarrow> length q < length r"
  using length_skip_ws [of r] by simp

function (sequential) parse_value :: "(string \<Rightarrow> string) \<Rightarrow> string \<Rightarrow> (json \<times> string) option"
  and parse_elems :: "(string \<Rightarrow> string) \<Rightarrow> string \<Rightarrow> (json list \<times> string) option"
  and parse_members :: "(string \<Rightarrow> string) \<Rightarrow> string \<Rightarrow> ((string \<times> json) list \<times> string) option"
  where
  "parse_value fr [] = None"
| "parse_value fr (c # r) =
     (if c = CHR 0x22 then map_option (\<lambda>(v, q). (JStr v, q)) (scan_string r)
      else if c = CHR ''{'' then
        (if take 1 (skip_ws r) = ''}'' then Some (JObj [], drop 1 (skip_ws r))
         else (case parse_members fr (skip_ws r) of
                None \<Rightarrow> None
              | Some (kvs, q) \<Rightarrow> if distinct (map fst kvs) then Some (JObj kvs, q) else None))
      else if c = CHR ''['' then
        (if take 1 (skip_ws r) = '']'' then Some (JArr [], drop 1 (skip_ws r))
         else map_option (\<lambda>(vs, q). (JArr vs, q)) (parse_elems fr (skip_ws r)))
      else if take 4 (c # r) = ''null'' then Some (JNull, drop 4 (c # r))
      else if take 4 (c # r) = ''true'' then Some (JBool True, drop 4 (c # r))
      else if take 5 (c # r) = ''false'' then Some (JBool False, drop 5 (c # r))
      else scan_number fr (c # r))"
| "parse_elems fr s =
     (case parse_value fr s of
        None \<Rightarrow> None
      | Some (v, r) \<Rightarrow>
          (case skip_ws r of
             [] \<Rightarrow> None
           | c # q \<Rightarrow>
               if c = CHR '']'' then Some ([v], q)
               else if c = CHR '','' \<and> length q < length s
               then map_option (\<lambda>(vs, t). (v # vs, t)) (parse_elems fr (skip_ws q)) else None))"
| "parse_members fr [] = None"
| "parse_members fr (c # s) =
     (if c \<noteq> CHR 0x22 then None
      else (case scan_string s of
        None \<Rightarrow> None
      | Some (k, r) \<Rightarrow>
          (case skip_ws r of
             [] \<Rightarrow> None
           | d # r1 \<Rightarrow>
               if d \<noteq> CHR '':'' then None
               else (case parse_value fr (skip_ws r1) of
                 None \<Rightarrow> None
               | Some (v, r2) \<Rightarrow>
                   (case skip_ws r2 of
                      [] \<Rightarrow> None
                    | e # q \<Rightarrow>
                        if e = CHR ''}'' then Some ([(k, v)], q)
                        else if e = CHR '','' \<and> length q < length s
                        then map_option (\<lambda>(kvs, t). ((k, v) # kvs, t)) (parse_members fr (skip_ws q))
                        else None)))))"
  by pat_completeness auto

termination
proof (relation "measure (\<lambda>x. case x of Inl (fr, s) \<Rightarrow> 2 * length s
    | Inr (Inl (fr, s)) \<Rightarrow> 2 * length s + 1 | Inr (Inr (fr, s)) \<Rightarrow> 2 * length s + 1)", goal_cases)
  case (2 fr c r)
  then show ?case using length_skip_ws [of r] by simp
next
  case (3 fr c r)
  then show ?case using length_skip_ws [of r] by simp
next
  case (5 fr s x v r c q)
  then show ?case using length_skip_ws [of q] by simp
next
  case (6 fr c s x k r d r1)
  then show ?case
    using scan_string_shorter [of s k r] skip_ws_Cons_le [of r d r1] length_skip_ws [of r1] by simp
next
  case (7 fr c s x k r d r1 y v r2 e q)
  then show ?case using length_skip_ws [of q] by simp
qed simp_all

lemma parse_shorter:
  "parse_value fr s = Some (v, r) \<Longrightarrow> length r < length s"
  "parse_elems fr s = Some (vs, r) \<Longrightarrow> length r < length s"
  "parse_members fr s = Some (kvs, r) \<Longrightarrow> length r < length s"
proof (induction fr s and fr s and fr s arbitrary: v r and vs r and kvs r
    rule: parse_value_parse_elems_parse_members.induct)
  case (2 fr c s)
  have sk: "length (skip_ws s) \<le> length s" by (rule length_skip_ws)
  from 2(3) show ?case
    using sk 2(1) 2(2) scan_string_shorter [of s] scan_number_shorter [of fr "c # s"]
    by (fastforce split: if_splits option.splits)
next
  case (3 fr s)
  from 3(3) obtain w q where w: "parse_value fr s = Some (w, q)"
    by (auto split: option.splits)
  with 3(1) have q: "length q < length s" by blast
  from 3(3) w obtain d t where t: "skip_ws q = d # t"
    by (auto split: list.splits)
  have "length t < length q" by (rule skip_ws_Cons_le [OF t])
  with 3 w t q show ?case
    using length_skip_ws [of t] by (fastforce split: if_splits)
next
  case (5 fr c s)
  from 5(3) obtain k r0 d r1 w r2 e q where
    k: "scan_string s = Some (k, r0)" and d: "skip_ws r0 = d # r1" "c = CHR 0x22" "d = CHR '':''"
    and w: "parse_value fr (skip_ws r1) = Some (w, r2)" and e: "skip_ws r2 = e # q"
    by (auto split: option.splits list.splits if_splits)
  have l: "length r2 < length (skip_ws r1)" using 5(1) k d w by blast
  have "length q < length s"
    using l scan_string_shorter [OF k] skip_ws_Cons_le [OF d(1)] length_skip_ws [of r1]
      skip_ws_Cons_le [OF e] by linarith
  with 5 k d w e show ?case
    using length_skip_ws [of q] by (fastforce split: if_splits)
qed simp_all

definition strict_json_loads :: "(string \<Rightarrow> string) \<Rightarrow> string \<Rightarrow> (json_error, json) result" where
  "strict_json_loads fr s =
     (if \<not> utf8_valid s then Inl Unicode_decode_error
      else case parse_value fr (skip_ws s) of
             None \<Rightarrow> Inl Invalid_json
           | Some (v, r) \<Rightarrow> if skip_ws r = [] then Inr v else Inl Invalid_json)"

end
