(* ===== verification/Canonical.thy ===== *)
theory Canonical
  imports Json
begin

text \<open>
  Canonical bytes: what \<open>canonical_json_bytes\<close> writes, \<open>strict_json_loads\<close> reads back, so that
  the bytes identify the value; and the sealing of an event by the digest of its own canonical bytes
  (\<^verbatim>\<open>kernel/core/canonical.py\<close>).
\<close>

section \<open>The value a canonical text denotes\<close>

text \<open>Two Python dictionaries are equal when they have the same items; \<open>norm\<close> lists them by key.\<close>

fun norm :: "json \<Rightarrow> json" where
  "norm (JArr vs) = JArr (map norm vs)"
| "norm (JObj kvs) = JObj (sort_key fst (map (\<lambda>(k, v). (k, norm v)) kvs))"
| "norm v = v"

text \<open>
  A number literal read as a float is one whose text survives \<open>repr \<circ> float\<close>; a dictionary has each
  key once.
\<close>

fun json_ok :: "(string \<Rightarrow> string) \<Rightarrow> json \<Rightarrow> bool" where
  "json_ok fr (JFloat t) = (scan_number fr t = Some (JFloat t, []))"
| "json_ok fr (JArr vs) = (\<forall>v \<in> set vs. json_ok fr v)"
| "json_ok fr (JObj kvs) = (distinct (map fst kvs) \<and> (\<forall>(k, v) \<in> set kvs. json_ok fr v))"
| "json_ok fr _ = True"

fun sorted_json :: "json \<Rightarrow> bool" where
  "sorted_json (JArr vs) = (\<forall>v \<in> set vs. sorted_json v)"
| "sorted_json (JObj kvs) = (sorted (map fst kvs) \<and> (\<forall>(k, v) \<in> set kvs. sorted_json v))"
| "sorted_json _ = True"

lemma insort_key_map_fst:
  "insort_key fst (k, g v) (map (\<lambda>(k, v). (k, g v)) xs)
   = map (\<lambda>(k, v). (k, g v)) (insort_key fst (k, v) xs)"
  by (induction xs) auto

lemma sort_key_map_fst:
  "sort_key fst (map (\<lambda>(k, v). (k, g v)) xs) = map (\<lambda>(k, v). (k, g v)) (sort_key fst xs)"
proof (induction xs)
  case (Cons x xs)
  then show ?case by (cases x) (simp add: insort_key_map_fst)
qed simp

lemma map_fst_pair: "map fst (map (\<lambda>(k, v). (k, g v)) xs) = map fst xs"
  by (induction xs) auto

lemma sort_key_idem: "sorted (map f xs) \<Longrightarrow> sort_key f xs = xs"
  by (simp add: sort_key_id_if_sorted)

lemma norm_sorted: "sorted_json (norm v)"
proof (induction v)
  case (JObj kvs)
  have ih: "sorted_json (norm w)" if "(k, w) \<in> set kvs" for k w
    using JObj [of "(k, w)" w] that by simp
  have s: "sorted (map fst (sort_key fst (map (\<lambda>(k, v). (k, norm v)) kvs)))" by simp
  have "\<forall>(k, w) \<in> set (map (\<lambda>(k, v). (k, norm v)) kvs). sorted_json w"
    using ih by auto
  with s show ?case by simp
qed auto

lemma distinct_sort_key: "distinct (map fst xs) \<Longrightarrow> distinct (map fst (sort_key fst xs))"
  by (simp add: distinct_map)

lemma norm_ok: "json_ok fr v \<Longrightarrow> json_ok fr (norm v)"
proof (induction v)
  case (JObj kvs)
  let ?m = "map (\<lambda>(k, v). (k, norm v)) kvs"
  have "distinct (map fst ?m)" using JObj.prems by (simp only: map_fst_pair json_ok.simps)
  then have "distinct (map fst (sort_key fst ?m))" by (rule distinct_sort_key)
  moreover have "json_ok fr (norm w)" if "(k, w) \<in> set kvs" for k w
    using JObj.IH [of "(k, w)" w] JObj.prems that by auto
  then have "\<forall>(k, w) \<in> set ?m. json_ok fr w" by auto
  ultimately show ?case by (simp only: norm.simps json_ok.simps set_sort)
next
  case (JArr vs)
  then show ?case by simp
qed simp_all

lemma dumps_norm: "dumps (norm v) = dumps v"
proof (induction v)
  case (JArr vs)
  then have "map (dumps \<circ> norm) vs = map dumps vs" by simp
  then show ?case by (simp only: norm.simps dumps.simps map_map)
next
  case (JObj kvs)
  let ?m = "map (\<lambda>(k, v). (k, norm v)) kvs"
  have "dumps (norm w) = dumps w" if "(k, w) \<in> set kvs" for k w
    using JObj [of "(k, w)" w] that by simp
  then have "map (\<lambda>(k, v). (k, dumps v)) ?m = map (\<lambda>(k, v). (k, dumps v)) kvs"
    by auto
  moreover have "sort_key fst (map (\<lambda>(k, v). (k, dumps v)) (sort_key fst ?m))
      = sort_key fst (map (\<lambda>(k, v). (k, dumps v)) ?m)"
    by (simp only: sort_key_map_fst [of dumps]) (rule arg_cong, simp add: sort_key_idem)
  ultimately show ?case by (simp only: norm.simps dumps.simps)
qed auto

section \<open>Numbers\<close>

lemma digit_props: "n < 10 \<Longrightarrow> is_digit (digit n)" "n < 10 \<Longrightarrow> code (digit n) = 48 + n"
  by (auto simp: is_digit_def digit_def code_def)

lemma nat_str_digits: "\<forall>c \<in> set (nat_str n). is_digit c"
proof (induction n rule: nat_str.induct)
  case (1 n)
  show ?case
  proof (cases "n < 10")
    case True
    then show ?thesis by (simp add: nat_str.simps [of n] digit_props)
  next
    case False
    then show ?thesis using 1 by (simp add: nat_str.simps [of n] digit_props)
  qed
qed

lemma digits_value_snoc: "digits_value (s @ [c]) = 10 * digits_value s + (code c - 48)"
  by (simp add: digits_value_def)

lemma digits_value_nat_str: "digits_value (nat_str n) = n"
proof (induction n rule: nat_str.induct)
  case (1 n)
  show ?case
  proof (cases "n < 10")
    case True
    then show ?thesis by (simp add: nat_str.simps [of n] digits_value_def digit_props)
  next
    case False
    then have "digits_value (nat_str n) = 10 * digits_value (nat_str (n div 10)) + n mod 10"
      by (simp add: nat_str.simps [of n] digits_value_snoc digit_props)
    then show ?thesis using 1 False by simp
  qed
qed

lemma nat_str_not_Nil [simp]: "nat_str n \<noteq> []"
  by (subst nat_str.simps) simp

lemma hd_nat_str_append [simp]: "nat_str n \<noteq> [] \<Longrightarrow> hd (nat_str n @ s) = hd (nat_str n)"
  by simp

lemma hd_nat_str: "0 < n \<Longrightarrow> hd (nat_str n) \<noteq> CHR ''0''"
proof (induction n rule: nat_str.induct)
  case (1 n)
  show ?case
  proof (cases "n < 10")
    case True
    then have "code (digit n) \<noteq> 48" using 1 by (simp add: digit_props)
    then show ?thesis using True by (auto simp: nat_str.simps [of n] code_def)
  next
    case False
    then have "hd (nat_str (n div 10)) \<noteq> CHR ''0''" using 1 by simp
    then show ?thesis using False by (simp add: nat_str.simps [of n])
  qed
qed

lemma nat_str_0: "nat_str 0 = ''0''"
  by (subst nat_str.simps) (simp add: digit_def, code_simp)

text \<open>What may follow a value: nothing, a separator, a closing bracket or white space.\<close>

definition ends :: "string \<Rightarrow> bool" where
  "ends r = (case r of [] \<Rightarrow> True | c # _ \<Rightarrow> c \<in> {CHR '','', CHR '']'', CHR ''}'', newline})"

lemma ends_Nil [simp]: "ends []"
  by (simp add: ends_def)

lemma ends_Cons [simp]: "ends (c # r) \<longleftrightarrow> c \<in> {CHR '','', CHR '']'', CHR ''}'', newline}"
  by (simp add: ends_def)

lemma ends_not_number:
  assumes "ends r"
  shows "takeWhile is_digit r = []" and "dropWhile is_digit r = r"
    and "scan_frac r = ([], r)" and "scan_exp r = ([], r)"
  using assms by (cases r; auto simp: is_digit_def code_def newline_def scan_frac_def scan_exp_def Let_def)+

lemma scan_int_digits:
  assumes "\<forall>c \<in> set i. is_digit c" and "i \<noteq> []" and "hd i = CHR ''0'' \<Longrightarrow> i = ''0''"
    and "i = ''0'' \<or> takeWhile is_digit r = []"
  shows "scan_int (i @ r) = Some (i, r)"
proof -
  obtain c i' where i: "i = c # i'" using assms(2) by (cases i) auto
  show ?thesis
  proof (cases "c = CHR ''0''")
    case True
    then show ?thesis using assms(3) i by (simp add: scan_int_def)
  next
    case False
    then have r: "takeWhile is_digit r = []" using assms(4) i by auto
    then have "dropWhile is_digit r = r" by (cases r) (auto split: if_splits)
    then show ?thesis using False assms(1) i r by (simp add: scan_int_def)
  qed
qed

lemma scan_number_nat_str:
  assumes "ends r"
  shows "scan_int (nat_str n @ r) = Some (nat_str n, r)"
proof (rule scan_int_digits)
  show "\<forall>c \<in> set (nat_str n). is_digit c" by (rule nat_str_digits)
  show "nat_str n \<noteq> []" by simp
  show "nat_str n = ''0''" if "hd (nat_str n) = CHR ''0''"
    using that hd_nat_str [of n] nat_str_0 by (cases "n = 0") auto
  show "nat_str n = ''0'' \<or> takeWhile is_digit r = []"
    using ends_not_number(1) [OF assms] by blast
qed

lemma minus_not_digit: "\<not> is_digit (CHR ''-'')"
  by (simp add: is_digit_def code_def)

lemma hd_in_digits: "nat_str n = c # s \<Longrightarrow> is_digit c"
  using nat_str_digits [of n] by simp

lemma scan_number_body:
  assumes "ends r" and "scan_int (i @ r) = Some (i, r)"
  shows "scan_number fr (CHR ''-'' # i @ r) = Some (JInt (- int (digits_value i)), r)"
    and "take 1 (i @ r) \<noteq> ''-'' \<Longrightarrow> scan_number fr (i @ r) = Some (JInt (int (digits_value i)), r)"
  using assms(2) ends_not_number(3,4) [OF assms(1)] unfolding scan_number_def Let_def by simp_all

lemma scan_number_int:
  assumes "ends r"
  shows "scan_number fr (int_str i @ r) = Some (JInt i, r)"
proof (cases "i < 0")
  case True
  then show ?thesis
    using scan_number_body(1) [OF assms scan_number_nat_str [OF assms], of fr "nat (- i)"]
    unfolding int_str_def digits_value_nat_str by simp
next
  case False
  obtain c t where c: "nat_str (nat i) = c # t" by (cases "nat_str (nat i)") auto
  with hd_in_digits minus_not_digit have "c \<noteq> CHR ''-''" by metis
  with c have "take 1 (nat_str (nat i) @ r) \<noteq> ''-''" by simp
  then show ?thesis
    using False scan_number_body(2) [OF assms scan_number_nat_str [OF assms], of "nat i" fr]
    unfolding int_str_def digits_value_nat_str by simp
qed

lemma digits_append_ends:
  assumes "ends r"
  shows "takeWhile is_digit (s @ r) = takeWhile is_digit s"
    and "dropWhile is_digit (s @ r) = dropWhile is_digit s @ r"
  using ends_not_number(1,2) [OF assms] by (induction s) auto

lemma scan_int_append:
  "scan_int s = Some (i, q) \<Longrightarrow> ends r \<Longrightarrow> scan_int (s @ r) = Some (i, q @ r)"
  by (cases s) (auto simp: scan_int_def digits_append_ends split: if_splits)

lemma scan_frac_append:
  "ends r \<Longrightarrow> scan_frac (s @ r) = (fst (scan_frac s), snd (scan_frac s) @ r)"
  by (cases s) (simp_all add: ends_not_number(3), simp add: scan_frac_def digits_append_ends)

lemma ends_no_sign: "ends r \<Longrightarrow> takeWhile (\<lambda>x. x \<in> {CHR ''+'', CHR ''-''}) (take 1 r) = []"
  by (cases r) (auto simp: newline_def)

lemma scan_exp_append:
  assumes "ends r"
  shows "scan_exp (s @ r) = (fst (scan_exp s), snd (scan_exp s) @ r)"
proof (cases s)
  case Nil
  then show ?thesis using ends_not_number(4) [OF assms] by (simp add: scan_exp_def)
next
  case (Cons c d)
  let ?sg = "\<lambda>x. takeWhile (\<lambda>x. x \<in> {CHR ''+'', CHR ''-''}) (take 1 x)"
  have sg: "?sg (d @ r) = ?sg d" using ends_no_sign [OF assms] by (cases d) simp_all
  have "length (?sg d) \<le> length d" by (cases d) simp_all
  then have dr: "drop (length (?sg d)) (d @ r) = drop (length (?sg d)) d @ r" by simp
  show ?thesis
    unfolding scan_exp_def Cons append_Cons list.case Let_def sg dr digits_append_ends [OF assms]
    by simp
qed

section \<open>Strings\<close>

lemma code_char_of: "n < 256 \<Longrightarrow> code (char_of n) = n"
  by (simp add: code_def)

lemma hex_value_digit: "n < 16 \<Longrightarrow> hex_value (hex_digit n) = Some n"
  by (simp add: hex_value_def hex_digit_def is_digit_def between_def code_char_of)

lemma scan_char_plain:
  "c \<noteq> CHR 0x5C \<Longrightarrow> \<not> code c < 32 \<Longrightarrow> scan_char (c # t) = Some ([c], t)"
  by (simp add: scan_char.simps)

lemma scan_char_simple:
  "e \<noteq> CHR ''u'' \<Longrightarrow> simple_escape e = Some x \<Longrightarrow> scan_char (CHR 0x5C # e # t) = Some ([x], t)"
  by (simp add: scan_char.simps)

lemma scan_char_control:
  assumes "code c < 32"
  shows "scan_char (CHR 0x5C # CHR ''u'' # CHR ''0'' # CHR ''0'' # hex_digit (code c div 16)
           # hex_digit (code c mod 16) # t) = Some ([c], t)"
proof -
  have z: "hex_value (CHR ''0'') = Some 0" by code_simp
  have "hex4 (CHR ''0'' # CHR ''0'' # hex_digit (code c div 16) # hex_digit (code c mod 16) # t)
      = Some (code c, t)"
    using assms z by (simp add: hex_value_digit)
  moreover have "utf8_encode (code c) = [c]"
    using assms by (simp add: utf8_encode_def code_def)
  ultimately show ?thesis
    using assms by (simp add: scan_char.simps scan_u_def)
qed

lemma scan_esc_char: "scan_char (esc_char c @ t) = Some ([c], t)"
proof -
  consider "c = CHR 0x22" | "c = CHR 0x5C" | "c = CHR 0x0A" | "c = CHR 0x0D" | "c = CHR 0x09"
    | "c = CHR 0x0C" | "c = CHR 0x08"
    | "c \<notin> {CHR 0x22, CHR 0x5C, CHR 0x0A, CHR 0x0D, CHR 0x09, CHR 0x0C, CHR 0x08}" by auto
  then show ?thesis
  proof cases
    case 8
    then show ?thesis
      by (cases "code c < 32") (simp_all add: esc_char_def scan_char_control scan_char_plain)
  qed (simp_all add: esc_char_def scan_char_simple simple_escape_def)
qed

lemma hd_esc_char: "\<exists>d t. esc_char c = d # t \<and> d \<noteq> CHR 0x22"
  by (simp add: esc_char_def)

lemma scan_string_quote: "scan_string (CHR 0x22 # r) = Some ([], r)"
  by (subst scan_string.simps) simp

lemma scan_string_body:
  "scan_string (concat (map esc_char s) @ CHR 0x22 # r) = Some (s, r)"
proof (induction s)
  case Nil
  then show ?case by (simp add: scan_string_quote)
next
  case (Cons c s)
  obtain d t where d: "esc_char c = d # t" "d \<noteq> CHR 0x22" using hd_esc_char by blast
  let ?in = "concat (map esc_char (c # s)) @ CHR 0x22 # r"
  have "scan_char ?in = Some ([c], concat (map esc_char s) @ CHR 0x22 # r)"
    using scan_esc_char [of c "concat (map esc_char s) @ CHR 0x22 # r"] by simp
  then show ?case
    using d Cons.IH by (subst scan_string.simps) simp
qed

section \<open>Values\<close>

lemma skip_ws_nonspace: "\<not> ws c \<Longrightarrow> skip_ws (c # s) = c # s"
  by (simp add: skip_ws_def)

lemma ws_facts [simp]:
  "\<not> ws (CHR 0x22)" "\<not> ws (CHR ''{'')" "\<not> ws (CHR ''['')" "\<not> ws (CHR ''}'')" "\<not> ws (CHR '']'')"
  "\<not> ws (CHR '','')" "\<not> ws (CHR '':'')" "\<not> ws (CHR ''n'')" "\<not> ws (CHR ''t'')" "\<not> ws (CHR ''f'')"
  "\<not> ws (CHR ''-'')" "is_digit c \<Longrightarrow> \<not> ws c"
  by (auto simp: ws_def is_digit_def code_def)

text \<open>What a number literal can start with; such a text is read by the number scanner.\<close>

definition numeric :: "char \<Rightarrow> bool" where
  "numeric c = (c = CHR ''-'' \<or> is_digit c)"

lemma numeric_facts:
  "numeric c \<Longrightarrow> c \<notin> {CHR 0x22, CHR ''{'', CHR ''['', CHR ''n'', CHR ''t'', CHR ''f'', CHR '']'', CHR ''}''}"
  by (auto simp: numeric_def is_digit_def code_def)

lemma parse_numeric:
  assumes "numeric c" shows "parse_value fr (c # s) = scan_number fr (c # s)"
  using numeric_facts [OF assms] by simp

lemma scan_number_numeric:
  assumes "scan_number fr (c # s) = Some x" shows "numeric c"
proof (cases "c = CHR ''-''")
  case False
  then obtain y where "scan_int (c # s) = Some y"
    using assms by (auto simp: scan_number_def Let_def split: option.splits)
  then have "c = CHR ''0'' \<or> is_digit c" by (auto simp: scan_int_def split: if_splits)
  then show ?thesis by (auto simp: numeric_def is_digit_def code_def)
qed (simp add: numeric_def)

lemma int_str_numeric: "\<exists>c s. int_str i = c # s \<and> numeric c"
proof (cases "i < 0")
  case False
  obtain c t where c: "nat_str (nat i) = c # t" by (cases "nat_str (nat i)") auto
  with hd_in_digits have "is_digit c" by blast
  with c False show ?thesis by (simp add: int_str_def numeric_def)
qed (simp add: int_str_def numeric_def)

lemma quote_str_Cons: "quote_str s @ r = CHR 0x22 # (concat (map esc_char s) @ CHR 0x22 # r)"
  by (simp add: quote_str_def)

lemma dumps_first:
  assumes "json_ok fr v"
  shows "\<exists>c s. dumps v = c # s \<and> \<not> ws c \<and> c \<noteq> CHR '']''"
proof (cases v)
  case (JInt i)
  obtain c s where c: "int_str i = c # s" "numeric c" using int_str_numeric by blast
  then have "\<not> ws c" by (auto simp: numeric_def)
  with c numeric_facts [OF c(2)] JInt show ?thesis by auto
next
  case (JFloat t)
  with assms have n: "scan_number fr t = Some (JFloat t, [])" by simp
  then obtain c s where t: "t = c # s" by (cases t) (auto simp: scan_number_def scan_int_def Let_def)
  with n scan_number_numeric have c: "numeric c" by blast
  then have "\<not> ws c" by (auto simp: numeric_def)
  with t numeric_facts [OF c] JFloat show ?thesis by auto
qed (auto simp: quote_str_def)

lemma ws_ends_ok: "skip_ws (c # r) = c # r" if "c \<in> {CHR '','', CHR '']'', CHR ''}'', CHR '':''}"
  using that by (auto simp: skip_ws_nonspace)

lemma scan_float_append:
  assumes "scan_number fr t = Some (JFloat u, [])" and "ends r"
  shows "scan_number fr (t @ r) = Some (JFloat u, r)"
proof -
  obtain c t' where t: "t = c # t'"
    using assms(1) by (cases t) (auto simp: scan_number_def scan_int_def Let_def)
  let ?b = "if c = CHR ''-'' then t' else t"
  obtain i q where i: "scan_int ?b = Some (i, q)"
    using assms(1) t by (auto simp: scan_number_def Let_def split: option.splits if_splits)
  have body: "scan_int (?b @ r) = Some (i, q @ r)" by (rule scan_int_append [OF i assms(2)])
  show ?thesis
  proof (cases "c = CHR ''-''")
    case True
    with i body assms t show ?thesis
      by (auto simp: scan_number_def Let_def scan_frac_append scan_exp_append
          split: prod.splits if_splits)
  next
    case False
    with i body assms t show ?thesis
      by (auto simp: scan_number_def Let_def scan_frac_append scan_exp_append
          split: prod.splits if_splits)
  qed
qed

lemma parse_elems_comma:
  assumes "vs \<noteq> []" and "ends r"
    and "\<And>v t. v \<in> set vs \<Longrightarrow> ends t \<Longrightarrow> parse_value fr (dumps v @ t) = Some (v, t)"
    and "\<And>v. v \<in> set vs \<Longrightarrow> json_ok fr v"
  shows "parse_elems fr (comma (map dumps vs) @ CHR '']'' # r) = Some (vs, r)"
  using assms(1,3,4)
proof (induction vs)
  case (Cons v vs)
  show ?case
  proof (cases vs)
    case Nil
    then show ?thesis
      using Cons.prems(2) [of v "CHR '']'' # r"] by (simp add: ws_ends_ok)
  next
    case (Cons w ws)
    let ?rest = "comma (map dumps vs) @ CHR '']'' # r"
    have v: "parse_value fr (dumps v @ CHR '','' # ?rest) = Some (v, CHR '','' # ?rest)"
      by (rule Cons.prems(2)) simp_all
    have "json_ok fr w" using Cons.prems(3) Cons by simp
    then obtain c s where c: "dumps w = c # s" "\<not> Json.ws c" using dumps_first by blast
    then have sk: "skip_ws ?rest = ?rest"
      using Cons by (cases ws) (simp_all add: skip_ws_nonspace)
    have "parse_elems fr ?rest = Some (vs, r)"
      by (rule Cons.IH) (use Cons Cons.prems in auto)
    with v sk Cons show ?thesis by (simp add: ws_ends_ok)
  qed
qed simp

lemma parse_members_comma:
  assumes "kvs \<noteq> []" and "ends r"
    and "\<And>k v t. (k, v) \<in> set kvs \<Longrightarrow> ends t \<Longrightarrow> parse_value fr (dumps v @ t) = Some (v, t)"
    and "\<And>k v. (k, v) \<in> set kvs \<Longrightarrow> json_ok fr v"
  shows "parse_members fr (comma (map member_str (map (\<lambda>(k, v). (k, dumps v)) kvs)) @ CHR ''}'' # r)
    = Some (kvs, r)"
  using assms(1,3,4)
proof (induction kvs)
  case (Cons kv kvs)
  obtain k v where kv: "kv = (k, v)" by fastforce
  have ok: "json_ok fr v" using Cons.prems(3) [of k v] kv by simp
  then obtain c s where c: "dumps v = c # s" "\<not> Json.ws c" using dumps_first by blast
  then have sk: "skip_ws (dumps v @ x) = dumps v @ x" for x by (simp add: skip_ws_nonspace)
  have pv: "parse_value fr (dumps v @ t) = Some (v, t)" if "ends t" for t
    using Cons.prems(2) [of k v t] that kv by simp
  show ?case
  proof (cases kvs)
    case Nil
    have "parse_value fr (dumps v @ CHR ''}'' # r) = Some (v, CHR ''}'' # r)" by (rule pv) simp
    then show ?thesis
      using Nil kv by (simp add: member_str_def quote_str_def scan_string_body ws_ends_ok sk)
  next
    case (Cons kw ws)
    let ?rest = "comma (map member_str (map (\<lambda>(k, v). (k, dumps v)) kvs)) @ CHR ''}'' # r"
    have v: "parse_value fr (dumps v @ CHR '','' # ?rest) = Some (v, CHR '','' # ?rest)"
      by (rule pv) simp
    have sk2: "skip_ws ?rest = ?rest"
      using Cons by (cases ws; cases kw) (simp_all add: skip_ws_nonspace member_str_def quote_str_def)
    have rest: "parse_members fr ?rest = Some (kvs, r)"
    proof (rule Cons.IH)
      show "kvs \<noteq> []" using Cons by simp
      show "parse_value fr (dumps v @ t) = Some (v, t)" if "(k, v) \<in> set kvs" "ends t" for k v t
        using Cons.prems(2) [of k v t] that by simp
      show "json_ok fr v" if "(k, v) \<in> set kvs" for k v using Cons.prems(3) [of k v] that by simp
    qed
    have split: "comma (map member_str (map (\<lambda>(k, v). (k, dumps v)) (kv # kvs))) @ CHR ''}'' # r
        = member_str (k, dumps v) @ CHR '','' # ?rest"
      using Cons kv by simp
    show ?thesis
      unfolding split using v sk2 rest kv
      by (simp add: member_str_def quote_str_def scan_string_body ws_ends_ok sk)
  qed
qed simp

lemma parse_dumps:
  "json_ok fr v \<Longrightarrow> sorted_json v \<Longrightarrow> ends r \<Longrightarrow> parse_value fr (dumps v @ r) = Some (v, r)"
proof (induction v arbitrary: r)
  case (JInt i)
  obtain c s where c: "int_str i = c # s" "numeric c" using int_str_numeric by blast
  then show ?case using scan_number_int [OF JInt.prems(3), of fr i] parse_numeric [OF c(2)] by simp
next
  case (JFloat t)
  then have n: "scan_number fr t = Some (JFloat t, [])" by simp
  then obtain c s where t: "t = c # s" by (cases t) (auto simp: scan_number_def scan_int_def Let_def)
  with n scan_number_numeric have "numeric c" by blast
  then show ?case
    using scan_float_append [OF n JFloat.prems(3)] t parse_numeric [of c fr "s @ r"] by simp
next
  case (JStr s)
  then show ?case by (simp add: quote_str_Cons scan_string_body)
next
  case (JArr vs)
  show ?case
  proof (cases vs)
    case Nil
    then show ?thesis by (simp add: ws_ends_ok)
  next
    case (Cons w ws)
    let ?in = "comma (map dumps vs) @ CHR '']'' # r"
    have el: "parse_elems fr ?in = Some (vs, r)"
      by (rule parse_elems_comma) (use Cons JArr in auto)
    have "json_ok fr w" using JArr.prems(1) Cons by simp
    then obtain c s where c: "dumps w = c # s" "\<not> Json.ws c" "c \<noteq> CHR '']''"
      using dumps_first by blast
    then obtain s' where "?in = c # s'" using Cons by (cases ws) simp_all
    with c have "skip_ws ?in = ?in" "take 1 ?in \<noteq> '']''" by (simp_all add: skip_ws_nonspace)
    with el show ?thesis by simp
  qed
next
  case (JObj kvs)
  have sorted: "sort_key fst (map (\<lambda>(k, v). (k, dumps v)) kvs) = map (\<lambda>(k, v). (k, dumps v)) kvs"
    using JObj.prems(2) by (intro sort_key_idem) (simp only: map_fst_pair sorted_json.simps)
  let ?in = "comma (map member_str (map (\<lambda>(k, v). (k, dumps v)) kvs)) @ CHR ''}'' # r"
  show ?case
  proof (cases kvs)
    case Nil
    then show ?thesis by (simp add: ws_ends_ok)
  next
    case (Cons kw ws)
    have mem: "parse_members fr ?in = Some (kvs, r)"
    proof (rule parse_members_comma)
      show "kvs \<noteq> []" "ends r" using Cons JObj.prems by simp_all
      show "parse_value fr (dumps v @ t) = Some (v, t)" if "(k, v) \<in> set kvs" "ends t" for k v t
        using JObj.IH [of "(k, v)" v t] JObj.prems that by auto
      show "json_ok fr v" if "(k, v) \<in> set kvs" for k v using JObj.prems that by auto
    qed
    obtain s' where "?in = CHR 0x22 # s'"
      using Cons by (cases ws; cases kw) (simp_all add: member_str_def quote_str_def)
    then have "skip_ws ?in = ?in" "take 1 ?in \<noteq> ''}''" by (simp_all add: skip_ws_nonspace)
    with mem sorted JObj.prems(1) show ?thesis by simp
  qed
qed simp_all

section \<open>Reading back what was written\<close>

lemma loads_canonical:
  assumes "json_ok fr v" and "utf8_valid (canonical_json_bytes v)"
  shows "strict_json_loads fr (canonical_json_bytes v) = Inr (norm v)"
proof -
  have nl: "ends [newline]" by simp
  have p: "parse_value fr (dumps v @ [newline]) = Some (norm v, [newline])"
    using parse_dumps [OF norm_ok [OF assms(1)] norm_sorted nl] by (simp only: dumps_norm)
  obtain c s where c: "dumps v = c # s" "\<not> Json.ws c" using dumps_first [OF assms(1)] by blast
  have "skip_ws (canonical_json_bytes v) = canonical_json_bytes v"
    using c by (simp add: canonical_json_bytes_def skip_ws_nonspace)
  moreover have "skip_ws [newline] = []" by (simp add: skip_ws_def newline_def ws_def)
  ultimately show ?thesis
    using p assms(2) by (simp add: strict_json_loads_def canonical_json_bytes_def)
qed

lemma canonical_bytes_iff:
  assumes "json_ok fr v" and "json_ok fr w"
  shows "canonical_json_bytes v = canonical_json_bytes w \<longleftrightarrow> norm v = norm w"
proof
  assume "canonical_json_bytes v = canonical_json_bytes w"
  then have "dumps (norm v) @ [] = dumps (norm w) @ []"
    by (simp add: canonical_json_bytes_def dumps_norm)
  then show "norm v = norm w"
    using parse_dumps [OF norm_ok [OF assms(1)] norm_sorted ends_Nil]
      parse_dumps [OF norm_ok [OF assms(2)] norm_sorted ends_Nil] by (metis option.inject prod.inject)
next
  assume "norm v = norm w"
  then have "dumps v = dumps w" by (metis dumps_norm)
  then show "canonical_json_bytes v = canonical_json_bytes w" by (simp add: canonical_json_bytes_def)
qed

text \<open>
  C34.  Canonical bytes and the value they stand for determine each other: the strict reader gives
  back the value that was written (its dictionaries listed by key), and two values have the same
  canonical bytes exactly when they are equal as Python values.
\<close>

theorem canonical_bytes_identify_the_value:
  assumes "json_ok fr v" and "json_ok fr w" and "utf8_valid (canonical_json_bytes v)"
  shows "strict_json_loads fr (canonical_json_bytes v) = Inr (norm v)
    \<and> (canonical_json_bytes v = canonical_json_bytes w \<longleftrightarrow> norm v = norm w)"
  using loads_canonical [OF assms(1,3)] canonical_bytes_iff [OF assms(1,2)] by blast

theorem canonical_bytes_identify_the_value_witness:
  "canonical_json_bytes (JObj [(''b'', JInt (- 12)), (''a'', JArr [JNull, JStr ''x''])])
     = ''{'' @ [CHR 0x22, CHR ''a'', CHR 0x22] @ '':[null,'' @ [CHR 0x22, CHR ''x'', CHR 0x22] @ ''],''
       @ [CHR 0x22, CHR ''b'', CHR 0x22] @ '':-12}'' @ [newline]
   \<and> strict_json_loads id (canonical_json_bytes
       (JObj [(''b'', JInt (- 12)), (''a'', JArr [JNull, JStr ''x''])]))
     = Inr (JObj [(''a'', JArr [JNull, JStr ''x'']), (''b'', JInt (- 12))])"
    (is "_ = ?t \<and> strict_json_loads id (canonical_json_bytes ?v) = Inr ?n")
proof
  show bytes: "canonical_json_bytes ?v = ?t" by code_simp
  have ok: "json_ok id ?v" by simp
  have "utf8_valid ?t" by code_simp
  then have u: "utf8_valid (canonical_json_bytes ?v)" using bytes by simp
  have n: "norm ?v = ?n" by code_simp
  show "strict_json_loads id (canonical_json_bytes ?v) = Inr ?n"
    using conjunct1 [OF canonical_bytes_identify_the_value [OF ok ok u]] unfolding n .
qed

section \<open>Sealed events\<close>

text \<open>
  An event on the wire is a JSON object.  \<open>sha256_hex\<close> is the hash function's; the theorems hold for
  any.
\<close>

type_synonym wire_event = "(string \<times> json) list"

definition unsigned :: "wire_event \<Rightarrow> wire_event" where
  "unsigned e = dpop ''event_sha256'' e"

definition canonical_event_bytes :: "wire_event \<Rightarrow> string" where
  "canonical_event_bytes e = canonical_json_bytes (JObj (unsigned e))"

definition seal_event :: "(string \<Rightarrow> sha256) \<Rightarrow> wire_event \<Rightarrow> wire_event" where
  "seal_event sha256_hex e =
     dset ''event_sha256'' (JStr (sha256_hex (canonical_event_bytes (unsigned e)))) (unsigned e)"

lemma unsigned_idem [simp]: "unsigned (unsigned e) = unsigned e"
  by (simp add: unsigned_def AList.delete_idem)

lemma unsigned_seal: "unsigned (seal_event h e) = unsigned e"
proof -
  have "''event_sha256'' \<notin> dkeys (unsigned e)" by (simp add: unsigned_def dict_simps)
  then have "seal_event h e = unsigned e
      @ [(''event_sha256'', JStr (h (canonical_event_bytes (unsigned e))))]"
    by (simp add: seal_event_def dset_new)
  then have "unsigned (seal_event h e) = unsigned (unsigned e)"
    by (simp add: unsigned_def AList.delete_eq)
  then show ?thesis by simp
qed

text \<open>
  C33.  Sealing.  The digest field of a sealed event is the digest of the bytes the event has without
  that field, whatever digest the unsealed event carried; sealing again changes nothing; and two
  well-formed events with different content have different bytes under the seal, so that equal seals
  mean equal content unless the hash function maps two different texts to one digest.
\<close>

theorem sealed_event_binds_its_content:
  assumes "json_ok fr (JObj (unsigned e))" and "json_ok fr (JObj (unsigned f))"
  shows "map_of (seal_event h e) ''event_sha256'' = Some (JStr (h (canonical_event_bytes (seal_event h e))))
    \<and> seal_event h (seal_event h e) = seal_event h e
    \<and> (norm (JObj (unsigned e)) \<noteq> norm (JObj (unsigned f)) \<longrightarrow>
         canonical_event_bytes (seal_event h e) \<noteq> canonical_event_bytes (seal_event h f))
    \<and> (map_of (seal_event h e) ''event_sha256'' = map_of (seal_event h f) ''event_sha256'' \<longrightarrow>
         norm (JObj (unsigned e)) = norm (JObj (unsigned f))
         \<or> (canonical_event_bytes e \<noteq> canonical_event_bytes f
             \<and> h (canonical_event_bytes e) = h (canonical_event_bytes f)))"
proof -
  have bytes: "canonical_event_bytes (seal_event h x) = canonical_event_bytes x" for x
    by (simp add: canonical_event_bytes_def unsigned_seal)
  have dig: "map_of (seal_event h x) ''event_sha256'' = Some (JStr (h (canonical_event_bytes x)))" for x
    by (simp add: seal_event_def dict_simps canonical_event_bytes_def)
  have "seal_event h (seal_event h e) = seal_event h e"
    unfolding seal_event_def [of h "seal_event h e"] unsigned_seal by (simp add: seal_event_def)
  moreover have "norm (JObj (unsigned e)) = norm (JObj (unsigned f))
      \<longleftrightarrow> canonical_event_bytes e = canonical_event_bytes f"
    unfolding canonical_event_bytes_def using canonical_bytes_iff [OF assms] by blast
  ultimately show ?thesis unfolding bytes dig by blast
qed

theorem sealed_event_binds_its_content_witness:
  "map_of (seal_event (\<lambda>b. digit (length b mod 10) # []) [(''run_id'', JStr ''r''), (''event_sha256'', JStr ''old'')])
     ''event_sha256'' = Some (JStr ''5'')"
proof -
  let ?h = "\<lambda>b. digit (length b mod 10) # []"
  let ?e = "[(''run_id'', JStr ''r''), (''event_sha256'', JStr ''old'')]"
  have ok: "json_ok id (JObj (unsigned ?e))" by code_simp
  have "?h (canonical_event_bytes (seal_event ?h ?e)) = ''5''" by code_simp
  then show ?thesis
    using conjunct1 [OF sealed_event_binds_its_content [OF ok ok, of ?h]] by simp
qed

end
