(* ===== verification/Workflows.thy ===== *)
theory Workflows
  imports Event_Types Canonical
begin

text \<open>
  The registered workflows, the transitions they allow and the authority of each actor role, from
  \<^verbatim>\<open>kernel/ledger/workflows.py\<close>.  A definition carries the digest of its own canonical JSON;
  the hash function \<open>h\<close> is a parameter.
\<close>

section \<open>Definitions\<close>

record transition_definition =
  td_transition_id :: ident
  td_from_stages :: "ident list"
  td_to_stage :: ident
  td_coherent_checkpoint :: bool

record workflow_definition =
  wf_definition_id :: ident
  wf_definition_version :: ident
  wf_stages :: "ident list"
  wf_terminal_stages :: "ident list"
  wf_transitions :: "transition_definition list"
  wf_sha256 :: sha256

definition internally_consistent :: "workflow_definition \<Rightarrow> (string, workflow_definition) result" where
  "internally_consistent w = (let stages = set (wf_stages w) in
     guard (card stages \<noteq> length (wf_stages w)) ''workflow stages must be unique''
    (guard (\<not> set (wf_terminal_stages w) \<subseteq> stages) ''terminal stages must be registered''
    (guard (\<not> distinct (map td_transition_id (wf_transitions w)))
       ''workflow transition IDs must be unique''
    (guard (list_ex (\<lambda>t. \<not> set (td_from_stages t) \<subseteq> stages \<or> td_to_stage t \<notin> stages)
        (wf_transitions w)) ''transition stages must be registered'' (Inr w)))))"

definition transition :: "ident \<Rightarrow> ident list \<Rightarrow> ident \<Rightarrow> bool \<Rightarrow> transition_definition" where
  "transition t fs s c = \<lparr> td_transition_id = t, td_from_stages = fs, td_to_stage = s,
                           td_coherent_checkpoint = c \<rparr>"

definition json_strings :: "string list \<Rightarrow> json" where
  "json_strings xs = JArr (map JStr xs)"

definition transition_json :: "transition_definition \<Rightarrow> json" where
  "transition_json t = JObj
     [(''transition_id'', JStr (td_transition_id t)),
      (''from_stages'', json_strings (td_from_stages t)),
      (''to_stage'', JStr (td_to_stage t)),
      (''coherent_checkpoint'', JBool (td_coherent_checkpoint t))]"

definition workflow_json :: "workflow_definition \<Rightarrow> json" where
  "workflow_json w = JObj
     [(''definition_id'', JStr (wf_definition_id w)),
      (''definition_version'', JStr (wf_definition_version w)),
      (''stages'', json_strings (wf_stages w)),
      (''terminal_stages'', json_strings (wf_terminal_stages w)),
      (''transitions'', JArr (map transition_json (wf_transitions w)))]"

definition workflow_definition_sha256 :: "(string \<Rightarrow> sha256) \<Rightarrow> workflow_definition \<Rightarrow> sha256" where
  "workflow_definition_sha256 h w = h (canonical_json_bytes (workflow_json w))"

definition ZERO_HASH :: sha256 where
  "ZERO_HASH = replicate 64 (CHR ''0'')"

definition DRAFT :: workflow_definition where
  "DRAFT =
     \<lparr> wf_definition_id = ''core-research.v1'', wf_definition_version = ''v1.0.0'',
       wf_stages = [''initialized'', ''intake'', ''work'', ''review'', ''completed'', ''aborted''],
       wf_terminal_stages = [''completed'', ''aborted''],
       wf_transitions =
         [transition ''start'' [''initialized''] ''intake'' False,
          transition ''begin_work'' [''intake''] ''work'' False,
          transition ''request_review'' [''work''] ''review'' True,
          transition ''revise'' [''review''] ''work'' False,
          transition ''complete'' [''review''] ''completed'' True,
          transition ''abort'' [''initialized'', ''intake'', ''work'', ''review''] ''aborted'' False],
       wf_sha256 = ZERO_HASH \<rparr>"

definition CORE_WORKFLOW :: "(string \<Rightarrow> sha256) \<Rightarrow> workflow_definition" where
  "CORE_WORKFLOW h = DRAFT\<lparr>wf_sha256 := workflow_definition_sha256 h DRAFT\<rparr>"

definition PHASE4_DRAFT :: workflow_definition where
  "PHASE4_DRAFT =
     \<lparr> wf_definition_id = ''orchestration.phase4.v1'', wf_definition_version = ''v1.0.0'',
       wf_stages = [''initialized'', ''preparing'', ''prepared'', ''dispatching'',
         ''proposal_admission'', ''formal_review'', ''gate_resolution'', ''completed'', ''blocked'',
         ''aborted''],
       wf_terminal_stages = [''completed'', ''blocked'', ''aborted''],
       wf_transitions =
         [transition ''prepare'' [''initialized''] ''preparing'' False,
          transition ''freeze'' [''preparing''] ''prepared'' False,
          transition ''dispatch'' [''prepared''] ''dispatching'' False,
          transition ''collect_proposals'' [''dispatching''] ''proposal_admission'' False,
          transition ''begin_review'' [''proposal_admission''] ''formal_review'' True,
          transition ''resolve_gate'' [''formal_review''] ''gate_resolution'' True,
          transition ''complete'' [''gate_resolution''] ''completed'' True,
          transition ''block'' [''preparing'', ''prepared'', ''dispatching'', ''proposal_admission'',
            ''formal_review'', ''gate_resolution''] ''blocked'' False,
          transition ''revise'' [''gate_resolution'', ''blocked''] ''preparing'' False,
          transition ''abort'' [''initialized'', ''preparing'', ''prepared'', ''dispatching'',
            ''proposal_admission'', ''formal_review'', ''gate_resolution'', ''blocked''] ''aborted'' False],
       wf_sha256 = ZERO_HASH \<rparr>"

definition PHASE4_WORKFLOW :: "(string \<Rightarrow> sha256) \<Rightarrow> workflow_definition" where
  "PHASE4_WORKFLOW h = PHASE4_DRAFT\<lparr>wf_sha256 := workflow_definition_sha256 h PHASE4_DRAFT\<rparr>"

definition PHASE4_WORKFLOW_ID :: ident where
  "PHASE4_WORKFLOW_ID = ''orchestration.phase4.v1''"

definition LEGACY_WORKFLOW_ID :: ident where
  "LEGACY_WORKFLOW_ID = ''academic-pipeline.legacy-v1''"

definition WORKFLOW_REGISTRY :: "(string \<Rightarrow> sha256) \<Rightarrow> (ident, workflow_definition) dict" where
  "WORKFLOW_REGISTRY h =
     [(''core-research.v1'', CORE_WORKFLOW h), (LEGACY_WORKFLOW_ID, CORE_WORKFLOW h),
      (PHASE4_WORKFLOW_ID, PHASE4_WORKFLOW h)]"

section \<open>Lookups\<close>

definition require_workflow ::
  "(string \<Rightarrow> sha256) \<Rightarrow> ident \<Rightarrow> (py_error, workflow_definition) result" where
  "require_workflow h w =
     (case dget (WORKFLOW_REGISTRY h) w of
        Some d \<Rightarrow> Inr d
      | None \<Rightarrow> Inl (WorkflowDefinitionError (''unknown workflow definition: '' @ w)))"

definition legal_transitions ::
  "(string \<Rightarrow> sha256) \<Rightarrow> ident \<Rightarrow> ident \<Rightarrow> (py_error, ident list) result" where
  "legal_transitions h w stage =
     rbind (require_workflow h w) (\<lambda>d.
       guard (stage \<notin> set (wf_stages d)) (WorkflowDefinitionError (''unknown workflow stage: '' @ stage))
         (Inr (map td_transition_id
           (filter (\<lambda>t. stage \<in> set (td_from_stages t)) (wf_transitions d)))))"

definition py_repr :: "string \<Rightarrow> string" where
  "py_repr s = CHR 0x27 # s @ [CHR 0x27]"

definition require_transition ::
  "(string \<Rightarrow> sha256) \<Rightarrow> ident \<Rightarrow> ident \<Rightarrow> ident \<Rightarrow> (py_error, transition_definition) result" where
  "require_transition h w stage tid =
     rbind (require_workflow h w) (\<lambda>d.
       case List.find (\<lambda>t. td_transition_id t = tid \<and> stage \<in> set (td_from_stages t))
              (wf_transitions d) of
         Some t \<Rightarrow> Inr t
       | None \<Rightarrow> Inl (WorkflowDefinitionError
           (''transition '' @ py_repr tid @ '' is not legal from stage '' @ py_repr stage)))"

section \<open>Authority\<close>

datatype actor_role = Parent_control_plane | Operator | Worker | Hook

datatype category =
  Cat_initialization | Cat_baseline | Cat_lifecycle | Cat_human_decision | Cat_attempt | Cat_artifact
| Cat_passport | Cat_resume | Cat_recovery | Cat_orchestration | Cat_execution_provenance

primrec AUTHORITY :: "category \<Rightarrow> actor_role list" where
  "AUTHORITY Cat_initialization = [Parent_control_plane]"
| "AUTHORITY Cat_baseline = [Parent_control_plane]"
| "AUTHORITY Cat_lifecycle = [Parent_control_plane]"
| "AUTHORITY Cat_human_decision = [Parent_control_plane, Operator]"
| "AUTHORITY Cat_attempt = [Parent_control_plane]"
| "AUTHORITY Cat_artifact = [Parent_control_plane]"
| "AUTHORITY Cat_passport = [Parent_control_plane]"
| "AUTHORITY Cat_resume = [Operator]"
| "AUTHORITY Cat_recovery = [Operator]"
| "AUTHORITY Cat_orchestration = [Parent_control_plane]"
| "AUTHORITY Cat_execution_provenance = [Parent_control_plane]"

definition actor_can_commit :: "actor_role \<Rightarrow> category \<Rightarrow> bool" where
  "actor_can_commit r c = (r \<in> set (AUTHORITY c))"

definition category_of_prefix :: "(string, category) dict" where
  "category_of_prefix =
     [(''lifecycle'', Cat_lifecycle), (''human_decision'', Cat_human_decision),
      (''attempt'', Cat_attempt), (''artifact'', Cat_artifact), (''passport'', Cat_passport),
      (''resume'', Cat_resume), (''recovery'', Cat_recovery)]"

definition event_category :: "event_type \<Rightarrow> (py_error, category) result" where
  "event_category t =
     (if t \<in> set EXECUTION_PROVENANCE_EVENT_TYPES then Inr Cat_execution_provenance
      else if t \<in> set (RESEARCH_ARTIFACT_EVENT_TYPES @ RESEARCH_MEMORY_EVENT_TYPES
                       @ RESEARCH_LEARNING_EVENT_TYPES) then Inr Cat_orchestration
      else if event_name t = ''run.initialized'' then Inr Cat_initialization
      else if event_name t = ''baseline.probe_recorded'' then Inr Cat_baseline
      else if t \<in> set PHASE4_EVENT_TYPES then Inr Cat_orchestration
      else case dget category_of_prefix (takeWhile (\<lambda>c. c \<noteq> CHR ''.'') (event_name t)) of
             Some c \<Rightarrow> Inr c
           | None \<Rightarrow> Inl (WorkflowDefinitionError (''unknown event category: '' @ event_name t)))"

definition authorize_phase4_transition ::
  "(string \<Rightarrow> sha256) \<Rightarrow> ident \<Rightarrow> ident \<Rightarrow> ident \<Rightarrow> actor_role \<Rightarrow> ident list \<Rightarrow> ident option
    \<Rightarrow> (py_error, transition_definition) result" where
  "authorize_phase4_transition h w stage tid role blockers mode =
     guard (w \<noteq> PHASE4_WORKFLOW_ID)
       (WorkflowDefinitionError ''Phase 4 transitions require the Phase 4 workflow definition'')
    (guard (role \<noteq> Parent_control_plane)
       (WorkflowDefinitionError ''Phase 4 transitions require the parent control plane'')
    (rbind (require_transition h w stage tid) (\<lambda>t.
     guard (td_to_stage t = ''completed'' \<and> blockers \<noteq> [])
       (WorkflowDefinitionError ''terminal completion is blocked by pending blocker(s)'')
    (guard (td_to_stage t = ''completed'' \<and> mode \<in> {Some ''degraded_inline'', Some ''blocked''})
       (WorkflowDefinitionError ''formal completion is not legal in degraded or blocked mode'')
       (Inr t)))))"

section \<open>Facts about the registry\<close>

lemma drafts_consistent: "is_ok (internally_consistent DRAFT)" "is_ok (internally_consistent PHASE4_DRAFT)"
  by code_simp+

lemma consistent_sha256: "is_ok (internally_consistent (w\<lparr>wf_sha256 := x\<rparr>)) = is_ok (internally_consistent w)"
  by (simp add: internally_consistent_def Let_def is_ok_iff guard_simps)

lemma require_workflow_cases:
  assumes "require_workflow h w = Inr d"
  obtains "w \<in> {''core-research.v1'', LEGACY_WORKFLOW_ID}" "d = CORE_WORKFLOW h"
  | "w = PHASE4_WORKFLOW_ID" "d = PHASE4_WORKFLOW h"
  using assms by (auto simp: require_workflow_def WORKFLOW_REGISTRY_def split: if_splits option.splits)

lemma registered_consistent:
  assumes "require_workflow h w = Inr d"
  shows "is_ok (internally_consistent d)" and "''initialized'' \<in> set (wf_stages d)"
proof -
  have core: "is_ok (internally_consistent (CORE_WORKFLOW h))"
    and p4: "is_ok (internally_consistent (PHASE4_WORKFLOW h))"
    using drafts_consistent by (simp_all only: CORE_WORKFLOW_def PHASE4_WORKFLOW_def consistent_sha256)
  have "''initialized'' \<in> set (wf_stages (CORE_WORKFLOW h))"
    "''initialized'' \<in> set (wf_stages (PHASE4_WORKFLOW h))"
    by (simp_all add: CORE_WORKFLOW_def PHASE4_WORKFLOW_def DRAFT_def PHASE4_DRAFT_def)
  with core p4 show "is_ok (internally_consistent d)" "''initialized'' \<in> set (wf_stages d)"
    using require_workflow_cases [OF assms] by metis+
qed

lemma require_transition_Inr:
  assumes "require_transition h w stage tid = Inr t"
  shows "\<exists>d. require_workflow h w = Inr d \<and> t \<in> set (wf_transitions d) \<and> td_transition_id t = tid
           \<and> stage \<in> set (td_from_stages t) \<and> td_to_stage t \<in> set (wf_stages d)
           \<and> stage \<in> set (wf_stages d)"
proof -
  obtain d where d: "require_workflow h w = Inr d"
    and f: "List.find (\<lambda>t. td_transition_id t = tid \<and> stage \<in> set (td_from_stages t))
              (wf_transitions d) = Some t"
    using assms by (auto simp: require_transition_def guard_simps split: option.splits)
  from find_SomeD [OF f] have t: "t \<in> set (wf_transitions d)" "td_transition_id t = tid"
    "stage \<in> set (td_from_stages t)" by auto
  moreover have "td_to_stage t \<in> set (wf_stages d) \<and> set (td_from_stages t) \<subseteq> set (wf_stages d)"
    using registered_consistent(1) [OF d] t(1)
    by (auto simp: internally_consistent_def Let_def is_ok_iff guard_simps list_ex_iff)
  ultimately show ?thesis using d by blast
qed

lemma find_transition_unique:
  assumes "distinct (map td_transition_id ts)" and "t \<in> set ts" and "td_transition_id t = tid"
    and "P t"
  shows "List.find (\<lambda>t. td_transition_id t = tid \<and> P t) ts = Some t"
  using assms by (induction ts) auto

lemma workflow_ids:
  "require_workflow h w = Inr d \<Longrightarrow> w \<in> {''core-research.v1'', LEGACY_WORKFLOW_ID, PHASE4_WORKFLOW_ID}"
  by (erule require_workflow_cases) auto

lemma drafts_final:
  "t \<in> set (wf_transitions DRAFT) \<Longrightarrow> ''completed'' \<notin> set (td_from_stages t) \<and> ''aborted'' \<notin> set (td_from_stages t)"
  "t \<in> set (wf_transitions PHASE4_DRAFT) \<Longrightarrow> ''completed'' \<notin> set (td_from_stages t) \<and> ''aborted'' \<notin> set (td_from_stages t)"
proof -
  have "\<forall>t \<in> set (wf_transitions DRAFT @ wf_transitions PHASE4_DRAFT).
      ''completed'' \<notin> set (td_from_stages t) \<and> ''aborted'' \<notin> set (td_from_stages t)" by code_simp
  then show "t \<in> set (wf_transitions DRAFT) \<Longrightarrow> ''completed'' \<notin> set (td_from_stages t) \<and> ''aborted'' \<notin> set (td_from_stages t)"
    "t \<in> set (wf_transitions PHASE4_DRAFT) \<Longrightarrow> ''completed'' \<notin> set (td_from_stages t) \<and> ''aborted'' \<notin> set (td_from_stages t)"
    by auto
qed

definition abortable :: "workflow_definition \<Rightarrow> ident \<Rightarrow> bool" where
  "abortable d s = (List.find (\<lambda>t. td_transition_id t = ''abort'' \<and> s \<in> set (td_from_stages t))
                     (wf_transitions d) \<noteq> None)"

lemma drafts_abortable:
  "\<forall>s \<in> set (wf_stages DRAFT). s = ''completed'' \<or> s = ''aborted'' \<or> abortable DRAFT s"
  "\<forall>s \<in> set (wf_stages PHASE4_DRAFT). s = ''completed'' \<or> s = ''aborted'' \<or> abortable PHASE4_DRAFT s"
  by code_simp+

lemma registered_facts:
  assumes "require_workflow h w = Inr d"
  shows "t \<in> set (wf_transitions d) \<Longrightarrow> ''completed'' \<notin> set (td_from_stages t) \<and> ''aborted'' \<notin> set (td_from_stages t)"
    and "s \<in> set (wf_stages d) \<Longrightarrow> s \<notin> {''completed'', ''aborted''} \<Longrightarrow> abortable d s"
proof -
  obtain x where "d = DRAFT\<lparr>wf_sha256 := x\<rparr> \<or> d = PHASE4_DRAFT\<lparr>wf_sha256 := x\<rparr>"
    using require_workflow_cases [OF assms] CORE_WORKFLOW_def PHASE4_WORKFLOW_def by metis
  then show "t \<in> set (wf_transitions d) \<Longrightarrow> ''completed'' \<notin> set (td_from_stages t) \<and> ''aborted'' \<notin> set (td_from_stages t)"
    and "s \<in> set (wf_stages d) \<Longrightarrow> s \<notin> {''completed'', ''aborted''} \<Longrightarrow> abortable d s"
    using drafts_final drafts_abortable by (auto simp: abortable_def)
qed

section \<open>Authority and legality\<close>


text \<open>
  C32.  The listed transitions are the legal ones.  For every registered workflow and every stage of
  it, \<open>legal_transitions\<close> succeeds and lists exactly the transition names that \<open>require_transition\<close>
  accepts there, each leading to a stage of the same workflow; so what the status reports as next is
  what the reducer lets through.
\<close>

theorem legal_transitions_are_exactly_the_accepted_ones:
  assumes "require_workflow h w = Inr d" and "stage \<in> set (wf_stages d)"
  shows "\<exists>ts. legal_transitions h w stage = Inr ts \<and> distinct ts
     \<and> (\<forall>tid. tid \<in> set ts \<longleftrightarrow>
          (\<exists>t. require_transition h w stage tid = Inr t \<and> td_to_stage t \<in> set (wf_stages d)))"
proof -
  let ?ok = "\<lambda>t. stage \<in> set (td_from_stages t)"
  have dist: "distinct (map td_transition_id (wf_transitions d))"
    using registered_consistent(1) [OF assms(1)]
    by (simp add: internally_consistent_def Let_def is_ok_iff guard_simps)
  have legal: "legal_transitions h w stage
      = Inr (map td_transition_id (filter ?ok (wf_transitions d)))"
    using assms by (simp add: legal_transitions_def)
  have req: "tid \<in> set (map td_transition_id (filter ?ok (wf_transitions d))) \<longleftrightarrow>
      (\<exists>t. require_transition h w stage tid = Inr t \<and> td_to_stage t \<in> set (wf_stages d))" for tid
  proof
    assume "tid \<in> set (map td_transition_id (filter ?ok (wf_transitions d)))"
    then obtain t where t: "t \<in> set (wf_transitions d)" "?ok t" "td_transition_id t = tid" by auto
    then have "require_transition h w stage tid = Inr t"
      using assms(1) find_transition_unique [OF dist t(1,3), of ?ok]
      by (simp add: require_transition_def)
    then show "\<exists>t. require_transition h w stage tid = Inr t \<and> td_to_stage t \<in> set (wf_stages d)"
      using require_transition_Inr assms(1) by (metis Inr_inject)
  next
    assume "\<exists>t. require_transition h w stage tid = Inr t \<and> td_to_stage t \<in> set (wf_stages d)"
    then obtain t where t: "require_transition h w stage tid = Inr t" by blast
    from require_transition_Inr [OF this] assms(1)
    show "tid \<in> set (map td_transition_id (filter ?ok (wf_transitions d)))" by force
  qed
  have "distinct (map td_transition_id (filter ?ok (wf_transitions d)))"
    using dist by (rule distinct_map_filter)
  with legal req show ?thesis by blast
qed

theorem legal_transitions_are_exactly_the_accepted_ones_witness:
  "\<exists>ts. legal_transitions (\<lambda>_. []) PHASE4_WORKFLOW_ID ''blocked'' = Inr ts
     \<and> ts = [''revise'', ''abort''] \<and> distinct ts"
proof -
  have d: "require_workflow (\<lambda>_. []) PHASE4_WORKFLOW_ID = Inr (PHASE4_WORKFLOW (\<lambda>_. []))"
    by (simp add: require_workflow_def WORKFLOW_REGISTRY_def PHASE4_WORKFLOW_ID_def
        LEGACY_WORKFLOW_ID_def)
  have s: "''blocked'' \<in> set (wf_stages (PHASE4_WORKFLOW (\<lambda>_. [])))"
    by (simp add: PHASE4_WORKFLOW_def PHASE4_DRAFT_def)
  have l: "legal_transitions (\<lambda>_. []) PHASE4_WORKFLOW_ID ''blocked'' = Inr [''revise'', ''abort'']"
    using d by (simp add: legal_transitions_def PHASE4_WORKFLOW_def PHASE4_DRAFT_def transition_def)
  show ?thesis
    using legal_transitions_are_exactly_the_accepted_ones [OF d s] l by auto
qed

text \<open>
  C35.  Completion is final, being blocked is not.  In every registered workflow no transition leaves
  \<^verbatim>\<open>completed\<close> or \<^verbatim>\<open>aborted\<close> and every other stage can be aborted or left; but the Phase 4 workflow,
  which lists \<^verbatim>\<open>blocked\<close> among its terminal stages, lets a blocked run be revised and aborted.
\<close>

theorem completed_and_aborted_are_absorbing_blocked_is_not:
  "(\<forall>w stage tid. stage \<in> {''completed'', ''aborted''} \<longrightarrow> \<not> is_ok (require_transition h w stage tid))
   \<and> (\<forall>w d stage. require_workflow h w = Inr d \<longrightarrow> stage \<in> set (wf_stages d) \<longrightarrow>
        stage \<notin> {''completed'', ''aborted''} \<longrightarrow> is_ok (require_transition h w stage ''abort''))
   \<and> ''blocked'' \<in> set (wf_terminal_stages (PHASE4_WORKFLOW h))
   \<and> is_ok (require_transition h PHASE4_WORKFLOW_ID ''blocked'' ''revise'')"
proof (intro conjI allI impI)
  fix w stage tid :: ident
  assume fin: "stage \<in> {''completed'', ''aborted''}"
  show "\<not> is_ok (require_transition h w stage tid)"
  proof
    assume "is_ok (require_transition h w stage tid)"
    then obtain t where "require_transition h w stage tid = Inr t" by (auto simp: is_ok_iff)
    from require_transition_Inr [OF this] obtain d where d: "require_workflow h w = Inr d"
      "t \<in> set (wf_transitions d)" "stage \<in> set (td_from_stages t)" by blast
    then show False using registered_facts(1) [OF d(1,2)] fin by auto
  qed
next
  fix w d stage
  assume d: "require_workflow h w = Inr d" and s: "stage \<in> set (wf_stages d)"
    and n: "stage \<notin> {''completed'', ''aborted''}"
  show "is_ok (require_transition h w stage ''abort'')"
    using registered_facts(2) [OF d s n] d
    by (auto simp: require_transition_def is_ok_iff abortable_def split: option.split)
next
  show "''blocked'' \<in> set (wf_terminal_stages (PHASE4_WORKFLOW h))"
    by (simp add: PHASE4_WORKFLOW_def PHASE4_DRAFT_def)
  show "is_ok (require_transition h PHASE4_WORKFLOW_ID ''blocked'' ''revise'')"
    by (simp add: require_transition_def require_workflow_def WORKFLOW_REGISTRY_def is_ok_iff
        guard_simps PHASE4_WORKFLOW_ID_def LEGACY_WORKFLOW_ID_def PHASE4_WORKFLOW_def
        PHASE4_DRAFT_def transition_def)
qed

theorem completed_and_aborted_are_absorbing_blocked_is_not_witness:
  "\<not> is_ok (require_transition (\<lambda>_. []) ''core-research.v1'' ''completed'' ''abort'')
   \<and> is_ok (require_transition (\<lambda>_. []) ''core-research.v1'' ''review'' ''abort'')"
proof -
  have d: "require_workflow (\<lambda>_. []) ''core-research.v1'' = Inr (CORE_WORKFLOW (\<lambda>_. []))"
    by (simp add: require_workflow_def WORKFLOW_REGISTRY_def)
  have s: "''review'' \<in> set (wf_stages (CORE_WORKFLOW (\<lambda>_. [])))"
    by (simp add: CORE_WORKFLOW_def DRAFT_def)
  have n: "''review'' \<notin> {''completed'', ''aborted''}" by simp
  have y: "''completed'' \<in> {''completed'', ''aborted''}" by simp
  note c = completed_and_aborted_are_absorbing_blocked_is_not [of "\<lambda>_. []"]
  from c have a: "\<And>w stage tid. stage \<in> {''completed'', ''aborted''}
      \<Longrightarrow> \<not> is_ok (require_transition (\<lambda>_. []) w stage tid)" by blast
  from c have b: "\<And>w d stage. require_workflow (\<lambda>_. []) w = Inr d \<Longrightarrow> stage \<in> set (wf_stages d)
      \<Longrightarrow> stage \<notin> {''completed'', ''aborted''} \<Longrightarrow> is_ok (require_transition (\<lambda>_. []) w stage ''abort'')"
    by blast
  show ?thesis using a [OF y] b [OF d s n] by blast
qed

end
