(* ===== verification/Utc.thy ===== *)
theory Utc
  imports Json
begin

text \<open>
  UTC timestamps.  The kernel stores them as strings of the fixed shape \<^verbatim>\<open>YYYY-MM-DDTHH:MM:SSZ\<close>
  (the pattern of \<^verbatim>\<open>UtcTimestamp\<close> in \<^verbatim>\<open>kernel/state/models.py\<close>), compares some of them as
  strings and parses others with \<open>_parse_utc\<close> (\<^verbatim>\<open>kernel/ledger/reducer.py\<close>, \<^verbatim>\<open>datetime.strptime\<close>).
  This theory gives the parser and shows that the two orders are the same on what parses.
\<close>

section \<open>Instants\<close>

datatype instant =
  Instant (year: nat) (month: nat) (day: nat) (hour: nat) (minute: nat) (second: nat)

definition instant_key :: "instant \<Rightarrow> nat \<times> nat \<times> nat \<times> nat \<times> nat \<times> nat" where
  "instant_key i = (year i, month i, day i, hour i, minute i, second i)"

lemma instant_key_inject: "instant_key i = instant_key j \<longleftrightarrow> i = j"
  by (cases i; cases j) (simp add: instant_key_def)

instantiation instant :: linorder
begin

definition less_eq_instant :: "instant \<Rightarrow> instant \<Rightarrow> bool" where
  "i \<le> j \<longleftrightarrow> instant_key i \<le> instant_key j"

definition less_instant :: "instant \<Rightarrow> instant \<Rightarrow> bool" where
  "i < j \<longleftrightarrow> instant_key i < instant_key j"

instance
proof
  fix i j k :: instant
  show "i < j \<longleftrightarrow> i \<le> j \<and> \<not> j \<le> i" by (auto simp: less_instant_def less_eq_instant_def)
  show "i \<le> i" by (simp add: less_eq_instant_def)
  show "i \<le> j \<Longrightarrow> j \<le> k \<Longrightarrow> i \<le> k" unfolding less_eq_instant_def by (rule order_trans)
  show "i \<le> j \<Longrightarrow> j \<le> i \<Longrightarrow> i = j"
    unfolding less_eq_instant_def instant_key_inject [symmetric] by (rule order_antisym)
  show "i \<le> j \<or> j \<le> i" unfolding less_eq_instant_def by (rule linear)
qed

end

section \<open>Calendar\<close>

definition leap_year :: "nat \<Rightarrow> bool" where
  "leap_year y = (y mod 4 = 0 \<and> (y mod 100 \<noteq> 0 \<or> y mod 400 = 0))"

definition days_in_month :: "nat \<Rightarrow> nat \<Rightarrow> nat" where
  "days_in_month y m =
     (if m = 2 then (if leap_year y then 29 else 28)
      else if m \<in> {4, 6, 9, 11} then 30 else 31)"

definition valid_date :: "nat \<Rightarrow> nat \<Rightarrow> nat \<Rightarrow> bool" where
  "valid_date y m d = (1 \<le> y \<and> 1 \<le> m \<and> m \<le> 12 \<and> 1 \<le> d \<and> d \<le> days_in_month y m)"

section \<open>Parsing\<close>

text \<open>\<open>digits n s\<close> reads \<open>n\<close> decimal digits.\<close>

definition digits :: "nat \<Rightarrow> string \<Rightarrow> (nat \<times> string) option" where
  "digits n s =
     (if length (take n s) = n \<and> list_all is_digit (take n s)
      then Some (digits_value (take n s), drop n s) else None)"

definition lit :: "char \<Rightarrow> string \<Rightarrow> string option" where
  "lit c s = (case s of [] \<Rightarrow> None | d # r \<Rightarrow> if d = c then Some r else None)"

definition parse_utc :: "timestamp \<Rightarrow> instant option" where
  "parse_utc s =
     Option.bind (digits 4 s) (\<lambda>(y, s). Option.bind (lit (CHR ''-'') s) (\<lambda>s.
     Option.bind (digits 2 s) (\<lambda>(mo, s). Option.bind (lit (CHR ''-'') s) (\<lambda>s.
     Option.bind (digits 2 s) (\<lambda>(d, s). Option.bind (lit (CHR ''T'') s) (\<lambda>s.
     Option.bind (digits 2 s) (\<lambda>(h, s). Option.bind (lit (CHR '':'') s) (\<lambda>s.
     Option.bind (digits 2 s) (\<lambda>(mi, s). Option.bind (lit (CHR '':'') s) (\<lambda>s.
     Option.bind (digits 2 s) (\<lambda>(sec, s). Option.bind (lit (CHR ''Z'') s) (\<lambda>s.
       if s = [] \<and> valid_date y mo d \<and> h < 24 \<and> mi < 60 \<and> sec < 60
       then Some (Instant y mo d h mi sec) else None))))))))))))"

definition parse_utc_or_raise :: "timestamp \<Rightarrow> (py_error, instant) result" where
  "parse_utc_or_raise s =
     (case parse_utc s of
        Some i \<Rightarrow> Inr i
      | None \<Rightarrow> Inl (PyValueError ''time data does not match format''))"

definition valid_iso_date :: "string \<Rightarrow> bool" where
  "valid_iso_date s = (parse_utc (s @ ''T00:00:00Z'') \<noteq> None)"

section \<open>The order of the strings is the order of the instants\<close>

lemma list_less_append:
  fixes a b c d :: "'a :: linorder list"
  assumes "length a = length c"
  shows "a @ b < c @ d \<longleftrightarrow> a < c \<or> a = c \<and> b < d"
  using assms by (induction a c rule: list_induct2) auto

lemma digits_value_Cons:
  "digits_value (c # s) = (code c - 48) * 10 ^ length s + digits_value s"
proof (induction s rule: rev_induct)
  case (snoc d s)
  have "digits_value ((c # s) @ [d]) = 10 * digits_value (c # s) + (code d - 48)"
    "digits_value (s @ [d]) = 10 * digits_value s + (code d - 48)"
    by (simp_all add: digits_value_def)
  with snoc.IH show ?case by (simp add: algebra_simps)
qed (simp add: digits_value_def)

lemma digits_value_bound: "list_all is_digit s \<Longrightarrow> digits_value s < 10 ^ length s"
proof (induction s)
  case (Cons c s)
  have "code c \<le> 57" using Cons.prems by (simp add: is_digit_def)
  then have "code c - 48 \<le> 9" by linarith
  then have "(code c - 48) * 10 ^ length s \<le> 9 * 10 ^ length s" by (rule mult_le_mono1)
  moreover have "digits_value s < 10 ^ length s" using Cons by simp
  ultimately have "(code c - 48) * 10 ^ length s + digits_value s < 10 * 10 ^ length s" by linarith
  then show ?case by (simp add: digits_value_Cons)
qed (simp add: digits_value_def)

lemma digits_order:
  assumes "length a = length b" and "list_all is_digit a" and "list_all is_digit b"
  shows "(a < b \<longleftrightarrow> digits_value a < digits_value b) \<and> (a = b \<longleftrightarrow> digits_value a = digits_value b)"
  using assms
proof (induction a b rule: list_induct2)
  case (Cons c a d b)
  let ?u = "code c - 48" and ?v = "code d - 48" and ?p = "10 ^ length b :: nat"
  have cd: "c < d \<longleftrightarrow> ?u < ?v" "c = d \<longleftrightarrow> ?u = ?v"
  proof -
    have "48 \<le> code c" "48 \<le> code d" using Cons.prems by (simp_all add: is_digit_def)
    then have "?u < ?v \<longleftrightarrow> code c < code d" "?u = ?v \<longleftrightarrow> code c = code d" by linarith+
    then show "c < d \<longleftrightarrow> ?u < ?v" "c = d \<longleftrightarrow> ?u = ?v" by (simp_all add: code_def less_char_def)
  qed
  have A: "digits_value a < ?p" and B: "digits_value b < ?p"
    using digits_value_bound [of a] digits_value_bound [of b] Cons by simp_all
  have less: "?u * ?p + digits_value a < ?v * ?p + digits_value b" if "?u < ?v"
  proof -
    from that have "Suc ?u * ?p \<le> ?v * ?p" by (intro mult_le_mono1) simp
    with A show ?thesis by simp
  qed
  have greater: "?v * ?p + digits_value b < ?u * ?p + digits_value a" if "?v < ?u"
  proof -
    from that have "Suc ?v * ?p \<le> ?u * ?p" by (intro mult_le_mono1) simp
    with B show ?thesis by simp
  qed
  show ?case
    using Cons.IH Cons.prems less greater cd Cons.hyps
    by (cases ?u ?v rule: linorder_cases) (auto simp: digits_value_Cons)
qed simp

lemma digits_SomeE:
  assumes "digits n s = Some (v, r)"
  obtains a where "s = a @ r" "length a = n" "list_all is_digit a" "v = digits_value a"
  using assms by (auto simp: digits_def split: if_splits intro: that [of "take n s"])

lemma lit_SomeE: "lit c s = Some r \<Longrightarrow> s = c # r"
  by (auto simp: lit_def split: list.splits if_splits)

lemma digits_step:
  assumes "digits n s = Some (v, r)" and "digits n t = Some (w, q)"
  shows "s < t \<longleftrightarrow> v < w \<or> v = w \<and> r < q"
proof -
  obtain a where a: "s = a @ r" "length a = n" "list_all is_digit a" "v = digits_value a"
    using assms(1) by (rule digits_SomeE)
  obtain b where b: "t = b @ q" "length b = n" "list_all is_digit b" "w = digits_value b"
    using assms(2) by (rule digits_SomeE)
  have len: "length a = length b" using a b by simp
  show ?thesis
    unfolding a(1,4) b(1,4) list_less_append [OF len] using digits_order [OF len a(3) b(3)] by blast
qed

lemma lit_step:
  assumes "lit c s = Some r" and "lit c t = Some q"
  shows "s < t \<longleftrightarrow> r < q"
  using lit_SomeE [OF assms(1)] lit_SomeE [OF assms(2)] by simp

text \<open>
  C38.  Comparing two timestamps as strings, as the gate, authority and provenance checks do, is
  comparing the instants they denote, as the Passport checks do: on timestamps that parse the two
  orders agree, and different timestamps denote different instants.
\<close>

theorem timestamp_order_is_chronological:
  assumes "parse_utc s = Some i" and "parse_utc t = Some j"
  shows "(s < t \<longleftrightarrow> i < j) \<and> (s = t \<longleftrightarrow> i = j)"
proof -
  have less: "u < v \<longleftrightarrow> a < b" if "parse_utc u = Some a" "parse_utc v = Some b" for u v a b
    using that
    by (auto simp: parse_utc_def Option.bind_eq_Some_conv digits_step lit_step less_instant_def
        instant_key_def split: if_splits)
  have "s < t \<longleftrightarrow> i < j" and "t < s \<longleftrightarrow> j < i" using less assms by blast+
  then show ?thesis using assms by (metis linorder_less_linear option.inject less_irrefl)
qed

theorem timestamp_order_is_chronological_witness:
  "parse_utc ''2024-02-29T23:59:59Z'' = Some (Instant 2024 2 29 23 59 59)
   \<and> ''2024-02-29T23:59:59Z'' < ''2024-03-01T00:00:00Z''"
proof -
  have a: "parse_utc ''2024-02-29T23:59:59Z'' = Some (Instant 2024 2 29 23 59 59)" by code_simp
  have b: "parse_utc ''2024-03-01T00:00:00Z'' = Some (Instant 2024 3 1 0 0 0)" by code_simp
  show ?thesis
    using a timestamp_order_is_chronological [OF a b]
    by (simp add: less_instant_def instant_key_def)
qed

end
