(* ===== verification/Payloads.thy ===== *)
theory Payloads
  imports Panels Utc
begin

text \<open>
  The event payloads of \<^verbatim>\<open>kernel/state/models.py\<close>: one record per payload class, record
  extension where the class inherits, and the class's validators.  The richer orchestration records
  that a payload embeds come from \<open>Contracts\<close> and \<open>Panels\<close>.  Patterns and length limits of single
  fields, which the validation library checks, are not repeated.
\<close>

section \<open>Execution provenance payloads\<close>

record computer_language =
  cl_uri :: string
  cl_name :: string
  cl_url :: string
  cl_version :: string

record workflow_source =
  ws_entity_id :: ident
  ws_relative_path :: string
  ws_content_base64 :: "string option"
  ws_sha256 :: "sha256 option"
  ws_programming_language :: "computer_language option"

record execution_step =
  step_step_id :: ident
  step_tool_id :: ident
  step_position :: int

record execution_tool =
  tool_tool_id :: ident
  tool_name :: string
  tool_version :: "string option"

record execution_runtime =
  rt_name :: "string option"
  rt_version :: "string option"
  rt_build_sha256 :: "sha256 option"

record execution_context_accepted =
  ctx_workflow_definition_id :: ident
  ctx_workflow_definition_sha256 :: sha256
  ctx_workflow_source :: workflow_source
  ctx_steps :: "execution_step list"
  ctx_tools :: "execution_tool list"
  ctx_runtime :: execution_runtime

definition context_relations ::
  "execution_context_accepted \<Rightarrow> (string, execution_context_accepted) result" where
  "context_relations c = (let tools = map tool_tool_id (ctx_tools c) in
     guard (\<not> distinct (map step_step_id (ctx_steps c))) ''workflow step IDs must be unique''
    (guard (\<not> distinct tools) ''workflow tool IDs must be unique''
    (guard (list_ex (\<lambda>s. step_tool_id s \<notin> set tools) (ctx_steps c))
       ''workflow step references unknown tool''
    (guard (map step_position (ctx_steps c) \<noteq> map int [1..<length (ctx_steps c) + 1])
       ''workflow steps must be ordered from one'' (Inr c)))))"

record dataset_metadata_accepted =
  dm_name :: string
  dm_description :: string
  dm_date_published :: string
  dm_license :: string
  dm_supersedes_event_id :: "ident option"
  dm_supersedes_event_sha256 :: "sha256 option"
  dm_rationale :: "string option"

definition dataset_metadata_valid ::
  "dataset_metadata_accepted \<Rightarrow> (string, dataset_metadata_accepted) result" where
  "dataset_metadata_valid m = (let linked = (dm_supersedes_event_id m \<noteq> None) in
     guard (length (dm_date_published m) \<noteq> 10 \<or> \<not> valid_iso_date (dm_date_published m))
       ''publication date must be ISO YYYY-MM-DD''
    (guard (linked \<noteq> (dm_supersedes_event_sha256 m \<noteq> None) \<or> linked \<noteq> (dm_rationale m \<noteq> None))
       ''metadata correction needs predecessor ID, digest and rationale'' (Inr m)))"

datatype action_kind = Workflow_action | Tool_action

record execution_action_started =
  act_action_id :: ident
  act_kind :: action_kind
  act_workflow_action_id :: "ident option"
  act_assignment_id :: "ident option"
  act_attempt_id :: "ident option"
  act_step_id :: "ident option"
  act_tool_id :: "ident option"
  act_started_at :: timestamp

definition action_shape ::
  "execution_action_started \<Rightarrow> (string, execution_action_started) result" where
  "action_shape a =
    (let detail = [act_workflow_action_id a, act_assignment_id a, act_attempt_id a, act_step_id a,
                   act_tool_id a] in
     guard (act_kind a = Workflow_action \<and> list_ex (\<lambda>v. v \<noteq> None) detail)
       ''workflow action cannot claim a tool invocation''
    (guard (act_kind a = Tool_action \<and> list_ex (\<lambda>v. v = None) detail)
       ''tool action needs workflow, assignment, attempt, step and tool'' (Inr a)))"

datatype action_outcome = Succeeded | Failed | Cancelled

record execution_action_finished =
  fin_action_id :: ident
  fin_ended_at :: timestamp
  fin_outcome :: action_outcome
  fin_host_agent_id :: "string option"
  fin_host_result_sha256 :: "sha256 option"
  fin_observed_runtime_version :: "string option"
  fin_observed_runtime_sha256 :: "sha256 option"
  fin_observed_transport :: "string option"
  fin_error :: "string option"

datatype direction = Dir_input | Dir_output
datatype source_kind = Src_run_input | Src_proposal | Src_artifact

record execution_artifact_bound =
  bd_entity_id :: ident
  bd_direction :: direction
  bd_action_id :: ident
  bd_assignment_id :: ident
  bd_attempt_id :: ident
  bd_source_kind :: source_kind
  bd_source_event_id :: ident
  bd_source_event_sha256 :: sha256
  bd_source_manifest_sha256 :: "sha256 option"
  bd_relative_path :: string
  bd_content_sha256 :: sha256
  bd_byte_count :: int

definition artifact_bound_valid ::
  "execution_artifact_bound \<Rightarrow> (string, execution_artifact_bound) result" where
  "artifact_bound_valid b =
     rbind (execution_relative_path (bd_relative_path b)) (\<lambda>_.
     guard ((bd_source_kind b = Src_run_input \<and> bd_direction b \<noteq> Dir_input)
          \<or> (bd_source_kind b = Src_proposal \<and> bd_direction b \<noteq> Dir_output))
       ''binding direction and source kind disagree'' (Inr b))"

section \<open>Research learning, memory and artifacts\<close>

datatype learning_scope = Scope_run | Scope_project | Scope_domain | Scope_global

datatype learning_status =
  Ln_recorded | Ln_candidate | Ln_evaluated | Ln_qualified | Ln_rejected | Ln_promoted | Ln_superseded

record research_learning =
  ln_record_id :: ident
  ln_project_id :: ident
  ln_content_digest :: sha256
  ln_scope :: learning_scope
  ln_previous_event_sha256 :: "sha256 option"
  ln_source_event_ids :: "ident list"
  ln_source_digests :: "sha256 list"
  ln_status :: learning_status
  ln_evaluation_receipt_id :: "sha256 option"
  ln_qualification_receipt_id :: "sha256 option"
  ln_approval_artifact_id :: "ident option"
  ln_consent :: bool
  ln_from_scope :: "learning_scope option"
  ln_supporting_projects :: "ident list"
  ln_supporting_runs :: "ident list"
  ln_counterexample_ids :: "ident list"
  ln_successor_id :: "ident option"

datatype memory_kind =
  Mk_context | Mk_handoff | Mk_decision_note | Mk_lesson | Mk_blocker | Mk_experiment_note
| Mk_source_note | Mk_reproduction_note

datatype memory_status = Mst_created | Mst_active | Mst_superseded | Mst_rejected | Mst_distilled
datatype memory_trust = Unreviewed | Advisory | Verified

record research_memory =
  mm_memory_id :: ident
  mm_project_id :: ident
  mm_source_run_id :: ident
  mm_kind :: memory_kind
  mm_scope :: string
  mm_content_digest :: sha256
  mm_document_sha256 :: sha256
  mm_source_harness :: string
  mm_source_event_ids :: "ident list"
  mm_source_artifact_ids :: "ident list"
  mm_previous_memory_event_sha256 :: "sha256 option"
  mm_prior_status :: "memory_status option"
  mm_status :: memory_status
  mm_prior_trust :: "memory_trust option"
  mm_trust :: memory_trust
  mm_successor_memory_id :: "ident option"
  mm_authorization_artifact_id :: "ident option"
  mm_authorization_event_id :: "ident option"
  mm_authorization_sha256 :: "sha256 option"

record artifact_accepted =
  aa_artifact_id :: ident
  aa_manifest_sha256 :: sha256
  aa_artifact_sha256 :: sha256
  aa_attempt_id :: "ident option"
  aa_narrative_report_sha256 :: "sha256 option"

record research_artifact_accepted = artifact_accepted +
  ra_ir_sha256 :: sha256
  ra_renderer_identity_digest :: sha256
  ra_source_event_sha256 :: "sha256 list"
  ra_supersedes :: "ident option"

record research_artifact_stage =
  rst_artifact_id :: ident
  rst_ir_sha256 :: sha256
  rst_renderer_identity_digest :: sha256
  rst_receipt_sha256 :: sha256
  rst_source_event_sha256 :: "sha256 list"

record research_artifact_superseded =
  rsu_artifact_id :: ident
  rsu_supersedes :: ident
  rsu_accepting_event_id :: ident

section \<open>Run lifecycle payloads\<close>

record run_initialized =
  ri_manifest_sha256 :: sha256

record baseline_probe =
  bp_probe_id :: ident
  bp_status_pass :: bool
  bp_summary :: string

record lifecycle_transitioned =
  lt_transition_id :: ident
  lt_from_stage :: ident
  lt_to_stage :: ident

record human_decision_requested =
  hq_decision_id :: ident
  hq_blocker_code :: ident
  hq_starting_revision :: int
  hq_allowed_choices :: "ident list"
  hq_rationale_required :: bool
  hq_source_event_ids :: "ident list"
  hq_unlock_transitions :: "ident list"

definition human_decision_requested_valid ::
  "human_decision_requested \<Rightarrow> (string, human_decision_requested) result" where
  "human_decision_requested_valid r =
     require_unique (hq_allowed_choices r) ''decision values''
    (require_unique (hq_source_event_ids r) ''decision values''
    (require_unique (hq_unlock_transitions r) ''decision values'' (Inr r)))"

record human_decision_resolved =
  hv_decision_id :: ident
  hv_choice :: ident
  hv_rationale :: "string option"

record attempt_started =
  ats_attempt_id :: ident
  ats_base_revision :: int
  ats_consumed_sha256 :: "sha256 list"

datatype close_outcome = Close_completed | Close_failed | Close_cancelled | Close_superseded

record attempt_closed =
  atc_attempt_id :: ident
  atc_outcome :: close_outcome
  atc_proposal_sha256 :: "sha256 option"

datatype checkpoint_kind = Ck_stage_handoff | Ck_human_decision | Ck_explicit | Ck_recovery

record passport_accepted =
  pp_passport_sha256 :: sha256
  pp_parent_passport_sha256 :: "sha256 option"
  pp_supersedes_passport_sha256 :: "sha256 option"
  pp_checkpoint_kind :: checkpoint_kind
  pp_based_on_revision :: int
  pp_stage :: ident
  pp_fresh_until :: "timestamp option"

record resume_accepted =
  rp_passport_sha256 :: sha256

datatype recovery_fault = Fault_incomplete_record | Fault_malformed_record | Fault_truncated_utf8

record recovery_completed =
  rv_recovery_id :: ident
  rv_prior_valid_revision :: int
  rv_prior_valid_head_sha256 :: sha256
  rv_original_segment_sha256 :: sha256
  rv_original_segment_byte_count :: int
  rv_quarantine_sha256 :: sha256
  rv_quarantine_receipt_sha256 :: sha256
  rv_fault_offset :: int
  rv_fault_class :: recovery_fault
  rv_reason_code :: ident

end
