(* ===== verification/Events.thy ===== *)
theory Events
  imports Payloads Workflows
begin

text \<open>
  The orchestration payloads and the canonical event of \<^verbatim>\<open>kernel/state/models.py\<close>.  The digest of
  an embedded record is the hash of the canonical bytes of what the validation library dumps for it;
  the dump and the hash function are third-party code and form the environment \<open>env\<close>.
\<close>

section \<open>Digests of embedded records\<close>

datatype phase4_record =
  R_assignment assignment | R_attempt attempt_descriptor | R_proposal worker_proposal
| R_report review_report | R_receipt host_identity_receipt | R_receipt_v2 host_identity_receipt_v2
| R_panel panel_manifest | R_authority human_authority | R_matrix review_finding_matrix
| R_gate gate_decision | R_decision human_decision_record

record env =
  sha256_hex :: "string \<Rightarrow> sha256"
  model_dump :: "phase4_record \<Rightarrow> json"

definition phase4_record_digest :: "env \<Rightarrow> phase4_record \<Rightarrow> sha256" where
  "phase4_record_digest E r = sha256_hex E (canonical_json_bytes (model_dump E r))"

definition review_report_body_sha256 :: "env \<Rightarrow> review_report \<Rightarrow> sha256" where
  "review_report_body_sha256 E r =
     phase4_record_digest E (R_report (r\<lparr>rr_report_sha256 := None\<rparr>))"

definition panel_manifest_sha256 :: "env \<Rightarrow> panel_manifest \<Rightarrow> sha256" where
  "panel_manifest_sha256 E m = phase4_record_digest E (R_panel m)"

section \<open>Orchestration payloads\<close>

datatype source_actor_role = Sr_worker | Sr_hook | Sr_reviewer | Sr_operator

record phase4_payload =
  src_actor_id :: "ident option"
  src_actor_role :: "source_actor_role option"
  src_identity_id :: "ident option"
  src_host_agent_id :: "string option"
  src_evidence_sha256 :: "sha256 list"

definition source_hashes_are_unique :: "'a phase4_payload_scheme \<Rightarrow> (string, unit) result" where
  "source_hashes_are_unique p =
     guard (\<not> distinct (src_evidence_sha256 p)) ''Phase 4 source evidence hashes must be unique'' (Inr ())"

record execution_role_mode =
  erm_role_id :: ident
  erm_execution_mode :: execution_mode
  erm_execution_provenance :: execution_provenance
  erm_independence_eligible :: bool
  erm_worker_identity_id :: "ident option"

record execution_mode_selected = phase4_payload +
  ms_execution_mode :: execution_mode
  ms_execution_provenance :: execution_provenance
  ms_role_modes :: "execution_role_mode list"
  ms_role_catalog_sha256 :: "sha256 option"
  ms_policy_sha256 :: "sha256 option"
  ms_dag_sha256 :: "sha256 option"
  ms_rationale :: "string option"

definition execution_claim_is_honest :: "execution_mode_selected \<Rightarrow> (string, unit) result" where
  "execution_claim_is_honest p = (let m = ms_execution_mode p; v = ms_execution_provenance p in
     guard (m = Degraded_inline \<and> v \<noteq> Prov_degraded_inline)
       ''degraded_inline requires degraded_inline provenance''
    (guard (m = Degraded_inline \<and> list_ex erm_independence_eligible (ms_role_modes p))
       ''degraded_inline cannot record an independent role''
    (guard (m = Blocked_mode \<and> v \<noteq> Prov_unavailable)
       ''blocked execution requires unavailable provenance''
    (guard (m = Native_profile \<and> v \<noteq> Prov_native_profile)
       ''native_profile requires native_profile provenance''
    (guard (m = Assignment_injected_subagent \<and> v \<noteq> Prov_assignment_injected_subagent)
       ''assignment_injected_subagent requires assignment_injected_subagent provenance'' (Inr ()))))))"

record assignment_prepared = phase4_payload +
  ap_assignment :: assignment
  ap_assignment_sha256 :: sha256

definition assignment_digest_is_exact ::
  "env \<Rightarrow> 'a assignment_prepared_scheme \<Rightarrow> (string, unit) result" where
  "assignment_digest_is_exact E p =
     rbind (assignment_valid (ap_assignment p)) (\<lambda>_.
     guard (phase4_record_digest E (R_assignment (ap_assignment p)) \<noteq> ap_assignment_sha256 p)
       ''assignment digest does not match immutable bytes'' (Inr ()))"

record assignment_superseded = assignment_prepared +
  asu_predecessor_assignment_id :: ident
  asu_predecessor_assignment_sha256 :: sha256

definition explicit_supersession_is_exact ::
  "env \<Rightarrow> assignment_superseded \<Rightarrow> (string, unit) result" where
  "explicit_supersession_is_exact E p =
     rbind (assignment_digest_is_exact E p) (\<lambda>_.
     guard (asg_supersedes_assignment_id (ap_assignment p) \<noteq> Some (asu_predecessor_assignment_id p))
       ''superseding assignment does not name its predecessor'' (Inr ()))"

record attempt_prepared = phase4_payload +
  atp_assignment_id :: ident
  atp_assignment_sha256 :: sha256
  atp_attempt :: attempt_descriptor
  atp_attempt_sha256 :: "sha256 option"

definition attempt_binds_assignment :: "env \<Rightarrow> attempt_prepared \<Rightarrow> (string, unit) result" where
  "attempt_binds_assignment E p = (let a = atp_attempt p in
     rbind (attempt_bounds_are_coherent a) (\<lambda>_.
     guard (att_assignment_id a \<noteq> atp_assignment_id p) ''attempt does not bind the assignment''
    (guard (att_status a \<noteq> St_prepared) ''attempt.prepared requires a prepared descriptor''
    (guard (att_retry_reason a \<noteq> None \<or> att_retry_eligible a)
       ''a fresh attempt cannot carry predecessor retry state''
    (guard (att_host_agent_id a \<noteq> None \<or> att_cancellation_deadline_at a \<noteq> None)
       ''a fresh attempt cannot predeclare host observations''
    (guard (atp_attempt_sha256 p \<noteq> None
        \<and> atp_attempt_sha256 p \<noteq> Some (phase4_record_digest E (R_attempt a)))
       ''attempt digest does not match immutable bytes'' (Inr ())))))))"

record attempt_lifecycle = phase4_payload +
  alc_assignment_id :: ident
  alc_assignment_sha256 :: sha256
  alc_attempt_id :: ident
  alc_attempt_number :: int
  alc_status :: attempt_status
  alc_proposal_nonce :: "ident option"
  alc_retry_reason :: "retry_reason option"
  alc_retry_eligible :: bool
  alc_host_agent_id :: "string option"
  alc_cancellation_deadline_at :: "timestamp option"
  alc_proposal_sha256 :: "sha256 option"
  alc_reason_code :: "ident option"

definition retry_and_cancellation_bounds_are_exact ::
  "attempt_lifecycle \<Rightarrow> (string, unit) result" where
  "retry_and_cancellation_bounds_are_exact p =
     guard (alc_attempt_number p < 1 \<or> 2 < alc_attempt_number p)
       ''Input should be within the attempt budget''
    (guard (alc_retry_eligible p \<and> alc_retry_reason p = None)
       ''retry eligibility requires a retry reason''
    (guard (alc_retry_eligible p \<and> alc_retry_reason p \<notin> Some ` RETRYABLE_FAILURES)
       ''only repairable failures may receive a retry''
    (guard (2 \<le> alc_attempt_number p \<and> alc_retry_eligible p)
       ''retry budget is exhausted after two attempts''
    (guard (alc_status p = St_cancel_requested \<and> alc_cancellation_deadline_at p = None)
       ''cancellation requests require a deadline'' (Inr ())))))"

record proposal_accepted = phase4_payload +
  pac_assignment_id :: ident
  pac_assignment_sha256 :: sha256
  pac_attempt_id :: ident
  pac_proposal :: worker_proposal
  pac_proposal_sha256 :: sha256
  pac_narrative_report_sha256 :: "sha256 option"
  pac_acceptance_key :: accept_key

definition proposal_bindings_are_exact :: "env \<Rightarrow> proposal_accepted \<Rightarrow> (string, unit) result" where
  "proposal_bindings_are_exact E p = (let w = pac_proposal p in
     rbind (proposal_is_coherent w) (\<lambda>_.
     guard (wp_assignment_id w \<noteq> pac_assignment_id p \<or> wp_attempt_id w \<noteq> pac_attempt_id p)
       ''proposal does not bind the assignment attempt''
    (guard ((wp_narrative_realization w = None) \<noteq> (pac_narrative_report_sha256 p = None))
       ''narrative proposal and check report must occur together''
    (guard (phase4_record_digest E (R_proposal w) \<noteq> pac_proposal_sha256 p)
       ''proposal digest does not match immutable bytes'' (Inr ())))))"

datatype proposal_outcome =
  Out_accepted | Out_rejected | Out_rejected_invalid | Out_rejected_stale | Out_rejected_cancelled
| Out_rejected_superseded

record proposal_rejected = phase4_payload +
  prj_assignment_id :: ident
  prj_assignment_sha256 :: sha256
  prj_attempt_id :: ident
  prj_proposal_sha256 :: sha256
  prj_outcome :: proposal_outcome
  prj_reason_code :: ident
  prj_acceptance_key :: accept_key
  prj_raw_bytes_retained :: bool

record review_report_accepted = phase4_payload +
  rra_report :: review_report
  rra_report_sha256 :: sha256

definition report_digest_is_bound :: "env \<Rightarrow> review_report_accepted \<Rightarrow> (string, unit) result" where
  "report_digest_is_bound E p =
     rbind (report_hash_is_parent_derivable (review_report_body_sha256 E) (rra_report p)) (\<lambda>_.
     guard (rr_report_sha256 (rra_report p) \<noteq> Some (rra_report_sha256 p))
       ''review report digest does not match the report record''
    (guard (review_report_body_sha256 E (rra_report p) \<noteq> rra_report_sha256 p)
       ''review report digest is not derived from canonical report body'' (Inr ())))"

datatype identity_receipt = Receipt_v1 host_identity_receipt | Receipt_v2 host_identity_receipt_v2

primrec receipt_record :: "identity_receipt \<Rightarrow> phase4_record" where
  "receipt_record (Receipt_v1 r) = R_receipt r"
| "receipt_record (Receipt_v2 r) = R_receipt_v2 r"

primrec receipt_id :: "identity_receipt \<Rightarrow> ident" where
  "receipt_id (Receipt_v1 r) = hr_receipt_id r"
| "receipt_id (Receipt_v2 r) = hr2_receipt_id r"

primrec receipt_identity :: "identity_receipt \<Rightarrow> ident \<times> ident \<times> string" where
  "receipt_identity (Receipt_v1 r) = (hr_role_id r, hr_worker_identity_id r, hr_host_agent_id r)"
| "receipt_identity (Receipt_v2 r) = (hr2_role_id r, hr2_worker_identity_id r, hr2_host_agent_id r)"

primrec receipt_valid :: "identity_receipt \<Rightarrow> (string, unit) result" where
  "receipt_valid (Receipt_v1 r) = rbind (formal_identity_claim_is_complete r) (\<lambda>_. Inr ())"
| "receipt_valid (Receipt_v2 r) = rbind (formal_identity_claim_is_complete_v2 r) (\<lambda>_. Inr ())"

record host_identity_accepted = phase4_payload +
  hia_receipt :: identity_receipt
  hia_receipt_sha256 :: sha256

definition host_identity_digest_is_bound ::
  "env \<Rightarrow> host_identity_accepted \<Rightarrow> (string, unit) result" where
  "host_identity_digest_is_bound E p =
     rbind (receipt_valid (hia_receipt p)) (\<lambda>_.
     guard (phase4_record_digest E (receipt_record (hia_receipt p)) \<noteq> hia_receipt_sha256 p)
       ''host identity receipt digest does not match immutable bytes'' (Inr ()))"

record panel_prepared = phase4_payload +
  ppd_manifest :: panel_manifest
  ppd_manifest_sha256 :: sha256

definition panel_manifest_digest_is_bound :: "env \<Rightarrow> panel_prepared \<Rightarrow> (string, unit) result" where
  "panel_manifest_digest_is_bound E p =
     (if \<not> list_all (\<lambda>s. is_ok (seat_binding_is_exact s)) (panel_seats (ppd_manifest p))
      then Inl ''invalid Phase 4 PanelManifest''
      else rbind (panel_manifest_is_complete (ppd_manifest p)) (\<lambda>m.
        guard (panel_manifest_sha256 E m \<noteq> ppd_manifest_sha256 p)
          ''panel manifest digest does not match immutable bytes'' (Inr ())))"

record human_authority_accepted = phase4_payload +
  haa_authority :: human_authority
  haa_authority_sha256 :: sha256

definition human_authority_digest_is_bound ::
  "env \<Rightarrow> human_authority_accepted \<Rightarrow> (string, unit) result" where
  "human_authority_digest_is_bound E p =
     rbind (human_authority_valid (haa_authority p)) (\<lambda>a.
     guard (phase4_record_digest E (R_authority a) \<noteq> haa_authority_sha256 p)
       ''human authority digest does not match immutable bytes'' (Inr ()))"

record review_synthesis_accepted = phase4_payload +
  rsa_finding_matrix :: review_finding_matrix
  rsa_finding_matrix_sha256 :: sha256

definition synthesis_digest_is_bound ::
  "env \<Rightarrow> review_synthesis_accepted \<Rightarrow> (string, unit) result" where
  "synthesis_digest_is_bound E p =
     rbind (panel_is_independent_and_complete (rsa_finding_matrix p)) (\<lambda>m.
     guard (phase4_record_digest E (R_matrix m) \<noteq> rsa_finding_matrix_sha256 p)
       ''finding matrix digest does not match immutable bytes'' (Inr ()))"

record hook_observed = phase4_payload +
  hob_observation :: hook_observation
  hob_observation_sha256 :: sha256

definition hook_observation_digest_is_bound :: "hook_observed \<Rightarrow> (string, unit) result" where
  "hook_observation_digest_is_bound p =
     rbind (continuation_is_bounded_and_exact (hob_observation p)) (\<lambda>h.
     guard (ho_observation_sha256 h \<noteq> hob_observation_sha256 p)
       ''hook observation digest does not match the observation'' (Inr ()))"

record gate_evaluated = phase4_payload +
  gev_decision :: gate_decision
  gev_decision_sha256 :: sha256

definition gate_decision_digest_is_bound :: "env \<Rightarrow> gate_evaluated \<Rightarrow> (string, unit) result" where
  "gate_decision_digest_is_bound E p =
     rbind (gate_decision_valid (gev_decision p)) (\<lambda>g.
     guard (phase4_record_digest E (R_gate g) \<noteq> gev_decision_sha256 p)
       ''gate decision digest does not match immutable bytes'' (Inr ()))"

record human_decision_recorded = phase4_payload +
  hdr_decision :: human_decision_record
  hdr_decision_sha256 :: sha256
  hdr_authority_sha256 :: sha256

definition human_decision_digest_is_bound ::
  "env \<Rightarrow> human_decision_recorded \<Rightarrow> (string, unit) result" where
  "human_decision_digest_is_bound E p =
     rbind (human_decision_valid (hdr_decision p)) (\<lambda>d.
     guard (phase4_record_digest E (R_decision d) \<noteq> hdr_decision_sha256 p)
       ''human decision digest does not match immutable bytes''
    (guard (hd_authority_sha256 d \<noteq> hdr_authority_sha256 p)
       ''human decision does not bind the accepted authority'' (Inr ())))"

record experiment_provenance_accepted =
  epa_provenance_id :: ident
  epa_experiment_id :: ident
  epa_provenance_sha256 :: sha256

record experiment_contract_accepted =
  eca_contract_sha256 :: sha256
  eca_contract_version :: int
  eca_supersedes_contract_sha256 :: "sha256 option"

end
