(* ===== verification/Event_Model.thy ===== *)
theory Event_Model
  imports Events
begin

text \<open>
  The claim attestation an event may anchor (\<^verbatim>\<open>kernel/state/claim_graph.py\<close>,
  \<^verbatim>\<open>kernel/state/claim_authentication.py\<close>), the union of all payloads, and the canonical
  event with its validator \<open>valid_variant_and_revision\<close> (\<^verbatim>\<open>kernel/state/models.py\<close>).
\<close>

section \<open>Claim attestations\<close>

record run_prefix =
  rpx_run_id :: ident
  rpx_run_manifest_sha256 :: sha256
  rpx_revision :: int
  rpx_head_sha256 :: sha256

record snapshot_manifest =
  sm_project_id :: ident
  sm_journal_sequence :: int
  sm_journal_head_sha256 :: sha256
  sm_runs :: "run_prefix list"

definition run_prefix_json :: "run_prefix \<Rightarrow> json" where
  "run_prefix_json r = JObj
     [(''run_id'', JStr (rpx_run_id r)), (''run_manifest_sha256'', JStr (rpx_run_manifest_sha256 r)),
      (''revision'', JInt (rpx_revision r)), (''head_sha256'', JStr (rpx_head_sha256 r))]"

definition snapshot_sha256 :: "(string \<Rightarrow> sha256) \<Rightarrow> snapshot_manifest \<Rightarrow> sha256" where
  "snapshot_sha256 h m = h (canonical_json_bytes (JObj
     [(''schema_version'', JStr ''arw.claim-graph-snapshot.v1''),
      (''project_id'', JStr (sm_project_id m)),
      (''journal'', JObj [(''sequence'', JInt (sm_journal_sequence m)),
                          (''head_sha256'', JStr (sm_journal_head_sha256 m))]),
      (''runs'', JArr (map run_prefix_json (sm_runs m))),
      (''projection_version'', JStr ''arw.claim-graph.v1''),
      (''adapter_matrix_version'', JStr ''arw.accepted-ref-adapters.v1''),
      (''canonicalization_version'', JStr ''arw.canonical-json.v1'')]))"

definition sorted_runs :: "snapshot_manifest \<Rightarrow> (string, unit) result" where
  "sorted_runs m = (let ids = map rpx_run_id (sm_runs m) in
     guard (ids \<noteq> sort (remdups ids)) ''snapshot run IDs must be sorted and unique'' (Inr ()))"

record authenticated_authority =
  au_authority_run_id :: ident
  au_authority_event_id :: ident
  au_authority_event_sha256 :: sha256
  au_human_authority_sha256 :: sha256
  au_accountable_actor_id :: ident
  au_accountable_role :: accountable_role
  au_gate_id :: ident
  au_scope :: string

record attestation =
  att2_claim_id :: ident
  att2_claim_revision :: int
  att2_claim_sha256 :: sha256
  att2_evidence_dependency_sha256 :: sha256
  att2_statement :: string
  att2_scope :: string
  att2_policy_version :: string
  att2_graph_snapshot_sha256 :: sha256
  att2_snapshot_manifest :: snapshot_manifest
  att2_authority :: authenticated_authority

definition attestation_valid :: "(string \<Rightarrow> sha256) \<Rightarrow> attestation \<Rightarrow> (string, unit) result" where
  "attestation_valid h a = (let m = att2_snapshot_manifest a; u = att2_authority a in
     rbind (sorted_runs m) (\<lambda>_.
     guard (att2_graph_snapshot_sha256 a \<noteq> snapshot_sha256 h m) ''attestation snapshot digest mismatch''
    (guard (list_ex (\<lambda>s. py_strip s = []) [att2_statement a, att2_scope a, att2_policy_version a])
       ''attestation statement, scope and policy must not be blank''
    (guard (att2_scope a \<noteq> au_scope u) ''authenticated authority scope must equal statement scope''
    (guard (\<not> list_ex (\<lambda>r. rpx_run_id r = au_authority_run_id u) (sm_runs m))
       ''authority run must be in the N-1 snapshot'' (Inr ()))))))"

definition validate_project_ancestor :: "string \<Rightarrow> (string, string) result" where
  "validate_project_ancestor v =
     guard (v \<noteq> ''.'' \<and> (v = [] \<or> list_ex (\<lambda>p. p \<noteq> ''..'') (split_on slash v)))
       ''project root relation must identify an ancestor'' (Inr v)"

fun validate_locations :: "string list \<Rightarrow> (string, unit) result" where
  "validate_locations [] = Inr ()"
| "validate_locations (p # ps) = rbind (execution_relative_path p) (\<lambda>_. validate_locations ps)"

definition validate_run_locations :: "(ident, string) dict \<Rightarrow> (string, unit) result" where
  "validate_run_locations d =
     guard (32 < length d) ''snapshot run locations exceed budget'' (validate_locations (dvalues d))"

record claim_attestation_anchored =
  cla_project_id :: ident
  cla_project_root_relative :: string
  cla_journal_sequence :: int
  cla_journal_event_sha256 :: sha256
  cla_run_locations :: "(ident, string) dict"
  cla_attestation :: attestation

definition complete_claim_anchor ::
  "(string \<Rightarrow> sha256) \<Rightarrow> claim_attestation_anchored \<Rightarrow> (string, unit) result" where
  "complete_claim_anchor h c =
    (let m = att2_snapshot_manifest (cla_attestation c) in
     rbind (attestation_valid h (cla_attestation c)) (\<lambda>_.
     rbind (validate_project_ancestor (cla_project_root_relative c)) (\<lambda>_.
     rbind (validate_run_locations (cla_run_locations c)) (\<lambda>_.
     guard (cla_project_id c \<noteq> sm_project_id m
          \<or> cla_journal_sequence c \<noteq> sm_journal_sequence m + 1
          \<or> dkeys (cla_run_locations c) \<noteq> set (map rpx_run_id (sm_runs m)))
       ''claim anchor must bind the exact N-1 vector and following journal event'' (Inr ())))))"

section \<open>The payload union\<close>

datatype payload =
  P_context execution_context_accepted | P_dataset_metadata dataset_metadata_accepted
| P_action_started execution_action_started | P_action_finished execution_action_finished
| P_artifact_bound execution_artifact_bound
| P_learning research_learning | P_memory research_memory | P_artifact_stage research_artifact_stage
| P_research_artifact_accepted research_artifact_accepted
| P_research_artifact_superseded research_artifact_superseded
| P_run_initialized run_initialized | P_baseline_probe baseline_probe
| P_lifecycle_transitioned lifecycle_transitioned
| P_human_decision_requested human_decision_requested
| P_human_decision_resolved human_decision_resolved
| P_attempt_started attempt_started | P_attempt_closed attempt_closed
| P_artifact_accepted artifact_accepted | P_passport_accepted passport_accepted
| P_resume_accepted resume_accepted | P_recovery_completed recovery_completed
| P_mode_selected execution_mode_selected | P_assignment_prepared assignment_prepared
| P_assignment_superseded assignment_superseded | P_attempt_prepared attempt_prepared
| P_attempt_lifecycle attempt_lifecycle | P_proposal_accepted proposal_accepted
| P_proposal_rejected proposal_rejected | P_host_identity host_identity_accepted
| P_panel_prepared panel_prepared | P_review_report review_report_accepted
| P_review_synthesis review_synthesis_accepted | P_hook_observed hook_observed
| P_gate_evaluated gate_evaluated | P_human_authority human_authority_accepted
| P_human_decision_recorded human_decision_recorded
| P_claim_anchored claim_attestation_anchored
| P_experiment_provenance experiment_provenance_accepted
| P_experiment_contract experiment_contract_accepted

text \<open>The validators each payload class runs when it is constructed.\<close>

definition discard :: "(string, 'a) result \<Rightarrow> (string, unit) result" where
  "discard r = rbind r (\<lambda>_. Inr ())"

lemma discard_Inr [guard_simps]: "discard r = Inr u \<longleftrightarrow> is_ok r"
  by (auto simp: discard_def guard_simps is_ok_iff)

primrec payload_valid :: "env \<Rightarrow> payload \<Rightarrow> (string, unit) result" where
  "payload_valid E (P_context p) = discard (context_relations p)"
| "payload_valid E (P_dataset_metadata p) = discard (dataset_metadata_valid p)"
| "payload_valid E (P_action_started p) = discard (action_shape p)"
| "payload_valid E (P_action_finished p) = Inr ()"
| "payload_valid E (P_artifact_bound p) = discard (artifact_bound_valid p)"
| "payload_valid E (P_learning p) = Inr ()"
| "payload_valid E (P_memory p) = Inr ()"
| "payload_valid E (P_artifact_stage p) = Inr ()"
| "payload_valid E (P_research_artifact_accepted p) = Inr ()"
| "payload_valid E (P_research_artifact_superseded p) = Inr ()"
| "payload_valid E (P_run_initialized p) = Inr ()"
| "payload_valid E (P_baseline_probe p) = Inr ()"
| "payload_valid E (P_lifecycle_transitioned p) = Inr ()"
| "payload_valid E (P_human_decision_requested p) = discard (human_decision_requested_valid p)"
| "payload_valid E (P_human_decision_resolved p) = Inr ()"
| "payload_valid E (P_attempt_started p) = Inr ()"
| "payload_valid E (P_attempt_closed p) = Inr ()"
| "payload_valid E (P_artifact_accepted p) = Inr ()"
| "payload_valid E (P_passport_accepted p) = Inr ()"
| "payload_valid E (P_resume_accepted p) = Inr ()"
| "payload_valid E (P_recovery_completed p) = Inr ()"
| "payload_valid E (P_mode_selected p) =
     rbind (source_hashes_are_unique p) (\<lambda>_. execution_claim_is_honest p)"
| "payload_valid E (P_assignment_prepared p) =
     rbind (source_hashes_are_unique p) (\<lambda>_. assignment_digest_is_exact E p)"
| "payload_valid E (P_assignment_superseded p) =
     rbind (source_hashes_are_unique p) (\<lambda>_. explicit_supersession_is_exact E p)"
| "payload_valid E (P_attempt_prepared p) =
     rbind (source_hashes_are_unique p) (\<lambda>_. attempt_binds_assignment E p)"
| "payload_valid E (P_attempt_lifecycle p) =
     rbind (source_hashes_are_unique p) (\<lambda>_. retry_and_cancellation_bounds_are_exact p)"
| "payload_valid E (P_proposal_accepted p) =
     rbind (source_hashes_are_unique p) (\<lambda>_. proposal_bindings_are_exact E p)"
| "payload_valid E (P_proposal_rejected p) = source_hashes_are_unique p"
| "payload_valid E (P_host_identity p) =
     rbind (source_hashes_are_unique p) (\<lambda>_. host_identity_digest_is_bound E p)"
| "payload_valid E (P_panel_prepared p) =
     rbind (source_hashes_are_unique p) (\<lambda>_. panel_manifest_digest_is_bound E p)"
| "payload_valid E (P_review_report p) =
     rbind (source_hashes_are_unique p) (\<lambda>_. report_digest_is_bound E p)"
| "payload_valid E (P_review_synthesis p) =
     rbind (source_hashes_are_unique p) (\<lambda>_. synthesis_digest_is_bound E p)"
| "payload_valid E (P_hook_observed p) =
     rbind (source_hashes_are_unique p) (\<lambda>_. hook_observation_digest_is_bound p)"
| "payload_valid E (P_gate_evaluated p) =
     rbind (source_hashes_are_unique p) (\<lambda>_. gate_decision_digest_is_bound E p)"
| "payload_valid E (P_human_authority p) =
     rbind (source_hashes_are_unique p) (\<lambda>_. human_authority_digest_is_bound E p)"
| "payload_valid E (P_human_decision_recorded p) =
     rbind (source_hashes_are_unique p) (\<lambda>_. human_decision_digest_is_bound E p)"
| "payload_valid E (P_claim_anchored p) = complete_claim_anchor (sha256_hex E) p"
| "payload_valid E (P_experiment_provenance p) = Inr ()"
| "payload_valid E (P_experiment_contract p) = Inr ()"

text \<open>
  \<open>isinstance(payload, EVENT_PAYLOAD_TYPES[event_type])\<close>.  A superseding assignment is also an
  \<open>AssignmentPreparedPayload\<close> and a research artifact also an \<open>ArtifactAcceptedPayload\<close>.
\<close>

primrec event_types_of :: "payload \<Rightarrow> event_type list" where
  "event_types_of (P_context _) = [Ep_context_accepted]"
| "event_types_of (P_dataset_metadata _) = [Ep_dataset_metadata_accepted]"
| "event_types_of (P_action_started _) = [Ep_action_started]"
| "event_types_of (P_action_finished _) = [Ep_action_finished]"
| "event_types_of (P_artifact_bound _) = [Ep_artifact_bound]"
| "event_types_of (P_learning _) = RESEARCH_LEARNING_EVENT_TYPES"
| "event_types_of (P_memory _) = RESEARCH_MEMORY_EVENT_TYPES"
| "event_types_of (P_artifact_stage _) = [Artifact_ir_frozen, Artifact_rendered, Artifact_validated]"
| "event_types_of (P_research_artifact_accepted _) = [Research_artifact_accepted, Artifact_accepted]"
| "event_types_of (P_research_artifact_superseded _) = [Research_artifact_superseded]"
| "event_types_of (P_run_initialized _) = [Run_initialized]"
| "event_types_of (P_baseline_probe _) = [Baseline_probe_recorded]"
| "event_types_of (P_lifecycle_transitioned _) = [Lifecycle_transitioned]"
| "event_types_of (P_human_decision_requested _) = [Human_decision_requested]"
| "event_types_of (P_human_decision_resolved _) = [Human_decision_resolved]"
| "event_types_of (P_attempt_started _) = [Attempt_started]"
| "event_types_of (P_attempt_closed _) = [Attempt_closed]"
| "event_types_of (P_artifact_accepted _) = [Artifact_accepted]"
| "event_types_of (P_passport_accepted _) = [Passport_accepted]"
| "event_types_of (P_resume_accepted _) = [Resume_accepted]"
| "event_types_of (P_recovery_completed _) = [Recovery_completed]"
| "event_types_of (P_mode_selected _) = [Execution_mode_selected]"
| "event_types_of (P_assignment_prepared _) = [Assignment_prepared]"
| "event_types_of (P_assignment_superseded _) = [Assignment_prepared, Assignment_superseded]"
| "event_types_of (P_attempt_prepared _) = [Attempt_prepared]"
| "event_types_of (P_attempt_lifecycle _) = [Attempt_lifecycle]"
| "event_types_of (P_proposal_accepted _) = [Proposal_accepted]"
| "event_types_of (P_proposal_rejected _) = [Proposal_rejected]"
| "event_types_of (P_host_identity _) = [Host_identity_accepted]"
| "event_types_of (P_panel_prepared _) = [Panel_prepared]"
| "event_types_of (P_review_report _) = [Review_report_accepted]"
| "event_types_of (P_review_synthesis _) = [Review_synthesis_accepted]"
| "event_types_of (P_hook_observed _) = [Hook_observed]"
| "event_types_of (P_gate_evaluated _) = [Gate_evaluated]"
| "event_types_of (P_human_authority _) = [Human_authority_accepted]"
| "event_types_of (P_human_decision_recorded _) = [Human_decision_recorded]"
| "event_types_of (P_claim_anchored _) = [Claim_attestation_anchored]"
| "event_types_of (P_experiment_provenance _) = [Experiment_provenance_accepted]"
| "event_types_of (P_experiment_contract _) = [Experiment_contract_accepted]"

definition payload_matches :: "event_type \<Rightarrow> payload \<Rightarrow> bool" where
  "payload_matches t p = (t \<in> set (event_types_of p))"

section \<open>Narrowing a payload to its class\<close>

text \<open>
  \<open>assert isinstance(payload, C)\<close> followed by uses of the payload as a \<open>C\<close>: the result is \<open>None\<close> when
  the assertion fails.  The two classes with a subclass accept the subclass and forget its extra
  fields.
\<close>

definition as_context :: "payload \<Rightarrow> execution_context_accepted option" where
  "as_context p = (case p of P_context x \<Rightarrow> Some x | _ \<Rightarrow> None)"

definition as_dataset_metadata :: "payload \<Rightarrow> dataset_metadata_accepted option" where
  "as_dataset_metadata p = (case p of P_dataset_metadata x \<Rightarrow> Some x | _ \<Rightarrow> None)"

definition as_action_started :: "payload \<Rightarrow> execution_action_started option" where
  "as_action_started p = (case p of P_action_started x \<Rightarrow> Some x | _ \<Rightarrow> None)"

definition as_action_finished :: "payload \<Rightarrow> execution_action_finished option" where
  "as_action_finished p = (case p of P_action_finished x \<Rightarrow> Some x | _ \<Rightarrow> None)"

definition as_artifact_bound :: "payload \<Rightarrow> execution_artifact_bound option" where
  "as_artifact_bound p = (case p of P_artifact_bound x \<Rightarrow> Some x | _ \<Rightarrow> None)"

definition as_run_initialized :: "payload \<Rightarrow> run_initialized option" where
  "as_run_initialized p = (case p of P_run_initialized x \<Rightarrow> Some x | _ \<Rightarrow> None)"

definition as_lifecycle_transitioned :: "payload \<Rightarrow> lifecycle_transitioned option" where
  "as_lifecycle_transitioned p = (case p of P_lifecycle_transitioned x \<Rightarrow> Some x | _ \<Rightarrow> None)"

definition as_human_decision_requested :: "payload \<Rightarrow> human_decision_requested option" where
  "as_human_decision_requested p = (case p of P_human_decision_requested x \<Rightarrow> Some x | _ \<Rightarrow> None)"

definition as_human_decision_resolved :: "payload \<Rightarrow> human_decision_resolved option" where
  "as_human_decision_resolved p = (case p of P_human_decision_resolved x \<Rightarrow> Some x | _ \<Rightarrow> None)"

definition as_attempt_started :: "payload \<Rightarrow> attempt_started option" where
  "as_attempt_started p = (case p of P_attempt_started x \<Rightarrow> Some x | _ \<Rightarrow> None)"

definition as_attempt_closed :: "payload \<Rightarrow> attempt_closed option" where
  "as_attempt_closed p = (case p of P_attempt_closed x \<Rightarrow> Some x | _ \<Rightarrow> None)"

definition as_artifact_accepted :: "payload \<Rightarrow> artifact_accepted option" where
  "as_artifact_accepted p = (case p of P_artifact_accepted x \<Rightarrow> Some x
     | P_research_artifact_accepted x \<Rightarrow> Some (artifact_accepted.truncate x) | _ \<Rightarrow> None)"

definition as_passport_accepted :: "payload \<Rightarrow> passport_accepted option" where
  "as_passport_accepted p = (case p of P_passport_accepted x \<Rightarrow> Some x | _ \<Rightarrow> None)"

definition as_resume_accepted :: "payload \<Rightarrow> resume_accepted option" where
  "as_resume_accepted p = (case p of P_resume_accepted x \<Rightarrow> Some x | _ \<Rightarrow> None)"

definition as_recovery_completed :: "payload \<Rightarrow> recovery_completed option" where
  "as_recovery_completed p = (case p of P_recovery_completed x \<Rightarrow> Some x | _ \<Rightarrow> None)"

definition as_mode_selected :: "payload \<Rightarrow> execution_mode_selected option" where
  "as_mode_selected p = (case p of P_mode_selected x \<Rightarrow> Some x | _ \<Rightarrow> None)"

definition as_assignment_prepared :: "payload \<Rightarrow> assignment_prepared option" where
  "as_assignment_prepared p = (case p of P_assignment_prepared x \<Rightarrow> Some x
     | P_assignment_superseded x \<Rightarrow> Some (assignment_prepared.truncate x) | _ \<Rightarrow> None)"

definition as_attempt_prepared :: "payload \<Rightarrow> attempt_prepared option" where
  "as_attempt_prepared p = (case p of P_attempt_prepared x \<Rightarrow> Some x | _ \<Rightarrow> None)"

definition as_attempt_lifecycle :: "payload \<Rightarrow> attempt_lifecycle option" where
  "as_attempt_lifecycle p = (case p of P_attempt_lifecycle x \<Rightarrow> Some x | _ \<Rightarrow> None)"

definition as_proposal_accepted :: "payload \<Rightarrow> proposal_accepted option" where
  "as_proposal_accepted p = (case p of P_proposal_accepted x \<Rightarrow> Some x | _ \<Rightarrow> None)"

definition as_proposal_rejected :: "payload \<Rightarrow> proposal_rejected option" where
  "as_proposal_rejected p = (case p of P_proposal_rejected x \<Rightarrow> Some x | _ \<Rightarrow> None)"

definition as_host_identity :: "payload \<Rightarrow> host_identity_accepted option" where
  "as_host_identity p = (case p of P_host_identity x \<Rightarrow> Some x | _ \<Rightarrow> None)"

definition as_panel_prepared :: "payload \<Rightarrow> panel_prepared option" where
  "as_panel_prepared p = (case p of P_panel_prepared x \<Rightarrow> Some x | _ \<Rightarrow> None)"

definition as_review_report :: "payload \<Rightarrow> review_report_accepted option" where
  "as_review_report p = (case p of P_review_report x \<Rightarrow> Some x | _ \<Rightarrow> None)"

definition as_review_synthesis :: "payload \<Rightarrow> review_synthesis_accepted option" where
  "as_review_synthesis p = (case p of P_review_synthesis x \<Rightarrow> Some x | _ \<Rightarrow> None)"

definition as_hook_observed :: "payload \<Rightarrow> hook_observed option" where
  "as_hook_observed p = (case p of P_hook_observed x \<Rightarrow> Some x | _ \<Rightarrow> None)"

definition as_gate_evaluated :: "payload \<Rightarrow> gate_evaluated option" where
  "as_gate_evaluated p = (case p of P_gate_evaluated x \<Rightarrow> Some x | _ \<Rightarrow> None)"

definition as_human_authority :: "payload \<Rightarrow> human_authority_accepted option" where
  "as_human_authority p = (case p of P_human_authority x \<Rightarrow> Some x | _ \<Rightarrow> None)"

definition as_human_decision_recorded :: "payload \<Rightarrow> human_decision_recorded option" where
  "as_human_decision_recorded p = (case p of P_human_decision_recorded x \<Rightarrow> Some x | _ \<Rightarrow> None)"

definition as_claim_anchored :: "payload \<Rightarrow> claim_attestation_anchored option" where
  "as_claim_anchored p = (case p of P_claim_anchored x \<Rightarrow> Some x | _ \<Rightarrow> None)"

definition as_experiment_provenance :: "payload \<Rightarrow> experiment_provenance_accepted option" where
  "as_experiment_provenance p = (case p of P_experiment_provenance x \<Rightarrow> Some x | _ \<Rightarrow> None)"

definition as_experiment_contract :: "payload \<Rightarrow> experiment_contract_accepted option" where
  "as_experiment_contract p = (case p of P_experiment_contract x \<Rightarrow> Some x | _ \<Rightarrow> None)"

lemmas as_defs =
  as_context_def
  as_dataset_metadata_def
  as_action_started_def
  as_action_finished_def
  as_artifact_bound_def
  as_run_initialized_def
  as_lifecycle_transitioned_def
  as_human_decision_requested_def
  as_human_decision_resolved_def
  as_attempt_started_def
  as_attempt_closed_def
  as_artifact_accepted_def
  as_passport_accepted_def
  as_resume_accepted_def
  as_recovery_completed_def
  as_mode_selected_def
  as_assignment_prepared_def
  as_attempt_prepared_def
  as_attempt_lifecycle_def
  as_proposal_accepted_def
  as_proposal_rejected_def
  as_host_identity_def
  as_panel_prepared_def
  as_review_report_def
  as_review_synthesis_def
  as_hook_observed_def
  as_gate_evaluated_def
  as_human_authority_def
  as_human_decision_recorded_def
  as_claim_anchored_def
  as_experiment_provenance_def
  as_experiment_contract_def

end
