(* ===== verification/Event_Rules.thy ===== *)
theory Event_Rules
  imports Event_Model
begin

text \<open>
  The canonical event with its own validator (\<^verbatim>\<open>CanonicalEvent\<close> in \<^verbatim>\<open>kernel/state/models.py\<close>)
  and the three lifecycle rules that relate an event to the history before it: research memory
  (\<^verbatim>\<open>memory_event_rules.py\<close>), research learning (\<^verbatim>\<open>learning_event_rules.py\<close>) and research
  artifacts (\<open>validate_artifact_event_progress\<close> in \<^verbatim>\<open>research_artifact.py\<close>).  Reading an
  attribute that a payload's class does not have raises \<open>AttributeError\<close>.
\<close>

record canonical_event =
  ev_schema_version :: string
  ev_event_type :: event_type
  ev_event_id :: ident
  ev_command_id :: ident
  ev_run_id :: ident
  ev_sequence :: int
  ev_occurred_at :: timestamp
  ev_expected_revision :: int
  ev_resulting_revision :: int
  ev_actor_id :: ident
  ev_actor_role :: "actor_role option"
  ev_prev_event_sha256 :: sha256
  ev_payload :: payload
  ev_event_sha256 :: sha256

definition falsy :: "string option \<Rightarrow> bool" where
  "falsy v = (v = None \<or> v = Some [])"

section \<open>Attributes of payloads\<close>

definition learning_of :: "payload \<Rightarrow> research_learning option" where
  "learning_of p = (case p of P_learning l \<Rightarrow> Some l | _ \<Rightarrow> None)"

definition artifact_id_of :: "payload \<Rightarrow> ident option" where
  "artifact_id_of p =
     (case p of P_artifact_stage s \<Rightarrow> Some (rst_artifact_id s)
      | P_artifact_accepted a \<Rightarrow> Some (aa_artifact_id a)
      | P_research_artifact_accepted a \<Rightarrow> Some (aa_artifact_id a)
      | P_research_artifact_superseded s \<Rightarrow> Some (rsu_artifact_id s)
      | _ \<Rightarrow> None)"

definition artifact_sha256_of :: "payload \<Rightarrow> sha256 option" where
  "artifact_sha256_of p =
     (case p of P_artifact_accepted a \<Rightarrow> Some (aa_artifact_sha256 a)
      | P_research_artifact_accepted a \<Rightarrow> Some (aa_artifact_sha256 a)
      | _ \<Rightarrow> None)"

text \<open>The frozen identity of a research artifact: IR digest, renderer identity and sources.\<close>

definition frozen_identity_of :: "payload \<Rightarrow> (sha256 \<times> sha256 \<times> sha256 list) option" where
  "frozen_identity_of p =
     (case p of
        P_artifact_stage s \<Rightarrow>
          Some (rst_ir_sha256 s, rst_renderer_identity_digest s, rst_source_event_sha256 s)
      | P_research_artifact_accepted a \<Rightarrow>
          Some (ra_ir_sha256 a, ra_renderer_identity_digest a, ra_source_event_sha256 a)
      | _ \<Rightarrow> None)"

definition receipt_sha256_of :: "payload \<Rightarrow> sha256 option" where
  "receipt_sha256_of p =
     (case p of P_artifact_stage s \<Rightarrow> Some (rst_receipt_sha256 s) | _ \<Rightarrow> None)"

definition supersedes_of :: "payload \<Rightarrow> ident option" where
  "supersedes_of p =
     (case p of P_research_artifact_accepted a \<Rightarrow> ra_supersedes a
      | P_research_artifact_superseded s \<Rightarrow> Some (rsu_supersedes s)
      | _ \<Rightarrow> None)"

section \<open>Research memory\<close>

definition expected_memory_status :: "event_type \<Rightarrow> research_memory \<Rightarrow> memory_status option" where
  "expected_memory_status t m =
     (case t of
        Memory_superseded \<Rightarrow> Some Mst_superseded
      | Memory_rejected \<Rightarrow> Some Mst_rejected
      | Memory_distilled \<Rightarrow> Some Mst_distilled
      | Memory_activated \<Rightarrow> Some Mst_active
      | Memory_verified \<Rightarrow> mm_prior_status m
      | _ \<Rightarrow> None)"

definition validate_memory_event :: "event_type \<Rightarrow> payload \<Rightarrow> (string, unit) result" where
  "validate_memory_event t p =
     (case p of
        P_memory m \<Rightarrow>
          if t \<in> {Memory_created, Handoff_created} then
            guard (mm_status m \<noteq> Mst_created \<or> mm_trust m \<noteq> Unreviewed
                 \<or> mm_previous_memory_event_sha256 m \<noteq> None)
              ''new memories must be created and unreviewed''
           (guard ((t = Handoff_created) \<noteq> (mm_kind m = Mk_handoff))
              ''handoff event kind mismatch'' (Inr ()))
          else
            guard (mm_previous_memory_event_sha256 m = None \<or> mm_prior_status m = None
                 \<or> mm_prior_trust m = None)
              ''memory lifecycle must reference its prior state''
           (guard (Some (mm_status m) \<noteq> expected_memory_status t m)
              ''memory lifecycle status mismatch''
           (guard (t = Memory_verified \<and> (mm_trust m \<noteq> Verified
                 \<or> falsy (mm_authorization_artifact_id m) \<or> falsy (mm_authorization_event_id m)
                 \<or> falsy (mm_authorization_sha256 m)))
              ''verified memory requires authoritative verification references''
           (guard (t \<noteq> Memory_verified \<and> Some (mm_trust m) \<noteq> mm_prior_trust m)
              ''status changes cannot change scientific trust''
           (guard (t = Memory_superseded \<and> (mm_successor_memory_id m = None
                 \<or> mm_successor_memory_id m = Some (mm_memory_id m)))
              ''supersession requires a different successor'' (Inr ())))))
      | _ \<Rightarrow> Inl ''memory event payload variant mismatch'')"

section \<open>The event's own validator\<close>

definition valid_variant_and_revision :: "canonical_event \<Rightarrow> (string, canonical_event) result" where
  "valid_variant_and_revision e =
    (let t = ev_event_type e; parent = (ev_actor_role e = Some Parent_control_plane) in
     guard (ev_schema_version e \<noteq> event_schema_version t)
       ''event schema version does not match its registered family''
    (guard (t \<in> set RESEARCH_ARTIFACT_EVENT_TYPES \<and> \<not> parent)
       ''research artifact events require the parent writer''
    (guard (t \<in> set RESEARCH_MEMORY_EVENT_TYPES \<and> \<not> parent)
       ''memory events require the parent writer''
    (rbind (if t \<in> set RESEARCH_MEMORY_EVENT_TYPES then validate_memory_event t (ev_payload e)
            else Inr ()) (\<lambda>_.
     guard (t \<in> set RESEARCH_LEARNING_EVENT_TYPES \<and> \<not> parent)
       ''learning events require the parent writer''
    (guard (t \<in> set EXECUTION_PROVENANCE_EVENT_TYPES \<and> \<not> parent)
       ''execution provenance events require the parent writer''
    (guard (\<not> payload_matches t (ev_payload e)) ''event_type and payload variant do not match''
    (guard (t \<in> set PHASE4_EVENT_TYPES \<and> \<not> parent)
       ''Phase 4 canonical events require a parent_control_plane actor''
    (guard (t \<notin> {Run_initialized, Baseline_probe_recorded} \<and> ev_actor_role e = None)
       ''Phase 2 events require actor_role''
    (guard (ev_resulting_revision e \<noteq> ev_expected_revision e + 1)
       ''resulting_revision must increment expected_revision once'' (Inr e)))))))))))"

definition event_valid :: "env \<Rightarrow> canonical_event \<Rightarrow> bool" where
  "event_valid E e = (is_ok (payload_valid E (ev_payload e)) \<and> is_ok (valid_variant_and_revision e))"

section \<open>Research artifacts\<close>

definition artifact_stages :: "event_type list" where
  "artifact_stages = [Artifact_ir_frozen, Artifact_rendered, Artifact_validated, Research_artifact_accepted]"

definition artifact_events :: "canonical_event list \<Rightarrow> ident \<Rightarrow> canonical_event list" where
  "artifact_events es a =
     filter (\<lambda>e. ev_event_type e \<in> set RESEARCH_ARTIFACT_EVENT_TYPES
               \<and> artifact_id_of (ev_payload e) = Some a) es"

definition accepted_artifact :: "canonical_event list \<Rightarrow> ident \<Rightarrow> bool" where
  "accepted_artifact es a =
     list_ex (\<lambda>e. ev_event_type e = Research_artifact_accepted
                \<and> artifact_id_of (ev_payload e) = Some a) es"

fun index_of :: "'a \<Rightarrow> 'a list \<Rightarrow> nat" where
  "index_of x [] = 0"
| "index_of x (y # ys) = (if x = y then 0 else Suc (index_of x ys))"

definition stage_progress ::
  "canonical_event list \<Rightarrow> canonical_event list \<Rightarrow> canonical_event \<Rightarrow> ident
    \<Rightarrow> sha256 \<times> sha256 \<times> sha256 list \<Rightarrow> (py_error, unit) result" where
  "stage_progress es prior e a identity =
    (let t = ev_event_type e; p = ev_payload e; sources = snd (snd identity) in
     guard (map ev_event_type prior \<noteq> take (index_of t artifact_stages) artifact_stages)
       (PyValueError ''research artifact lifecycle stage is missing or duplicated'')
    (guard (sources = [] \<or> \<not> set sources \<subseteq> ev_event_sha256 ` set (filter
          (\<lambda>x. ev_event_type x \<in> {Artifact_accepted, Research_artifact_accepted}) es))
       (PyValueError ''research artifact references unaccepted research inputs'')
    (guard (t = Research_artifact_accepted \<and> supersedes_of p \<noteq> None
          \<and> (supersedes_of p = Some a \<or> \<not> accepted_artifact es (the (supersedes_of p))))
       (PyValueError ''supersession cycle or non-prior predecessor'')
    (case prior of
       [] \<Rightarrow> Inr ()
     | first # _ \<Rightarrow>
         require_some (frozen_identity_of (ev_payload first)) (PyAttributeError ''ir_sha256'') (\<lambda>frozen.
         guard (frozen \<noteq> identity) (PyValueError ''research artifact frozen identity changed'')
        (guard ((if t = Research_artifact_accepted then artifact_sha256_of p else receipt_sha256_of p)
              \<noteq> receipt_sha256_of (ev_payload first))
           (PyValueError ''research artifact qualification receipt changed'') (Inr ())))))))"

definition supersession_progress ::
  "canonical_event list \<Rightarrow> canonical_event list \<Rightarrow> research_artifact_superseded \<Rightarrow> (py_error, unit) result"
  where
  "supersession_progress es prior s =
     guard (length prior \<noteq> 4 \<or> ev_event_type (last prior) \<noteq> Research_artifact_accepted)
       (PyValueError ''supersession requires a newly accepted artifact'')
    (guard (ev_event_id (last prior) \<noteq> rsu_accepting_event_id s
          \<or> supersedes_of (ev_payload (last prior)) \<noteq> Some (rsu_supersedes s))
       (PyValueError ''supersession differs from its accepting event'')
    (guard (\<not> accepted_artifact es (rsu_supersedes s))
       (PyValueError ''superseded artifact is not accepted'') (Inr ())))"

definition validate_artifact_event_progress ::
  "canonical_event list \<Rightarrow> canonical_event \<Rightarrow> (py_error, unit) result" where
  "validate_artifact_event_progress es e =
     (if ev_event_type e \<notin> set RESEARCH_ARTIFACT_EVENT_TYPES then Inr ()
      else require_some (artifact_id_of (ev_payload e)) (PyAttributeError ''artifact_id'') (\<lambda>a.
        let prior = artifact_events es a in
        if ev_event_type e \<in> set artifact_stages then
          require_some (frozen_identity_of (ev_payload e)) (PyAttributeError ''source_event_sha256'')
            (stage_progress es prior e a)
        else (case ev_payload e of
                P_research_artifact_superseded s \<Rightarrow> supersession_progress es prior s
              | _ \<Rightarrow> Inl (PyAttributeError ''accepting_event_id''))))"

section \<open>Research learning\<close>

definition learning_status_of_event :: "event_type \<Rightarrow> learning_status option" where
  "learning_status_of_event t =
     map_of (zip RESEARCH_LEARNING_EVENT_TYPES
       [Ln_recorded, Ln_candidate, Ln_evaluated, Ln_qualified, Ln_rejected, Ln_promoted, Ln_superseded]) t"

definition allowed_predecessors :: "learning_status \<Rightarrow> learning_status list" where
  "allowed_predecessors s =
     (case s of
        Ln_evaluated \<Rightarrow> [Ln_candidate, Ln_evaluated, Ln_qualified]
      | Ln_qualified \<Rightarrow> [Ln_evaluated]
      | Ln_promoted \<Rightarrow> [Ln_qualified]
      | Ln_rejected \<Rightarrow> [Ln_candidate, Ln_evaluated, Ln_qualified]
      | Ln_superseded \<Rightarrow> [Ln_candidate, Ln_evaluated, Ln_qualified, Ln_rejected, Ln_promoted]
      | _ \<Rightarrow> [])"

definition learning_events :: "canonical_event list \<Rightarrow> canonical_event list" where
  "learning_events es = filter (\<lambda>e. ev_event_type e \<in> set RESEARCH_LEARNING_EVENT_TYPES) es"

definition learning_history :: "canonical_event list \<Rightarrow> ident \<Rightarrow> canonical_event list" where
  "learning_history es r =
     filter (\<lambda>e. ev_event_type e \<in> set RESEARCH_LEARNING_EVENT_TYPES
               \<and> map_option ln_record_id (learning_of (ev_payload e)) = Some r) es"

definition learning_lifecycle ::
  "canonical_event \<Rightarrow> research_learning \<Rightarrow> research_learning \<Rightarrow> (py_error, unit) result" where
  "learning_lifecycle last_event old p = (let s = ln_status p in
     guard (ln_previous_event_sha256 p \<noteq> Some (ev_event_sha256 last_event))
       (PyValueError ''learning lifecycle requires the current prior event'')
    (guard (ln_project_id old \<noteq> ln_project_id p)
       (PyValueError ''learning project identity cannot change'')
    (guard (ln_status old \<notin> set (allowed_predecessors s))
       (PyValueError ''terminal learning status requires a new successor version'')
    (guard (s \<in> {Ln_evaluated, Ln_qualified, Ln_promoted} \<and> falsy (ln_evaluation_receipt_id p))
       (PyValueError ''evaluation receipt is required'')
    (guard (s \<in> {Ln_qualified, Ln_promoted} \<and> falsy (ln_qualification_receipt_id p))
       (PyValueError ''qualification receipt is required'')
    (guard (s = Ln_evaluated \<and> ln_evaluation_receipt_id p \<noteq> Some (ln_content_digest p))
       (PyValueError ''evaluation receipt must bind the event body'')
    (guard (s = Ln_qualified \<and> (ln_qualification_receipt_id p \<noteq> Some (ln_content_digest p)
          \<or> ln_evaluation_receipt_id p \<noteq> ln_evaluation_receipt_id old))
       (PyValueError ''qualification must bind the prior evaluation'')
    (guard (s = Ln_promoted \<and> (ln_qualification_receipt_id p \<noteq> ln_qualification_receipt_id old
          \<or> ln_evaluation_receipt_id p \<noteq> ln_evaluation_receipt_id old))
       (PyValueError ''promotion cannot replace qualified evidence'')
    (guard (s = Ln_promoted \<and> (\<not> ln_consent p \<or> falsy (ln_approval_artifact_id p)
          \<or> ln_from_scope p \<noteq> Some (ln_scope old)))
       (PyValueError ''promotion requires consent and approval'')
    (guard (s = Ln_promoted \<and> ln_scope p \<in> {Scope_domain, Scope_global}
          \<and> card (set (ln_supporting_projects p)) < 2)
       (PyValueError ''broader promotion requires cross-project evidence'')
    (guard (s \<noteq> Ln_promoted \<and> ln_scope p \<noteq> ln_scope old)
       (PyValueError ''scope changes require promotion'')
    (guard (s = Ln_superseded \<and> (falsy (ln_successor_id p) \<or> ln_successor_id p = Some (ln_record_id p)))
       (PyValueError ''supersession requires another identity'') (Inr ())))))))))))))"

fun check_sources ::
  "(ident \<Rightarrow> canonical_event option) \<Rightarrow> (ident \<times> sha256) list \<Rightarrow> (py_error, unit) result" where
  "check_sources m [] = Inr ()"
| "check_sources m ((i, d) # xs) =
     require_some (m i) (PyKeyError i) (\<lambda>source.
     guard (d \<noteq> (case artifact_sha256_of (ev_payload source) of
                   Some x \<Rightarrow> x | None \<Rightarrow> ev_event_sha256 source))
       (PyValueError ''learning source digest mismatch'') (check_sources m xs))"

definition learning_provenance ::
  "canonical_event list \<Rightarrow> research_learning \<Rightarrow> (py_error, unit) result" where
  "learning_provenance es p =
     guard (\<not> set (ln_source_event_ids p) \<subseteq> set (map ev_event_id es))
       (PyValueError ''learning references unaccepted source events'')
    (guard (length (ln_source_digests p) \<noteq> length (ln_source_event_ids p))
       (PyValueError ''learning provenance arrays must match'')
    (rbind (check_sources (map_of (rev (map (\<lambda>e. (ev_event_id e, e)) es)))
             (zip (ln_source_event_ids p) (ln_source_digests p))) (\<lambda>_.
     guard (ln_status p = Ln_promoted \<and> \<not> list_ex (\<lambda>e. ev_event_id e \<in> set (ln_source_event_ids p)
            \<and> ev_event_type e \<in> {Artifact_accepted, Research_artifact_accepted}
            \<and> artifact_id_of (ev_payload e) = ln_approval_artifact_id p) es)
       (PyValueError ''promotion approval must reference an accepted artifact'')
    (guard (ln_status p = Ln_superseded \<and> \<not> list_ex (\<lambda>e. ev_event_type e = Heuristic_proposed
            \<and> (case learning_of (ev_payload e) of
                 Some l \<Rightarrow> Some (ln_record_id l) = ln_successor_id p \<and> ln_project_id l = ln_project_id p
               | None \<Rightarrow> False)
            \<and> ev_event_id e \<in> set (ln_source_event_ids p)) es)
       (PyValueError ''supersession must bind a prior accepted successor'') (Inr ())))))"

definition validate_learning_progress ::
  "canonical_event list \<Rightarrow> canonical_event \<Rightarrow> (py_error, unit) result" where
  "validate_learning_progress es e =
     (if ev_event_type e \<notin> set RESEARCH_LEARNING_EVENT_TYPES then Inr ()
      else if list_ex (\<lambda>x. learning_of (ev_payload x) = None) (learning_events es)
      then Inl (PyAttributeError ''record_id'')
      else require_some (learning_of (ev_payload e)) (PyAttributeError ''record_id'') (\<lambda>p.
        let prior = learning_history es (ln_record_id p) in
        guard (Some (ln_status p) \<noteq> learning_status_of_event (ev_event_type e))
          (PyValueError ''learning event status mismatch'')
       (rbind
         (if ln_status p \<in> {Ln_recorded, Ln_candidate} then
            guard (prior \<noteq> [] \<or> ln_previous_event_sha256 p \<noteq> None)
              (PyValueError ''learning identity already exists'') (Inr ())
          else if prior = [] then
            Inl (PyValueError ''learning lifecycle requires the current prior event'')
          else require_some (learning_of (ev_payload (last prior))) (PyAttributeError ''project_id'')
            (\<lambda>old. learning_lifecycle (last prior) old p))
         (\<lambda>_. learning_provenance es p))))"

section \<open>What an accepted history of research artifacts guarantees\<close>

lemma stage_accepted:
  assumes "validate_artifact_event_progress es e = Inr ()"
    and "ev_event_type e \<in> set artifact_stages" and "artifact_id_of (ev_payload e) = Some a"
  shows "\<exists>identity. frozen_identity_of (ev_payload e) = Some identity
           \<and> stage_progress es (artifact_events es a) e a identity = Inr ()"
proof -
  have "ev_event_type e \<in> set RESEARCH_ARTIFACT_EVENT_TYPES"
    using assms(2) by (auto simp: artifact_stages_def RESEARCH_ARTIFACT_EVENT_TYPES_def)
  with assms show ?thesis
    by (auto simp: validate_artifact_event_progress_def guard_simps)
qed

lemma later_stage_keeps_identity:
  assumes "stage_progress es (first # rest) e a identity = Inr ()"
  shows "frozen_identity_of (ev_payload first) = Some identity
    \<and> (if ev_event_type e = Research_artifact_accepted then artifact_sha256_of (ev_payload e)
        else receipt_sha256_of (ev_payload e)) = receipt_sha256_of (ev_payload first)"
  using assms by (auto simp: stage_progress_def Let_def guard_simps)

text \<open>
  C27.  A research artifact is accepted only after it was frozen, rendered and validated, in that
  order and once each, and all four events carry the same IR digest, renderer identity and sources;
  the accepted digest is the qualification receipt of the three stages; and every source is the digest
  of an artifact accepted before.
\<close>

theorem accepted_artifact_passed_every_stage:
  assumes "accepted_history validate_artifact_event_progress es" and "i < length es"
    and "ev_event_type (es ! i) = Research_artifact_accepted"
    and "ev_payload (es ! i) = P_research_artifact_accepted p"
  shows "\<exists>e1 e2 e3. artifact_events (take i es) (aa_artifact_id p) = [e1, e2, e3]
     \<and> map ev_event_type [e1, e2, e3] = [Artifact_ir_frozen, Artifact_rendered, Artifact_validated]
     \<and> (\<forall>e \<in> {e1, e2, e3}. frozen_identity_of (ev_payload e)
            = Some (ra_ir_sha256 p, ra_renderer_identity_digest p, ra_source_event_sha256 p)
          \<and> receipt_sha256_of (ev_payload e) = Some (aa_artifact_sha256 p))
     \<and> (\<forall>d \<in> set (ra_source_event_sha256 p). \<exists>x \<in> set (take i es).
          ev_event_type x \<in> {Artifact_accepted, Research_artifact_accepted} \<and> ev_event_sha256 x = d)"
proof -
  let ?a = "aa_artifact_id p" and ?prior = "artifact_events (take i es) (aa_artifact_id p)"
  let ?P = "\<lambda>e. ev_event_type e \<in> set RESEARCH_ARTIFACT_EVENT_TYPES
              \<and> artifact_id_of (ev_payload e) = Some ?a"
  let ?id = "(ra_ir_sha256 p, ra_renderer_identity_digest p, ra_source_event_sha256 p)"
  have aid: "artifact_id_of (ev_payload (es ! i)) = Some ?a" by (simp add: assms(4) artifact_id_of_def)
  have fid: "frozen_identity_of (ev_payload (es ! i)) = Some ?id"
    by (simp add: assms(4) frozen_identity_of_def)
  have st: "stage_progress (take i es) ?prior (es ! i) ?a ?id = Inr ()"
    using stage_accepted [OF accepted_historyD [OF assms(1,2)] _ aid] assms(3) fid
    by (auto simp: artifact_stages_def)
  then have types: "map ev_event_type ?prior = [Artifact_ir_frozen, Artifact_rendered, Artifact_validated]"
    and src: "set (ra_source_event_sha256 p) \<subseteq> ev_event_sha256 ` set (filter
          (\<lambda>x. ev_event_type x \<in> {Artifact_accepted, Research_artifact_accepted}) (take i es))"
    using assms(3) by (simp_all add: stage_progress_def Let_def guard_simps artifact_stages_def)
  obtain e1 e2 e3 where prior: "?prior = [e1, e2, e3]" and t:
    "ev_event_type e1 = Artifact_ir_frozen" "ev_event_type e2 = Artifact_rendered"
    "ev_event_type e3 = Artifact_validated"
    using types by (auto simp: map_eq_Cons_conv)
  have first: "frozen_identity_of (ev_payload e1) = Some ?id
      \<and> Some (aa_artifact_sha256 p) = receipt_sha256_of (ev_payload e1)"
    using later_stage_keeps_identity [of "take i es" e1 "[e2, e3]" "es ! i" ?a ?id] st prior assms(3,4)
    by (simp add: artifact_sha256_of_def)
  have later: "frozen_identity_of (ev_payload e) = Some ?id
      \<and> receipt_sha256_of (ev_payload e) = Some (aa_artifact_sha256 p)"
    if k: "e = ?prior ! k" "0 < k" "k < 3" "ev_event_type e \<in> set artifact_stages"
      "ev_event_type e \<noteq> Research_artifact_accepted" for e k
  proof -
    have "k < length (filter ?P (take i es))"
      using k(3) prior unfolding artifact_events_def [symmetric] by simp
    then obtain j where j: "j < length (take i es)" "?P (take i es ! j)"
      "take i es ! j = e" "filter ?P (take j (take i es)) = take k ?prior"
      using filter_nth_position [of k ?P "take i es"] k(1) unfolding artifact_events_def by blast
    then have ji: "j < length es" "es ! j = e" "artifact_events (take j es) ?a = take k [e1, e2, e3]"
      using prior by (simp_all add: artifact_events_def)
    then obtain rest where rest: "artifact_events (take j es) ?a = e1 # rest"
      using k(2) by (cases k) simp_all
    have ae: "artifact_id_of (ev_payload (es ! j)) = Some ?a" using j(2,3) ji(2) by simp
    have te: "ev_event_type (es ! j) \<in> set artifact_stages" using k(4) ji(2) by simp
    from stage_accepted [OF accepted_historyD [OF assms(1) ji(1)] te ae] rest ji(2)
    obtain identity where "frozen_identity_of (ev_payload e) = Some identity"
      "stage_progress (take j es) (e1 # rest) e ?a identity = Inr ()" by auto
    with later_stage_keeps_identity [OF this(2)] first k(5) show ?thesis by simp
  qed
  have e2: "frozen_identity_of (ev_payload e2) = Some ?id
      \<and> receipt_sha256_of (ev_payload e2) = Some (aa_artifact_sha256 p)"
    by (rule later [of e2 1]) (simp_all add: prior t artifact_stages_def)
  have e3: "frozen_identity_of (ev_payload e3) = Some ?id
      \<and> receipt_sha256_of (ev_payload e3) = Some (aa_artifact_sha256 p)"
    by (rule later [of e3 2]) (simp_all add: prior t artifact_stages_def)
  have srcs: "\<forall>d \<in> set (ra_source_event_sha256 p). \<exists>x \<in> set (take i es).
      ev_event_type x \<in> {Artifact_accepted, Research_artifact_accepted} \<and> ev_event_sha256 x = d"
    using src by fastforce
  from prior t first e2 e3 srcs show ?thesis
    by (intro exI [of _ e1] exI [of _ e2] exI [of _ e3] conjI) simp_all
qed

section \<open>What an accepted history of research heuristics guarantees\<close>

definition learning_at :: "canonical_event list \<Rightarrow> nat \<Rightarrow> research_learning \<Rightarrow> bool" where
  "learning_at es i p = (i < length es \<and> ev_event_type (es ! i) \<in> set RESEARCH_LEARNING_EVENT_TYPES
     \<and> learning_of (ev_payload (es ! i)) = Some p)"

lemma learning_accepted:
  assumes "accepted_history validate_learning_progress es" and "learning_at es i p"
  shows "learning_status_of_event (ev_event_type (es ! i)) = Some (ln_status p)
    \<and> learning_provenance (take i es) p = Inr ()
    \<and> (ln_status p \<notin> {Ln_recorded, Ln_candidate} \<longrightarrow>
         (\<exists>k old. k < i \<and> learning_at es k old \<and> ln_record_id old = ln_record_id p
            \<and> learning_history (take i es) (ln_record_id p) \<noteq> []
            \<and> es ! k = last (learning_history (take i es) (ln_record_id p))
            \<and> learning_lifecycle (es ! k) old p = Inr ()))"
proof -
  let ?prior = "learning_history (take i es) (ln_record_id p)"
  have i: "i < length es" using assms(2) by (simp add: learning_at_def)
  have v: "validate_learning_progress (take i es) (es ! i) = Inr ()"
    by (rule accepted_historyD [OF assms(1) i])
  have st: "learning_status_of_event (ev_event_type (es ! i)) = Some (ln_status p)"
    and pr: "learning_provenance (take i es) p = Inr ()"
    and lc: "ln_status p \<notin> {Ln_recorded, Ln_candidate} \<Longrightarrow> ?prior \<noteq> [] \<and>
        (\<exists>old. learning_of (ev_payload (last ?prior)) = Some old
          \<and> learning_lifecycle (last ?prior) old p = Inr ())"
    using v assms(2)
    by (auto simp: validate_learning_progress_def learning_at_def Let_def guard_simps split: if_splits)
  have "\<exists>k old. k < i \<and> learning_at es k old \<and> ln_record_id old = ln_record_id p \<and> ?prior \<noteq> []
      \<and> es ! k = last ?prior \<and> learning_lifecycle (es ! k) old p = Inr ()"
    if s: "ln_status p \<notin> {Ln_recorded, Ln_candidate}"
  proof -
    let ?P = "\<lambda>e. ev_event_type e \<in> set RESEARCH_LEARNING_EVENT_TYPES
               \<and> map_option ln_record_id (learning_of (ev_payload e)) = Some (ln_record_id p)"
    obtain old where ne: "?prior \<noteq> []" and old: "learning_of (ev_payload (last ?prior)) = Some old"
      "learning_lifecycle (last ?prior) old p = Inr ()" using lc [OF s] by blast
    then have "length ?prior - 1 < length (filter ?P (take i es))"
      by (simp add: learning_history_def)
    then obtain k where k: "k < length (take i es)" "?P (take i es ! k)"
      "take i es ! k = ?prior ! (length ?prior - 1)"
      using filter_nth_position [of "length ?prior - 1" ?P "take i es"]
      unfolding learning_history_def by blast
    then have "es ! k = last ?prior" using ne by (simp add: last_conv_nth)
    moreover have "k < i" "k < length es" using k(1) by simp_all
    ultimately show ?thesis
      using k(2) old ne by (intro exI [of _ k] exI [of _ old]) (auto simp: learning_at_def)
  qed
  with st pr show ?thesis by blast
qed

lemma learning_status_event:
  "learning_status_of_event t = Some Ln_evaluated \<longleftrightarrow> t = Heuristic_evaluated"
  "learning_status_of_event t = Some Ln_qualified \<longleftrightarrow> t = Heuristic_qualified"
  "learning_status_of_event Heuristic_promoted = Some Ln_promoted"
  by (auto simp: learning_status_of_event_def RESEARCH_LEARNING_EVENT_TYPES_def split: if_splits)

text \<open>
  C28.  A research heuristic is promoted only on evidence recorded before.  In an accepted history
  every promotion follows a qualification of the same record, which follows an evaluation of it; the
  promotion carries both receipts unchanged (each is the content digest of its own event), has the
  operator's consent, and names as approval an artifact accepted earlier.
\<close>

theorem promotion_rests_on_recorded_evidence:
  assumes "accepted_history validate_learning_progress es" and "learning_at es i p"
    and "ev_event_type (es ! i) = Heuristic_promoted"
  shows "\<exists>k q j v. j < k \<and> k < i \<and> learning_at es k q \<and> learning_at es j v
     \<and> ev_event_type (es ! k) = Heuristic_qualified \<and> ev_event_type (es ! j) = Heuristic_evaluated
     \<and> ln_record_id q = ln_record_id p \<and> ln_record_id v = ln_record_id p
     \<and> ln_project_id q = ln_project_id p \<and> ln_project_id v = ln_project_id p
     \<and> ln_qualification_receipt_id p = Some (ln_content_digest q)
     \<and> ln_evaluation_receipt_id p = Some (ln_content_digest v)
     \<and> ln_consent p
     \<and> (\<exists>x \<in> set (take i es). ev_event_type x \<in> {Artifact_accepted, Research_artifact_accepted}
          \<and> artifact_id_of (ev_payload x) = ln_approval_artifact_id p)"
proof -
  note acc = learning_accepted [OF assms(1)]
  have sp: "ln_status p = Ln_promoted"
    using acc [OF assms(2)] assms(3) by (simp add: learning_status_event)
  then obtain k q where k: "k < i" "learning_at es k q" "ln_record_id q = ln_record_id p"
    and lp: "learning_lifecycle (es ! k) q p = Inr ()" using acc [OF assms(2)] by auto
  have q: "ln_status q = Ln_qualified" "ln_project_id q = ln_project_id p" "ln_consent p"
    "ln_qualification_receipt_id p = ln_qualification_receipt_id q"
    "ln_evaluation_receipt_id p = ln_evaluation_receipt_id q"
    using lp sp by (simp_all add: learning_lifecycle_def Let_def guard_simps allowed_predecessors_def)
  then obtain j v where j: "j < k" "learning_at es j v" "ln_record_id v = ln_record_id q"
    and lq: "learning_lifecycle (es ! j) v q = Inr ()" using acc [OF k(2)] by auto
  have v: "ln_status v = Ln_evaluated" "ln_project_id v = ln_project_id q"
    "ln_qualification_receipt_id q = Some (ln_content_digest q)"
    "ln_evaluation_receipt_id q = ln_evaluation_receipt_id v"
    using lq q(1) by (simp_all add: learning_lifecycle_def Let_def guard_simps allowed_predecessors_def)
  then obtain i0 w where "learning_lifecycle (es ! i0) w v = Inr ()" using acc [OF j(2)] by auto
  then have ev: "ln_evaluation_receipt_id v = Some (ln_content_digest v)"
    using v(1) by (simp add: learning_lifecycle_def Let_def guard_simps)
  have types: "ev_event_type (es ! k) = Heuristic_qualified" "ev_event_type (es ! j) = Heuristic_evaluated"
    using acc [OF k(2)] acc [OF j(2)] q(1) v(1) by (simp_all add: learning_status_event)
  have "\<exists>x \<in> set (take i es). ev_event_type x \<in> {Artifact_accepted, Research_artifact_accepted}
          \<and> artifact_id_of (ev_payload x) = ln_approval_artifact_id p"
    using acc [OF assms(2)] sp by (auto simp: learning_provenance_def guard_simps list_ex_iff)
  with k j q v ev types show ?thesis
    by (intro exI [of _ k] exI [of _ q] exI [of _ j] exI [of _ v]) simp
qed

end
