(* ===== verification/Exec_Provenance.thy ===== *)
theory Exec_Provenance
  imports Event_Rules
begin

text \<open>
  The projection of execution facts from canonical events
  (\<^verbatim>\<open>kernel/ledger/execution_provenance.py\<close>): which actions ran, which artifacts they read and
  wrote, and what is missing.  The locals of \<open>project_execution_provenance\<close> are the record
  \<open>prov_state\<close>; each branch of its loop is one definition.
\<close>

section \<open>State\<close>

record action_fact =
  af_started_event :: canonical_event
  af_started :: execution_action_started
  af_finished :: "(canonical_event \<times> execution_action_finished) option"

record control_fact =
  cf_control_id :: string
  cf_step_id :: "ident option"
  cf_tool_id :: "ident option"
  cf_tool_action_id :: ident
  cf_source_event_id :: ident

type_synonym binding_key = "ident \<times> ident \<times> direction \<times> ident"
type_synonym entity_identity = "ident \<times> string \<times> sha256"

record prov_state =
  pv_context :: "(canonical_event \<times> execution_context_accepted) option"
  pv_metadata :: "canonical_event list"
  pv_actions :: "(ident, action_fact) dict"
  pv_bindings :: "(canonical_event \<times> execution_artifact_bound) list"
  pv_entities :: "(ident, entity_identity) dict"
  pv_binding_keys :: "binding_key list"
  pv_output_sources :: "(ident \<times> string) list"
  pv_event_by_id :: "(ident, canonical_event) dict"
  pv_assignments :: "(ident, assignment) dict"
  pv_assignment_events :: "(ident, canonical_event) dict"
  pv_prepared_attempts :: "(ident, ident) dict"
  pv_intents :: "ident list"
  pv_stage :: ident

definition prov_init :: prov_state where
  "prov_init =
     \<lparr> pv_context = None, pv_metadata = [], pv_actions = [], pv_bindings = [], pv_entities = [],
       pv_binding_keys = [], pv_output_sources = [], pv_event_by_id = [], pv_assignments = [],
       pv_assignment_events = [], pv_prepared_attempts = [], pv_intents = [],
       pv_stage = ''initialized'' \<rparr>"

abbreviation ep_error :: "string \<Rightarrow> py_error" where
  "ep_error m \<equiv> ExecutionProvenanceError m"

section \<open>The branches of the loop\<close>

definition prov_context ::
  "prov_state \<Rightarrow> canonical_event \<Rightarrow> execution_context_accepted \<Rightarrow> (py_error, prov_state) result" where
  "prov_context s e p =
     guard (ev_actor_role e \<noteq> Some Parent_control_plane \<or> pv_context s \<noteq> None \<or> pv_intents s \<noteq> []
          \<or> pv_stage s \<notin> {''initialized'', ''prepared''})
       (ep_error ''execution context must be parent-owned, outside prepare prefix, and frozen before dispatch'')
    (guard (ctx_workflow_definition_id p \<noteq> ''orchestration.phase4.v1'')
       (ep_error ''context is not the active workflow definition'')
       (Inr (s\<lparr>pv_context := Some (e, p)\<rparr>)))"

definition prov_metadata ::
  "prov_state \<Rightarrow> canonical_event \<Rightarrow> dataset_metadata_accepted \<Rightarrow> (py_error, prov_state) result" where
  "prov_metadata s e p =
     guard (pv_metadata s = [] \<and> dm_supersedes_event_id p \<noteq> None)
       (ep_error ''initial metadata cannot supersede'')
    (guard (pv_metadata s \<noteq> []
          \<and> (dm_supersedes_event_id p \<noteq> Some (ev_event_id (last (pv_metadata s)))
           \<or> dm_supersedes_event_sha256 p \<noteq> Some (ev_event_sha256 (last (pv_metadata s)))))
       (ep_error ''metadata must supersede the latest exact event'')
       (Inr (s\<lparr>pv_metadata := pv_metadata s @ [e]\<rparr>)))"

definition tool_action_check ::
  "prov_state \<Rightarrow> execution_context_accepted \<Rightarrow> execution_action_started \<Rightarrow> (py_error, unit) result" where
  "tool_action_check s ctx p =
    (case Option.bind (act_workflow_action_id p) (dget (pv_actions s)) of
       None \<Rightarrow> Inl (ep_error ''tool action needs an active workflow action'')
     | Some parent \<Rightarrow>
         guard (act_kind (af_started parent) \<noteq> Workflow_action \<or> af_finished parent \<noteq> None)
           (ep_error ''tool action needs an active workflow action'')
        (guard (act_attempt_id p \<notin> Some ` set (pv_intents s)
             \<or> Option.bind (act_attempt_id p) (dget (pv_prepared_attempts s)) \<noteq> act_assignment_id p)
           (ep_error ''tool action needs exact dispatch intent'')
        (guard (act_assignment_id p \<notin> Some ` dkeys (pv_assignments s))
           (ep_error ''tool action needs accepted assignment'')
        (guard (Option.bind (act_step_id p)
               (map_of (rev (map (\<lambda>x. (step_step_id x, step_tool_id x)) (ctx_steps ctx)))) \<noteq> act_tool_id p)
           (ep_error ''tool action instrument differs from frozen step'')
        (guard (act_started_at p < act_started_at (af_started parent))
           (ep_error ''tool action starts before workflow action'')
        (guard (list_ex (\<lambda>a. act_kind (af_started a) = Tool_action
                   \<and> act_attempt_id (af_started a) = act_attempt_id p) (dvalues (pv_actions s)))
           (ep_error ''attempt already entered the adapter'') (Inr ())))))))"

definition workflow_action_check :: "prov_state \<Rightarrow> (py_error, unit) result" where
  "workflow_action_check s =
     guard (pv_assignments s = []) (ep_error ''workflow action needs prepared assignments'')
    (guard (list_ex (\<lambda>a. act_kind (af_started a) = Workflow_action \<and> af_finished a = None)
              (dvalues (pv_actions s)))
       (ep_error ''workflow dispatch action is already active'') (Inr ()))"

definition prov_action_started ::
  "prov_state \<Rightarrow> canonical_event \<Rightarrow> execution_action_started \<Rightarrow> (py_error, prov_state) result" where
  "prov_action_started s e p =
    (case pv_context s of
       None \<Rightarrow> Inl (ep_error ''action needs context and unique ID'')
     | Some (_, ctx) \<Rightarrow>
         guard (act_action_id p \<in> dkeys (pv_actions s)) (ep_error ''action needs context and unique ID'')
        (rbind (if act_kind p = Tool_action then tool_action_check s ctx p else workflow_action_check s)
          (\<lambda>_. Inr (s\<lparr>pv_actions := dset (act_action_id p)
             \<lparr> af_started_event = e, af_started = p, af_finished = None \<rparr> (pv_actions s)\<rparr>))))"

definition prov_action_finished ::
  "prov_state \<Rightarrow> canonical_event \<Rightarrow> execution_action_finished \<Rightarrow> (py_error, prov_state) result" where
  "prov_action_finished s e p =
    (case dget (pv_actions s) (fin_action_id p) of
       None \<Rightarrow> Inl (ep_error ''finish needs one unfinished action'')
     | Some prior \<Rightarrow>
         guard (af_finished prior \<noteq> None) (ep_error ''finish needs one unfinished action'')
        (guard (fin_ended_at p < act_started_at (af_started prior))
           (ep_error ''action end precedes start'')
        (guard (act_kind (af_started prior) = Tool_action \<and> fin_outcome p = Succeeded
              \<and> (fin_host_agent_id p = None \<or> fin_host_result_sha256 p = None))
           (ep_error ''successful tool action needs structured host observation'')
           (Inr (s\<lparr>pv_actions := dset (fin_action_id p) (prior\<lparr>af_finished := Some (e, p)\<rparr>)
                                    (pv_actions s)\<rparr>)))))"

text \<open>The checks of one binding, against the acting attempt and against the source event.\<close>

definition binding_identity :: "execution_artifact_bound \<Rightarrow> entity_identity" where
  "binding_identity p = (bd_source_event_id p, bd_relative_path p, bd_content_sha256 p)"

definition binding_key_of :: "execution_artifact_bound \<Rightarrow> binding_key" where
  "binding_key_of p = (bd_action_id p, bd_attempt_id p, bd_direction p, bd_entity_id p)"

definition binding_action_check ::
  "prov_state \<Rightarrow> execution_artifact_bound \<Rightarrow> (py_error, unit) result" where
  "binding_action_check s p =
    (case dget (pv_actions s) (bd_action_id p) of
       None \<Rightarrow> Inl (ep_error ''binding needs a parent-observed action'')
     | Some action \<Rightarrow> let started = af_started action in
         guard (bd_direction p = Dir_output \<and> act_kind started \<noteq> Tool_action)
           (ep_error ''binding needs a parent-observed action'')
        (guard (act_kind started = Workflow_action
             \<and> (bd_direction p \<noteq> Dir_input
              \<or> dget (pv_prepared_attempts s) (bd_attempt_id p) \<noteq> Some (bd_assignment_id p)
              \<or> bd_attempt_id p \<notin> set (pv_intents s)))
           (ep_error ''workflow input binding needs exact dispatch intent'')
        (guard (act_kind started \<noteq> Workflow_action
             \<and> (act_assignment_id started \<noteq> Some (bd_assignment_id p)
              \<or> act_attempt_id started \<noteq> Some (bd_attempt_id p)))
           (ep_error ''binding action/attempt identity differs'') (Inr ()))))"

definition run_input_source_check ::
  "execution_artifact_bound \<Rightarrow> canonical_event \<Rightarrow> (py_error, unit) result" where
  "run_input_source_check p source =
     guard (ev_event_type source \<noteq> Run_initialized)
       (ep_error ''run input binding is not the immutable input source'')
    (require_some (as_run_initialized (ev_payload source)) (PyAttributeError ''manifest_sha256'') (\<lambda>r.
     guard (bd_source_manifest_sha256 p \<noteq> Some (ri_manifest_sha256 r)
          \<or> bd_entity_id p \<noteq> ''input.'' @ take 32 (bd_content_sha256 p))
       (ep_error ''run input binding is not the immutable input source'') (Inr ())))"

definition proposal_source_check ::
  "execution_artifact_bound \<Rightarrow> canonical_event \<Rightarrow> (py_error, unit) result" where
  "proposal_source_check p source =
     guard (bd_direction p \<noteq> Dir_output \<or> ev_event_type source \<noteq> Proposal_accepted)
       (ep_error ''output needs accepted proposal source'')
    (require_some (as_proposal_accepted (ev_payload source)) (PyAttributeError ''attempt_id'') (\<lambda>w.
     guard (pac_attempt_id w \<noteq> bd_attempt_id p \<or> pac_assignment_id w \<noteq> bd_assignment_id p)
       (ep_error ''proposal source does not bind producing attempt'')
    (guard (bd_source_manifest_sha256 p \<noteq> Some (pac_proposal_sha256 w)
          \<or> \<not> list_ex (\<lambda>a. pa_relative_path a = bd_relative_path p
                 \<and> pa_sha256 a = bd_content_sha256 p \<and> pa_byte_count a = bd_byte_count p)
               (wp_artifacts (pac_proposal w)))
       (ep_error ''binding differs from exact proposed artifact'') (Inr ()))))"

definition artifact_source_check ::
  "prov_state \<Rightarrow> execution_artifact_bound \<Rightarrow> canonical_event \<Rightarrow> (py_error, unit) result" where
  "artifact_source_check s p source =
     guard (ev_event_type source \<noteq> Artifact_accepted)
       (ep_error ''binding differs from accepted artifact manifest'')
    (require_some (as_artifact_accepted (ev_payload source)) (PyAttributeError ''manifest_sha256'') (\<lambda>a.
     guard (bd_source_manifest_sha256 p \<noteq> Some (aa_manifest_sha256 a)
          \<or> bd_content_sha256 p \<noteq> aa_artifact_sha256 a
          \<or> bd_entity_id p \<noteq> aa_artifact_id a)
       (ep_error ''binding differs from accepted artifact manifest'')
    (guard (bd_direction p = Dir_output \<and> aa_attempt_id a \<noteq> Some (bd_attempt_id p))
       (ep_error ''artifact output attempt differs'')
    (if bd_direction p = Dir_input then
       require_some (dget (pv_assignment_events s) (bd_assignment_id p))
         (PyKeyError (bd_assignment_id p)) (\<lambda>ae.
         guard (ev_sequence ae \<le> ev_sequence source)
           (ep_error ''input artifact was not accepted before assignment'') (Inr ()))
     else Inr ()))))"

definition binding_source_check ::
  "prov_state \<Rightarrow> execution_artifact_bound \<Rightarrow> canonical_event \<Rightarrow> (py_error, unit) result" where
  "binding_source_check s p source =
    (case bd_source_kind p of
       Src_run_input \<Rightarrow> run_input_source_check p source
     | Src_proposal \<Rightarrow> proposal_source_check p source
     | Src_artifact \<Rightarrow> artifact_source_check s p source)"

definition prov_artifact_bound ::
  "prov_state \<Rightarrow> canonical_event \<Rightarrow> execution_artifact_bound \<Rightarrow> (py_error, prov_state) result" where
  "prov_artifact_bound s e p =
     guard (binding_key_of p \<in> set (pv_binding_keys s)) (ep_error ''artifact binding was already recorded'')
    (guard (dget (pv_entities s) (bd_entity_id p) \<notin> {None, Some (binding_identity p)})
       (ep_error ''artifact entity identity changed'')
    (guard (bd_direction p = Dir_output \<and> bd_entity_id p \<in> dkeys (pv_entities s))
       (ep_error ''artifact output was already produced'')
    (guard (bd_direction p = Dir_output
          \<and> (bd_source_event_id p, bd_relative_path p) \<in> set (pv_output_sources s))
       (ep_error ''accepted output source was already bound'')
    (rbind (binding_action_check s p) (\<lambda>_.
     require_some (dget (pv_assignments s) (bd_assignment_id p)) (PyKeyError (bd_assignment_id p))
       (\<lambda>assignment.
     require_some (dget (pv_event_by_id s) (bd_source_event_id p))
       (ep_error ''binding source event is missing or stale'') (\<lambda>source.
     guard (ev_event_sha256 source \<noteq> bd_source_event_sha256 p)
       (ep_error ''binding source event is missing or stale'')
    (rbind (binding_source_check s p source) (\<lambda>_.
     guard (bd_direction p = Dir_input \<and> bd_content_sha256 p \<notin> set (asg_input_sha256 assignment))
       (ep_error ''input is not in the immutable assignment'')
       (Inr (s\<lparr> pv_entities := dset (bd_entity_id p) (binding_identity p) (pv_entities s),
               pv_binding_keys := binding_key_of p # pv_binding_keys s,
               pv_output_sources := (if bd_direction p = Dir_output
                  then (bd_source_event_id p, bd_relative_path p) # pv_output_sources s
                  else pv_output_sources s),
               pv_bindings := pv_bindings s @ [(e, p)] \<rparr>)))))))))))"

text \<open>
  One event.  The type of the event decides the branch; narrowing the payload fails when it is of
  another class.
\<close>

definition prov_assignment :: "prov_state \<Rightarrow> canonical_event \<Rightarrow> assignment \<Rightarrow> prov_state" where
  "prov_assignment s e a =
     s\<lparr> pv_assignments := dset (asg_assignment_id a) a (pv_assignments s),
        pv_assignment_events := dset (asg_assignment_id a) e (pv_assignment_events s) \<rparr>"

definition prov_attempt :: "prov_state \<Rightarrow> attempt_prepared \<Rightarrow> prov_state" where
  "prov_attempt s p =
     s\<lparr> pv_prepared_attempts :=
          dset (att_attempt_id (atp_attempt p)) (atp_assignment_id p) (pv_prepared_attempts s) \<rparr>"

definition prov_intent :: "prov_state \<Rightarrow> attempt_lifecycle \<Rightarrow> prov_state" where
  "prov_intent s p =
     (if alc_status p = St_active then s\<lparr>pv_intents := pv_intents s @ [alc_attempt_id p]\<rparr> else s)"

definition prov_branch :: "prov_state \<Rightarrow> canonical_event \<Rightarrow> (py_error, prov_state) result" where
  "prov_branch s e =
    (let t = ev_event_type e; p = ev_payload e in
     if t \<in> {Assignment_prepared, Assignment_superseded} then
       require_some (as_assignment_prepared p) (PyAttributeError ''assignment'')
         (\<lambda>q. Inr (prov_assignment s e (ap_assignment q)))
     else if t = Attempt_prepared then
       require_some (as_attempt_prepared p) (PyAttributeError ''attempt'') (\<lambda>q. Inr (prov_attempt s q))
     else if t = Attempt_lifecycle then
       require_some (as_attempt_lifecycle p) (PyAttributeError ''status'') (\<lambda>q. Inr (prov_intent s q))
     else if t = Ep_context_accepted then
       require_some (as_context p) PyAssertionError (prov_context s e)
     else if t = Ep_dataset_metadata_accepted then
       require_some (as_dataset_metadata p) PyAssertionError (prov_metadata s e)
     else if t = Ep_action_started then
       require_some (as_action_started p) PyAssertionError (prov_action_started s e)
     else if t = Ep_action_finished then
       require_some (as_action_finished p) PyAssertionError (prov_action_finished s e)
     else if t = Ep_artifact_bound then
       require_some (as_artifact_bound p) PyAssertionError (prov_artifact_bound s e)
     else Inr s)"

definition prov_stage_step :: "prov_state \<Rightarrow> canonical_event \<Rightarrow> (py_error, prov_state) result" where
  "prov_stage_step s e =
     (if ev_event_type e = Lifecycle_transitioned then
        require_some (as_lifecycle_transitioned (ev_payload e)) (PyAttributeError ''to_stage'')
          (\<lambda>p. Inr (s\<lparr>pv_stage := lt_to_stage p\<rparr>))
      else Inr s)"

definition prov_step :: "ident \<Rightarrow> prov_state \<Rightarrow> canonical_event \<Rightarrow> (py_error, prov_state) result" where
  "prov_step run_id s e =
     guard (ev_run_id e \<noteq> run_id) (ep_error ''execution event belongs to another run'')
    (rbind (prov_stage_step s e) (\<lambda>s1.
     rbind (prov_branch s1 e) (\<lambda>s2.
     guard (ev_event_type e \<in> set EXECUTION_PROVENANCE_EVENT_TYPES
          \<and> ev_actor_role e \<noteq> Some Parent_control_plane)
       (ep_error ''execution provenance requires parent authority'')
       (Inr (s2\<lparr>pv_event_by_id := dset (ev_event_id e) e (pv_event_by_id s2)\<rparr>)))))"

definition prov_run :: "ident \<Rightarrow> prov_state \<Rightarrow> canonical_event list \<Rightarrow> (py_error, prov_state) result" where
  "prov_run run_id s es = fold_result (prov_step run_id) s es"

interpretation prov: checked_loop "prov_step r" "prov_run r" for r
  by unfold_locales (simp_all add: prov_run_def split: sum.split)

section \<open>The projection\<close>

record execution_provenance_state =
  xp_context :: "(canonical_event \<times> execution_context_accepted) option"
  xp_dataset_metadata :: "canonical_event option"
  xp_metadata_history :: "canonical_event list"
  xp_actions :: "action_fact list"
  xp_control_actions :: "control_fact list"
  xp_bindings :: "(canonical_event \<times> execution_artifact_bound) list"
  xp_intent_only_attempt_ids :: "ident list"
  xp_coverage_gaps :: "string list"

definition is_tool :: "action_fact \<Rightarrow> bool" where
  "is_tool a = (act_kind (af_started a) = Tool_action)"

definition intent_only_attempts :: "prov_state \<Rightarrow> ident list" where
  "intent_only_attempts s =
     filter (\<lambda>i. Some i \<notin> set (map (\<lambda>a. act_attempt_id (af_started a))
                            (filter is_tool (dvalues (pv_actions s))))) (pv_intents s)"

definition context_gaps :: "prov_state \<Rightarrow> string list" where
  "context_gaps s =
     (case pv_context s of
        None \<Rightarrow> [''workflow_context'']
      | Some (_, c) \<Rightarrow>
          (if ws_content_base64 (ctx_workflow_source c) = None then [''workflow_source_bytes''] else [])
        @ (if ws_programming_language (ctx_workflow_source c) = None then [''programming_language''] else [])
        @ (if rt_version (ctx_runtime c) = None \<or> rt_build_sha256 (ctx_runtime c) = None
           then [''declared_runtime_identity''] else []))"

definition general_gaps :: "prov_state \<Rightarrow> string list" where
  "general_gaps s = (let actions = dvalues (pv_actions s) in
       (if pv_metadata s = [] then [''dataset_metadata''] else [])
     @ (if \<not> list_ex (\<lambda>a. \<not> is_tool a) actions then [''workflow_action'']
        else if \<not> list_ex is_tool actions then [''tool_action''] else [])
     @ (if intent_only_attempts s \<noteq> [] then [''intent_only''] else [])
     @ (if list_ex (\<lambda>a. af_finished a = None) actions then [''unresolved_action''] else []))"

definition attempt_bindings ::
  "prov_state \<Rightarrow> direction \<Rightarrow> ident option \<Rightarrow> execution_artifact_bound list" where
  "attempt_bindings s d t =
     filter (\<lambda>b. bd_direction b = d \<and> Some (bd_attempt_id b) = t) (map snd (pv_bindings s))"

definition expected_outputs :: "canonical_event list \<Rightarrow> ident option \<Rightarrow> (string \<times> sha256 \<times> int) set" where
  "expected_outputs es t = set (concat (map (\<lambda>e.
       case as_proposal_accepted (ev_payload e) of
         Some w \<Rightarrow>
           (if ev_event_type e = Proposal_accepted \<and> Some (pac_attempt_id w) = t
            then map (\<lambda>a. (pa_relative_path a, pa_sha256 a, pa_byte_count a)) (wp_artifacts (pac_proposal w))
            else [])
       | None \<Rightarrow> []) es))"

definition attempt_text :: "ident option \<Rightarrow> string" where
  "attempt_text t = (case t of None \<Rightarrow> ''None'' | Some i \<Rightarrow> i)"

definition action_gaps ::
  "canonical_event list \<Rightarrow> prov_state \<Rightarrow> action_fact \<Rightarrow> (py_error, string list) result" where
  "action_gaps es s a =
    (let started = af_started a; t = act_attempt_id started in
     if \<not> is_tool a then Inr []
     else require_some (Option.bind (act_assignment_id started) (dget (pv_assignments s)))
       (PyKeyError (attempt_text (act_assignment_id started))) (\<lambda>asg. Inr
         ((if set (map bd_content_sha256 (attempt_bindings s Dir_input t)) \<noteq> set (asg_input_sha256 asg)
           then [''input_binding:'' @ attempt_text t] else [])
        @ (if set (map (\<lambda>b. (bd_relative_path b, bd_content_sha256 b, bd_byte_count b))
                    (attempt_bindings s Dir_output t)) \<noteq> expected_outputs es t
           then [''output_binding:'' @ attempt_text t] else [])
        @ (case af_finished a of
             Some (_, f) \<Rightarrow>
               (if fin_host_agent_id f = None \<or> fin_observed_runtime_version f = None
                then [''observed_host_identity:'' @ attempt_text t] else [])
           | None \<Rightarrow> []))))"

definition control_facts :: "prov_state \<Rightarrow> control_fact list" where
  "control_facts s =
     map (\<lambda>a. \<lparr> cf_control_id = ''control.'' @ drop 4 (ev_event_id (af_started_event a)),
               cf_step_id = act_step_id (af_started a), cf_tool_id = act_tool_id (af_started a),
               cf_tool_action_id = act_action_id (af_started a),
               cf_source_event_id = ev_event_id (af_started_event a) \<rparr>)
       (filter is_tool (dvalues (pv_actions s)))"

definition project_execution_provenance ::
  "canonical_event list \<Rightarrow> (py_error, execution_provenance_state) result" where
  "project_execution_provenance es =
     guard (es = [] \<or> ev_event_type (hd es) \<noteq> Run_initialized)
       (ep_error ''execution projection requires run.initialized'')
    (rbind (prov_run (ev_run_id (hd es)) prov_init es) (\<lambda>s.
     rbind (fold_result (\<lambda>gs a. rbind (action_gaps es s a) (\<lambda>g. Inr (gs @ g))) []
              (dvalues (pv_actions s))) (\<lambda>per_action. Inr
       \<lparr> xp_context = pv_context s,
         xp_dataset_metadata = (if pv_metadata s = [] then None else Some (last (pv_metadata s))),
         xp_metadata_history = pv_metadata s,
         xp_actions = dvalues (pv_actions s),
         xp_control_actions = control_facts s,
         xp_bindings = pv_bindings s,
         xp_intent_only_attempt_ids = intent_only_attempts s,
         xp_coverage_gaps = context_gaps s @ general_gaps s @ per_action \<rparr>)))"

section \<open>Invariants of the projection\<close>

definition actions_ok :: "prov_state \<Rightarrow> bool" where
  "actions_ok s = (wf_dict (pv_actions s)
   \<and> (\<forall>k a. dget (pv_actions s) k = Some a \<longrightarrow>
        act_action_id (af_started a) = k \<and> pv_context s \<noteq> None
      \<and> (\<forall>e f. af_finished a = Some (e, f) \<longrightarrow> act_started_at (af_started a) \<le> fin_ended_at f)
      \<and> (is_tool a \<longrightarrow> (\<exists>w b. act_workflow_action_id (af_started a) = Some w
            \<and> dget (pv_actions s) w = Some b \<and> \<not> is_tool b
            \<and> act_started_at (af_started b) \<le> act_started_at (af_started a))))
   \<and> (\<forall>k a k' b. dget (pv_actions s) k = Some a \<longrightarrow> dget (pv_actions s) k' = Some b \<longrightarrow> is_tool a \<longrightarrow>
        is_tool b \<longrightarrow> act_attempt_id (af_started a) = act_attempt_id (af_started b) \<longrightarrow> k = k')
   \<and> (\<forall>k a k' b. dget (pv_actions s) k = Some a \<longrightarrow> dget (pv_actions s) k' = Some b \<longrightarrow> \<not> is_tool a \<longrightarrow>
        \<not> is_tool b \<longrightarrow> af_finished a = None \<longrightarrow> af_finished b = None \<longrightarrow> k = k'))"

lemma actions_okD:
  assumes "actions_ok s" "dget (pv_actions s) k = Some a"
  shows "act_action_id (af_started a) = k" "pv_context s \<noteq> None"
    "af_finished a = Some (e, f) \<Longrightarrow> act_started_at (af_started a) \<le> fin_ended_at f"
    "is_tool a \<Longrightarrow> \<exists>w b. act_workflow_action_id (af_started a) = Some w
            \<and> dget (pv_actions s) w = Some b \<and> \<not> is_tool b
            \<and> act_started_at (af_started b) \<le> act_started_at (af_started a)"
    "dget (pv_actions s) k' = Some b \<Longrightarrow> is_tool a \<Longrightarrow> is_tool b
       \<Longrightarrow> act_attempt_id (af_started a) = act_attempt_id (af_started b) \<Longrightarrow> k = k'"
    "dget (pv_actions s) k' = Some b \<Longrightarrow> \<not> is_tool a \<Longrightarrow> \<not> is_tool b
       \<Longrightarrow> af_finished a = None \<Longrightarrow> af_finished b = None \<Longrightarrow> k = k'"
  using assms unfolding actions_ok_def by blast+

lemma kind_not_workflow: "act_kind a \<noteq> Workflow_action \<longleftrightarrow> act_kind a = Tool_action"
  by (cases "act_kind a") auto

lemma started_keeps_actions:
  assumes "actions_ok s" and "prov_action_started s e p = Inr s'"
  shows "actions_ok s'"
proof -
  let ?A = "pv_actions s" and ?k = "act_action_id p"
  let ?new = "\<lparr> af_started_event = e, af_started = p, af_finished = None \<rparr>"
  have wf: "wf_dict ?A" using assms(1) by (simp add: actions_ok_def)
  obtain ce ctx where ctx: "pv_context s = Some (ce, ctx)" and fresh: "?k \<notin> dkeys ?A"
    and chk: "(if act_kind p = Tool_action then tool_action_check s ctx p else workflow_action_check s) = Inr ()"
    and s': "s' = s\<lparr>pv_actions := dset ?k ?new ?A\<rparr>"
    using assms(2) by (auto simp: prov_action_started_def guard_simps split: option.splits)
  have fresh': "dget ?A ?k = None" using fresh by (simp add: dget_None_iff)
  have tool: "(\<exists>w b. act_workflow_action_id p = Some w \<and> dget ?A w = Some b \<and> \<not> is_tool b
        \<and> act_started_at (af_started b) \<le> act_started_at p)
      \<and> (\<forall>k a. dget ?A k = Some a \<longrightarrow> is_tool a \<longrightarrow> act_attempt_id (af_started a) \<noteq> act_attempt_id p)"
    if "act_kind p = Tool_action"
    using chk that wf
    by (auto simp: tool_action_check_def guard_simps is_tool_def kind_not_workflow list_ex_iff
        in_dvalues_iff bind_eq_Some_conv not_less split: option.splits)
  have wfl: "\<forall>k a. dget ?A k = Some a \<longrightarrow> \<not> is_tool a \<longrightarrow> af_finished a \<noteq> None"
    if "act_kind p \<noteq> Tool_action"
    using chk that wf
    by (auto simp: workflow_action_check_def guard_simps is_tool_def list_ex_iff in_dvalues_iff
        kind_not_workflow [symmetric])
  have ne: "w \<noteq> ?k" if "dget ?A w = Some b" for w b using that fresh' by auto
  have old: "\<And>k a. dget ?A k = Some a \<Longrightarrow> act_action_id (af_started a) = k
      \<and> (\<forall>e f. af_finished a = Some (e, f) \<longrightarrow> act_started_at (af_started a) \<le> fin_ended_at f)
      \<and> (is_tool a \<longrightarrow> (\<exists>w b. act_workflow_action_id (af_started a) = Some w
            \<and> dget ?A w = Some b \<and> \<not> is_tool b
            \<and> act_started_at (af_started b) \<le> act_started_at (af_started a)))"
    using assms(1) by (simp add: actions_ok_def)
  have pairs: "\<And>k a k' b. dget ?A k = Some a \<Longrightarrow> dget ?A k' = Some b \<Longrightarrow> is_tool a \<Longrightarrow> is_tool b
      \<Longrightarrow> act_attempt_id (af_started a) = act_attempt_id (af_started b) \<Longrightarrow> k = k'"
    "\<And>k a k' b. dget ?A k = Some a \<Longrightarrow> dget ?A k' = Some b \<Longrightarrow> \<not> is_tool a \<Longrightarrow> \<not> is_tool b
      \<Longrightarrow> af_finished a = None \<Longrightarrow> af_finished b = None \<Longrightarrow> k = k'"
    using assms(1) unfolding actions_ok_def by blast+
  show ?thesis
    unfolding actions_ok_def s'
  proof (intro conjI allI impI)
    show "wf_dict (pv_actions (s\<lparr>pv_actions := dset ?k ?new ?A\<rparr>))" using wf by (simp add: dict_simps)
  next
    fix k a assume a: "dget (pv_actions (s\<lparr>pv_actions := dset ?k ?new ?A\<rparr>)) k = Some a"
    show "act_action_id (af_started a) = k" using a old by (auto simp: dict_simps split: if_splits)
    show "pv_context (s\<lparr>pv_actions := dset ?k ?new ?A\<rparr>) \<noteq> None" by (simp add: ctx)
    show "act_started_at (af_started a) \<le> fin_ended_at f" if "af_finished a = Some (e', f)" for e' f
      using a old that by (auto simp: dict_simps split: if_splits)
    show "\<exists>w b. act_workflow_action_id (af_started a) = Some w
        \<and> dget (pv_actions (s\<lparr>pv_actions := dset ?k ?new ?A\<rparr>)) w = Some b \<and> \<not> is_tool b
        \<and> act_started_at (af_started b) \<le> act_started_at (af_started a)" if t: "is_tool a"
    proof (cases "k = ?k")
      case True
      with a have "a = ?new" by (simp add: dict_simps)
      moreover from this t have "act_kind p = Tool_action" by (simp add: is_tool_def)
      ultimately obtain w b where "act_workflow_action_id (af_started a) = Some w" "dget ?A w = Some b"
        "\<not> is_tool b" "act_started_at (af_started b) \<le> act_started_at (af_started a)"
        using tool by auto
      with ne show ?thesis by (auto simp: dict_simps)
    next
      case False
      with a have "dget ?A k = Some a" by (simp add: dict_simps)
      with old t obtain w b where "act_workflow_action_id (af_started a) = Some w" "dget ?A w = Some b"
        "\<not> is_tool b" "act_started_at (af_started b) \<le> act_started_at (af_started a)" by blast
      with ne show ?thesis by (auto simp: dict_simps)
    qed
  next
    fix k a k' b
    assume a: "dget (pv_actions (s\<lparr>pv_actions := dset ?k ?new ?A\<rparr>)) k = Some a"
      and b: "dget (pv_actions (s\<lparr>pv_actions := dset ?k ?new ?A\<rparr>)) k' = Some b"
    have a': "k = ?k \<and> a = ?new \<or> k \<noteq> ?k \<and> dget ?A k = Some a"
      and b': "k' = ?k \<and> b = ?new \<or> k' \<noteq> ?k \<and> dget ?A k' = Some b"
      using a b by (auto simp: dict_simps split: if_splits)
    have only: "act_attempt_id (af_started c) \<noteq> act_attempt_id p"
      if "dget ?A i = Some c" "is_tool c" "act_kind p = Tool_action" for i c
      using tool that by blast
    show "k = k'" if "is_tool a" "is_tool b" "act_attempt_id (af_started a) = act_attempt_id (af_started b)"
      using a' b' that pairs(1) [of k a k' b] only [of k a] only [of k' b] by (auto simp: is_tool_def)
    have none: "af_finished c \<noteq> None"
      if "dget ?A i = Some c" "\<not> is_tool c" "act_kind p \<noteq> Tool_action" for i c
      using wfl that by blast
    show "k = k'" if "\<not> is_tool a" "\<not> is_tool b" "af_finished a = None" "af_finished b = None"
      using a' b' that pairs(2) [of k a k' b] none [of k a] none [of k' b] by (auto simp: is_tool_def)
  qed
qed

lemma finished_keeps_actions:
  assumes "actions_ok s" and "prov_action_finished s e p = Inr s'"
  shows "actions_ok s'"
proof -
  let ?A = "pv_actions s" and ?k = "fin_action_id p"
  obtain prior where prior: "dget ?A ?k = Some prior" "af_finished prior = None"
    "act_started_at (af_started prior) \<le> fin_ended_at p"
    and s': "s' = s\<lparr>pv_actions := dset ?k (prior\<lparr>af_finished := Some (e, p)\<rparr>) ?A\<rparr>"
    using assms(2)
    by (auto simp: prov_action_finished_def guard_simps not_less simp del: not_None_eq split_paired_All
        split: option.splits)
  let ?new = "prior\<lparr>af_finished := Some (e, p)\<rparr>"
  have get: "dget (pv_actions s') k = Some a \<longleftrightarrow>
      (k = ?k \<and> a = ?new \<or> k \<noteq> ?k \<and> dget ?A k = Some a)" for k a
    by (auto simp: s' dict_simps)
  have same: "\<exists>b. dget ?A k = Some b \<and> af_started b = af_started a
      \<and> (af_finished a = None \<longrightarrow> b = a)" if "dget (pv_actions s') k = Some a" for k a
    using that prior(1) by (auto simp: get)
  have up: "\<exists>b. dget (pv_actions s') k = Some b \<and> af_started b = af_started a" if "dget ?A k = Some a" for k a
    using that prior(1) by (cases "k = ?k") (auto simp: get)
  have tool: "is_tool a \<longleftrightarrow> is_tool b" if "af_started a = af_started b" for a b
    using that by (simp add: is_tool_def)
  have wf: "wf_dict (pv_actions s')" using assms(1) by (simp add: actions_ok_def s' dict_simps)
  have ctx: "pv_context s' = pv_context s" by (simp add: s')
  note ok = assms(1) [unfolded actions_ok_def]
  show ?thesis
    unfolding actions_ok_def ctx
  proof (intro conjI allI impI)
    show "wf_dict (pv_actions s')" by (rule wf)
  next
    fix k a assume a: "dget (pv_actions s') k = Some a"
    obtain b where b: "dget ?A k = Some b" "af_started b = af_started a" using same [OF a] by blast
    show "act_action_id (af_started a) = k" and "pv_context s \<noteq> None" using ok b by fastforce+
    show "act_started_at (af_started a) \<le> fin_ended_at f" if "af_finished a = Some (e', f)" for e' f
      using a that ok prior(3) by (auto simp: get)
    show "\<exists>w c. act_workflow_action_id (af_started a) = Some w
        \<and> dget (pv_actions s') w = Some c \<and> \<not> is_tool c
        \<and> act_started_at (af_started c) \<le> act_started_at (af_started a)" if t: "is_tool a"
    proof -
      have "is_tool b" using t tool [OF b(2)] by simp
      with ok b obtain w c where "act_workflow_action_id (af_started a) = Some w" "dget ?A w = Some c"
        "\<not> is_tool c" "act_started_at (af_started c) \<le> act_started_at (af_started a)" by metis
      with up tool show ?thesis by metis
    qed
  next
    fix k a k' b
    assume a: "dget (pv_actions s') k = Some a" and b: "dget (pv_actions s') k' = Some b"
    obtain a0 b0 where a0: "dget ?A k = Some a0" "af_started a0 = af_started a" "af_finished a = None \<longrightarrow> a0 = a"
      and b0: "dget ?A k' = Some b0" "af_started b0 = af_started b" "af_finished b = None \<longrightarrow> b0 = b"
      using same [OF a] same [OF b] by metis
    show "k = k'" if "is_tool a" "is_tool b" "act_attempt_id (af_started a) = act_attempt_id (af_started b)"
      using ok a0 b0 that tool by metis
    show "k = k'" if "\<not> is_tool a" "\<not> is_tool b" "af_finished a = None" "af_finished b = None"
      using ok a0 b0 that by metis
  qed
qed

lemma actions_ok_cong:
  "pv_actions s' = pv_actions s \<Longrightarrow> (pv_context s \<noteq> None \<longrightarrow> pv_context s' \<noteq> None) \<Longrightarrow> actions_ok s
     \<Longrightarrow> actions_ok s'"
  unfolding actions_ok_def by simp

lemma prov_branch_cases:
  assumes "prov_branch s e = Inr s'"
  shows "(\<exists>q. s' = prov_assignment s e q) \<or> (\<exists>q. s' = prov_attempt s q) \<or> (\<exists>q. s' = prov_intent s q)
    \<or> (\<exists>q. prov_context s e q = Inr s') \<or> (\<exists>q. prov_metadata s e q = Inr s')
    \<or> (\<exists>q. prov_action_started s e q = Inr s') \<or> (\<exists>q. prov_action_finished s e q = Inr s')
    \<or> (\<exists>q. prov_artifact_bound s e q = Inr s') \<or> s' = s"
  using assms unfolding prov_branch_def Let_def
  by (simp add: guard_simps split: if_splits) blast+

lemma prov_context_frame:
  "prov_context s e p = Inr s' \<Longrightarrow> pv_actions s' = pv_actions s \<and> pv_context s' = Some (e, p)
     \<and> pv_context s = None"
  by (cases "pv_context s") (auto simp: prov_context_def guard_simps)

lemma prov_metadata_frame:
  "prov_metadata s e p = Inr s' \<Longrightarrow> s' = s\<lparr>pv_metadata := pv_metadata s @ [e]\<rparr>"
  by (simp add: prov_metadata_def guard_simps)

lemma prov_bound_frame:
  "prov_artifact_bound s e p = Inr s' \<Longrightarrow> pv_actions s' = pv_actions s \<and> pv_context s' = pv_context s"
  unfolding prov_artifact_bound_def guard_simps by (elim exE conjE) auto

lemma branch_keeps_actions:
  assumes "actions_ok s" and "prov_branch s e = Inr s'"
  shows "actions_ok s'"
proof -
  have same: "actions_ok s'" if "pv_actions s' = pv_actions s" "pv_context s \<noteq> None \<longrightarrow> pv_context s' \<noteq> None"
    using actions_ok_cong [OF that assms(1)] .
  from prov_branch_cases [OF assms(2)] show ?thesis
  proof (elim disjE exE)
    fix q assume "prov_action_started s e q = Inr s'"
    then show ?thesis by (rule started_keeps_actions [OF assms(1)])
  next
    fix q assume "prov_action_finished s e q = Inr s'"
    then show ?thesis by (rule finished_keeps_actions [OF assms(1)])
  next
    fix q assume "prov_artifact_bound s e q = Inr s'"
    from prov_bound_frame [OF this] show ?thesis by (intro same) simp_all
  next
    fix q assume "prov_context s e q = Inr s'"
    from prov_context_frame [OF this] show ?thesis by (intro same) simp_all
  next
    fix q assume "prov_metadata s e q = Inr s'"
    from prov_metadata_frame [OF this] show ?thesis by (intro same) simp_all
  qed (rule same; simp add: prov_assignment_def prov_attempt_def prov_intent_def)+
qed

lemma step_keeps_actions:
  assumes "actions_ok s" and "prov_step r s e = Inr s'"
  shows "actions_ok s'"
proof -
  obtain s1 s2 where "prov_stage_step s e = Inr s1" and s2: "prov_branch s1 e = Inr s2"
    and s': "s' = s2\<lparr>pv_event_by_id := dset (ev_event_id e) e (pv_event_by_id s2)\<rparr>"
    using assms(2) by (auto simp: prov_step_def guard_simps)
  then have "pv_actions s1 = pv_actions s" "pv_context s1 = pv_context s"
    by (auto simp: prov_stage_step_def guard_simps split: if_splits)
  then have "actions_ok s1" using assms(1) actions_ok_cong by metis
  then have "actions_ok s2" using branch_keeps_actions s2 by blast
  then show ?thesis by (rule actions_ok_cong [rotated 2]) (simp_all add: s')
qed

lemma actions_ok_init: "actions_ok prov_init"
  by (simp add: actions_ok_def prov_init_def)

lemma run_keeps_actions: "prov_run r prov_init es = Inr s \<Longrightarrow> actions_ok s"
  by (rule prov.run_invariant [where I = actions_ok]) (auto intro: actions_ok_init step_keeps_actions)

text \<open>The part of the state that bindings are recorded in.\<close>

definition output_bindings :: "prov_state \<Rightarrow> execution_artifact_bound list" where
  "output_bindings s = filter (\<lambda>b. bd_direction b = Dir_output) (map snd (pv_bindings s))"

definition bindings_ok :: "prov_state \<Rightarrow> bool" where
  "bindings_ok s =
    ((\<forall>b \<in> set (map snd (pv_bindings s)).
        dget (pv_entities s) (bd_entity_id b) = Some (binding_identity b)
      \<and> binding_key_of b \<in> set (pv_binding_keys s)
      \<and> (bd_direction b = Dir_output \<longrightarrow>
           (bd_source_event_id b, bd_relative_path b) \<in> set (pv_output_sources s)))
   \<and> distinct (map (binding_key_of \<circ> snd) (pv_bindings s))
   \<and> distinct (map bd_entity_id (output_bindings s))
   \<and> distinct (map (\<lambda>b. (bd_source_event_id b, bd_relative_path b)) (output_bindings s)))"

lemma bindings_ok_cong:
  "pv_bindings s' = pv_bindings s \<Longrightarrow> pv_entities s' = pv_entities s \<Longrightarrow> pv_binding_keys s' = pv_binding_keys s
     \<Longrightarrow> pv_output_sources s' = pv_output_sources s \<Longrightarrow> bindings_ok s \<Longrightarrow> bindings_ok s'"
  by (simp add: bindings_ok_def output_bindings_def)

lemma prov_bound_effect:
  assumes "prov_artifact_bound s e p = Inr s'"
  shows "s' = s\<lparr> pv_entities := dset (bd_entity_id p) (binding_identity p) (pv_entities s),
               pv_binding_keys := binding_key_of p # pv_binding_keys s,
               pv_output_sources := (if bd_direction p = Dir_output
                  then (bd_source_event_id p, bd_relative_path p) # pv_output_sources s
                  else pv_output_sources s),
               pv_bindings := pv_bindings s @ [(e, p)] \<rparr>"
  using assms unfolding prov_artifact_bound_def guard_simps by (elim exE conjE) (drule Inr_inject, erule sym)

lemma prov_bound_checks:
  assumes "prov_artifact_bound s e p = Inr s'"
  shows "binding_key_of p \<notin> set (pv_binding_keys s)
    \<and> dget (pv_entities s) (bd_entity_id p) \<in> {None, Some (binding_identity p)}
    \<and> (bd_direction p = Dir_output \<longrightarrow> bd_entity_id p \<notin> dkeys (pv_entities s)
        \<and> (bd_source_event_id p, bd_relative_path p) \<notin> set (pv_output_sources s))"
  using assms unfolding prov_artifact_bound_def guard_simps by (elim exE conjE) blast

lemma bound_keeps_bindings:
  assumes "bindings_ok s" and "prov_artifact_bound s e p = Inr s'"
  shows "bindings_ok s'"
proof -
  have key: "binding_key_of p \<notin> set (pv_binding_keys s)"
    and ent: "dget (pv_entities s) (bd_entity_id p) \<in> {None, Some (binding_identity p)}"
    and new: "bd_direction p = Dir_output \<longrightarrow> bd_entity_id p \<notin> dkeys (pv_entities s)
        \<and> (bd_source_event_id p, bd_relative_path p) \<notin> set (pv_output_sources s)"
    using prov_bound_checks [OF assms(2)] by blast+
  have s': "pv_entities s' = dset (bd_entity_id p) (binding_identity p) (pv_entities s)"
      "pv_binding_keys s' = binding_key_of p # pv_binding_keys s"
      "pv_output_sources s' = (if bd_direction p = Dir_output
         then (bd_source_event_id p, bd_relative_path p) # pv_output_sources s else pv_output_sources s)"
      "pv_bindings s' = pv_bindings s @ [(e, p)]"
    unfolding prov_bound_effect [OF assms(2)] by simp_all
  have old: "dget (pv_entities s) (bd_entity_id b) = Some (binding_identity b)"
    "binding_key_of b \<in> set (pv_binding_keys s)"
    "bd_direction b = Dir_output \<Longrightarrow> (bd_source_event_id b, bd_relative_path b) \<in> set (pv_output_sources s)"
    if "b \<in> snd ` set (pv_bindings s)" for b
    using assms(1) that by (auto simp: bindings_ok_def)
  have dist: "distinct (map (binding_key_of \<circ> snd) (pv_bindings s))"
    "distinct (map bd_entity_id (output_bindings s))"
    "distinct (map (\<lambda>b. (bd_source_event_id b, bd_relative_path b)) (output_bindings s))"
    using assms(1) by (simp_all add: bindings_ok_def)
  have outs: "output_bindings s' = output_bindings s @ (if bd_direction p = Dir_output then [p] else [])"
    by (simp add: output_bindings_def s')
  have in_out: "b \<in> snd ` set (pv_bindings s) \<and> bd_direction b = Dir_output" if "b \<in> set (output_bindings s)" for b
    using that by (auto simp: output_bindings_def)
  have fresh: "bd_entity_id p \<notin> bd_entity_id ` set (output_bindings s)"
    "(bd_source_event_id p, bd_relative_path p) \<notin>
       (\<lambda>b. (bd_source_event_id b, bd_relative_path b)) ` set (output_bindings s)"
    if "bd_direction p = Dir_output"
  proof -
    have entity: "bd_entity_id b \<noteq> bd_entity_id p" if "b \<in> set (output_bindings s)" for b
    proof -
      have "bd_entity_id b \<in> dkeys (pv_entities s)"
        by (rule dget_SomeD, rule old(1), rule conjunct1, rule in_out, rule that)
      with new \<open>bd_direction p = Dir_output\<close> show ?thesis by auto
    qed
    then show "bd_entity_id p \<notin> bd_entity_id ` set (output_bindings s)" by fastforce
    show "(bd_source_event_id p, bd_relative_path p) \<notin>
       (\<lambda>b. (bd_source_event_id b, bd_relative_path b)) ` set (output_bindings s)"
    proof
      assume "(bd_source_event_id p, bd_relative_path p) \<in>
        (\<lambda>b. (bd_source_event_id b, bd_relative_path b)) ` set (output_bindings s)"
      then obtain b where b: "b \<in> set (output_bindings s)"
        and eq: "(bd_source_event_id p, bd_relative_path p) = (bd_source_event_id b, bd_relative_path b)"
        by (rule imageE)
      have "(bd_source_event_id b, bd_relative_path b) \<in> set (pv_output_sources s)"
        using in_out [OF b] old(3) by blast
      with new \<open>bd_direction p = Dir_output\<close> show False unfolding eq by blast
    qed
  qed
  have member: "dget (pv_entities s') (bd_entity_id b) = Some (binding_identity b)
      \<and> binding_key_of b \<in> set (pv_binding_keys s')
      \<and> (bd_direction b = Dir_output \<longrightarrow>
           (bd_source_event_id b, bd_relative_path b) \<in> set (pv_output_sources s'))"
    if "b \<in> set (map snd (pv_bindings s'))" for b
  proof (cases "b \<in> snd ` set (pv_bindings s)")
    case True
    then show ?thesis using old [OF True] ent by (auto simp: s' dict_simps)
  next
    case False
    then have "b = p" using that by (auto simp: s')
    then show ?thesis by (simp add: s' dict_simps)
  qed
  have keys: "distinct (map (binding_key_of \<circ> snd) (pv_bindings s'))"
  proof -
    have "binding_key_of p \<notin> (binding_key_of \<circ> snd) ` set (pv_bindings s)"
      using key old(2) by (metis (no_types, lifting) comp_apply imageE image_eqI)
    then show ?thesis using dist(1) by (simp add: s')
  qed
  have "distinct (map bd_entity_id (output_bindings s'))"
    "distinct (map (\<lambda>b. (bd_source_event_id b, bd_relative_path b)) (output_bindings s'))"
    using dist(2,3) fresh by (simp_all add: outs)
  with member keys show ?thesis unfolding bindings_ok_def by blast
qed

lemma step_keeps_bindings:
  assumes "bindings_ok s" and "prov_step r s e = Inr s'"
  shows "bindings_ok s'"
proof -
  obtain s1 s2 where "prov_stage_step s e = Inr s1" and s2: "prov_branch s1 e = Inr s2"
    and s': "s' = s2\<lparr>pv_event_by_id := dset (ev_event_id e) e (pv_event_by_id s2)\<rparr>"
    using assms(2) by (auto simp: prov_step_def guard_simps)
  then have s1: "bindings_ok s1"
    by (intro bindings_ok_cong [OF _ _ _ _ assms(1)])
      (auto simp: prov_stage_step_def guard_simps split: if_splits)
  have "bindings_ok s2"
    using prov_branch_cases [OF s2]
  proof (elim disjE exE)
    fix q assume "prov_artifact_bound s1 e q = Inr s2"
    then show ?thesis by (rule bound_keeps_bindings [OF s1])
  qed (rule bindings_ok_cong [OF _ _ _ _ s1];
      force simp: prov_assignment_def prov_attempt_def prov_intent_def prov_context_def
        prov_metadata_def prov_action_started_def prov_action_finished_def guard_simps
        split: option.splits)+
  then show ?thesis by (rule bindings_ok_cong [rotated 4]) (simp_all add: s')
qed

lemma bindings_ok_init: "bindings_ok prov_init"
  by (simp add: bindings_ok_def output_bindings_def prov_init_def)

lemma run_keeps_bindings: "prov_run r prov_init es = Inr s \<Longrightarrow> bindings_ok s"
  by (rule prov.run_invariant [where I = bindings_ok]) (auto intro: bindings_ok_init step_keeps_bindings)

text \<open>The projection cannot fail once the loop has succeeded: a tool action has a known assignment.\<close>

definition tools_assigned :: "prov_state \<Rightarrow> bool" where
  "tools_assigned s = (wf_dict (pv_actions s)
     \<and> (\<forall>k a. dget (pv_actions s) k = Some a \<longrightarrow> is_tool a \<longrightarrow>
          act_assignment_id (af_started a) \<in> Some ` dkeys (pv_assignments s)))"

lemma tools_assigned_cong:
  "pv_actions s' = pv_actions s \<Longrightarrow> dkeys (pv_assignments s) \<subseteq> dkeys (pv_assignments s')
     \<Longrightarrow> tools_assigned s \<Longrightarrow> tools_assigned s'"
  unfolding tools_assigned_def by (metis (no_types, opaque_lifting) image_mono subset_iff)

lemma prov_started_effect:
  assumes "prov_action_started s e p = Inr s'"
  shows "s' = s\<lparr>pv_actions := dset (act_action_id p)
             \<lparr> af_started_event = e, af_started = p, af_finished = None \<rparr> (pv_actions s)\<rparr>
    \<and> (act_kind p = Tool_action \<longrightarrow> act_assignment_id p \<in> Some ` dkeys (pv_assignments s))"
  using assms
  by (auto simp: prov_action_started_def tool_action_check_def guard_simps split: option.splits if_splits)

lemma prov_finished_effect:
  assumes "prov_action_finished s e p = Inr s'"
  shows "\<exists>prior. dget (pv_actions s) (fin_action_id p) = Some prior
    \<and> s' = s\<lparr>pv_actions := dset (fin_action_id p) (prior\<lparr>af_finished := Some (e, p)\<rparr>) (pv_actions s)\<rparr>"
  using assms
  by (auto simp: prov_action_finished_def guard_simps simp del: not_None_eq split_paired_All
      split: option.splits)

lemma prov_bound_keeps:
  "prov_artifact_bound s e p = Inr s' \<Longrightarrow> pv_actions s' = pv_actions s
     \<and> pv_assignments s' = pv_assignments s \<and> pv_context s' = pv_context s"
  by (drule prov_bound_effect) simp

lemma branch_keeps_tools:
  assumes "tools_assigned s" and "prov_branch s e = Inr s'"
  shows "tools_assigned s'"
proof -
  have same: "tools_assigned s'"
    if "pv_actions s' = pv_actions s" "dkeys (pv_assignments s) \<subseteq> dkeys (pv_assignments s')"
    using tools_assigned_cong [OF that assms(1)] .
  from prov_branch_cases [OF assms(2)] show ?thesis
  proof (elim disjE exE)
    fix q assume "prov_action_started s e q = Inr s'"
    from prov_started_effect [OF this] show ?thesis
      using assms(1) by (auto simp: tools_assigned_def dict_simps is_tool_def split: if_splits)
  next
    fix q assume "prov_action_finished s e q = Inr s'"
    from prov_finished_effect [OF this] obtain prior where
      "dget (pv_actions s) (fin_action_id q) = Some prior"
      "s' = s\<lparr>pv_actions := dset (fin_action_id q) (prior\<lparr>af_finished := Some (e, q)\<rparr>) (pv_actions s)\<rparr>"
      by blast
    then show ?thesis
      using assms(1) by (auto simp: tools_assigned_def dict_simps is_tool_def split: if_splits)
  next
    fix q assume "prov_artifact_bound s e q = Inr s'"
    from prov_bound_keeps [OF this] show ?thesis by (intro same) simp_all
  next
    fix q assume "prov_context s e q = Inr s'"
    then show ?thesis by (intro same) (auto simp: prov_context_def guard_simps)
  next
    fix q assume "prov_metadata s e q = Inr s'"
    from prov_metadata_frame [OF this] show ?thesis by (intro same) simp_all
  qed (rule same; auto simp: prov_assignment_def prov_attempt_def prov_intent_def dict_simps)+
qed

lemma prov_stage_keeps:
  "prov_stage_step s e = Inr s' \<Longrightarrow> pv_actions s' = pv_actions s \<and> pv_assignments s' = pv_assignments s
     \<and> pv_context s' = pv_context s"
  by (auto simp: prov_stage_step_def guard_simps split: if_splits)

lemma prov_stepE:
  assumes "prov_step r s e = Inr s'"
  obtains s1 s2 where "prov_stage_step s e = Inr s1" "prov_branch s1 e = Inr s2"
    "s' = s2\<lparr>pv_event_by_id := dset (ev_event_id e) e (pv_event_by_id s2)\<rparr>"
  using assms unfolding prov_step_def guard_simps by (elim exE conjE) simp

lemma step_keeps_tools:
  assumes "tools_assigned s" and "prov_step r s e = Inr s'"
  shows "tools_assigned s'"
  using assms(2)
proof (rule prov_stepE)
  fix s1 s2 assume s1: "prov_stage_step s e = Inr s1" and s2: "prov_branch s1 e = Inr s2"
    and s': "s' = s2\<lparr>pv_event_by_id := dset (ev_event_id e) e (pv_event_by_id s2)\<rparr>"
  have "tools_assigned s1"
    using prov_stage_keeps [OF s1] by (intro tools_assigned_cong [OF _ _ assms(1)]) simp_all
  then have "tools_assigned s2" using s2 by (rule branch_keeps_tools)
  then show ?thesis by (rule tools_assigned_cong [rotated 2]) (simp_all add: s')
qed

lemma tools_assigned_init: "tools_assigned prov_init"
  by (simp add: tools_assigned_def prov_init_def)

lemma run_keeps_tools: "prov_run r prov_init es = Inr s \<Longrightarrow> tools_assigned s"
  by (rule prov.run_invariant [where I = tools_assigned])
    (auto intro: tools_assigned_init step_keeps_tools)

lemma step_keeps_context:
  assumes "prov_step r s e = Inr s'"
  shows "pv_context s \<noteq> None \<longrightarrow> pv_context s' = pv_context s"
  using assms
proof (rule prov_stepE)
  fix s1 s2 assume s1: "prov_stage_step s e = Inr s1" and s2: "prov_branch s1 e = Inr s2"
    and s': "s' = s2\<lparr>pv_event_by_id := dset (ev_event_id e) e (pv_event_by_id s2)\<rparr>"
  have "pv_context s2 = pv_context s1" if "pv_context s1 \<noteq> None"
    using prov_branch_cases [OF s2]
  proof (elim disjE exE)
    fix q assume "prov_action_started s1 e q = Inr s2"
    from prov_started_effect [OF this] show ?thesis by simp
  next
    fix q assume "prov_action_finished s1 e q = Inr s2"
    from prov_finished_effect [OF this] show ?thesis by auto
  next
    fix q assume "prov_artifact_bound s1 e q = Inr s2"
    from prov_bound_keeps [OF this] show ?thesis by simp
  next
    fix q assume "prov_context s1 e q = Inr s2"
    from prov_context_frame [OF this] that show ?thesis by simp
  next
    fix q assume "prov_metadata s1 e q = Inr s2"
    from prov_metadata_frame [OF this] show ?thesis by simp
  qed (simp_all add: prov_assignment_def prov_attempt_def prov_intent_def)
  then show ?thesis using prov_stage_keeps [OF s1] s' by simp
qed

lemma run_keeps_context:
  assumes "prov_run r s es = Inr t" and "pv_context s \<noteq> None"
  shows "pv_context t = pv_context s"
proof -
  have "pv_context s \<noteq> None \<longrightarrow> pv_context t = pv_context s"
    using assms(1)
    by (rule prov.run_monotone [where le = "\<lambda>a b. pv_context a \<noteq> None \<longrightarrow> pv_context b = pv_context a"])
      (use step_keeps_context in auto)
  with assms(2) show ?thesis by simp
qed

lemma action_gaps_total:
  assumes "tools_assigned s" "a \<in> set (dvalues (pv_actions s))"
  shows "\<exists>g. action_gaps es s a = Inr g"
proof -
  obtain k where "dget (pv_actions s) k = Some a"
    using assms in_dvalues_iff [of "pv_actions s" a] by (auto simp: tools_assigned_def)
  then show ?thesis
    using assms(1) dget_None_iff [of "pv_assignments s"]
    by (cases "is_tool a") (fastforce simp: tools_assigned_def action_gaps_def Let_def require_some_def
      split: option.split)+
qed

lemma projection_total:
  assumes "prov_run (ev_run_id (hd es)) prov_init es = Inr s" and "es \<noteq> []"
    and "ev_event_type (hd es) = Run_initialized"
  shows "\<exists>x. project_execution_provenance es = Inr x \<and> xp_context x = pv_context s"
proof -
  have "\<exists>g. fold_result (\<lambda>gs a. rbind (action_gaps es s a) (\<lambda>g. Inr (gs @ g))) g0 as = Inr g"
    if "set as \<subseteq> set (dvalues (pv_actions s))" for g0 as
    using that
  proof (induction as arbitrary: g0)
    case (Cons a as)
    obtain g where "action_gaps es s a = Inr g"
      using action_gaps_total [OF run_keeps_tools [OF assms(1)], of a es] Cons.prems by auto
    with Cons show ?case by simp
  qed simp
  then obtain g where
    "fold_result (\<lambda>gs a. rbind (action_gaps es s a) (\<lambda>g. Inr (gs @ g))) [] (dvalues (pv_actions s)) = Inr g"
    by blast
  with assms show ?thesis by (simp add: project_execution_provenance_def)
qed

section \<open>Properties of the projection\<close>

lemma distinct_units: "distinct (map (\<lambda>_. ()) xs) \<Longrightarrow> length xs \<le> 1"
  by (cases xs; cases "tl xs") simp_all

lemma projection_facts:
  assumes "project_execution_provenance es = Inr x"
  obtains s where "prov_run (ev_run_id (hd es)) prov_init es = Inr s" "es \<noteq> []"
    "ev_event_type (hd es) = Run_initialized" "xp_context x = pv_context s"
    "xp_actions x = dvalues (pv_actions s)" "xp_bindings x = pv_bindings s"
  using assms unfolding project_execution_provenance_def guard_simps by (elim exE conjE) auto

text \<open>
  C25.  Recorded actions are consistent.  Whatever history the projection accepts, its actions have
  different identifiers; an action exists only under an accepted context; an attempt enters a tool
  at most once; every tool action runs inside a recorded workflow action that started no later; at
  most one workflow action is open; and no action ends before it starts.
\<close>

theorem projected_actions_are_consistent:
  assumes "project_execution_provenance es = Inr x"
  shows "distinct (map (\<lambda>a. act_action_id (af_started a)) (xp_actions x))
    \<and> (xp_actions x \<noteq> [] \<longrightarrow> xp_context x \<noteq> None)
    \<and> distinct (map (\<lambda>a. act_attempt_id (af_started a)) (filter is_tool (xp_actions x)))
    \<and> length (filter (\<lambda>a. \<not> is_tool a \<and> af_finished a = None) (xp_actions x)) \<le> 1
    \<and> (\<forall>a \<in> set (xp_actions x). is_tool a \<longrightarrow> (\<exists>w \<in> set (xp_actions x). \<not> is_tool w
          \<and> act_workflow_action_id (af_started a) = Some (act_action_id (af_started w))
          \<and> act_started_at (af_started w) \<le> act_started_at (af_started a)))
    \<and> (\<forall>a \<in> set (xp_actions x). \<forall>e f. af_finished a = Some (e, f) \<longrightarrow>
          act_started_at (af_started a) \<le> fin_ended_at f)"
proof -
  obtain s where run: "prov_run (ev_run_id (hd es)) prov_init es = Inr s"
    and x: "xp_context x = pv_context s" "xp_actions x = dvalues (pv_actions s)"
    using projection_facts [OF assms] by metis
  let ?A = "pv_actions s"
  note inv = run_keeps_actions [OF run]
  have wf: "wf_dict ?A" using inv by (simp add: actions_ok_def)
  note one = actions_okD [OF inv]
  have val: "\<exists>k. dget ?A k = Some a" if "a \<in> set (dvalues ?A)" for a
    using that in_dvalues_iff [OF wf] by blast
  have "distinct (map (\<lambda>a. act_action_id (af_started a)) (filter (\<lambda>_. True) (dvalues ?A)))"
    using one(1) by (intro distinct_dvalues [OF wf]) metis
  then have ids: "distinct (map (\<lambda>a. act_action_id (af_started a)) (dvalues ?A))" by simp
  have tools: "distinct (map (\<lambda>a. act_attempt_id (af_started a)) (filter is_tool (dvalues ?A)))"
    using one(5) by (intro distinct_dvalues [OF wf])
  have "distinct (map (\<lambda>_. ()) (filter (\<lambda>a. \<not> is_tool a \<and> af_finished a = None) (dvalues ?A)))"
    using one(6) by (intro distinct_dvalues [OF wf]) blast
  then have wfs: "length (filter (\<lambda>a. \<not> is_tool a \<and> af_finished a = None) (dvalues ?A)) \<le> 1"
    by (rule distinct_units)
  have ctx: "pv_context s \<noteq> None" if "dvalues ?A \<noteq> []"
    using that val [of "hd (dvalues ?A)"] one(2) by (metis list.set_sel(1))
  have parent: "\<exists>w \<in> set (dvalues ?A). \<not> is_tool w
          \<and> act_workflow_action_id (af_started a) = Some (act_action_id (af_started w))
          \<and> act_started_at (af_started w) \<le> act_started_at (af_started a)"
    if a: "a \<in> set (dvalues ?A)" "is_tool a" for a
  proof -
    obtain k where "dget ?A k = Some a" using val [OF a(1)] by blast
    then obtain w b where b: "act_workflow_action_id (af_started a) = Some w" "dget ?A w = Some b"
      "\<not> is_tool b" "act_started_at (af_started b) \<le> act_started_at (af_started a)"
      using one(4) a(2) by metis
    moreover have "act_action_id (af_started b) = w" using one(1) [OF b(2)] .
    moreover have "b \<in> set (dvalues ?A)" using b(2) in_dvalues_iff [OF wf] by blast
    ultimately show ?thesis by blast
  qed
  have ends: "act_started_at (af_started a) \<le> fin_ended_at f"
    if "a \<in> set (dvalues ?A)" "af_finished a = Some (e, f)" for a e f
    using val [OF that(1)] that(2) one(3) by metis
  show ?thesis unfolding x
    by (intro conjI ids tools wfs ballI allI impI; (fact ctx | erule (1) parent | erule (1) ends)?)
qed

text \<open>
  C26.  Recorded bindings identify artifacts.  A binding is recorded once; bindings of one entity
  agree on its source, path and content; an output entity is produced by one binding and an accepted
  output file is bound once.
\<close>

theorem projected_bindings_identify_artifacts:
  assumes "project_execution_provenance es = Inr x"
  shows "distinct (map (binding_key_of \<circ> snd) (xp_bindings x))
    \<and> (\<forall>b \<in> set (map snd (xp_bindings x)). \<forall>c \<in> set (map snd (xp_bindings x)).
         bd_entity_id b = bd_entity_id c \<longrightarrow> binding_identity b = binding_identity c)
    \<and> distinct (map bd_entity_id
         (filter (\<lambda>b. bd_direction b = Dir_output) (map snd (xp_bindings x))))
    \<and> distinct (map (\<lambda>b. (bd_source_event_id b, bd_relative_path b))
         (filter (\<lambda>b. bd_direction b = Dir_output) (map snd (xp_bindings x))))"
proof -
  obtain s where run: "prov_run (ev_run_id (hd es)) prov_init es = Inr s"
    and x: "xp_bindings x = pv_bindings s"
    using projection_facts [OF assms] by metis
  note ok = run_keeps_bindings [OF run, unfolded bindings_ok_def output_bindings_def]
  have "binding_identity b = binding_identity c"
    if "b \<in> set (map snd (pv_bindings s))" "c \<in> set (map snd (pv_bindings s))"
      "bd_entity_id b = bd_entity_id c" for b c
    using ok that by (metis option.inject)
  then show ?thesis unfolding x using ok by blast
qed

end
