(* ===== verification/Reducer_State.thy ===== *)
theory Reducer_State
  imports Exec_Provenance Utc
begin

text \<open>
  The state of the reducer (\<^verbatim>\<open>kernel/ledger/reducer.py\<close>): the state classes it builds, the locals of
  \<open>reduce_events\<close> as one record, the claim-authority checks and \<open>_recompute_proposal_order\<close>.
  Constructing a state class checks its fields again; the only fields that are not copied from a
  validated payload are blocker codes, so that check is modelled (\<open>stable_runtime_id\<close>).
\<close>

section \<open>State classes\<close>

record blocker_state =
  bl_code :: ident
  bl_source_event_id :: "ident option"

record pending_decision =
  pds_decision_id :: ident
  pds_blocker_code :: ident
  pds_source_event_ids :: "ident list"
  pds_starting_revision :: int
  pds_allowed_choices :: "ident list"
  pds_rationale_required :: bool
  pds_unlock_transitions :: "ident list"

record active_attempt =
  aat_attempt_id :: ident
  aat_base_revision :: int
  aat_consumed_sha256 :: "sha256 list"
  aat_assignment_id :: "ident option"
  aat_assignment_sha256 :: "sha256 option"
  aat_attempt_number :: int
  aat_status :: attempt_status
  aat_proposal_nonce :: "ident option"
  aat_host_agent_id :: "string option"
  aat_proposal_sha256 :: "sha256 option"

datatype assignment_status = Asg_prepared | Asg_active | Asg_superseded

record assignment_state =
  ast_assignment_id :: ident
  ast_assignment_sha256 :: sha256
  ast_supersedes_assignment_id :: "ident option"
  ast_acceptance_key :: accept_key
  ast_role_id :: ident
  ast_worker_identity_id :: ident
  ast_execution_mode :: execution_mode
  ast_execution_provenance :: execution_provenance
  ast_status :: assignment_status
  ast_assignment :: assignment

record attempt_entry =
  ate_assignment_id :: ident
  ate_assignment_sha256 :: sha256
  ate_attempt_id :: ident
  ate_attempt_number :: int
  ate_status :: attempt_status
  ate_retry_reason :: "retry_reason option"
  ate_retry_eligible :: bool
  ate_proposal_sha256 :: "sha256 option"
  ate_source_event_id :: ident

datatype effective_status = Eff_pending_order | Eff_accepted | Eff_rejected

record proposal_state =
  prs_assignment_id :: ident
  prs_assignment_sha256 :: sha256
  prs_attempt_id :: ident
  prs_proposal_sha256 :: sha256
  prs_acceptance_key :: accept_key
  prs_outcome :: proposal_outcome
  prs_effective_status :: effective_status
  prs_reason_code :: "ident option"
  prs_proposal :: "worker_proposal option"
  prs_raw_bytes_retained :: bool
  prs_source_event_id :: ident

record gate_state =
  gst_gate_id :: ident
  gst_verdict :: gate_verdict
  gst_required :: bool
  gst_subject_sha256 :: sha256
  gst_evidence_sha256 :: "sha256 list"
  gst_decision_sha256 :: sha256
  gst_decision :: gate_decision
  gst_source_event_id :: ident

record host_identity_state =
  his_receipt_id :: ident
  his_receipt_sha256 :: sha256
  his_receipt :: identity_receipt
  his_source_event_id :: ident

record authority_state =
  hau_authority_id :: ident
  hau_authority_sha256 :: sha256
  hau_authority :: human_authority
  hau_source_event_id :: ident

datatype release_action = Rel_release | Rel_restore

record blocker_release =
  brl_blocker_code :: ident
  brl_decision_id :: ident
  brl_action :: release_action
  brl_source_event_id :: ident

record human_decision_state =
  hds_decision_id :: ident
  hds_decision_kind :: decision_kind
  hds_gate_id :: ident
  hds_subject_sha256 :: sha256
  hds_applicable_transition :: ident
  hds_scope :: string
  hds_rationale :: string
  hds_decision_sha256 :: sha256
  hds_authority_sha256 :: sha256
  hds_source_event_id :: ident
  hds_decision :: human_decision_record

section \<open>The locals of the loop\<close>

text \<open>
  Three layers of one record: the run itself, the assignments with their attempts and proposals, and
  the evidence (panels, gates, authorities and decisions).  \<open>rd_prior\<close> is \<open>events[:event_index]\<close>.
\<close>

record run_core =
  rd_prior :: "canonical_event list"
  rd_stage :: ident
  rd_revision :: int
  rd_head :: sha256
  rd_decisions :: "(ident, pending_decision) dict"
  rd_decision_ids :: "ident set"
  rd_accepted_event_ids :: "ident set"
  rd_attempts :: "(ident, active_attempt) dict"
  rd_attempt_ids :: "ident set"
  rd_blockers :: "(ident, blocker_state) dict"
  rd_artifacts :: "sha256 list"
  rd_artifact_ids :: "ident set"
  rd_passports :: "sha256 list"
  rd_consumed_passports :: "sha256 list"
  rd_current_passport :: "sha256 option"
  rd_current_passport_stage :: "ident option"
  rd_fresh_until :: "timestamp option"
  rd_canonical_event_sha256 :: "sha256 list"
  rd_phase4_event_seen :: bool

record run_work = run_core +
  rd_execution_mode :: "execution_mode option"
  rd_execution_provenance :: "execution_provenance option"
  rd_role_catalog_sha256 :: "sha256 option"
  rd_policy_sha256 :: "sha256 option"
  rd_dag_sha256 :: "sha256 option"
  rd_assignments :: "(ident, assignment_state) dict"
  rd_assignment_history :: "assignment_state list"
  rd_attempt_history :: "attempt_entry list"
  rd_attempt_statuses :: "(ident, attempt_status) dict"
  rd_latest_attempt :: "(ident \<times> int, attempt_entry) dict"
  rd_max_attempt_number :: "(ident, int) dict"
  rd_repairable :: "(ident \<times> int) set"
  rd_proposals :: "proposal_state list"
  rd_proposal_sha256s :: "sha256 set"

record run_state = run_work +
  rd_panel_reports :: "review_report list"
  rd_report_ids :: "ident set"
  rd_panel_syntheses :: "review_finding_matrix list"
  rd_panel_manifests :: "panel_manifest list"
  rd_panel_ids :: "ident set"
  rd_host_identities :: "host_identity_state list"
  rd_receipt_ids :: "ident set"
  rd_receipt_sha256s :: "sha256 set"
  rd_human_authorities :: "authority_state list"
  rd_authority_ids :: "ident set"
  rd_authority_sha256s :: "sha256 set"
  rd_blocker_releases :: "blocker_release list"
  rd_accepted_evidence :: "sha256 list"
  rd_hook_observations :: "hook_observation list"
  rd_hook_keys :: "ident set"
  rd_gates :: "(ident, gate_state) dict"
  rd_failed_gate_ids :: "ident set"
  rd_human_decisions :: "human_decision_state list"
  rd_human_decision_ids :: "ident set"

definition initial_state :: run_state where
  "initial_state =
     \<lparr> rd_prior = [], rd_stage = ''initialized'', rd_revision = 0, rd_head = ZERO_HASH,
       rd_decisions = [], rd_decision_ids = {}, rd_accepted_event_ids = {}, rd_attempts = [],
       rd_attempt_ids = {}, rd_blockers = [], rd_artifacts = [], rd_artifact_ids = {},
       rd_passports = [], rd_consumed_passports = [], rd_current_passport = None,
       rd_current_passport_stage = None, rd_fresh_until = None, rd_canonical_event_sha256 = [],
       rd_phase4_event_seen = False,
       rd_execution_mode = None, rd_execution_provenance = None, rd_role_catalog_sha256 = None,
       rd_policy_sha256 = None, rd_dag_sha256 = None, rd_assignments = [],
       rd_assignment_history = [], rd_attempt_history = [], rd_attempt_statuses = [],
       rd_latest_attempt = [], rd_max_attempt_number = [], rd_repairable = {},
       rd_proposals = [], rd_proposal_sha256s = {},
       rd_panel_reports = [], rd_report_ids = {}, rd_panel_syntheses = [], rd_panel_manifests = [],
       rd_panel_ids = {}, rd_host_identities = [], rd_receipt_ids = {}, rd_receipt_sha256s = {},
       rd_human_authorities = [], rd_authority_ids = {}, rd_authority_sha256s = {},
       rd_blocker_releases = [], rd_accepted_evidence = [], rd_hook_observations = [],
       rd_hook_keys = {}, rd_gates = [], rd_failed_gate_ids = {}, rd_human_decisions = [],
       rd_human_decision_ids = {} \<rparr>"

abbreviation red_error :: "string \<Rightarrow> py_error" where
  "red_error m \<equiv> ReducerError m"

section \<open>Blockers\<close>

text \<open>\<^verbatim>\<open>^[a-z][a-z0-9._-]{2,95}$\<close>, the pattern of \<open>StableRuntimeId\<close>.\<close>

definition lower :: "char \<Rightarrow> bool" where
  "lower c = (97 \<le> code c \<and> code c \<le> 122)"

definition stable_runtime_id :: "string \<Rightarrow> bool" where
  "stable_runtime_id s =
     (s \<noteq> [] \<and> lower (hd s) \<and> 3 \<le> length s \<and> length s \<le> 96
      \<and> list_all (\<lambda>c. lower c \<or> is_digit c \<or> c \<in> {CHR ''.'', CHR ''_'', CHR ''-''}) (tl s))"

definition set_blocker ::
  "ident \<Rightarrow> ident \<Rightarrow> (ident, blocker_state) dict \<Rightarrow> (py_error, (ident, blocker_state) dict) result" where
  "set_blocker c src d =
     guard (\<not> stable_runtime_id c) (PyValueError ''String should match pattern'')
       (Inr (dset c \<lparr> bl_code = c, bl_source_event_id = Some src \<rparr> d))"

section \<open>Claim authority\<close>

definition validate_claim_authority_envelope ::
  "authority_state \<Rightarrow> attestation \<Rightarrow> timestamp \<Rightarrow> (py_error, unit) result" where
  "validate_claim_authority_envelope st att occurred_at =
    (let a = hau_authority st; r = att2_authority att in
     guard (hau_authority_sha256 st \<noteq> au_human_authority_sha256 r)
       (red_error ''claim authority digest mismatch'')
    (guard (ha_authenticated_actor_id a \<noteq> au_accountable_actor_id r)
       (red_error ''claim authority actor mismatch'')
    (guard (ha_accountable_role a \<noteq> au_accountable_role r)
       (red_error ''claim authority role mismatch'')
    (guard (''claim_attest'' \<notin> set (ha_allowed_decision_kinds a))
       (red_error ''claim authority kind mismatch'')
    (guard (au_gate_id r \<notin> set (ha_allowed_gate_ids a))
       (red_error ''claim authority gate mismatch'')
    (guard (att2_scope att \<noteq> au_scope r \<or> au_scope r \<notin> set (ha_allowed_scopes a))
       (red_error ''claim authority scope mismatch'')
    (rbind (parse_utc_or_raise occurred_at) (\<lambda>instant.
     rbind (parse_utc_or_raise (ha_authenticated_at a)) (\<lambda>lower.
     rbind (parse_utc_or_raise (ha_expires_at a)) (\<lambda>upper.
     guard (instant < lower) (red_error ''claim anchor precedes authentication'')
    (guard (upper < instant) (red_error ''claim authority expired at anchor time'')
       (Inr ()))))))))))))"

definition validate_claim_anchor_authority ::
  "canonical_event list \<Rightarrow> authority_state list \<Rightarrow> canonical_event \<Rightarrow> claim_attestation_anchored
    \<Rightarrow> (py_error, unit) result" where
  "validate_claim_anchor_authority prior states e p =
    (let att = cla_attestation p; r = att2_authority att in
     require_some (List.find (\<lambda>x. rpx_run_id x = au_authority_run_id r) (sm_runs (att2_snapshot_manifest att)))
       (red_error ''claim authority run is outside the N-1 snapshot'') (\<lambda>prefix.
     guard (au_authority_run_id r \<noteq> ev_run_id e)
       (red_error ''claim authority run is outside the N-1 snapshot'')
    (require_some (List.find (\<lambda>x. ev_resulting_revision x = rpx_revision prefix) prior)
       (red_error ''claim N-1 run prefix digest mismatch'') (\<lambda>cut.
     guard (ev_event_sha256 cut \<noteq> rpx_head_sha256 prefix)
       (red_error ''claim N-1 run prefix digest mismatch'')
    (require_some (as_run_initialized (ev_payload (hd prior))) (PyAttributeError ''manifest_sha256'') (\<lambda>i.
     guard (ri_manifest_sha256 i \<noteq> rpx_run_manifest_sha256 prefix)
       (red_error ''claim N-1 run prefix digest mismatch'')
    (require_some (List.find (\<lambda>x. ev_event_id x = au_authority_event_id r) prior)
       (red_error ''claim authority accepted outside N-1 prefix'') (\<lambda>source.
     guard (rpx_revision prefix < ev_resulting_revision source)
       (red_error ''claim authority accepted outside N-1 prefix'')
    (guard (ev_event_type source \<noteq> Human_authority_accepted
          \<or> ev_event_sha256 source \<noteq> au_authority_event_sha256 r)
       (red_error ''claim authority event identity or digest mismatch'')
    (require_some (as_human_authority (ev_payload source)) (PyAttributeError ''authority_sha256'') (\<lambda>h.
     guard (haa_authority_sha256 h \<noteq> au_human_authority_sha256 r)
       (red_error ''claim authority event identity or digest mismatch'')
    (require_some (List.find (\<lambda>x. hau_source_event_id x = ev_event_id source) states)
       (red_error ''claim authority is absent from reducer state'') (\<lambda>st.
     validate_claim_authority_envelope st att (ev_occurred_at e))))))))))))))"

section \<open>Assignments and the order of proposals\<close>

definition assignment_state_of :: "assignment \<Rightarrow> sha256 \<Rightarrow> assignment_status \<Rightarrow> assignment_state" where
  "assignment_state_of a digest status =
     \<lparr> ast_assignment_id = asg_assignment_id a, ast_assignment_sha256 = digest,
       ast_supersedes_assignment_id = asg_supersedes_assignment_id a,
       ast_acceptance_key = key_value (asg_acceptance_key a), ast_role_id = asg_role_id a,
       ast_worker_identity_id = asg_worker_identity_id a,
       ast_execution_mode = asg_execution_mode a,
       ast_execution_provenance = asg_execution_provenance a, ast_status = status,
       ast_assignment = a \<rparr>"

text \<open>The loop body of \<open>_recompute_proposal_order\<close>, with its five accumulators.\<close>

record proposal_order =
  po_projected :: "proposal_state list"
  po_accepted :: "sha256 list"
  po_rejected :: "sha256 list"
  po_cursor :: "accept_key option"
  po_gap :: bool

definition first_proposals :: "proposal_state list \<Rightarrow> (ident, proposal_state) dict" where
  "first_proposals ps =
     foldl (\<lambda>d p. if prs_assignment_id p \<in> dkeys d then d else dset (prs_assignment_id p) p d) [] ps"

definition ordered_assignments :: "(ident, assignment_state) dict \<Rightarrow> assignment_state list" where
  "ordered_assignments d =
     sort_key ast_acceptance_key (filter (\<lambda>a. ast_status a \<noteq> Asg_superseded) (dvalues d))"

definition order_step ::
  "(ident, proposal_state) dict \<Rightarrow> proposal_order \<Rightarrow> assignment_state \<Rightarrow> proposal_order" where
  "order_step firsts acc a =
    (case dget firsts (ast_assignment_id a) of
       None \<Rightarrow> acc\<lparr>po_gap := True\<rparr>
     | Some p \<Rightarrow>
         if po_gap acc then
           acc\<lparr>po_projected := po_projected acc @ [p\<lparr>prs_effective_status := Eff_pending_order\<rparr>]\<rparr>
         else if prs_outcome p = Out_accepted then
           acc\<lparr>po_accepted := po_accepted acc @ [prs_proposal_sha256 p],
               po_projected := po_projected acc @ [p\<lparr>prs_effective_status := Eff_accepted\<rparr>],
               po_cursor := Some (ast_acceptance_key a)\<rparr>
         else
           acc\<lparr>po_rejected := po_rejected acc @ [prs_proposal_sha256 p],
               po_projected := po_projected acc @ [p\<lparr>prs_effective_status := Eff_rejected\<rparr>],
               po_cursor := Some (ast_acceptance_key a)\<rparr>)"

definition recompute_proposal_order ::
  "(ident, assignment_state) dict \<Rightarrow> proposal_state list \<Rightarrow> proposal_order" where
  "recompute_proposal_order assignments ps =
     foldl (order_step (first_proposals ps))
       \<lparr> po_projected = [], po_accepted = [], po_rejected = [], po_cursor = None, po_gap = False \<rparr>
       (ordered_assignments assignments)"

end
