(* ===== verification/Reducer_Steps.thy ===== *)
theory Reducer_Steps
  imports Reducer_State
begin

text \<open>
  The branches of the loop of \<open>reduce_events\<close> (\<^verbatim>\<open>kernel/ledger/reducer.py\<close>), one definition each, in
  the order of the code: every check it makes and every local it changes.  The dispatch on the event
  type and the loop are in \<open>Reducer\<close>.
\<close>

section \<open>Execution mode, assignments and attempts\<close>

definition step_mode_selected ::
  "run_state \<Rightarrow> canonical_event \<Rightarrow> execution_mode_selected \<Rightarrow> (py_error, run_state) result" where
  "step_mode_selected s e p =
     guard (rd_execution_mode s \<noteq> None
          \<and> (rd_execution_mode s \<noteq> Some (ms_execution_mode p)
           \<or> rd_execution_provenance s \<noteq> Some (ms_execution_provenance p)))
       (red_error ''execution mode is immutable after selection'')
    (rbind (if ms_execution_mode p = Blocked_mode
            then set_blocker ''execution-mode-blocked'' (ev_event_id e) (rd_blockers s)
            else Inr (rd_blockers s)) (\<lambda>bs. Inr
       (s\<lparr> rd_phase4_event_seen := True,
          rd_execution_mode := Some (ms_execution_mode p),
          rd_execution_provenance := Some (ms_execution_provenance p),
          rd_role_catalog_sha256 := ms_role_catalog_sha256 p,
          rd_policy_sha256 := ms_policy_sha256 p,
          rd_dag_sha256 := ms_dag_sha256 p,
          rd_blockers := bs \<rparr>)))"

text \<open>
  Both assignment events.  A superseding assignment marks its predecessor and becomes active at once.
\<close>

definition as_reducer_error :: "(string, unit) result \<Rightarrow> (py_error, unit) result" where
  "as_reducer_error r = (case r of Inl m \<Rightarrow> Inl (red_error m) | Inr u \<Rightarrow> Inr u)"

definition supersede ::
  "(ident, assignment_state) dict \<Rightarrow> assignment \<Rightarrow> ident
    \<Rightarrow> (py_error, (ident, assignment_state) dict) result" where
  "supersede d a pid =
     require_some (dget d pid)
       (red_error ''superseding assignment references an unknown predecessor'') (\<lambda>predecessor.
     rbind (as_reducer_error (validate_supersedes a (ast_assignment predecessor))) (\<lambda>_.
     Inr (dset pid (predecessor\<lparr>ast_status := Asg_superseded\<rparr>) d)))"

definition step_assignment ::
  "run_state \<Rightarrow> assignment_prepared \<Rightarrow> (py_error, run_state) result" where
  "step_assignment s p =
    (let a = ap_assignment p; i = asg_assignment_id a; pred = asg_supersedes_assignment_id a;
         current = assignment_state_of a (ap_assignment_sha256 p)
                     (if pred = None then Asg_prepared else Asg_active) in
     guard (i \<in> dkeys (rd_assignments s)) (red_error ''assignment ID was already used'')
    (guard (rd_execution_mode s \<noteq> None \<and> rd_execution_mode s \<noteq> Some (asg_execution_mode a))
       (red_error ''assignment execution mode differs from frozen run mode'')
    (rbind (case pred of None \<Rightarrow> Inr (rd_assignments s) | Some pid \<Rightarrow> supersede (rd_assignments s) a pid)
       (\<lambda>d. Inr
       (s\<lparr> rd_phase4_event_seen := True,
          rd_assignments := dset i current d,
          rd_assignment_history := rd_assignment_history s @ [current] \<rparr>)))))"

definition repairable_status :: "attempt_status \<Rightarrow> bool" where
  "repairable_status st = (st \<in> {St_failed, St_cancelled, St_interrupted, St_force_terminated})"

definition retry_check ::
  "run_state \<Rightarrow> ident \<Rightarrow> attempt_descriptor \<Rightarrow> (py_error, unit) result" where
  "retry_check s aid t =
    (if att_attempt_number t \<le> 1 then Inr ()
     else
       guard (dget (rd_max_attempt_number s) aid \<noteq> Some (att_attempt_number t - 1))
         (red_error ''retry must follow the immediately preceding attempt'')
      (require_some (dget (rd_latest_attempt s) (aid, att_attempt_number t - 1)) (PyKeyError aid)
        (\<lambda>predecessor.
       guard (\<not> repairable_status (ate_status predecessor))
         (red_error ''retry requires a terminal repairable attempt'')
      (guard (\<not> ate_retry_eligible predecessor
            \<or> ate_retry_reason predecessor \<notin> Some ` RETRYABLE_FAILURES)
         (red_error ''retry predecessor is not canonically eligible'') (Inr ())))))"

text \<open>\<open>note_attempt\<close>: append to the attempt history and update its three indexes.\<close>

definition note_attempt :: "attempt_entry \<Rightarrow> run_state \<Rightarrow> run_state" where
  "note_attempt h s =
    (let aid = ate_assignment_id h; n = ate_attempt_number h in
     s\<lparr> rd_attempt_history := rd_attempt_history s @ [h],
        rd_attempt_statuses := dset (ate_attempt_id h) (ate_status h) (rd_attempt_statuses s),
        rd_latest_attempt := dset (aid, n) h (rd_latest_attempt s),
        rd_max_attempt_number :=
          dset aid (max (case dget (rd_max_attempt_number s) aid of None \<Rightarrow> 0 | Some m \<Rightarrow> m) n)
            (rd_max_attempt_number s) \<rparr>)"

definition known_assignment ::
  "run_state \<Rightarrow> ident \<Rightarrow> sha256 \<Rightarrow> string \<Rightarrow> string
    \<Rightarrow> (assignment_state \<Rightarrow> (py_error, 'a) result) \<Rightarrow> (py_error, 'a) result" where
  "known_assignment s aid digest unknown stale k =
     require_some (dget (rd_assignments s) aid) (red_error unknown) (\<lambda>a.
     guard (ast_assignment_sha256 a \<noteq> digest) (red_error stale) (k a))"

definition step_attempt_prepared ::
  "run_state \<Rightarrow> canonical_event \<Rightarrow> attempt_prepared \<Rightarrow> (py_error, run_state) result" where
  "step_attempt_prepared s e p =
    (let t = atp_attempt p; aid = atp_assignment_id p in
     known_assignment s aid (atp_assignment_sha256 p)
       ''attempt result cannot precede its assignment'' ''attempt assignment digest is stale'' (\<lambda>a.
     guard (att_status t \<noteq> St_prepared) (red_error ''attempt.prepared requires a prepared descriptor'')
    (guard (att_attempt_id t \<in> rd_attempt_ids s) (red_error ''attempt ID was already used'')
    (guard (att_assignment_id t \<noteq> aid) (red_error ''attempt assignment identity differs'')
    (rbind (retry_check s aid t) (\<lambda>_. Inr
       (note_attempt
          \<lparr> ate_assignment_id = aid, ate_assignment_sha256 = atp_assignment_sha256 p,
            ate_attempt_id = att_attempt_id t, ate_attempt_number = att_attempt_number t,
            ate_status = att_status t, ate_retry_reason = att_retry_reason t,
            ate_retry_eligible = att_retry_eligible t, ate_proposal_sha256 = None,
            ate_source_event_id = ev_event_id e \<rparr>
          (s\<lparr> rd_phase4_event_seen := True,
             rd_attempt_ids := insert (att_attempt_id t) (rd_attempt_ids s),
             rd_attempts := dset (att_attempt_id t)
               \<lparr> aat_attempt_id = att_attempt_id t,
                 aat_base_revision = asg_base_revision (ast_assignment a),
                 aat_consumed_sha256 = asg_input_sha256 (ast_assignment a),
                 aat_assignment_id = Some aid, aat_assignment_sha256 = Some (atp_assignment_sha256 p),
                 aat_attempt_number = att_attempt_number t, aat_status = att_status t,
                 aat_proposal_nonce = Some (att_proposal_nonce t),
                 aat_host_agent_id = att_host_agent_id t, aat_proposal_sha256 = None \<rparr>
               (rd_attempts s) \<rparr>))))))))"

definition closing_status :: "attempt_status \<Rightarrow> bool" where
  "closing_status st =
     (st \<in> {St_completed, St_failed, St_cancelled, St_force_terminated, St_interrupted,
            St_rejected_stale, St_superseded, St_blocked})"

definition step_attempt_lifecycle ::
  "run_state \<Rightarrow> canonical_event \<Rightarrow> attempt_lifecycle \<Rightarrow> (py_error, run_state) result" where
  "step_attempt_lifecycle s e p =
    (let aid = alc_assignment_id p; t = alc_attempt_id p; n = alc_attempt_number p; st = alc_status p in
     known_assignment s aid (alc_assignment_sha256 p)
       ''attempt lifecycle references an unknown assignment''
       ''attempt lifecycle assignment digest is stale'' (\<lambda>a.
     guard (dget (rd_attempts s) t = None \<and> dget (rd_attempt_statuses s) t = None)
       (red_error ''attempt lifecycle references an unknown attempt'')
    (guard (1 < n \<and> (aid, n - 1) \<notin> rd_repairable s)
       (red_error ''retry lifecycle is outside the repairable attempt budget'')
    (rbind (if st = St_blocked
            then set_blocker (''attempt-blocked.'' @ t) (ev_event_id e) (rd_blockers s)
            else Inr (rd_blockers s)) (\<lambda>bs. Inr
       (note_attempt
          \<lparr> ate_assignment_id = aid, ate_assignment_sha256 = alc_assignment_sha256 p,
            ate_attempt_id = t, ate_attempt_number = n, ate_status = st,
            ate_retry_reason = alc_retry_reason p, ate_retry_eligible = alc_retry_eligible p,
            ate_proposal_sha256 = alc_proposal_sha256 p, ate_source_event_id = ev_event_id e \<rparr>
          (s\<lparr> rd_phase4_event_seen := True,
             rd_repairable := (if repairable_status st then insert (aid, n) (rd_repairable s)
                               else rd_repairable s),
             rd_attempts := (case dget (rd_attempts s) t of
                None \<Rightarrow> rd_attempts s
              | Some known \<Rightarrow>
                  if closing_status st then dpop t (rd_attempts s)
                  else dset t (known\<lparr>aat_status := st, aat_proposal_sha256 := alc_proposal_sha256 p\<rparr>)
                         (rd_attempts s)),
             rd_blockers := bs \<rparr>)))))))"

section \<open>Proposals\<close>

text \<open>
  The check of a degraded assignment reads \<open>assignment.independence_eligible\<close>, an attribute that
  \<open>AssignmentState\<close> does not have: it raises \<open>AttributeError\<close> whenever the mode is not a formal one.
\<close>

definition stale_status :: "attempt_status \<Rightarrow> bool" where
  "stale_status st = (st \<in> {St_cancelled, St_force_terminated, St_interrupted, St_rejected_stale, St_superseded})"

definition step_proposal_accepted ::
  "run_state \<Rightarrow> canonical_event \<Rightarrow> proposal_accepted \<Rightarrow> (py_error, run_state) result" where
  "step_proposal_accepted s e p =
    (let aid = pac_assignment_id p; t = pac_attempt_id p in
     known_assignment s aid (pac_assignment_sha256 p)
       ''proposal cannot precede its assignment'' ''proposal assignment digest is stale'' (\<lambda>a.
     guard ((\<exists>st \<in> set_option (dget (rd_attempt_statuses s) t). stale_status st)
          \<or> ast_status a = Asg_superseded)
       (red_error ''stale proposal cannot be accepted'')
    (guard (\<not> formal_mode (ast_execution_mode a)) (PyAttributeError ''independence_eligible'')
    (guard (pac_proposal_sha256 p \<in> rd_proposal_sha256s s)
       (red_error ''proposal digest was already recorded'')
       (let s1 = s\<lparr> rd_phase4_event_seen := True,
            rd_proposals := rd_proposals s @
              [\<lparr> prs_assignment_id = aid, prs_assignment_sha256 = pac_assignment_sha256 p,
                 prs_attempt_id = t, prs_proposal_sha256 = pac_proposal_sha256 p,
                 prs_acceptance_key = pac_acceptance_key p, prs_outcome = Out_accepted,
                 prs_effective_status = Eff_pending_order, prs_reason_code = None,
                 prs_proposal = Some (pac_proposal p), prs_raw_bytes_retained = True,
                 prs_source_event_id = ev_event_id e \<rparr>],
            rd_proposal_sha256s := insert (pac_proposal_sha256 p) (rd_proposal_sha256s s) \<rparr> in
        case dget (rd_attempts s) t of
          None \<Rightarrow> Inr s1
        | Some known \<Rightarrow> Inr
            (note_attempt
              \<lparr> ate_assignment_id = aid, ate_assignment_sha256 = pac_assignment_sha256 p,
                ate_attempt_id = t, ate_attempt_number = aat_attempt_number known,
                ate_status = St_completed, ate_retry_reason = None, ate_retry_eligible = False,
                ate_proposal_sha256 = Some (pac_proposal_sha256 p),
                ate_source_event_id = ev_event_id e \<rparr>
              (s1\<lparr>rd_attempts := dpop t (rd_attempts s)\<rparr>)))))))"

definition step_proposal_rejected ::
  "run_state \<Rightarrow> canonical_event \<Rightarrow> proposal_rejected \<Rightarrow> (py_error, run_state) result" where
  "step_proposal_rejected s e p =
     known_assignment s (prj_assignment_id p) (prj_assignment_sha256 p)
       ''proposal rejection cannot precede its assignment''
       ''proposal rejection assignment digest is stale'' (\<lambda>a.
     guard (prj_proposal_sha256 p \<in> rd_proposal_sha256s s)
       (red_error ''proposal digest was already recorded'') (Inr
       (s\<lparr> rd_phase4_event_seen := True,
          rd_proposals := rd_proposals s @
            [\<lparr> prs_assignment_id = prj_assignment_id p, prs_assignment_sha256 = prj_assignment_sha256 p,
               prs_attempt_id = prj_attempt_id p, prs_proposal_sha256 = prj_proposal_sha256 p,
               prs_acceptance_key = prj_acceptance_key p, prs_outcome = prj_outcome p,
               prs_effective_status = Eff_rejected, prs_reason_code = Some (prj_reason_code p),
               prs_proposal = None, prs_raw_bytes_retained = prj_raw_bytes_retained p,
               prs_source_event_id = ev_event_id e \<rparr>],
          rd_proposal_sha256s := insert (prj_proposal_sha256 p) (rd_proposal_sha256s s) \<rparr>)))"

section \<open>Evidence: identities, experiments, panels and reviews\<close>

definition step_host_identity ::
  "run_state \<Rightarrow> canonical_event \<Rightarrow> host_identity_accepted \<Rightarrow> (py_error, run_state) result" where
  "step_host_identity s e p =
    (let i = receipt_id (hia_receipt p); h = hia_receipt_sha256 p in
     guard (i \<in> rd_receipt_ids s \<or> h \<in> rd_receipt_sha256s s)
       (red_error ''host identity receipt was already recorded'') (Inr
       (s\<lparr> rd_phase4_event_seen := True,
          rd_host_identities := rd_host_identities s @
            [\<lparr> his_receipt_id = i, his_receipt_sha256 = h, his_receipt = hia_receipt p,
               his_source_event_id = ev_event_id e \<rparr>],
          rd_receipt_ids := insert i (rd_receipt_ids s),
          rd_receipt_sha256s := insert h (rd_receipt_sha256s s),
          rd_accepted_evidence := rd_accepted_evidence s @ [h] \<rparr>)))"

definition step_experiment :: "run_state \<Rightarrow> sha256 \<Rightarrow> string \<Rightarrow> (py_error, run_state) result" where
  "step_experiment s h message =
     guard (h \<in> set (rd_accepted_evidence s)) (red_error message) (Inr
       (s\<lparr> rd_phase4_event_seen := True, rd_accepted_evidence := rd_accepted_evidence s @ [h] \<rparr>))"

definition receipt_of_sha :: "run_state \<Rightarrow> sha256 \<Rightarrow> identity_receipt option" where
  "receipt_of_sha s h =
     map_of (rev (map (\<lambda>x. (his_receipt_sha256 x, his_receipt x)) (rd_host_identities s))) h"

fun check_seats :: "run_state \<Rightarrow> panel_seat list \<Rightarrow> (py_error, unit) result" where
  "check_seats s [] = Inr ()"
| "check_seats s (x # xs) =
     require_some (receipt_of_sha s (seat_identity_receipt_sha256 x))
       (red_error ''panel seat references unknown host identity evidence'') (\<lambda>r.
     guard (receipt_identity r \<noteq> (seat_role_id x, seat_worker_identity_id x, seat_host_agent_id x))
       (red_error ''panel seat differs from retained host identity evidence'') (check_seats s xs))"

definition step_panel_prepared ::
  "run_state \<Rightarrow> canonical_event \<Rightarrow> panel_prepared \<Rightarrow> (py_error, run_state) result" where
  "step_panel_prepared s e p =
    (let m = ppd_manifest p in
     guard (pm_panel_id m \<in> rd_panel_ids s) (red_error ''panel ID was already prepared'')
    (rbind (check_seats s (panel_seats m)) (\<lambda>_.
     rbind (if pm_status m = Panel_blocked
            then set_blocker (''panel-blocked.'' @ pm_panel_id m) (ev_event_id e) (rd_blockers s)
            else Inr (rd_blockers s)) (\<lambda>bs. Inr
       (s\<lparr> rd_phase4_event_seen := True,
          rd_panel_manifests := rd_panel_manifests s @ [m],
          rd_panel_ids := insert (pm_panel_id m) (rd_panel_ids s),
          rd_accepted_evidence := rd_accepted_evidence s @ [ppd_manifest_sha256 p],
          rd_blockers := bs \<rparr>)))))"

definition panel_of_sha :: "env \<Rightarrow> run_state \<Rightarrow> sha256 \<Rightarrow> panel_manifest option" where
  "panel_of_sha E s h = List.find (\<lambda>m. panel_manifest_sha256 E m = h) (rd_panel_manifests s)"

definition ready_panel ::
  "env \<Rightarrow> run_state \<Rightarrow> sha256 \<Rightarrow> string \<Rightarrow> (panel_manifest \<Rightarrow> (py_error, 'a) result)
    \<Rightarrow> (py_error, 'a) result" where
  "ready_panel E s h message k =
     require_some (panel_of_sha E s h) (red_error message) (\<lambda>m.
     guard (pm_status m \<noteq> Panel_ready) (red_error message) (k m))"

definition report_binds_seat :: "review_report \<Rightarrow> panel_seat \<Rightarrow> bool" where
  "report_binds_seat r x =
     (seat_attempt_id x = rr_attempt_id r \<and> seat_role_id x = rr_role_id r
    \<and> seat_worker_identity_id x = rr_worker_identity_id r
    \<and> seat_host_agent_id x = rr_host_agent_id r
    \<and> seat_identity_receipt_sha256 x = rr_identity_receipt_sha256 r)"

definition step_review_report ::
  "env \<Rightarrow> run_state \<Rightarrow> review_report_accepted \<Rightarrow> (py_error, run_state) result" where
  "step_review_report E s p =
    (let r = rra_report p in
     guard (rr_report_id r \<in> rd_report_ids s) (red_error ''review report ID was already recorded'')
    (ready_panel E s (rr_panel_manifest_sha256 r)
       ''review report references an unknown or blocked panel'' (\<lambda>m.
     require_some (List.find (\<lambda>x. seat_assignment_id x = rr_assignment_id r) (pm_reviewer_seats m))
       (red_error ''review report does not bind its canonical panel seat'') (\<lambda>x.
     guard (\<not> report_binds_seat r x)
       (red_error ''review report does not bind its canonical panel seat'') (Inr
       (s\<lparr> rd_phase4_event_seen := True,
          rd_panel_reports := rd_panel_reports s @ [r],
          rd_report_ids := insert (rr_report_id r) (rd_report_ids s),
          rd_accepted_evidence := rd_accepted_evidence s @ [rra_report_sha256 p] \<rparr>))))))"

definition accepted_report_sha256s :: "run_state \<Rightarrow> sha256 \<Rightarrow> sha256 option set" where
  "accepted_report_sha256s s h =
     rr_report_sha256 ` set (filter (\<lambda>r. rr_panel_manifest_sha256 r = h) (rd_panel_reports s))"

definition synthesis_binds_seat :: "review_synthesis \<Rightarrow> panel_seat \<Rightarrow> bool" where
  "synthesis_binds_seat y x =
     (seat_worker_identity_id x = rs_worker_identity_id y \<and> seat_host_agent_id x = rs_host_agent_id y
    \<and> seat_identity_receipt_sha256 x = rs_identity_receipt_sha256 y)"

definition step_review_synthesis ::
  "env \<Rightarrow> run_state \<Rightarrow> canonical_event \<Rightarrow> review_synthesis_accepted \<Rightarrow> (py_error, run_state) result"
  where
  "step_review_synthesis E s e p =
    (let m = rsa_finding_matrix p; y = mx_synthesis m;
         accepted = accepted_report_sha256s s (mx_panel_manifest_sha256 m) in
     ready_panel E s (mx_panel_manifest_sha256 m)
       ''synthesis references an unknown or blocked panel'' (\<lambda>panel.
     guard (Some ` set (rs_source_report_sha256 y) \<noteq> accepted)
       (red_error ''synthesis must bind every exact accepted panel report'')
    (guard (rr_report_sha256 ` set (mx_reports m) \<noteq> accepted)
       (red_error ''synthesis report bodies differ from canonical accepted reports'')
    (require_some (pm_synthesizer_seat panel)
       (red_error ''synthesis identity differs from the canonical panel'') (\<lambda>x.
     guard (\<not> synthesis_binds_seat y x)
       (red_error ''synthesis identity differs from the canonical panel'')
    (rbind (if mx_gate_verdict m = Verdict_BLOCKED
            then set_blocker ''formal-review-blocked'' (ev_event_id e) (rd_blockers s)
            else Inr (rd_blockers s)) (\<lambda>bs. Inr
       (s\<lparr> rd_phase4_event_seen := True,
          rd_panel_syntheses := rd_panel_syntheses s @ [m],
          rd_accepted_evidence := rd_accepted_evidence s @ [rsa_finding_matrix_sha256 p],
          rd_blockers := bs \<rparr>))))))))"

definition step_hook_observed :: "run_state \<Rightarrow> hook_observed \<Rightarrow> (py_error, run_state) result" where
  "step_hook_observed s p =
    (let h = hob_observation p in
     guard (ho_idempotency_key h \<in> rd_hook_keys s)
       (red_error ''hook observation idempotency key was already recorded'') (Inr
       (s\<lparr> rd_phase4_event_seen := True,
          rd_hook_observations := rd_hook_observations s @ [h],
          rd_hook_keys := insert (ho_idempotency_key h) (rd_hook_keys s),
          rd_accepted_evidence := rd_accepted_evidence s @ [hob_observation_sha256 p] \<rparr>)))"

section \<open>Gates, authorities and human decisions\<close>

definition gate_state_of :: "gate_evaluated \<Rightarrow> ident \<Rightarrow> gate_state" where
  "gate_state_of p src = (let d = gev_decision p in
     \<lparr> gst_gate_id = gd_gate_id d, gst_verdict = gd_verdict d, gst_required = gd_required d,
       gst_subject_sha256 = gd_subject_sha256 d, gst_evidence_sha256 = gd_evidence_sha256 d,
       gst_decision_sha256 = gev_decision_sha256 p, gst_decision = d, gst_source_event_id = src \<rparr>)"

definition gate_is_stale :: "gate_decision \<Rightarrow> timestamp \<Rightarrow> bool" where
  "gate_is_stale d occurred_at =
     (gd_required d \<and> \<not> falsy (gd_fresh_until d) \<and> the (gd_fresh_until d) < occurred_at)"

definition step_gate_evaluated ::
  "run_state \<Rightarrow> canonical_event \<Rightarrow> gate_evaluated \<Rightarrow> (py_error, run_state) result" where
  "step_gate_evaluated s e p =
    (let d = gev_decision p; g = gd_gate_id d in
     guard (g \<in> dkeys (rd_gates s))
       (red_error ''gate verdicts are append-only and cannot be overwritten'')
    (rbind (if gd_verdict d \<in> {Verdict_FAIL, Verdict_BLOCKED}
            then set_blocker g (ev_event_id e) (rd_blockers s)
            else if gate_is_stale d (ev_occurred_at e)
            then set_blocker (''stale-gate.'' @ g) (ev_event_id e) (rd_blockers s)
            else Inr (rd_blockers s)) (\<lambda>bs. Inr
       (s\<lparr> rd_phase4_event_seen := True,
          rd_gates := dset g (gate_state_of p (ev_event_id e)) (rd_gates s),
          rd_accepted_evidence := rd_accepted_evidence s @ [gev_decision_sha256 p],
          rd_failed_gate_ids := (if gd_verdict d = Verdict_FAIL then insert g (rd_failed_gate_ids s)
                                 else rd_failed_gate_ids s),
          rd_blockers := bs \<rparr>))))"

definition step_human_authority ::
  "run_state \<Rightarrow> canonical_event \<Rightarrow> human_authority_accepted \<Rightarrow> (py_error, run_state) result" where
  "step_human_authority s e p =
    (let a = haa_authority p; h = haa_authority_sha256 p in
     guard (ha_authority_id a \<in> rd_authority_ids s \<or> h \<in> rd_authority_sha256s s)
       (red_error ''human authority envelope was already recorded'') (Inr
       (s\<lparr> rd_phase4_event_seen := True,
          rd_human_authorities := rd_human_authorities s @
            [\<lparr> hau_authority_id = ha_authority_id a, hau_authority_sha256 = h, hau_authority = a,
               hau_source_event_id = ev_event_id e \<rparr>],
          rd_authority_ids := insert (ha_authority_id a) (rd_authority_ids s),
          rd_authority_sha256s := insert h (rd_authority_sha256s s),
          rd_accepted_evidence := rd_accepted_evidence s @ [h] \<rparr>)))"

definition step_claim_anchored ::
  "run_state \<Rightarrow> canonical_event \<Rightarrow> claim_attestation_anchored \<Rightarrow> (py_error, run_state) result" where
  "step_claim_anchored s e p =
     guard (list_ex (\<lambda>x. ev_event_type x = Claim_attestation_anchored
              \<and> map_option cla_journal_event_sha256 (as_claim_anchored (ev_payload x))
                  = Some (cla_journal_event_sha256 p)) (rd_prior s))
       (red_error ''claim attestation journal event is already anchored'')
    (rbind (validate_claim_anchor_authority (rd_prior s) (rd_human_authorities s) e p) (\<lambda>_. Inr
       (s\<lparr> rd_phase4_event_seen := True \<rparr>)))"

definition within_authority ::
  "human_authority \<Rightarrow> human_decision_record \<Rightarrow> timestamp \<Rightarrow> bool" where
  "within_authority a d occurred_at =
     (ha_authenticated_actor_id a = hd_accountable_actor_id d
    \<and> ha_accountable_role a = hd_accountable_role d
    \<and> kind_id (hd_decision_kind d) \<in> set (ha_allowed_decision_kinds a)
    \<and> hd_gate_id d \<in> set (ha_allowed_gate_ids a)
    \<and> hd_scope d \<in> set (ha_allowed_scopes a)
    \<and> occurred_at \<le> ha_expires_at a)"

definition correction_check :: "human_decision_state list \<Rightarrow> human_decision_record \<Rightarrow> bool" where
  "correction_check hist d =
    (let prior = List.find (\<lambda>x. Some (hds_decision_id x) = hd_supersedes_decision_id d) hist;
         latest = List.find (\<lambda>x. hds_gate_id x = hd_gate_id d \<and> hds_scope x = hd_scope d) (rev hist) in
     prior \<noteq> None \<and> prior = latest)"

text \<open>The effect of the decision on the blockers, and its record.\<close>

definition decision_blockers ::
  "run_state \<Rightarrow> canonical_event \<Rightarrow> human_decision_record
    \<Rightarrow> (py_error, (ident, blocker_state) dict \<times> blocker_release list) result" where
  "decision_blockers s e d =
    (let c = (case hd_blocker_code d of None \<Rightarrow> '''' | Some x \<Rightarrow> x);
         entry = (\<lambda>act. \<lparr> brl_blocker_code = c, brl_decision_id = hd_decision_id d, brl_action = act,
                        brl_source_event_id = ev_event_id e \<rparr>) in
     case hd_blocker_action d of
       Ba_none \<Rightarrow> Inr (rd_blockers s, rd_blocker_releases s)
     | Ba_release \<Rightarrow>
         guard (c \<notin> dkeys (rd_blockers s))
           (red_error ''human decision cannot release an unknown blocker'')
           (Inr (dpop c (rd_blockers s), rd_blocker_releases s @ [entry Rel_release]))
     | Ba_restore \<Rightarrow>
         guard (\<not> list_ex (\<lambda>x. brl_blocker_code x = c \<and> brl_action x = Rel_release) (rd_blocker_releases s)
              \<or> c \<in> dkeys (rd_blockers s))
           (red_error ''human correction cannot restore an unreleased blocker'')
        (rbind (set_blocker c (ev_event_id e) (rd_blockers s)) (\<lambda>bs.
           Inr (bs, rd_blocker_releases s @ [entry Rel_restore]))))"

definition decision_state_of :: "human_decision_recorded \<Rightarrow> ident \<Rightarrow> human_decision_state" where
  "decision_state_of p src = (let d = hdr_decision p in
     \<lparr> hds_decision_id = hd_decision_id d, hds_decision_kind = hd_decision_kind d,
       hds_gate_id = hd_gate_id d, hds_subject_sha256 = hd_subject_sha256 d,
       hds_applicable_transition = hd_applicable_transition d, hds_scope = hd_scope d,
       hds_rationale = hd_rationale d, hds_decision_sha256 = hdr_decision_sha256 p,
       hds_authority_sha256 = hdr_authority_sha256 p, hds_source_event_id = src, hds_decision = d \<rparr>)"

definition step_human_decision ::
  "run_state \<Rightarrow> canonical_event \<Rightarrow> human_decision_recorded \<Rightarrow> (py_error, run_state) result" where
  "step_human_decision s e p =
    (let d = hdr_decision p in
     guard (hd_decision_id d \<in> rd_human_decision_ids s)
       (red_error ''human decision ID was already recorded'')
    (guard (map_option gst_decision_sha256 (dget (rd_gates s) (hd_gate_id d))
          \<noteq> Some (hd_prior_verdict_sha256 d))
       (red_error ''human decision prior verdict is not the exact gate decision'')
    (require_some (List.find (\<lambda>x. hau_authority_sha256 x = hdr_authority_sha256 p) (rd_human_authorities s))
       (red_error ''human decision references unknown authority evidence'') (\<lambda>st.
     guard (\<not> within_authority (hau_authority st) d (ev_occurred_at e))
       (red_error ''human decision exceeds its authenticated authority envelope'')
    (guard (hd_decision_kind d = Dk_correction \<and> \<not> correction_check (rd_human_decisions s) d)
       (red_error ''correction must supersede the latest decision in the same gate/scope'')
    (rbind (decision_blockers s e d) (\<lambda>(bs, rel). Inr
       (s\<lparr> rd_phase4_event_seen := True,
          rd_human_decisions := rd_human_decisions s @ [decision_state_of p (ev_event_id e)],
          rd_human_decision_ids := insert (hd_decision_id d) (rd_human_decision_ids s),
          rd_blockers := bs,
          rd_blocker_releases := rel,
          rd_accepted_evidence := rd_accepted_evidence s @ [hdr_decision_sha256 p] \<rparr>))))))))"

end
