(* ===== verification/Reducer.thy ===== *)
theory Reducer
  imports Reducer_Steps
begin

text \<open>
  \<open>reduce_events\<close> (\<^verbatim>\<open>kernel/ledger/reducer.py\<close>): the branches of the run's own events, the dispatch
  on the event type, the checks before it, the loop, and the projection after it.  The loop is an
  interpretation of \<open>checked_loop\<close>.
\<close>

section \<open>Exceptions that are caught and raised again\<close>

definition raise_again :: "('e \<Rightarrow> 'e) \<Rightarrow> ('e, 'a) result \<Rightarrow> ('e, 'a) result" where
  "raise_again f r = (case r of Inl x \<Rightarrow> Inl (f x) | Inr v \<Rightarrow> Inr v)"

lemma raise_again_Inr [guard_simps]: "raise_again f r = Inr v \<longleftrightarrow> r = Inr v"
  by (simp add: raise_again_def split: sum.split)

primrec from_workflow :: "string \<Rightarrow> py_error \<Rightarrow> py_error" where
  "from_workflow pre (WorkflowDefinitionError m) = ReducerError (pre @ m)"
| "from_workflow pre (ReducerError m) = ReducerError m"
| "from_workflow pre (ExecutionProvenanceError m) = ExecutionProvenanceError m"
| "from_workflow pre (ManifestError m) = ManifestError m"
| "from_workflow pre (RecoveryError m) = RecoveryError m"
| "from_workflow pre (JournalError m) = JournalError m"
| "from_workflow pre (PyValueError m) = PyValueError m"
| "from_workflow pre (PyAttributeError m) = PyAttributeError m"
| "from_workflow pre PyAssertionError = PyAssertionError"
| "from_workflow pre (PyKeyError m) = PyKeyError m"
| "from_workflow pre (PyTypeError m) = PyTypeError m"
| "from_workflow pre (PyOSError m) = PyOSError m"
| "from_workflow pre PyStopIteration = PyStopIteration"

text \<open>\<open>except ValueError\<close>: the rules below raise \<open>ValueError\<close> itself and no subclass of it.\<close>

primrec from_value_error :: "py_error \<Rightarrow> py_error" where
  "from_value_error (PyValueError m) = ReducerError m"
| "from_value_error (ReducerError m) = ReducerError m"
| "from_value_error (WorkflowDefinitionError m) = ReducerError m"
| "from_value_error (ExecutionProvenanceError m) = ReducerError m"
| "from_value_error (ManifestError m) = ManifestError m"
| "from_value_error (RecoveryError m) = RecoveryError m"
| "from_value_error (JournalError m) = JournalError m"
| "from_value_error (PyAttributeError m) = PyAttributeError m"
| "from_value_error PyAssertionError = PyAssertionError"
| "from_value_error (PyKeyError m) = PyKeyError m"
| "from_value_error (PyTypeError m) = PyTypeError m"
| "from_value_error (PyOSError m) = PyOSError m"
| "from_value_error PyStopIteration = PyStopIteration"

primrec from_provenance :: "py_error \<Rightarrow> py_error" where
  "from_provenance (ExecutionProvenanceError m) = ReducerError m"
| "from_provenance (ReducerError m) = ReducerError m"
| "from_provenance (WorkflowDefinitionError m) = WorkflowDefinitionError m"
| "from_provenance (ManifestError m) = ManifestError m"
| "from_provenance (RecoveryError m) = RecoveryError m"
| "from_provenance (JournalError m) = JournalError m"
| "from_provenance (PyValueError m) = PyValueError m"
| "from_provenance (PyAttributeError m) = PyAttributeError m"
| "from_provenance PyAssertionError = PyAssertionError"
| "from_provenance (PyKeyError m) = PyKeyError m"
| "from_provenance (PyTypeError m) = PyTypeError m"
| "from_provenance (PyOSError m) = PyOSError m"
| "from_provenance PyStopIteration = PyStopIteration"

section \<open>The run's own events\<close>

definition expired :: "timestamp \<Rightarrow> timestamp option \<Rightarrow> (py_error, bool) result" where
  "expired occurred_at fresh_until =
     (if falsy fresh_until then Inr False
      else rbind (parse_utc_or_raise occurred_at) (\<lambda>t.
           rbind (parse_utc_or_raise (the fresh_until)) (\<lambda>limit. Inr (limit < t))))"

definition panel_synthesized :: "env \<Rightarrow> run_state \<Rightarrow> panel_manifest \<Rightarrow> bool" where
  "panel_synthesized E s m =
     list_ex (\<lambda>x. mx_panel_manifest_sha256 x = panel_manifest_sha256 E m) (rd_panel_syntheses s)"

definition current_assignments :: "run_state \<Rightarrow> assignment_state list" where
  "current_assignments s = filter (\<lambda>a. ast_status a \<noteq> Asg_superseded) (dvalues (rd_assignments s))"

definition needs_human_gate :: "run_state \<Rightarrow> bool" where
  "needs_human_gate s =
     list_ex (\<lambda>a. cc_requires_human_gate (asg_completion_contract (ast_assignment a)))
       (current_assignments s)"

definition required_gate_passed :: "run_state \<Rightarrow> bool" where
  "required_gate_passed s =
     list_ex (\<lambda>g. gst_required g \<and> gst_verdict g = Verdict_PASS) (dvalues (rd_gates s))"

definition completion_check :: "env \<Rightarrow> run_state \<Rightarrow> ident \<Rightarrow> (py_error, unit) result" where
  "completion_check E s tid =
     guard (rd_execution_mode s \<in> {Some Degraded_inline, Some Blocked_mode})
       (red_error ''formal completion is not legal in degraded or blocked mode'')
    (guard (list_ex (\<lambda>m. pm_status m = Panel_ready \<and> \<not> panel_synthesized E s m) (rd_panel_manifests s))
       (red_error ''final completion requires every ready panel synthesis'')
    (guard (needs_human_gate s \<and> \<not> required_gate_passed s)
       (red_error ''final completion requires a fresh required PASS gate'')
    (guard (\<not> list_ex (\<lambda>d. hds_decision_kind d = Dk_approval \<and> hds_applicable_transition d = tid)
              (rd_human_decisions s))
       (red_error ''final completion requires an authorized human decision'') (Inr ()))))"

definition step_lifecycle ::
  "env \<Rightarrow> ident \<Rightarrow> run_state \<Rightarrow> canonical_event \<Rightarrow> lifecycle_transitioned \<Rightarrow> (py_error, run_state) result"
  where
  "step_lifecycle E w s e p =
     guard (rd_blockers s \<noteq> []) (red_error ''runtime blockers prevent lifecycle transitions'')
    (rbind (expired (ev_occurred_at e) (rd_fresh_until s)) (\<lambda>late.
     guard late (red_error ''expired Passport evidence prevents lifecycle transitions'')
    (guard (lt_from_stage p \<noteq> rd_stage s)
       (red_error ''transition from_stage differs from accepted stage'')
    (rbind (raise_again (from_workflow ''transition is not legal: '')
              (require_transition (sha256_hex E) w (rd_stage s) (lt_transition_id p))) (\<lambda>t.
     guard (td_to_stage t \<noteq> lt_to_stage p)
       (red_error ''transition to_stage differs from registered definition'')
    (rbind (if td_to_stage t = ''completed'' \<and> rd_phase4_event_seen s
            then completion_check E s (lt_transition_id p) else Inr ()) (\<lambda>_. Inr
       (s\<lparr> rd_stage := lt_to_stage p \<rparr>))))))))"

definition step_decision_requested ::
  "run_state \<Rightarrow> canonical_event \<Rightarrow> human_decision_requested \<Rightarrow> (py_error, run_state) result" where
  "step_decision_requested s e p =
     guard (hq_decision_id p \<in> rd_decision_ids s) (red_error ''decision ID was already used'')
    (guard (hq_starting_revision p \<noteq> rd_revision s)
       (red_error ''decision starting revision is not current'')
    (guard (\<not> set (hq_source_event_ids p) \<subseteq> rd_accepted_event_ids s)
       (red_error ''decision references an unknown source event'')
    (rbind (set_blocker (hq_blocker_code p) (ev_event_id e) (rd_blockers s)) (\<lambda>bs. Inr
       (s\<lparr> rd_decision_ids := insert (hq_decision_id p) (rd_decision_ids s),
          rd_decisions := dset (hq_decision_id p)
            \<lparr> pds_decision_id = hq_decision_id p, pds_blocker_code = hq_blocker_code p,
              pds_source_event_ids = hq_source_event_ids p,
              pds_starting_revision = hq_starting_revision p,
              pds_allowed_choices = hq_allowed_choices p,
              pds_rationale_required = hq_rationale_required p,
              pds_unlock_transitions = hq_unlock_transitions p \<rparr> (rd_decisions s),
          rd_blockers := bs \<rparr>)))))"

definition step_decision_resolved ::
  "run_state \<Rightarrow> human_decision_resolved \<Rightarrow> (py_error, run_state) result" where
  "step_decision_resolved s p =
     require_some (dget (rd_decisions s) (hv_decision_id p))
       (red_error ''decision resolution is not allowed'') (\<lambda>pending.
     guard (hv_choice p \<notin> set (pds_allowed_choices pending))
       (red_error ''decision resolution is not allowed'')
    (guard (pds_rationale_required pending \<and> falsy (hv_rationale p))
       (red_error ''decision rationale is required'')
       (let rest = dpop (hv_decision_id p) (rd_decisions s); c = pds_blocker_code pending in Inr
       (s\<lparr> rd_decisions := rest,
          rd_blockers := (if list_ex (\<lambda>d. pds_blocker_code d = c) (dvalues rest) then rd_blockers s
                          else dpop c (rd_blockers s)) \<rparr>))))"

definition step_attempt_started ::
  "run_state \<Rightarrow> attempt_started \<Rightarrow> (py_error, run_state) result" where
  "step_attempt_started s p =
     guard (ats_attempt_id p \<in> rd_attempt_ids s) (red_error ''attempt ID was already used'')
    (guard (ats_base_revision p \<noteq> rd_revision s) (red_error ''attempt base revision is not current'')
    (guard (\<not> set (ats_consumed_sha256 p) \<subseteq> {rd_head s} \<union> set (rd_artifacts s) \<union> set (rd_passports s))
       (red_error ''attempt consumes an unknown or stale hash'') (Inr
       (s\<lparr> rd_attempt_ids := insert (ats_attempt_id p) (rd_attempt_ids s),
          rd_attempts := dset (ats_attempt_id p)
            \<lparr> aat_attempt_id = ats_attempt_id p, aat_base_revision = ats_base_revision p,
              aat_consumed_sha256 = ats_consumed_sha256 p, aat_assignment_id = None,
              aat_assignment_sha256 = None, aat_attempt_number = 1, aat_status = St_active,
              aat_proposal_nonce = None, aat_host_agent_id = None, aat_proposal_sha256 = None \<rparr>
            (rd_attempts s) \<rparr>))))"

definition step_attempt_closed :: "run_state \<Rightarrow> attempt_closed \<Rightarrow> (py_error, run_state) result" where
  "step_attempt_closed s p =
     guard (atc_attempt_id p \<notin> dkeys (rd_attempts s)) (red_error ''attempt is not active'') (Inr
       (s\<lparr> rd_attempts := dpop (atc_attempt_id p) (rd_attempts s) \<rparr>))"

definition step_artifact_accepted :: "run_state \<Rightarrow> artifact_accepted \<Rightarrow> (py_error, run_state) result" where
  "step_artifact_accepted s p =
     guard (aa_artifact_id p \<in> rd_artifact_ids s) (red_error ''artifact ID was already used'')
    (guard (aa_manifest_sha256 p \<in> set (rd_artifacts s))
       (red_error ''artifact manifest was already accepted'') (Inr
       (s\<lparr> rd_artifact_ids := insert (aa_artifact_id p) (rd_artifact_ids s),
          rd_artifacts := rd_artifacts s @ [aa_manifest_sha256 p] \<rparr>)))"

definition previous_event :: "run_state \<Rightarrow> canonical_event option" where
  "previous_event s = (if rd_prior s = [] then None else Some (last (rd_prior s)))"

definition previous_transition ::
  "env \<Rightarrow> ident \<Rightarrow> run_state \<Rightarrow> (py_error, transition_definition option) result" where
  "previous_transition E w s =
    (case previous_event s of
       None \<Rightarrow> Inr None
     | Some prev \<Rightarrow>
         if ev_event_type prev \<noteq> Lifecycle_transitioned then Inr None
         else case as_lifecycle_transitioned (ev_payload prev) of
           None \<Rightarrow> Inr None
         | Some q \<Rightarrow> rbind (require_transition (sha256_hex E) w (lt_from_stage q) (lt_transition_id q))
             (\<lambda>t. Inr (Some t)))"

definition checkpoint_coherent ::
  "env \<Rightarrow> ident \<Rightarrow> run_state \<Rightarrow> checkpoint_kind \<Rightarrow> (py_error, bool) result" where
  "checkpoint_coherent E w s k =
    (case k of
       Ck_explicit \<Rightarrow> Inr True
     | Ck_stage_handoff \<Rightarrow>
         rbind (previous_transition E w s) (\<lambda>t.
           Inr (case t of None \<Rightarrow> False | Some d \<Rightarrow> td_coherent_checkpoint d))
     | Ck_human_decision \<Rightarrow>
         Inr (map_option ev_event_type (previous_event s) = Some Human_decision_resolved)
     | Ck_recovery \<Rightarrow> Inr (map_option ev_event_type (previous_event s) = Some Recovery_completed))"

definition step_passport ::
  "env \<Rightarrow> ident \<Rightarrow> run_state \<Rightarrow> passport_accepted \<Rightarrow> (py_error, run_state) result" where
  "step_passport E w s p =
     rbind (checkpoint_coherent E w s (pp_checkpoint_kind p)) (\<lambda>coherent.
     guard (\<not> coherent) (red_error ''Passport checkpoint boundary is not coherent'')
    (guard (pp_stage p \<noteq> rd_stage s \<or> pp_based_on_revision p \<noteq> rd_revision s)
       (red_error ''Passport does not bind the accepted stage/revision'')
    (guard (pp_parent_passport_sha256 p \<noteq> rd_current_passport s)
       (red_error ''Passport parent is not current'')
    (guard (pp_supersedes_passport_sha256 p \<noteq> rd_current_passport s)
       (red_error ''Passport supersession is not linear'')
    (guard (pp_passport_sha256 p \<in> set (rd_passports s))
       (red_error ''Passport was already accepted'') (Inr
       (s\<lparr> rd_passports := rd_passports s @ [pp_passport_sha256 p],
          rd_current_passport := Some (pp_passport_sha256 p),
          rd_current_passport_stage := Some (pp_stage p),
          rd_fresh_until := pp_fresh_until p \<rparr>)))))))"

definition step_resume :: "run_state \<Rightarrow> canonical_event \<Rightarrow> resume_accepted \<Rightarrow> (py_error, run_state) result"
  where
  "step_resume s e p =
     guard (Some (rp_passport_sha256 p) \<noteq> rd_current_passport s) (red_error ''resume Passport is stale'')
    (guard (rp_passport_sha256 p \<in> set (rd_consumed_passports s))
       (red_error ''resume Passport was already consumed'')
    (guard (rd_current_passport_stage s \<noteq> Some (rd_stage s))
       (red_error ''resume Passport stage is stale'')
    (rbind (expired (ev_occurred_at e) (rd_fresh_until s)) (\<lambda>late.
     guard late (red_error ''resume Passport evidence is expired'') (Inr
       (s\<lparr> rd_consumed_passports := rd_consumed_passports s @ [rp_passport_sha256 p] \<rparr>))))))"

definition step_recovery :: "run_state \<Rightarrow> recovery_completed \<Rightarrow> (py_error, run_state) result" where
  "step_recovery s p =
     guard (rv_prior_valid_revision p \<noteq> rd_revision s \<or> rv_prior_valid_head_sha256 p \<noteq> rd_head s)
       (red_error ''recovery event does not bind the accepted prefix'') (Inr s)"

section \<open>Dispatch\<close>

definition narrowed ::
  "'p option \<Rightarrow> ('p \<Rightarrow> (py_error, 'a) result) \<Rightarrow> (py_error, 'a) result" where
  "narrowed p k = require_some p PyAssertionError k"

lemma narrowed_Inr [guard_simps]: "narrowed p k = Inr v \<longleftrightarrow> (\<exists>q. p = Some q \<and> k q = Inr v)"
  by (simp add: narrowed_def guard_simps)

definition dispatch ::
  "env \<Rightarrow> ident \<Rightarrow> run_state \<Rightarrow> canonical_event \<Rightarrow> (py_error, run_state) result" where
  "dispatch E w s e =
    (let p = ev_payload e in
     case ev_event_type e of
       Run_initialized \<Rightarrow> guard (rd_revision s \<noteq> 0) (red_error ''run.initialized must be first'') (Inr s)
     | Execution_mode_selected \<Rightarrow> narrowed (as_mode_selected p) (step_mode_selected s e)
     | Assignment_prepared \<Rightarrow> narrowed (as_assignment_prepared p) (step_assignment s)
     | Assignment_superseded \<Rightarrow> narrowed (as_assignment_prepared p) (step_assignment s)
     | Attempt_prepared \<Rightarrow> narrowed (as_attempt_prepared p) (step_attempt_prepared s e)
     | Attempt_lifecycle \<Rightarrow> narrowed (as_attempt_lifecycle p) (step_attempt_lifecycle s e)
     | Proposal_accepted \<Rightarrow> narrowed (as_proposal_accepted p) (step_proposal_accepted s e)
     | Proposal_rejected \<Rightarrow> narrowed (as_proposal_rejected p) (step_proposal_rejected s e)
     | Host_identity_accepted \<Rightarrow> narrowed (as_host_identity p) (step_host_identity s e)
     | Experiment_provenance_accepted \<Rightarrow> narrowed (as_experiment_provenance p) (\<lambda>q.
         step_experiment s (epa_provenance_sha256 q) ''experiment provenance was already accepted'')
     | Experiment_contract_accepted \<Rightarrow> narrowed (as_experiment_contract p) (\<lambda>q.
         step_experiment s (eca_contract_sha256 q) ''experiment contract was already accepted'')
     | Panel_prepared \<Rightarrow> narrowed (as_panel_prepared p) (step_panel_prepared s e)
     | Review_report_accepted \<Rightarrow> narrowed (as_review_report p) (step_review_report E s)
     | Review_synthesis_accepted \<Rightarrow> narrowed (as_review_synthesis p) (step_review_synthesis E s e)
     | Hook_observed \<Rightarrow> narrowed (as_hook_observed p) (step_hook_observed s)
     | Gate_evaluated \<Rightarrow> narrowed (as_gate_evaluated p) (step_gate_evaluated s e)
     | Human_authority_accepted \<Rightarrow> narrowed (as_human_authority p) (step_human_authority s e)
     | Claim_attestation_anchored \<Rightarrow> narrowed (as_claim_anchored p) (step_claim_anchored s e)
     | Human_decision_recorded \<Rightarrow> narrowed (as_human_decision_recorded p) (step_human_decision s e)
     | Lifecycle_transitioned \<Rightarrow> narrowed (as_lifecycle_transitioned p) (step_lifecycle E w s e)
     | Human_decision_requested \<Rightarrow> narrowed (as_human_decision_requested p) (step_decision_requested s e)
     | Human_decision_resolved \<Rightarrow> narrowed (as_human_decision_resolved p) (step_decision_resolved s)
     | Attempt_started \<Rightarrow> narrowed (as_attempt_started p) (step_attempt_started s)
     | Attempt_closed \<Rightarrow> narrowed (as_attempt_closed p) (step_attempt_closed s)
     | Artifact_accepted \<Rightarrow> narrowed (as_artifact_accepted p) (step_artifact_accepted s)
     | Research_artifact_accepted \<Rightarrow> narrowed (as_artifact_accepted p) (step_artifact_accepted s)
     | Passport_accepted \<Rightarrow> narrowed (as_passport_accepted p) (step_passport E w s)
     | Resume_accepted \<Rightarrow> narrowed (as_resume_accepted p) (step_resume s e)
     | Recovery_completed \<Rightarrow> narrowed (as_recovery_completed p) (step_recovery s)
     | _ \<Rightarrow> Inr s)"

section \<open>The loop body\<close>

primrec role_name :: "actor_role \<Rightarrow> string" where
  "role_name Parent_control_plane = ''parent_control_plane''"
| "role_name Operator = ''operator''"
| "role_name Worker = ''worker''"
| "role_name Hook = ''hook''"

primrec category_name :: "category \<Rightarrow> string" where
  "category_name Cat_initialization = ''initialization''"
| "category_name Cat_baseline = ''baseline''"
| "category_name Cat_lifecycle = ''lifecycle''"
| "category_name Cat_human_decision = ''human_decision''"
| "category_name Cat_attempt = ''attempt''"
| "category_name Cat_artifact = ''artifact''"
| "category_name Cat_passport = ''passport''"
| "category_name Cat_resume = ''resume''"
| "category_name Cat_recovery = ''recovery''"
| "category_name Cat_orchestration = ''orchestration''"
| "category_name Cat_execution_provenance = ''execution_provenance''"

definition actor_of :: "canonical_event \<Rightarrow> actor_role" where
  "actor_of e = (case ev_actor_role e of None \<Rightarrow> Parent_control_plane | Some r \<Rightarrow> r)"

definition actor_check :: "ident \<Rightarrow> canonical_event \<Rightarrow> (py_error, unit) result" where
  "actor_check w e =
     guard (ev_actor_role e = None \<and> w \<noteq> LEGACY_WORKFLOW_ID)
       (red_error ''Phase 2 events require an explicit actor role'')
    (rbind (raise_again (from_workflow '''') (event_category (ev_event_type e))) (\<lambda>c.
     guard (\<not> actor_can_commit (actor_of e) c)
       (red_error (''actor role '' @ py_repr (role_name (actor_of e)) @ '' is not authorized for ''
          @ category_name c)) (Inr ())))"

text \<open>
  Execution facts may not be put between the event that ends a stage and the passport that seals it.
  Unlike in \<open>checkpoint_coherent\<close> the previous payload is not narrowed first.
\<close>

definition adjacency_check ::
  "env \<Rightarrow> ident \<Rightarrow> run_state \<Rightarrow> canonical_event \<Rightarrow> (py_error, unit) result" where
  "adjacency_check E w s e =
    (if ev_event_type e \<notin> set EXECUTION_PROVENANCE_EVENT_TYPES then Inr ()
     else case previous_event s of
       None \<Rightarrow> Inr ()
     | Some prev \<Rightarrow>
         guard (ev_event_type prev \<in> {Human_decision_resolved, Recovery_completed})
           (red_error ''execution provenance cannot split Passport adjacency'')
        (if ev_event_type prev \<noteq> Lifecycle_transitioned then Inr ()
         else require_some (as_lifecycle_transitioned (ev_payload prev)) (PyAttributeError ''from_stage'')
           (\<lambda>q. rbind (require_transition (sha256_hex E) w (lt_from_stage q) (lt_transition_id q)) (\<lambda>t.
             guard (td_coherent_checkpoint t)
               (red_error ''execution provenance cannot split Passport adjacency'') (Inr ())))))"

definition reduce_step ::
  "env \<Rightarrow> ident \<Rightarrow> ident \<Rightarrow> run_state \<Rightarrow> canonical_event \<Rightarrow> (py_error, run_state) result" where
  "reduce_step E w run_id s e =
     guard (ev_run_id e \<noteq> run_id) (red_error ''event run identity changed'')
    (guard (ev_expected_revision e \<noteq> rd_revision s \<or> ev_resulting_revision e \<noteq> rd_revision s + 1)
       (red_error ''event revision is not contiguous'')
    (rbind (actor_check w e) (\<lambda>_.
     rbind (adjacency_check E w s e) (\<lambda>_.
     rbind (raise_again from_value_error (validate_artifact_event_progress (rd_prior s) e)) (\<lambda>_.
     rbind (raise_again from_value_error (validate_learning_progress (rd_prior s) e)) (\<lambda>_.
     rbind (dispatch E w s e) (\<lambda>s'. Inr
       (s'\<lparr> rd_canonical_event_sha256 := rd_canonical_event_sha256 s' @ [ev_event_sha256 e],
           rd_revision := ev_resulting_revision e,
           rd_head := ev_event_sha256 e,
           rd_accepted_event_ids := insert (ev_event_id e) (rd_accepted_event_ids s'),
           rd_prior := rd_prior s' @ [e] \<rparr>))))))))"

definition reduce_loop ::
  "env \<Rightarrow> ident \<Rightarrow> ident \<Rightarrow> run_state \<Rightarrow> canonical_event list \<Rightarrow> (py_error, run_state) result" where
  "reduce_loop E w run_id s es = fold_result (reduce_step E w run_id) s es"

interpretation rd: checked_loop "reduce_step E w r" "reduce_loop E w r" for E w r
  by unfold_locales (simp_all add: reduce_loop_def split: sum.split)

section \<open>The projection after the loop\<close>

datatype recovery_health = Healthy | Recoverable_tail | Recovery_blocked
datatype run_status = RUNNING | PASS | FAIL | BLOCKED

record runtime_state =
  rt_run_id :: ident
  rt_workflow_definition_id :: ident
  rt_recovery_health :: recovery_health
  rt_locals :: run_state
  rt_blockers :: "blocker_state list"
  rt_pending_human_decisions :: "pending_decision list"
  rt_active_attempts :: "active_attempt list"
  rt_legal_next_transitions :: "ident list"
  rt_assignments :: "assignment_state list"
  rt_proposals :: "proposal_state list"
  rt_accepted_proposal_sha256 :: "sha256 list"
  rt_rejected_proposal_sha256 :: "sha256 list"
  rt_commit_cursor :: "accept_key option"
  rt_accepted_evidence :: "sha256 list"
  rt_gates :: "gate_state list"
  rt_status :: run_status

text \<open>\<open>now\<close> is a UTC instant and its microseconds; a naive \<open>datetime\<close> is taken as UTC by the code.\<close>

type_synonym clock = "instant \<times> nat"

definition expired_now :: "clock option \<Rightarrow> timestamp option \<Rightarrow> (py_error, bool) result" where
  "expired_now now fresh_until =
    (case now of None \<Rightarrow> Inr False
     | Some (t, us) \<Rightarrow>
         if falsy fresh_until then Inr False
         else rbind (parse_utc_or_raise (the fresh_until)) (\<lambda>limit.
           Inr (limit < t \<or> limit = t \<and> 0 < us)))"

definition plain_blocker :: "ident \<Rightarrow> (ident, blocker_state) dict \<Rightarrow> (ident, blocker_state) dict" where
  "plain_blocker c d = dset c \<lparr> bl_code = c, bl_source_event_id = None \<rparr> d"

definition add_when :: "bool \<Rightarrow> ident \<Rightarrow> (ident, blocker_state) dict \<Rightarrow> (ident, blocker_state) dict" where
  "add_when b c d = (if b then plain_blocker c d else d)"

definition health_blockers ::
  "recovery_health \<Rightarrow> (ident, blocker_state) dict \<Rightarrow> (ident, blocker_state) dict" where
  "health_blockers h d =
     add_when (h = Recovery_blocked) ''recovery-blocked''
       (add_when (h = Recoverable_tail) ''tail-recovery-required'' d)"

definition next_transitions ::
  "env \<Rightarrow> ident \<Rightarrow> ident \<Rightarrow> recovery_health \<Rightarrow> (ident, blocker_state) dict \<Rightarrow> (py_error, ident list) result"
  where
  "next_transitions E w stage h blockers =
    (case h of
       Recoverable_tail \<Rightarrow> Inr [''recover'']
     | Recovery_blocked \<Rightarrow> Inr []
     | Healthy \<Rightarrow> if blockers \<noteq> [] then Inr [] else legal_transitions (sha256_hex E) w stage)"

definition work_finished :: "env \<Rightarrow> run_state \<Rightarrow> proposal_state list \<Rightarrow> bool" where
  "work_finished E s projected =
     (rd_phase4_event_seen s \<and> current_assignments s \<noteq> []
    \<and> list_all (\<lambda>a. ast_assignment_id a \<in> prs_assignment_id ` set
         (filter (\<lambda>p. prs_effective_status p \<in> {Eff_accepted, Eff_rejected}) projected))
        (current_assignments s)
    \<and> (\<not> needs_human_gate s \<or> required_gate_passed s)
    \<and> list_all (\<lambda>m. pm_status m \<noteq> Panel_ready \<or> panel_synthesized E s m) (rd_panel_manifests s))"

definition run_status_of ::
  "env \<Rightarrow> run_state \<Rightarrow> proposal_state list \<Rightarrow> (ident, blocker_state) dict \<Rightarrow> run_status" where
  "run_status_of E s projected blockers =
     (if rd_failed_gate_ids s \<noteq> {} then FAIL
      else if blockers \<noteq> [] then BLOCKED
      else if rd_stage s = ''completed'' then PASS
      else if work_finished E s projected then PASS else RUNNING)"

definition finish_state ::
  "env \<Rightarrow> ident \<Rightarrow> ident \<Rightarrow> clock option \<Rightarrow> recovery_health \<Rightarrow> run_state
    \<Rightarrow> (py_error, runtime_state) result" where
  "finish_state E w run_id now h s =
    (let order = recompute_proposal_order (rd_assignments s) (rd_proposals s) in
     rbind (expired_now now (rd_fresh_until s)) (\<lambda>late.
     let blockers = health_blockers h
           (add_when (po_gap order \<and> rd_proposals s \<noteq> []) ''proposal-order-gap''
             (add_when late ''evidence-expired'' (rd_blockers s))) in
     rbind (next_transitions E w (rd_stage s) h blockers) (\<lambda>next. Inr
       \<lparr> rt_run_id = run_id, rt_workflow_definition_id = w, rt_recovery_health = h,
         rt_locals = s,
         rt_blockers = dvalues blockers,
         rt_pending_human_decisions = dvalues (rd_decisions s),
         rt_active_attempts = dvalues (rd_attempts s),
         rt_legal_next_transitions = next,
         rt_assignments = dvalues (rd_assignments s),
         rt_proposals = po_projected order,
         rt_accepted_proposal_sha256 = po_accepted order,
         rt_rejected_proposal_sha256 = po_rejected order,
         rt_commit_cursor = po_cursor order,
         rt_accepted_evidence = dedup (rd_accepted_evidence s),
         rt_gates = dvalues (rd_gates s),
         rt_status = run_status_of E s (po_projected order) blockers \<rparr>)))"

section \<open>The reducer\<close>

definition context_check ::
  "env \<Rightarrow> ident \<Rightarrow> execution_provenance_state \<Rightarrow> (py_error, unit) result" where
  "context_check E w x =
    (case xp_context x of
       None \<Rightarrow> Inr ()
     | Some (_, c) \<Rightarrow>
         rbind (require_workflow (sha256_hex E) w) (\<lambda>d.
         guard (ctx_workflow_definition_id c \<noteq> w \<or> ctx_workflow_definition_sha256 c \<noteq> wf_sha256 d)
           (red_error ''execution context differs from active workflow definition'') (Inr ())))"

definition reduce_events ::
  "env \<Rightarrow> ident \<Rightarrow> canonical_event list \<Rightarrow> clock option \<Rightarrow> recovery_health
    \<Rightarrow> (py_error, runtime_state) result" where
  "reduce_events E w es now h =
     rbind (require_workflow (sha256_hex E) w) (\<lambda>_.
     guard (es = []) (red_error ''a run requires at least run.initialized'')
    (rbind (raise_again from_provenance
       (rbind (project_execution_provenance es) (context_check E w))) (\<lambda>_.
     rbind (reduce_loop E w (ev_run_id (hd es)) initial_state es)
       (finish_state E w (ev_run_id (hd es)) now h))))"

end
