(* ===== verification/Reducer_Frames.thy ===== *)
theory Reducer_Frames
  imports Reducer
begin

text \<open>
  What each branch of the reducer leaves alone.  A frame lemma says that the new state is the old one
  with the listed fields replaced; \<open>dispatch_cases\<close> splits an accepted event into the branches.
\<close>

section \<open>Frames\<close>

named_theorems step_defs \<open>definitions of the branches\<close>
named_theorems frames \<open>frame lemmas of the branches\<close>

lemmas [step_defs] = Let_def known_assignment_def note_attempt_def ready_panel_def
lemmas [step_defs] = step_mode_selected_def
lemmas [step_defs] = step_assignment_def
lemmas [step_defs] = step_attempt_prepared_def
lemmas [step_defs] = step_attempt_lifecycle_def
lemmas [step_defs] = step_proposal_accepted_def
lemmas [step_defs] = step_proposal_rejected_def
lemmas [step_defs] = step_host_identity_def
lemmas [step_defs] = step_experiment_def
lemmas [step_defs] = step_panel_prepared_def
lemmas [step_defs] = step_review_report_def
lemmas [step_defs] = step_review_synthesis_def
lemmas [step_defs] = step_hook_observed_def
lemmas [step_defs] = step_gate_evaluated_def
lemmas [step_defs] = step_human_authority_def
lemmas [step_defs] = step_claim_anchored_def
lemmas [step_defs] = step_human_decision_def
lemmas [step_defs] = step_lifecycle_def
lemmas [step_defs] = step_decision_requested_def
lemmas [step_defs] = step_decision_resolved_def
lemmas [step_defs] = step_attempt_started_def
lemmas [step_defs] = step_attempt_closed_def
lemmas [step_defs] = step_artifact_accepted_def
lemmas [step_defs] = step_passport_def
lemmas [step_defs] = step_resume_def

lemma mode_selected_frame [frames]:
  "step_mode_selected s e p = Inr s' \<Longrightarrow>
     s' = s\<lparr>rd_phase4_event_seen := True,
       rd_execution_mode := rd_execution_mode s',
       rd_execution_provenance := rd_execution_provenance s',
       rd_role_catalog_sha256 := rd_role_catalog_sha256 s',
       rd_policy_sha256 := rd_policy_sha256 s',
       rd_dag_sha256 := rd_dag_sha256 s',
       rd_blockers := rd_blockers s'\<rparr>"
  by (auto simp: step_defs guard_simps simp del: not_None_eq split: option.splits)

lemma assignment_frame [frames]:
  "step_assignment s p = Inr s' \<Longrightarrow>
     s' = s\<lparr>rd_phase4_event_seen := True,
       rd_assignments := rd_assignments s',
       rd_assignment_history := rd_assignment_history s'\<rparr>"
  by (auto simp: step_defs guard_simps simp del: not_None_eq split: option.splits)

lemma attempt_prepared_frame [frames]:
  "step_attempt_prepared s e p = Inr s' \<Longrightarrow>
     s' = s\<lparr>rd_phase4_event_seen := True,
       rd_attempt_ids := rd_attempt_ids s',
       rd_attempts := rd_attempts s',
       rd_attempt_history := rd_attempt_history s',
       rd_attempt_statuses := rd_attempt_statuses s',
       rd_latest_attempt := rd_latest_attempt s',
       rd_max_attempt_number := rd_max_attempt_number s'\<rparr>"
  by (auto simp: step_defs guard_simps simp del: not_None_eq split: option.splits)

lemma attempt_lifecycle_frame [frames]:
  "step_attempt_lifecycle s e p = Inr s' \<Longrightarrow>
     s' = s\<lparr>rd_phase4_event_seen := True,
       rd_repairable := rd_repairable s',
       rd_attempts := rd_attempts s',
       rd_blockers := rd_blockers s',
       rd_attempt_history := rd_attempt_history s',
       rd_attempt_statuses := rd_attempt_statuses s',
       rd_latest_attempt := rd_latest_attempt s',
       rd_max_attempt_number := rd_max_attempt_number s'\<rparr>"
  by (auto simp: step_defs guard_simps simp del: not_None_eq split: option.splits)

lemma proposal_accepted_frame [frames]:
  "step_proposal_accepted s e p = Inr s' \<Longrightarrow>
     s' = s\<lparr>rd_phase4_event_seen := True,
       rd_proposals := rd_proposals s',
       rd_proposal_sha256s := rd_proposal_sha256s s',
       rd_attempts := rd_attempts s',
       rd_attempt_history := rd_attempt_history s',
       rd_attempt_statuses := rd_attempt_statuses s',
       rd_latest_attempt := rd_latest_attempt s',
       rd_max_attempt_number := rd_max_attempt_number s'\<rparr>"
  by (auto simp: step_defs guard_simps simp del: not_None_eq split: option.splits)

lemma proposal_rejected_frame [frames]:
  "step_proposal_rejected s e p = Inr s' \<Longrightarrow>
     s' = s\<lparr>rd_phase4_event_seen := True,
       rd_proposals := rd_proposals s',
       rd_proposal_sha256s := rd_proposal_sha256s s'\<rparr>"
  by (auto simp: step_defs guard_simps simp del: not_None_eq split: option.splits)

lemma host_identity_frame [frames]:
  "step_host_identity s e p = Inr s' \<Longrightarrow>
     s' = s\<lparr>rd_phase4_event_seen := True,
       rd_host_identities := rd_host_identities s',
       rd_receipt_ids := rd_receipt_ids s',
       rd_receipt_sha256s := rd_receipt_sha256s s',
       rd_accepted_evidence := rd_accepted_evidence s'\<rparr>"
  by (auto simp: step_defs guard_simps simp del: not_None_eq split: option.splits)

lemma experiment_frame [frames]:
  "step_experiment s h message = Inr s' \<Longrightarrow>
     s' = s\<lparr>rd_phase4_event_seen := True,
       rd_accepted_evidence := rd_accepted_evidence s'\<rparr>"
  by (auto simp: step_defs guard_simps simp del: not_None_eq split: option.splits)

lemma panel_prepared_frame [frames]:
  "step_panel_prepared s e p = Inr s' \<Longrightarrow>
     s' = s\<lparr>rd_phase4_event_seen := True,
       rd_panel_manifests := rd_panel_manifests s',
       rd_panel_ids := rd_panel_ids s',
       rd_accepted_evidence := rd_accepted_evidence s',
       rd_blockers := rd_blockers s'\<rparr>"
  by (auto simp: step_defs guard_simps simp del: not_None_eq split: option.splits)

lemma review_report_frame [frames]:
  "step_review_report E s p = Inr s' \<Longrightarrow>
     s' = s\<lparr>rd_phase4_event_seen := True,
       rd_panel_reports := rd_panel_reports s',
       rd_report_ids := rd_report_ids s',
       rd_accepted_evidence := rd_accepted_evidence s'\<rparr>"
  by (auto simp: step_defs guard_simps simp del: not_None_eq split: option.splits)

lemma review_synthesis_frame [frames]:
  "step_review_synthesis E s e p = Inr s' \<Longrightarrow>
     s' = s\<lparr>rd_phase4_event_seen := True,
       rd_panel_syntheses := rd_panel_syntheses s',
       rd_accepted_evidence := rd_accepted_evidence s',
       rd_blockers := rd_blockers s'\<rparr>"
  by (auto simp: step_defs guard_simps simp del: not_None_eq split: option.splits)

lemma hook_observed_frame [frames]:
  "step_hook_observed s p = Inr s' \<Longrightarrow>
     s' = s\<lparr>rd_phase4_event_seen := True,
       rd_hook_observations := rd_hook_observations s',
       rd_hook_keys := rd_hook_keys s',
       rd_accepted_evidence := rd_accepted_evidence s'\<rparr>"
  by (auto simp: step_defs guard_simps simp del: not_None_eq split: option.splits)

lemma gate_evaluated_frame [frames]:
  "step_gate_evaluated s e p = Inr s' \<Longrightarrow>
     s' = s\<lparr>rd_phase4_event_seen := True,
       rd_gates := rd_gates s',
       rd_accepted_evidence := rd_accepted_evidence s',
       rd_failed_gate_ids := rd_failed_gate_ids s',
       rd_blockers := rd_blockers s'\<rparr>"
  by (auto simp: step_defs guard_simps simp del: not_None_eq split: option.splits)

lemma human_authority_frame [frames]:
  "step_human_authority s e p = Inr s' \<Longrightarrow>
     s' = s\<lparr>rd_phase4_event_seen := True,
       rd_human_authorities := rd_human_authorities s',
       rd_authority_ids := rd_authority_ids s',
       rd_authority_sha256s := rd_authority_sha256s s',
       rd_accepted_evidence := rd_accepted_evidence s'\<rparr>"
  by (auto simp: step_defs guard_simps simp del: not_None_eq split: option.splits)

lemma claim_anchored_frame [frames]:
  "step_claim_anchored s e p = Inr s' \<Longrightarrow>
     s' = s\<lparr>rd_phase4_event_seen := True\<rparr>"
  by (auto simp: step_defs guard_simps simp del: not_None_eq split: option.splits)

lemma human_decision_frame [frames]:
  "step_human_decision s e p = Inr s' \<Longrightarrow>
     s' = s\<lparr>rd_phase4_event_seen := True,
       rd_human_decisions := rd_human_decisions s',
       rd_human_decision_ids := rd_human_decision_ids s',
       rd_blockers := rd_blockers s',
       rd_blocker_releases := rd_blocker_releases s',
       rd_accepted_evidence := rd_accepted_evidence s'\<rparr>"
  by (auto simp: step_defs guard_simps simp del: not_None_eq split: option.splits)

lemma lifecycle_frame [frames]:
  "step_lifecycle E w s e p = Inr s' \<Longrightarrow>
     s' = s\<lparr>rd_stage := rd_stage s'\<rparr>"
  by (auto simp: step_defs guard_simps simp del: not_None_eq split: option.splits)

lemma decision_requested_frame [frames]:
  "step_decision_requested s e p = Inr s' \<Longrightarrow>
     s' = s\<lparr>rd_decision_ids := rd_decision_ids s',
       rd_decisions := rd_decisions s',
       rd_blockers := rd_blockers s'\<rparr>"
  by (auto simp: step_defs guard_simps simp del: not_None_eq split: option.splits)

lemma decision_resolved_frame [frames]:
  "step_decision_resolved s p = Inr s' \<Longrightarrow>
     s' = s\<lparr>rd_decisions := rd_decisions s',
       rd_blockers := rd_blockers s'\<rparr>"
  by (auto simp: step_defs guard_simps simp del: not_None_eq split: option.splits)

lemma attempt_started_frame [frames]:
  "step_attempt_started s p = Inr s' \<Longrightarrow>
     s' = s\<lparr>rd_attempt_ids := rd_attempt_ids s',
       rd_attempts := rd_attempts s'\<rparr>"
  by (auto simp: step_defs guard_simps simp del: not_None_eq split: option.splits)

lemma attempt_closed_frame [frames]:
  "step_attempt_closed s p = Inr s' \<Longrightarrow>
     s' = s\<lparr>rd_attempts := rd_attempts s'\<rparr>"
  by (auto simp: step_defs guard_simps simp del: not_None_eq split: option.splits)

lemma artifact_accepted_frame [frames]:
  "step_artifact_accepted s p = Inr s' \<Longrightarrow>
     s' = s\<lparr>rd_artifact_ids := rd_artifact_ids s',
       rd_artifacts := rd_artifacts s'\<rparr>"
  by (auto simp: step_defs guard_simps simp del: not_None_eq split: option.splits)

lemma passport_frame [frames]:
  "step_passport E w s p = Inr s' \<Longrightarrow>
     s' = s\<lparr>rd_passports := rd_passports s',
       rd_current_passport := rd_current_passport s',
       rd_current_passport_stage := rd_current_passport_stage s',
       rd_fresh_until := rd_fresh_until s'\<rparr>"
  by (auto simp: step_defs guard_simps simp del: not_None_eq split: option.splits)

lemma resume_frame [frames]:
  "step_resume s e p = Inr s' \<Longrightarrow>
     s' = s\<lparr>rd_consumed_passports := rd_consumed_passports s'\<rparr>"
  by (auto simp: step_defs guard_simps simp del: not_None_eq split: option.splits)

section \<open>The branch an accepted event took\<close>

lemma dispatch_cases:
  assumes "dispatch E w s e = Inr s'"
  shows "(ev_event_type e \<in> {Assignment_prepared, Assignment_superseded}
        \<and> (\<exists>q. as_assignment_prepared (ev_payload e) = Some q \<and> step_assignment s q = Inr s'))
    \<or> (ev_event_type e \<in> {Experiment_provenance_accepted, Experiment_contract_accepted}
        \<and> (\<exists>h m. step_experiment s h m = Inr s'))
    \<or> (ev_event_type e \<in> {Artifact_accepted, Research_artifact_accepted}
        \<and> (\<exists>q. as_artifact_accepted (ev_payload e) = Some q \<and> step_artifact_accepted s q = Inr s'))
    \<or> (ev_event_type e = Execution_mode_selected
        \<and> (\<exists>q. as_mode_selected (ev_payload e) = Some q \<and> step_mode_selected s e q = Inr s'))
    \<or> (ev_event_type e = Attempt_prepared
        \<and> (\<exists>q. as_attempt_prepared (ev_payload e) = Some q \<and> step_attempt_prepared s e q = Inr s'))
    \<or> (ev_event_type e = Attempt_lifecycle
        \<and> (\<exists>q. as_attempt_lifecycle (ev_payload e) = Some q \<and> step_attempt_lifecycle s e q = Inr s'))
    \<or> (ev_event_type e = Proposal_accepted
        \<and> (\<exists>q. as_proposal_accepted (ev_payload e) = Some q \<and> step_proposal_accepted s e q = Inr s'))
    \<or> (ev_event_type e = Proposal_rejected
        \<and> (\<exists>q. as_proposal_rejected (ev_payload e) = Some q \<and> step_proposal_rejected s e q = Inr s'))
    \<or> (ev_event_type e = Host_identity_accepted
        \<and> (\<exists>q. as_host_identity (ev_payload e) = Some q \<and> step_host_identity s e q = Inr s'))
    \<or> (ev_event_type e = Panel_prepared
        \<and> (\<exists>q. as_panel_prepared (ev_payload e) = Some q \<and> step_panel_prepared s e q = Inr s'))
    \<or> (ev_event_type e = Review_report_accepted
        \<and> (\<exists>q. as_review_report (ev_payload e) = Some q \<and> step_review_report E s q = Inr s'))
    \<or> (ev_event_type e = Review_synthesis_accepted
        \<and> (\<exists>q. as_review_synthesis (ev_payload e) = Some q \<and> step_review_synthesis E s e q = Inr s'))
    \<or> (ev_event_type e = Hook_observed
        \<and> (\<exists>q. as_hook_observed (ev_payload e) = Some q \<and> step_hook_observed s q = Inr s'))
    \<or> (ev_event_type e = Gate_evaluated
        \<and> (\<exists>q. as_gate_evaluated (ev_payload e) = Some q \<and> step_gate_evaluated s e q = Inr s'))
    \<or> (ev_event_type e = Human_authority_accepted
        \<and> (\<exists>q. as_human_authority (ev_payload e) = Some q \<and> step_human_authority s e q = Inr s'))
    \<or> (ev_event_type e = Claim_attestation_anchored
        \<and> (\<exists>q. as_claim_anchored (ev_payload e) = Some q \<and> step_claim_anchored s e q = Inr s'))
    \<or> (ev_event_type e = Human_decision_recorded
        \<and> (\<exists>q. as_human_decision_recorded (ev_payload e) = Some q \<and> step_human_decision s e q = Inr s'))
    \<or> (ev_event_type e = Lifecycle_transitioned
        \<and> (\<exists>q. as_lifecycle_transitioned (ev_payload e) = Some q \<and> step_lifecycle E w s e q = Inr s'))
    \<or> (ev_event_type e = Human_decision_requested
        \<and> (\<exists>q. as_human_decision_requested (ev_payload e) = Some q \<and> step_decision_requested s e q = Inr s'))
    \<or> (ev_event_type e = Human_decision_resolved
        \<and> (\<exists>q. as_human_decision_resolved (ev_payload e) = Some q \<and> step_decision_resolved s q = Inr s'))
    \<or> (ev_event_type e = Attempt_started
        \<and> (\<exists>q. as_attempt_started (ev_payload e) = Some q \<and> step_attempt_started s q = Inr s'))
    \<or> (ev_event_type e = Attempt_closed
        \<and> (\<exists>q. as_attempt_closed (ev_payload e) = Some q \<and> step_attempt_closed s q = Inr s'))
    \<or> (ev_event_type e = Passport_accepted
        \<and> (\<exists>q. as_passport_accepted (ev_payload e) = Some q \<and> step_passport E w s q = Inr s'))
    \<or> (ev_event_type e = Resume_accepted
        \<and> (\<exists>q. as_resume_accepted (ev_payload e) = Some q \<and> step_resume s e q = Inr s'))
    \<or> (ev_event_type e = Recovery_completed
        \<and> (\<exists>q. as_recovery_completed (ev_payload e) = Some q \<and> step_recovery s q = Inr s'))
    \<or> (ev_event_type e = Run_initialized \<and> rd_revision s = 0 \<and> s' = s)
    \<or> (ev_event_type e \<in> {Baseline_probe_recorded, Artifact_ir_frozen, Artifact_rendered, Artifact_validated, Research_artifact_superseded}
        \<union> set EXECUTION_PROVENANCE_EVENT_TYPES \<union> set RESEARCH_MEMORY_EVENT_TYPES \<union> set RESEARCH_LEARNING_EVENT_TYPES \<and> s' = s)"
  using assms unfolding dispatch_def Let_def
  by (cases "ev_event_type e") (simp_all add: guard_simps event_families, auto?)

end
