(* ===== verification/Reducer_Ledger.thy ===== *)
theory Reducer_Ledger
  imports Reducer_Frames
begin

text \<open>
  What holds of every reduced history as a sequence: the position in the ledger, who committed each
  event, the stages it went through, and that replaying a prefix of an accepted history succeeds.
\<close>

section \<open>One step\<close>

lemma dispatch_core:
  assumes "dispatch E w s e = Inr s'"
  shows "rd_prior s' = rd_prior s \<and> rd_revision s' = rd_revision s \<and> rd_head s' = rd_head s
    \<and> rd_accepted_event_ids s' = rd_accepted_event_ids s
    \<and> rd_canonical_event_sha256 s' = rd_canonical_event_sha256 s"
  using dispatch_cases [OF assms]
  by (elim disjE exE conjE) (drule frames, erule ssubst, simp | simp add: step_recovery_def guard_simps)+

lemma reduce_stepE:
  assumes "reduce_step E w r s e = Inr s'"
  obtains t where "ev_run_id e = r" "ev_expected_revision e = rd_revision s"
    "ev_resulting_revision e = rd_revision s + 1" "actor_check w e = Inr ()"
    "adjacency_check E w s e = Inr ()"
    "validate_artifact_event_progress (rd_prior s) e = Inr ()"
    "validate_learning_progress (rd_prior s) e = Inr ()"
    "dispatch E w s e = Inr t"
    "s' = t\<lparr> rd_canonical_event_sha256 := rd_canonical_event_sha256 s @ [ev_event_sha256 e],
            rd_revision := ev_resulting_revision e, rd_head := ev_event_sha256 e,
            rd_accepted_event_ids := insert (ev_event_id e) (rd_accepted_event_ids s),
            rd_prior := rd_prior s @ [e] \<rparr>"
proof -
  from assms obtain t where t: "dispatch E w s e = Inr t"
    and s': "s' = t\<lparr> rd_canonical_event_sha256 := rd_canonical_event_sha256 t @ [ev_event_sha256 e],
            rd_revision := ev_resulting_revision e, rd_head := ev_event_sha256 e,
            rd_accepted_event_ids := insert (ev_event_id e) (rd_accepted_event_ids t),
            rd_prior := rd_prior t @ [e] \<rparr>"
    and checks: "ev_run_id e = r" "ev_expected_revision e = rd_revision s"
    "ev_resulting_revision e = rd_revision s + 1" "actor_check w e = Inr ()"
    "adjacency_check E w s e = Inr ()"
    "validate_artifact_event_progress (rd_prior s) e = Inr ()"
    "validate_learning_progress (rd_prior s) e = Inr ()"
    unfolding reduce_step_def guard_simps by (elim exE conjE) simp
  from s' dispatch_core [OF t] have "s' = t\<lparr> rd_canonical_event_sha256 := rd_canonical_event_sha256 s @ [ev_event_sha256 e],
            rd_revision := ev_resulting_revision e, rd_head := ev_event_sha256 e,
            rd_accepted_event_ids := insert (ev_event_id e) (rd_accepted_event_ids s),
            rd_prior := rd_prior s @ [e] \<rparr>" by simp
  then show ?thesis by (rule that [OF checks t])
qed

text \<open>
  An invariant of the loop relates the state to the events it has consumed.  It is enough that it
  does not depend on the bookkeeping fields and that every branch keeps it.
\<close>

lemma reduce_loop_invariant:
  assumes "reduce_loop E w r initial_state es = Inr s" and "I initial_state"
    and "\<And>s e s'. I s \<Longrightarrow> e \<in> set es \<Longrightarrow> reduce_step E w r s e = Inr s' \<Longrightarrow> I s'"
  shows "I s"
  using assms by (rule rd.run_invariant)

definition ledger_ok :: "ident \<Rightarrow> ident \<Rightarrow> run_state \<Rightarrow> bool" where
  "ledger_ok w r s =
    (let es = rd_prior s in
     rd_revision s = int (length es)
   \<and> rd_head s = (if es = [] then ZERO_HASH else ev_event_sha256 (last es))
   \<and> rd_canonical_event_sha256 s = map ev_event_sha256 es
   \<and> rd_accepted_event_ids s = ev_event_id ` set es
   \<and> (\<forall>i < length es. ev_run_id (es ! i) = r \<and> ev_expected_revision (es ! i) = int i
         \<and> ev_resulting_revision (es ! i) = int i + 1 \<and> actor_check w (es ! i) = Inr ())
   \<and> accepted_history validate_artifact_event_progress es
   \<and> accepted_history validate_learning_progress es)"

lemma ledger_ok_init: "ledger_ok w r initial_state"
  by (simp add: ledger_ok_def initial_state_def accepted_history_def)

lemma step_ledger_ok:
  assumes "ledger_ok w r s" and "reduce_step E w r s e = Inr s'"
  shows "ledger_ok w r s'"
proof -
  from assms(2) obtain t where "ev_run_id e = r" "ev_expected_revision e = rd_revision s"
    "ev_resulting_revision e = rd_revision s + 1" "actor_check w e = Inr ()"
    "validate_artifact_event_progress (rd_prior s) e = Inr ()"
    "validate_learning_progress (rd_prior s) e = Inr ()"
    "s' = t\<lparr> rd_canonical_event_sha256 := rd_canonical_event_sha256 s @ [ev_event_sha256 e],
            rd_revision := ev_resulting_revision e, rd_head := ev_event_sha256 e,
            rd_accepted_event_ids := insert (ev_event_id e) (rd_accepted_event_ids s),
            rd_prior := rd_prior s @ [e] \<rparr>"
    by (rule reduce_stepE)
  with assms(1) show ?thesis
    by (auto simp: ledger_ok_def Let_def accepted_history_snoc nth_append less_Suc_eq)
qed

lemma loop_prior:
  assumes "reduce_loop E w r s0 es = Inr s"
  shows "rd_prior s = rd_prior s0 @ es"
  using assms
proof (induction es arbitrary: s rule: rev_induct)
  case (snoc e es)
  obtain u v where u: "reduce_loop E w r s0 es = Inr u" and step: "reduce_step E w r u e = Inr v"
    and v: "reduce_loop E w r v [] = Inr s"
    using rd.run_split_at [OF snoc.prems] by blast
  have "v = s" using v by (simp add: rd.run_Nil)
  with step have step: "reduce_step E w r u e = Inr s" by simp
  have "rd_prior u = rd_prior s0 @ es" using u by (rule snoc.IH)
  moreover have "rd_prior s = rd_prior u @ [e]" using step by (rule reduce_stepE) simp
  ultimately show ?case by simp
qed (simp add: rd.run_Nil)

lemma loop_prior_init: "reduce_loop E w r initial_state es = Inr s \<Longrightarrow> rd_prior s = es"
  by (drule loop_prior) (simp add: initial_state_def)

lemma loop_ledger_ok:
  "reduce_loop E w r initial_state es = Inr s \<Longrightarrow> ledger_ok w r s"
  by (erule reduce_loop_invariant [where I = "ledger_ok w r"]) (auto intro: ledger_ok_init step_ledger_ok)

lemma reduce_eventsE:
  assumes "reduce_events E w es now h = Inr rt"
  obtains s x where "es \<noteq> []" "project_execution_provenance es = Inr x" "context_check E w x = Inr ()"
    "reduce_loop E w (ev_run_id (hd es)) initial_state es = Inr s"
    "finish_state E w (ev_run_id (hd es)) now h s = Inr rt" "rt_locals rt = s" "rd_prior s = es"
proof -
  from assms obtain x s where "es \<noteq> []" "project_execution_provenance es = Inr x"
    "context_check E w x = Inr ()" and s: "reduce_loop E w (ev_run_id (hd es)) initial_state es = Inr s"
    and f: "finish_state E w (ev_run_id (hd es)) now h s = Inr rt"
    unfolding reduce_events_def guard_simps by (elim exE conjE) simp
  moreover have "rt_locals rt = s" using f by (auto simp: finish_state_def Let_def guard_simps)
  ultimately show ?thesis using that loop_prior_init [OF s] by blast
qed

text \<open>
  C14.  The reduced state is at the end of the ledger.  In a history the reducer accepts every event
  belongs to the run, steps the revision by exactly one and was committed by an actor its category
  allows; the accepted revision is the number of events, the head is the digest of the last one, and
  the recorded digests are those of the events in order.
\<close>

theorem reduced_state_is_the_ledger_position:
  assumes "reduce_events E w es now h = Inr rt"
  shows "rd_revision (rt_locals rt) = int (length es)
    \<and> rd_head (rt_locals rt) = ev_event_sha256 (last es)
    \<and> rd_canonical_event_sha256 (rt_locals rt) = map ev_event_sha256 es
    \<and> (\<forall>i < length es. ev_run_id (es ! i) = rt_run_id rt
         \<and> ev_expected_revision (es ! i) = int i \<and> ev_resulting_revision (es ! i) = int i + 1
         \<and> (\<exists>c. event_category (ev_event_type (es ! i)) = Inr c \<and> actor_can_commit (actor_of (es ! i)) c))
    \<and> accepted_history validate_artifact_event_progress es
    \<and> accepted_history validate_learning_progress es"
  using assms
proof (rule reduce_eventsE)
  fix s x assume ne: "es \<noteq> []" and loop: "reduce_loop E w (ev_run_id (hd es)) initial_state es = Inr s"
    and fin: "finish_state E w (ev_run_id (hd es)) now h s = Inr rt"
    and s: "rt_locals rt = s" and prior: "rd_prior s = es"
  have ok: "ledger_ok w (ev_run_id (hd es)) s" using loop by (rule loop_ledger_ok)
  have run: "rt_run_id rt = ev_run_id (hd es)" using fin by (auto simp: finish_state_def Let_def guard_simps)
  have "\<exists>c. event_category (ev_event_type e) = Inr c \<and> actor_can_commit (actor_of e) c"
    if "actor_check w e = Inr ()" for e
    using that by (auto simp: actor_check_def guard_simps)
  with ok ne show ?thesis unfolding run s ledger_ok_def prior Let_def by simp
qed

section \<open>Stages\<close>

text \<open>
  The abstract machine of a workflow: the stages that can be reached from the initial one by
  registered transitions.
\<close>

inductive reachable_stage :: "workflow_definition \<Rightarrow> ident \<Rightarrow> bool" for d where
  initial: "reachable_stage d ''initialized''"
| move: "reachable_stage d a \<Longrightarrow> t \<in> set (wf_transitions d) \<Longrightarrow> a \<in> set (td_from_stages t)
     \<Longrightarrow> reachable_stage d (td_to_stage t)"

inductive_cases reachable_stageE: "reachable_stage d a"

definition is_transition :: "canonical_event \<Rightarrow> bool" where
  "is_transition e = (ev_event_type e = Lifecycle_transitioned)"

definition stage_after :: "canonical_event list \<Rightarrow> ident" where
  "stage_after es =
     (case rev (filter is_transition es) of
        [] \<Rightarrow> ''initialized''
      | e # _ \<Rightarrow> (case as_lifecycle_transitioned (ev_payload e) of
                 None \<Rightarrow> ''initialized'' | Some p \<Rightarrow> lt_to_stage p))"

lemma stage_after_snoc:
  "stage_after (es @ [e]) =
     (if is_transition e
      then (case as_lifecycle_transitioned (ev_payload e) of
              None \<Rightarrow> ''initialized'' | Some p \<Rightarrow> lt_to_stage p)
      else stage_after es)"
  by (simp add: stage_after_def)

lemma dispatch_stage:
  assumes "dispatch E w s e = Inr s'" and "\<not> is_transition e"
  shows "rd_stage s' = rd_stage s"
  using dispatch_cases [OF assms(1)] assms(2) unfolding is_transition_def
  by (elim disjE exE conjE) (drule frames, erule ssubst, simp | simp add: step_recovery_def guard_simps)+

lemma dispatch_transition:
  assumes "dispatch E w s e = Inr s'" and "is_transition e"
  shows "\<exists>p. as_lifecycle_transitioned (ev_payload e) = Some p \<and> step_lifecycle E w s e p = Inr s'"
  using assms by (auto simp: dispatch_def is_transition_def guard_simps)

lemma lifecycle_effect:
  assumes "step_lifecycle E w s e p = Inr s'"
  shows "s' = s\<lparr>rd_stage := lt_to_stage p\<rparr> \<and> rd_blockers s = [] \<and> lt_from_stage p = rd_stage s
    \<and> (\<exists>t. require_transition (sha256_hex E) w (rd_stage s) (lt_transition_id p) = Inr t
         \<and> td_to_stage t = lt_to_stage p)
    \<and> (lt_to_stage p = ''completed'' \<longrightarrow> rd_phase4_event_seen s \<longrightarrow>
         completion_check E s (lt_transition_id p) = Inr ())"
  using assms by (auto simp: step_lifecycle_def guard_simps split: if_splits)

definition stage_ok :: "env \<Rightarrow> ident \<Rightarrow> run_state \<Rightarrow> bool" where
  "stage_ok E w s = (rd_stage s = stage_after (rd_prior s)
     \<and> (\<forall>d. require_workflow (sha256_hex E) w = Inr d \<longrightarrow>
          reachable_stage d (rd_stage s) \<and> rd_stage s \<in> set (wf_stages d)))"

lemma stage_ok_init: "stage_ok E w initial_state"
  using registered_consistent(2)
  by (auto simp: stage_ok_def initial_state_def stage_after_def intro: reachable_stage.initial)

lemma step_stage_ok:
  assumes "stage_ok E w s" and "reduce_step E w r s e = Inr s'"
  shows "stage_ok E w s'"
  using assms(2)
proof (rule reduce_stepE)
  fix t assume d: "dispatch E w s e = Inr t"
    and s': "s' = t\<lparr> rd_canonical_event_sha256 := rd_canonical_event_sha256 s @ [ev_event_sha256 e],
            rd_revision := ev_resulting_revision e, rd_head := ev_event_sha256 e,
            rd_accepted_event_ids := insert (ev_event_id e) (rd_accepted_event_ids s),
            rd_prior := rd_prior s @ [e] \<rparr>"
  show ?thesis
  proof (cases "is_transition e")
    case False
    with dispatch_stage [OF d] assms(1) s' show ?thesis
      by (auto simp: stage_ok_def stage_after_snoc)
  next
    case True
    obtain p where p: "as_lifecycle_transitioned (ev_payload e) = Some p"
      and st: "step_lifecycle E w s e p = Inr t" using dispatch_transition [OF d True] by blast
    from lifecycle_effect [OF st] obtain tr where
      tr: "require_transition (sha256_hex E) w (rd_stage s) (lt_transition_id p) = Inr tr"
      "td_to_stage tr = lt_to_stage p" and t: "t = s\<lparr>rd_stage := lt_to_stage p\<rparr>" by blast
    from require_transition_Inr [OF tr(1)] have
      "reachable_stage d (lt_to_stage p) \<and> lt_to_stage p \<in> set (wf_stages d)"
      if "require_workflow (sha256_hex E) w = Inr d" for d
      using that assms(1) tr(2) reachable_stage.move [of d "rd_stage s" tr]
      by (auto simp: stage_ok_def)
    with True p s' t show ?thesis by (simp add: stage_ok_def stage_after_snoc)
  qed
qed

lemma loop_stage_ok: "reduce_loop E w r initial_state es = Inr s \<Longrightarrow> stage_ok E w s"
  by (erule reduce_loop_invariant [where I = "stage_ok E w"]) (auto intro: stage_ok_init step_stage_ok)

lemma final_stage_stays:
  assumes "reduce_loop E w r u es = Inr s" and "rd_stage u \<in> {''completed'', ''aborted''}"
  shows "rd_stage s = rd_stage u \<and> (\<forall>e \<in> set es. \<not> is_transition e)"
  using assms
proof (induction es arbitrary: u)
  case (Cons e es)
  obtain v where v: "reduce_step E w r u e = Inr v" and rest: "reduce_loop E w r v es = Inr s"
    using Cons.prems(1) by (auto simp: rd.run_Cons split: sum.splits)
  from v have "\<not> is_transition e \<and> rd_stage v = rd_stage u"
  proof (rule reduce_stepE)
    fix t assume d: "dispatch E w u e = Inr t"
      and s': "v = t\<lparr> rd_canonical_event_sha256 := rd_canonical_event_sha256 u @ [ev_event_sha256 e],
            rd_revision := ev_resulting_revision e, rd_head := ev_event_sha256 e,
            rd_accepted_event_ids := insert (ev_event_id e) (rd_accepted_event_ids u),
            rd_prior := rd_prior u @ [e] \<rparr>"
    have "\<not> is_transition e"
    proof
      assume "is_transition e"
      then obtain p where "step_lifecycle E w u e p = Inr t" using dispatch_transition [OF d] by blast
      from lifecycle_effect [OF this] obtain tr where
        "require_transition (sha256_hex E) w (rd_stage u) (lt_transition_id p) = Inr tr" by blast
      from require_transition_Inr [OF this] obtain d where "require_workflow (sha256_hex E) w = Inr d"
        "tr \<in> set (wf_transitions d)" "rd_stage u \<in> set (td_from_stages tr)" by blast
      with registered_facts(1) [of "sha256_hex E" w d tr] Cons.prems(2) show False by auto
    qed
    then show ?thesis using dispatch_stage [OF d] s' by simp
  qed
  with Cons.IH [OF rest] Cons.prems(2) show ?case by simp
qed (simp add: rd.run_Nil)

lemma prefix_state:
  assumes "reduce_loop E w r initial_state (xs @ ys) = Inr s"
  obtains u where "reduce_loop E w r initial_state xs = Inr u" "reduce_loop E w r u ys = Inr s"
    "rd_prior u = xs"
  using rd.run_prefix [OF assms] loop_prior_init by blast

text \<open>
  C15.  The stage refines the workflow's transition graph.  The stage of a reduced run is the target
  of its last transition event, is a registered stage, and can be reached from \<^verbatim>\<open>initialized\<close> by
  registered transitions; and once a transition event has reached \<^verbatim>\<open>completed\<close> or \<^verbatim>\<open>aborted\<close>, no
  transition event follows.
\<close>

theorem reduced_stage_follows_the_workflow:
  assumes "reduce_events E w es now h = Inr rt"
  shows "rd_stage (rt_locals rt) = stage_after es
    \<and> (\<exists>d. require_workflow (sha256_hex E) w = Inr d \<and> reachable_stage d (stage_after es)
         \<and> stage_after es \<in> set (wf_stages d))
    \<and> (\<forall>xs ys. es = xs @ ys \<longrightarrow> stage_after xs \<in> {''completed'', ''aborted''} \<longrightarrow>
         (\<forall>e \<in> set ys. \<not> is_transition e))"
proof -
  obtain d where d: "require_workflow (sha256_hex E) w = Inr d"
    using assms by (auto simp: reduce_events_def guard_simps)
  obtain s where loop: "reduce_loop E w (ev_run_id (hd es)) initial_state es = Inr s"
    and s: "rt_locals rt = s" "rd_prior s = es"
    using assms by (rule reduce_eventsE)
  have ok: "stage_ok E w s" by (rule loop_stage_ok [OF loop])
  have final: "\<forall>e \<in> set ys. \<not> is_transition e"
    if split: "es = xs @ ys" "stage_after xs \<in> {''completed'', ''aborted''}" for xs ys
  proof -
    have "reduce_loop E w (ev_run_id (hd es)) initial_state (xs @ ys) = Inr s"
      using loop by (simp only: split(1) [symmetric])
    then obtain u where u: "reduce_loop E w (ev_run_id (hd es)) initial_state xs = Inr u"
      "reduce_loop E w (ev_run_id (hd es)) u ys = Inr s" "rd_prior u = xs"
      by (rule prefix_state)
    then have "rd_stage u = stage_after xs" using loop_stage_ok [OF u(1)] by (simp add: stage_ok_def)
    with split(2) final_stage_stays [OF u(2)] show ?thesis by simp
  qed
  show ?thesis using ok d final s by (auto simp: stage_ok_def)
qed

section \<open>Prefixes\<close>

lemma finish_state_total:
  assumes "stage_ok E w s" and "require_workflow (sha256_hex E) w = Inr d"
  shows "\<exists>rt. finish_state E w r None h s = Inr rt"
proof -
  have total: "\<exists>l. next_transitions E w (rd_stage s) h bs = Inr l" for bs
    using assms by (cases h) (auto simp: next_transitions_def legal_transitions_def stage_ok_def)
  then show ?thesis
    by (simp add: finish_state_def Let_def expired_now_def guard_simps total)
qed

text \<open>
  C22.  Replaying a prefix never fails.  If the reducer accepts a history, it accepts every
  non-empty prefix of it, whatever the recovery health, and the whole history is reduced by
  continuing from the state of the prefix; so a journal cut after any event can be replayed.
\<close>

theorem prefix_of_accepted_history_is_accepted:
  assumes "reduce_events E w (xs @ ys) now h = Inr rt" and "xs \<noteq> []"
  shows "\<exists>rt'. reduce_events E w xs None h' = Inr rt'
    \<and> reduce_loop E w (rt_run_id rt) (rt_locals rt') ys = Inr (rt_locals rt)
    \<and> rt_run_id rt' = rt_run_id rt"
proof -
  let ?r = "ev_run_id (hd xs)"
  have hd: "hd (xs @ ys) = hd xs" using assms(2) by simp
  obtain d where d: "require_workflow (sha256_hex E) w = Inr d"
    using assms(1) by (auto simp: reduce_events_def guard_simps)
  from assms(1) obtain s x where x: "project_execution_provenance (xs @ ys) = Inr x"
    "context_check E w x = Inr ()" and loop: "reduce_loop E w ?r initial_state (xs @ ys) = Inr s"
    and fin: "finish_state E w ?r now h s = Inr rt" and s: "rt_locals rt = s"
    by (rule reduce_eventsE) (simp add: hd)
  obtain u where u: "reduce_loop E w ?r initial_state xs = Inr u" "reduce_loop E w ?r u ys = Inr s"
    using loop by (rule prefix_state)
  from x(1) obtain p where p: "prov_run ?r prov_init (xs @ ys) = Inr p"
    and init: "ev_event_type (hd xs) = Run_initialized" and ctx: "xp_context x = pv_context p"
    by (rule projection_facts) (simp add: hd)
  obtain q where q: "prov_run ?r prov_init xs = Inr q" "prov_run ?r q ys = Inr p"
    using prov.run_prefix [OF p] by blast
  obtain x' where x': "project_execution_provenance xs = Inr x'" "xp_context x' = pv_context q"
    using projection_total [OF q(1) assms(2) init] by blast
  have "context_check E w x' = Inr ()"
  proof (cases "pv_context q")
    case (Some c)
    then have "xp_context x' = xp_context x" using run_keeps_context [OF q(2)] x'(2) ctx by simp
    with x(2) show ?thesis by (simp add: context_check_def)
  qed (simp add: context_check_def x'(2))
  moreover obtain rt' where rt': "finish_state E w ?r None h' u = Inr rt'"
    using finish_state_total [OF loop_stage_ok [OF u(1)] d] by blast
  ultimately have "reduce_events E w xs None h' = Inr rt'"
    using d x'(1) u(1) assms(2) by (simp add: reduce_events_def raise_again_def)
  moreover have "rt_locals rt' = u" "rt_run_id rt' = ?r" "rt_run_id rt = ?r"
    using rt' fin by (auto simp: finish_state_def Let_def guard_simps)
  ultimately show ?thesis using u(2) s by auto
qed

end
