(* ===== verification/Reducer_Logs.thy ===== *)
theory Reducer_Logs
  imports Reducer_Ledger
begin

text \<open>
  The lists the reducer keeps are logs of the accepted events.  The contract of a log (only its own
  events extend it, each by one entry) is the locale \<open>event_log\<close>, and \<open>unique_log\<close> adds a key that is
  checked against a set of keys used before; every list of the reducer's state is an interpretation.
\<close>

section \<open>Who may change what\<close>

text \<open>Each part of the state is changed by the events of its own types only.\<close>

named_theorems others \<open>the events that leave a part of the state alone\<close>

lemma stage_others [others]:
  assumes "dispatch E w s e = Inr s'" and "ev_event_type e \<notin> {Lifecycle_transitioned}"
  shows "rd_stage s' = rd_stage s"
  using dispatch_cases [OF assms(1)] assms(2)
  by (elim disjE exE conjE) (drule frames, erule ssubst, simp | simp add: step_recovery_def guard_simps)+

lemma decisions_others [others]:
  assumes "dispatch E w s e = Inr s'" and "ev_event_type e \<notin> {Human_decision_requested, Human_decision_resolved}"
  shows "rd_decisions s' = rd_decisions s"
  using dispatch_cases [OF assms(1)] assms(2)
  by (elim disjE exE conjE) (drule frames, erule ssubst, simp | simp add: step_recovery_def guard_simps)+

lemma decision_ids_others [others]:
  assumes "dispatch E w s e = Inr s'" and "ev_event_type e \<notin> {Human_decision_requested}"
  shows "rd_decision_ids s' = rd_decision_ids s"
  using dispatch_cases [OF assms(1)] assms(2)
  by (elim disjE exE conjE) (drule frames, erule ssubst, simp | simp add: step_recovery_def guard_simps)+

lemma attempts_others [others]:
  assumes "dispatch E w s e = Inr s'" and "ev_event_type e \<notin> {Attempt_prepared, Attempt_lifecycle, Proposal_accepted,
     Attempt_started, Attempt_closed}"
  shows "rd_attempts s' = rd_attempts s"
  using dispatch_cases [OF assms(1)] assms(2)
  by (elim disjE exE conjE) (drule frames, erule ssubst, simp | simp add: step_recovery_def guard_simps)+

lemma attempt_ids_others [others]:
  assumes "dispatch E w s e = Inr s'" and "ev_event_type e \<notin> {Attempt_prepared, Attempt_started}"
  shows "rd_attempt_ids s' = rd_attempt_ids s"
  using dispatch_cases [OF assms(1)] assms(2)
  by (elim disjE exE conjE) (drule frames, erule ssubst, simp | simp add: step_recovery_def guard_simps)+

lemma blockers_others [others]:
  assumes "dispatch E w s e = Inr s'" and "ev_event_type e \<notin> {Execution_mode_selected, Attempt_lifecycle, Panel_prepared, Review_synthesis_accepted,
     Gate_evaluated, Human_decision_recorded,
     Human_decision_requested, Human_decision_resolved}"
  shows "rd_blockers s' = rd_blockers s"
  using dispatch_cases [OF assms(1)] assms(2)
  by (elim disjE exE conjE) (drule frames, erule ssubst, simp | simp add: step_recovery_def guard_simps)+

lemma artifacts_others [others]:
  assumes "dispatch E w s e = Inr s'" and "ev_event_type e \<notin> {Artifact_accepted, Research_artifact_accepted}"
  shows "rd_artifacts s' = rd_artifacts s \<and> rd_artifact_ids s' = rd_artifact_ids s"
  using dispatch_cases [OF assms(1)] assms(2)
  by (elim disjE exE conjE) (drule frames, erule ssubst, simp | simp add: step_recovery_def guard_simps)+

lemma passports_others [others]:
  assumes "dispatch E w s e = Inr s'" and "ev_event_type e \<notin> {Passport_accepted}"
  shows "rd_passports s' = rd_passports s \<and> rd_current_passport s' = rd_current_passport s
    \<and> rd_current_passport_stage s' = rd_current_passport_stage s
    \<and> rd_fresh_until s' = rd_fresh_until s"
  using dispatch_cases [OF assms(1)] assms(2)
  by (elim disjE exE conjE) (drule frames, erule ssubst, simp | simp add: step_recovery_def guard_simps)+

lemma consumed_others [others]:
  assumes "dispatch E w s e = Inr s'" and "ev_event_type e \<notin> {Resume_accepted}"
  shows "rd_consumed_passports s' = rd_consumed_passports s"
  using dispatch_cases [OF assms(1)] assms(2)
  by (elim disjE exE conjE) (drule frames, erule ssubst, simp | simp add: step_recovery_def guard_simps)+

lemma mode_others [others]:
  assumes "dispatch E w s e = Inr s'" and "ev_event_type e \<notin> {Execution_mode_selected}"
  shows "rd_execution_mode s' = rd_execution_mode s
    \<and> rd_execution_provenance s' = rd_execution_provenance s
    \<and> rd_role_catalog_sha256 s' = rd_role_catalog_sha256 s
    \<and> rd_policy_sha256 s' = rd_policy_sha256 s \<and> rd_dag_sha256 s' = rd_dag_sha256 s"
  using dispatch_cases [OF assms(1)] assms(2)
  by (elim disjE exE conjE) (drule frames, erule ssubst, simp | simp add: step_recovery_def guard_simps)+

lemma assignments_others [others]:
  assumes "dispatch E w s e = Inr s'" and "ev_event_type e \<notin> {Assignment_prepared, Assignment_superseded}"
  shows "rd_assignments s' = rd_assignments s
    \<and> rd_assignment_history s' = rd_assignment_history s"
  using dispatch_cases [OF assms(1)] assms(2)
  by (elim disjE exE conjE) (drule frames, erule ssubst, simp | simp add: step_recovery_def guard_simps)+

lemma history_others [others]:
  assumes "dispatch E w s e = Inr s'" and "ev_event_type e \<notin> {Attempt_prepared, Attempt_lifecycle, Proposal_accepted}"
  shows "rd_attempt_history s' = rd_attempt_history s
    \<and> rd_attempt_statuses s' = rd_attempt_statuses s
    \<and> rd_latest_attempt s' = rd_latest_attempt s
    \<and> rd_max_attempt_number s' = rd_max_attempt_number s"
  using dispatch_cases [OF assms(1)] assms(2)
  by (elim disjE exE conjE) (drule frames, erule ssubst, simp | simp add: step_recovery_def guard_simps)+

lemma repairable_others [others]:
  assumes "dispatch E w s e = Inr s'" and "ev_event_type e \<notin> {Attempt_lifecycle}"
  shows "rd_repairable s' = rd_repairable s"
  using dispatch_cases [OF assms(1)] assms(2)
  by (elim disjE exE conjE) (drule frames, erule ssubst, simp | simp add: step_recovery_def guard_simps)+

lemma proposals_others [others]:
  assumes "dispatch E w s e = Inr s'" and "ev_event_type e \<notin> {Proposal_accepted, Proposal_rejected}"
  shows "rd_proposals s' = rd_proposals s \<and> rd_proposal_sha256s s' = rd_proposal_sha256s s"
  using dispatch_cases [OF assms(1)] assms(2)
  by (elim disjE exE conjE) (drule frames, erule ssubst, simp | simp add: step_recovery_def guard_simps)+

lemma reports_others [others]:
  assumes "dispatch E w s e = Inr s'" and "ev_event_type e \<notin> {Review_report_accepted}"
  shows "rd_panel_reports s' = rd_panel_reports s \<and> rd_report_ids s' = rd_report_ids s"
  using dispatch_cases [OF assms(1)] assms(2)
  by (elim disjE exE conjE) (drule frames, erule ssubst, simp | simp add: step_recovery_def guard_simps)+

lemma syntheses_others [others]:
  assumes "dispatch E w s e = Inr s'" and "ev_event_type e \<notin> {Review_synthesis_accepted}"
  shows "rd_panel_syntheses s' = rd_panel_syntheses s"
  using dispatch_cases [OF assms(1)] assms(2)
  by (elim disjE exE conjE) (drule frames, erule ssubst, simp | simp add: step_recovery_def guard_simps)+

lemma panels_others [others]:
  assumes "dispatch E w s e = Inr s'" and "ev_event_type e \<notin> {Panel_prepared}"
  shows "rd_panel_manifests s' = rd_panel_manifests s \<and> rd_panel_ids s' = rd_panel_ids s"
  using dispatch_cases [OF assms(1)] assms(2)
  by (elim disjE exE conjE) (drule frames, erule ssubst, simp | simp add: step_recovery_def guard_simps)+

lemma identities_others [others]:
  assumes "dispatch E w s e = Inr s'" and "ev_event_type e \<notin> {Host_identity_accepted}"
  shows "rd_host_identities s' = rd_host_identities s \<and> rd_receipt_ids s' = rd_receipt_ids s
    \<and> rd_receipt_sha256s s' = rd_receipt_sha256s s"
  using dispatch_cases [OF assms(1)] assms(2)
  by (elim disjE exE conjE) (drule frames, erule ssubst, simp | simp add: step_recovery_def guard_simps)+

lemma authorities_others [others]:
  assumes "dispatch E w s e = Inr s'" and "ev_event_type e \<notin> {Human_authority_accepted}"
  shows "rd_human_authorities s' = rd_human_authorities s
    \<and> rd_authority_ids s' = rd_authority_ids s
    \<and> rd_authority_sha256s s' = rd_authority_sha256s s"
  using dispatch_cases [OF assms(1)] assms(2)
  by (elim disjE exE conjE) (drule frames, erule ssubst, simp | simp add: step_recovery_def guard_simps)+

lemma human_decisions_others [others]:
  assumes "dispatch E w s e = Inr s'" and "ev_event_type e \<notin> {Human_decision_recorded}"
  shows "rd_blocker_releases s' = rd_blocker_releases s
    \<and> rd_human_decisions s' = rd_human_decisions s
    \<and> rd_human_decision_ids s' = rd_human_decision_ids s"
  using dispatch_cases [OF assms(1)] assms(2)
  by (elim disjE exE conjE) (drule frames, erule ssubst, simp | simp add: step_recovery_def guard_simps)+

lemma hooks_others [others]:
  assumes "dispatch E w s e = Inr s'" and "ev_event_type e \<notin> {Hook_observed}"
  shows "rd_hook_observations s' = rd_hook_observations s \<and> rd_hook_keys s' = rd_hook_keys s"
  using dispatch_cases [OF assms(1)] assms(2)
  by (elim disjE exE conjE) (drule frames, erule ssubst, simp | simp add: step_recovery_def guard_simps)+

lemma gates_others [others]:
  assumes "dispatch E w s e = Inr s'" and "ev_event_type e \<notin> {Gate_evaluated}"
  shows "rd_gates s' = rd_gates s \<and> rd_failed_gate_ids s' = rd_failed_gate_ids s"
  using dispatch_cases [OF assms(1)] assms(2)
  by (elim disjE exE conjE) (drule frames, erule ssubst, simp | simp add: step_recovery_def guard_simps)+

lemma dispatch_phase4_seen:
  assumes "dispatch E w s e = Inr s'"
  shows "rd_phase4_event_seen s' = (rd_phase4_event_seen s \<or> ev_event_type e \<in> set PHASE4_EVENT_TYPES)"
  using dispatch_cases [OF assms]
  by (elim disjE exE conjE)
    (drule frames, erule ssubst, fastforce simp: event_families
      | auto simp: step_recovery_def guard_simps event_families)+

section \<open>The events of some types, narrowed\<close>

definition picked ::
  "(payload \<Rightarrow> 'p option) \<Rightarrow> event_type set \<Rightarrow> canonical_event \<Rightarrow> (canonical_event \<times> 'p) option" where
  "picked narrow types e =
     (if ev_event_type e \<in> types then map_option (Pair e) (narrow (ev_payload e)) else None)"

fun selected ::
  "(payload \<Rightarrow> 'p option) \<Rightarrow> event_type set \<Rightarrow> canonical_event list \<Rightarrow> (canonical_event \<times> 'p) list" where
  "selected narrow types [] = []"
| "selected narrow types (e # es) =
     (case picked narrow types e of
        None \<Rightarrow> selected narrow types es | Some y \<Rightarrow> y # selected narrow types es)"

lemma selected_append: "selected f T (xs @ ys) = selected f T xs @ selected f T ys"
  by (induction xs) (simp_all split: option.split)

lemma picked_iff: "picked f T x = Some y \<longleftrightarrow> fst y = x \<and> ev_event_type x \<in> T \<and> f (ev_payload x) = Some (snd y)"
  by (cases y) (auto simp: picked_def)

lemma in_selected: "y \<in> set (selected f T es) \<longleftrightarrow> (\<exists>x \<in> set es. picked f T x = Some y)"
  by (induction es) (auto split: option.split)

lemma in_selected_iff:
  "(e, p) \<in> set (selected f T es) \<longleftrightarrow> e \<in> set es \<and> ev_event_type e \<in> T \<and> f (ev_payload e) = Some p"
  unfolding in_selected picked_iff by force

section \<open>Logs\<close>

locale event_log =
  fixes get :: "run_state \<Rightarrow> 'a list" and narrow :: "payload \<Rightarrow> 'p option"
    and types :: "event_type set" and entry :: "canonical_event \<Rightarrow> 'p \<Rightarrow> 'a"
  assumes get_init: "get initial_state = []"
    and get_bookkeeping:
      "get (s\<lparr> rd_canonical_event_sha256 := shas, rd_revision := n, rd_head := h,
              rd_accepted_event_ids := ids, rd_prior := es \<rparr>) = get s"
    and own: "dispatch E w s e = Inr s' \<Longrightarrow> ev_event_type e \<in> types \<Longrightarrow>
      \<exists>p. narrow (ev_payload e) = Some p \<and> get s' = get s @ [entry e p]"
    and other: "dispatch E w s e = Inr s' \<Longrightarrow> ev_event_type e \<notin> types \<Longrightarrow> get s' = get s"
begin

lemma step_log:
  assumes "get s = map (\<lambda>(e, p). entry e p) (selected narrow types (rd_prior s))"
    and "reduce_step E w r s e = Inr s'"
  shows "get s' = map (\<lambda>(e, p). entry e p) (selected narrow types (rd_prior s'))"
  using assms(2)
proof (rule reduce_stepE)
  fix t assume d: "dispatch E w s e = Inr t"
    and s': "s' = t\<lparr> rd_canonical_event_sha256 := rd_canonical_event_sha256 s @ [ev_event_sha256 e],
            rd_revision := ev_resulting_revision e, rd_head := ev_event_sha256 e,
            rd_accepted_event_ids := insert (ev_event_id e) (rd_accepted_event_ids s),
            rd_prior := rd_prior s @ [e] \<rparr>"
  have "get s' = get t" "rd_prior s' = rd_prior s @ [e]" unfolding s' by (simp_all add: get_bookkeeping)
  with own [OF d] other [OF d] assms(1) show ?thesis
    by (cases "ev_event_type e \<in> types") (auto simp: selected_append picked_def)
qed

lemma log_is_events:
  "reduce_loop E w r initial_state es = Inr s \<Longrightarrow>
     get s = map (\<lambda>(e, p). entry e p) (selected narrow types es)"
  using reduce_loop_invariant
    [where I = "\<lambda>s. get s = map (\<lambda>(e, p). entry e p) (selected narrow types (rd_prior s))"]
    step_log loop_prior_init get_init
  by (metis (no_types, lifting) list.simps(8) loop_prior rd.run_Nil selected.simps(1) self_append_conv2)

end

locale unique_log = event_log get narrow types entry
  for get :: "run_state \<Rightarrow> 'a list" and narrow :: "payload \<Rightarrow> 'p option"
    and types :: "event_type set" and entry :: "canonical_event \<Rightarrow> 'p \<Rightarrow> 'a" +
  fixes key :: "'a \<Rightarrow> 'k" and keys :: "run_state \<Rightarrow> 'k set"
  assumes keys_init: "keys initial_state = {}"
    and keys_bookkeeping:
      "keys (s\<lparr> rd_canonical_event_sha256 := shas, rd_revision := n, rd_head := h,
              rd_accepted_event_ids := ids, rd_prior := es \<rparr>) = keys s"
    and keys_own: "dispatch E w s e = Inr s' \<Longrightarrow> ev_event_type e \<in> types \<Longrightarrow>
      narrow (ev_payload e) = Some p \<Longrightarrow>
      key (entry e p) \<notin> keys s \<and> keys s' = insert (key (entry e p)) (keys s)"
    and keys_other: "dispatch E w s e = Inr s' \<Longrightarrow> ev_event_type e \<notin> types \<Longrightarrow> keys s' = keys s"
begin

definition log_ok :: "run_state \<Rightarrow> bool" where
  "log_ok s \<longleftrightarrow> distinct (map key (get s)) \<and> keys s = key ` set (get s)"

lemma step_log_ok:
  assumes "log_ok s" and "reduce_step E w r s e = Inr s'"
  shows "log_ok s'"
  using assms(2)
proof (rule reduce_stepE)
  fix t assume d: "dispatch E w s e = Inr t"
    and s': "s' = t\<lparr> rd_canonical_event_sha256 := rd_canonical_event_sha256 s @ [ev_event_sha256 e],
            rd_revision := ev_resulting_revision e, rd_head := ev_event_sha256 e,
            rd_accepted_event_ids := insert (ev_event_id e) (rd_accepted_event_ids s),
            rd_prior := rd_prior s @ [e] \<rparr>"
  have same: "get s' = get t" "keys s' = keys t"
    unfolding s' by (simp_all add: get_bookkeeping keys_bookkeeping)
  show ?thesis
  proof (cases "ev_event_type e \<in> types")
    case True
    obtain p where p: "narrow (ev_payload e) = Some p" "get t = get s @ [entry e p]"
      using own [OF d True] by blast
    with keys_own [OF d True p(1)] assms(1) same show ?thesis by (auto simp: log_ok_def)
  next
    case False
    with keys_other [OF d] other [OF d] assms(1) same show ?thesis by (simp add: log_ok_def)
  qed
qed

lemma log_ok_init: "log_ok initial_state"
  by (simp add: log_ok_def get_init keys_init)

lemma loop_log_ok: "reduce_loop E w r initial_state es = Inr s \<Longrightarrow> log_ok s"
  by (erule reduce_loop_invariant [where I = log_ok])
    (auto intro: log_ok_init step_log_ok)

lemma log_distinct:
  "reduce_loop E w r initial_state es = Inr s \<Longrightarrow>
     distinct (map (\<lambda>(e, p). key (entry e p)) (selected narrow types es))"
  using loop_log_ok [of E w r es s] log_is_events [of E w r es s]
  by (simp add: log_ok_def comp_def case_prod_unfold)

end

section \<open>The logs of the reducer\<close>

definition identity_entry :: "canonical_event \<Rightarrow> host_identity_accepted \<Rightarrow> host_identity_state" where
  "identity_entry e p =
     \<lparr> his_receipt_id = receipt_id (hia_receipt p), his_receipt_sha256 = hia_receipt_sha256 p,
       his_receipt = hia_receipt p, his_source_event_id = ev_event_id e \<rparr>"

definition authority_entry :: "canonical_event \<Rightarrow> human_authority_accepted \<Rightarrow> authority_state" where
  "authority_entry e p =
     \<lparr> hau_authority_id = ha_authority_id (haa_authority p), hau_authority_sha256 = haa_authority_sha256 p,
       hau_authority = haa_authority p, hau_source_event_id = ev_event_id e \<rparr>"

definition gate_entry :: "canonical_event \<Rightarrow> gate_evaluated \<Rightarrow> ident \<times> gate_state" where
  "gate_entry e p = (gd_gate_id (gev_decision p), gate_state_of p (ev_event_id e))"

definition assignment_entry :: "assignment_prepared \<Rightarrow> assignment_state" where
  "assignment_entry p = assignment_state_of (ap_assignment p) (ap_assignment_sha256 p)
     (if asg_supersedes_assignment_id (ap_assignment p) = None then Asg_prepared else Asg_active)"

lemmas log_simps = initial_state_def dispatch_def guard_simps Let_def

interpretation identities: unique_log rd_host_identities as_host_identity "{Host_identity_accepted}"
  identity_entry his_receipt_id rd_receipt_ids
  by unfold_locales (auto simp: log_simps others step_host_identity_def identity_entry_def)

interpretation identity_shas: unique_log rd_host_identities as_host_identity "{Host_identity_accepted}"
  identity_entry his_receipt_sha256 rd_receipt_sha256s
  by unfold_locales (auto simp: log_simps others step_host_identity_def identity_entry_def)

interpretation authorities: unique_log rd_human_authorities as_human_authority "{Human_authority_accepted}"
  authority_entry hau_authority_id rd_authority_ids
  by unfold_locales (auto simp: log_simps others step_human_authority_def authority_entry_def)

interpretation authority_shas: unique_log rd_human_authorities as_human_authority
  "{Human_authority_accepted}" authority_entry hau_authority_sha256 rd_authority_sha256s
  by unfold_locales (auto simp: log_simps others step_human_authority_def authority_entry_def)

interpretation hooks: unique_log rd_hook_observations as_hook_observed "{Hook_observed}"
  "\<lambda>e. hob_observation" ho_idempotency_key rd_hook_keys
  by unfold_locales (auto simp: log_simps others step_hook_observed_def)

interpretation passports: unique_log rd_passports as_passport_accepted "{Passport_accepted}"
  "\<lambda>e. pp_passport_sha256" id "\<lambda>s. set (rd_passports s)"
  by unfold_locales (auto simp: log_simps others step_passport_def)

interpretation resumes: unique_log rd_consumed_passports as_resume_accepted "{Resume_accepted}"
  "\<lambda>e. rp_passport_sha256" id "\<lambda>s. set (rd_consumed_passports s)"
  by unfold_locales (auto simp: log_simps others step_resume_def)

interpretation artifacts: unique_log rd_artifacts as_artifact_accepted
  "{Artifact_accepted, Research_artifact_accepted}"
  "\<lambda>e. aa_manifest_sha256" id "\<lambda>s. set (rd_artifacts s)"
  by unfold_locales (auto simp: log_simps others step_artifact_accepted_def)

interpretation panels: unique_log rd_panel_manifests as_panel_prepared "{Panel_prepared}"
  "\<lambda>e. ppd_manifest" pm_panel_id rd_panel_ids
  by unfold_locales (auto simp: log_simps others step_panel_prepared_def)

interpretation reports: unique_log rd_panel_reports as_review_report "{Review_report_accepted}"
  "\<lambda>e. rra_report" rr_report_id rd_report_ids
  by unfold_locales (auto simp: log_simps others step_review_report_def ready_panel_def)

interpretation syntheses: event_log rd_panel_syntheses as_review_synthesis "{Review_synthesis_accepted}"
  "\<lambda>e. rsa_finding_matrix"
  by unfold_locales (auto simp: log_simps others step_review_synthesis_def ready_panel_def)

lemma dkeys_append: "dkeys (xs @ ys) = dkeys xs \<union> dkeys ys" "dkeys [(k, v)] = {k}"
  by (auto simp: dkeys_def)

interpretation gates: unique_log rd_gates as_gate_evaluated "{Gate_evaluated}" gate_entry fst
  "\<lambda>s. dkeys (rd_gates s)"
  by unfold_locales
    (auto simp: log_simps others step_gate_evaluated_def gate_entry_def dset_new dkeys_append)

interpretation decisions: unique_log rd_human_decisions as_human_decision_recorded
  "{Human_decision_recorded}" "\<lambda>e p. decision_state_of p (ev_event_id e)" hds_decision_id
  rd_human_decision_ids
  by unfold_locales (auto simp: log_simps others step_human_decision_def decision_state_of_def)

lemma assignment_entry_id: "ast_assignment_id (assignment_entry p) = asg_assignment_id (ap_assignment p)"
  by (simp add: assignment_entry_def assignment_state_of_def)

lemma supersede_keys: "supersede d a pid = Inr d' \<Longrightarrow> dkeys d' = dkeys d"
  by (auto simp: supersede_def guard_simps dict_simps dest: dget_SomeD)

lemma assignment_effect:
  assumes "step_assignment s p = Inr s'"
  shows "asg_assignment_id (ap_assignment p) \<notin> dkeys (rd_assignments s)
    \<and> dkeys (rd_assignments s') = insert (asg_assignment_id (ap_assignment p)) (dkeys (rd_assignments s))
    \<and> rd_assignment_history s' = rd_assignment_history s @ [assignment_entry p]"
  using assms supersede_keys
  by (auto simp: step_assignment_def Let_def guard_simps dict_simps assignment_entry_def split: option.splits)

interpretation assignments: unique_log rd_assignment_history as_assignment_prepared
  "{Assignment_prepared, Assignment_superseded}" "\<lambda>e. assignment_entry" ast_assignment_id
  "\<lambda>s. dkeys (rd_assignments s)"
  by unfold_locales
    (auto simp: log_simps others assignment_entry_id dest!: assignment_effect)

end
