(* ===== verification/Reducer_Safety.thy ===== *)
theory Reducer_Safety
  imports Reducer_Logs
begin

text \<open>
  What a reduced history guarantees about authority, gates, panels, passports and completion.  Each
  property is about an event inside an accepted history: the state before it is described by the
  logs of the events before it, and the branch the event took by its checks.
\<close>

section \<open>An event inside a history\<close>

lemma event_in_loop:
  assumes "reduce_loop E w r initial_state (xs @ e # ys) = Inr s"
  obtains u v where "reduce_loop E w r initial_state xs = Inr u" "rd_prior u = xs"
    "dispatch E w u e = Inr v"
proof -
  obtain u v where u: "reduce_loop E w r initial_state xs = Inr u" and step: "reduce_step E w r u e = Inr v"
    using rd.run_split_at [OF assms] by blast
  from step obtain t where "dispatch E w u e = Inr t" by (rule reduce_stepE)
  with u show ?thesis using that loop_prior_init [OF u] by blast
qed

lemma event_in_history:
  assumes "reduce_events E w es now h = Inr rt" and "es = xs @ e # ys"
  obtains u v where "reduce_loop E w (ev_run_id (hd es)) initial_state xs = Inr u" "rd_prior u = xs"
    "dispatch E w u e = Inr v"
proof -
  from assms(1) obtain s where "reduce_loop E w (ev_run_id (hd es)) initial_state es = Inr s"
    by (rule reduce_eventsE)
  then have "reduce_loop E w (ev_run_id (hd es)) initial_state (xs @ e # ys) = Inr s"
    by (simp only: assms(2) [symmetric])
  then show ?thesis by (rule event_in_loop) (rule that)
qed

lemma history_state:
  assumes "reduce_events E w es now h = Inr rt"
  shows "reduce_loop E w (ev_run_id (hd es)) initial_state es = Inr (rt_locals rt)"
  using assms by (rule reduce_eventsE) simp

section \<open>The logs\<close>


section \<open>Execution mode\<close>

definition mode_events :: "canonical_event list \<Rightarrow> execution_mode_selected list" where
  "mode_events es = map snd (selected as_mode_selected {Execution_mode_selected} es)"

definition mode_ok :: "run_state \<Rightarrow> bool" where
  "mode_ok s =
     ((rd_execution_mode s = None \<longrightarrow> mode_events (rd_prior s) = [])
    \<and> (\<forall>p \<in> set (mode_events (rd_prior s)).
         rd_execution_mode s = Some (ms_execution_mode p)
       \<and> rd_execution_provenance s = Some (ms_execution_provenance p)))"

lemma mode_events_snoc:
  "mode_events (es @ [e]) = mode_events es @
     (if ev_event_type e = Execution_mode_selected
      then (case as_mode_selected (ev_payload e) of None \<Rightarrow> [] | Some p \<Rightarrow> [p]) else [])"
  by (simp add: mode_events_def selected_append picked_def split: option.split)

lemma step_mode_ok:
  assumes "mode_ok s" and "reduce_step E w r s e = Inr s'"
  shows "mode_ok s'"
  using assms(2)
proof (rule reduce_stepE)
  fix t assume d: "dispatch E w s e = Inr t"
    and s': "s' = t\<lparr> rd_canonical_event_sha256 := rd_canonical_event_sha256 s @ [ev_event_sha256 e],
            rd_revision := ev_resulting_revision e, rd_head := ev_event_sha256 e,
            rd_accepted_event_ids := insert (ev_event_id e) (rd_accepted_event_ids s),
            rd_prior := rd_prior s @ [e] \<rparr>"
  show ?thesis
  proof (cases "ev_event_type e = Execution_mode_selected")
    case True
    obtain p where p: "as_mode_selected (ev_payload e) = Some p" and st: "step_mode_selected s e p = Inr t"
      using d True by (auto simp: dispatch_def guard_simps)
    from st assms(1) have "rd_execution_mode t = Some (ms_execution_mode p)"
      "rd_execution_provenance t = Some (ms_execution_provenance p)"
      "\<forall>q \<in> set (mode_events (rd_prior s)). ms_execution_mode q = ms_execution_mode p
         \<and> ms_execution_provenance q = ms_execution_provenance p"
      by (auto simp: step_mode_selected_def mode_ok_def guard_simps)
    then show ?thesis by (simp add: mode_ok_def s' mode_events_snoc True p)
  next
    case False
    then have "mode_events (rd_prior s') = mode_events (rd_prior s)" by (simp add: s' mode_events_snoc)
    moreover have "rd_execution_mode s' = rd_execution_mode s"
      "rd_execution_provenance s' = rd_execution_provenance s"
      using mode_others [OF d] False by (simp_all add: s')
    ultimately show ?thesis using assms(1) by (simp add: mode_ok_def)
  qed
qed

lemma loop_mode_ok:
  assumes "reduce_loop E w r initial_state es = Inr s"
  shows "mode_ok s"
  using assms
proof (rule reduce_loop_invariant)
  show "mode_ok initial_state" by (simp add: mode_ok_def initial_state_def mode_events_def)
qed (rule step_mode_ok)

text \<open>
  C19.  The execution mode is frozen.  All mode selections of an accepted history choose the same
  mode and provenance, and every assignment prepared after a selection is for that mode; so no
  assignment can leave a run that was declared degraded or blocked.
\<close>

theorem execution_mode_is_frozen:
  assumes "reduce_events E w es now h = Inr rt"
  shows "(\<forall>p \<in> set (mode_events es). \<forall>q \<in> set (mode_events es).
            ms_execution_mode p = ms_execution_mode q
          \<and> ms_execution_provenance p = ms_execution_provenance q)
    \<and> (\<forall>xs e ys a p. es = xs @ e # ys \<longrightarrow> p \<in> set (mode_events xs) \<longrightarrow>
         ev_event_type e \<in> {Assignment_prepared, Assignment_superseded} \<longrightarrow>
         as_assignment_prepared (ev_payload e) = Some a \<longrightarrow>
         asg_execution_mode (ap_assignment a) = ms_execution_mode p)"
proof (intro conjI ballI allI impI)
  note s = history_state [OF assms]
  have ok: "mode_ok (rt_locals rt)" by (rule loop_mode_ok [OF s])
  fix p q assume "p \<in> set (mode_events es)" "q \<in> set (mode_events es)"
  with ok loop_prior_init [OF s] have
    "Some (ms_execution_mode p) = Some (ms_execution_mode q)
     \<and> Some (ms_execution_provenance p) = Some (ms_execution_provenance q)"
    unfolding mode_ok_def by metis
  then show "ms_execution_mode p = ms_execution_mode q"
    "ms_execution_provenance p = ms_execution_provenance q" by simp_all
next
  fix xs e ys a p
  assume es: "es = xs @ e # ys" and p: "p \<in> set (mode_events xs)"
    and t: "ev_event_type e \<in> {Assignment_prepared, Assignment_superseded}"
    and a: "as_assignment_prepared (ev_payload e) = Some a"
  from assms es obtain u v where u: "reduce_loop E w (ev_run_id (hd es)) initial_state xs = Inr u"
    "rd_prior u = xs" and d: "dispatch E w u e = Inr v"
    by (rule event_in_history)
  have "rd_execution_mode u = Some (ms_execution_mode p)"
    using loop_mode_ok [OF u(1)] p u(2) by (simp add: mode_ok_def)
  moreover have "step_assignment u a = Inr v" using d t a by (auto simp: dispatch_def guard_simps)
  ultimately show "asg_execution_mode (ap_assignment a) = ms_execution_mode p"
    by (auto simp: step_assignment_def Let_def guard_simps)
qed

end
