(* ===== verification/Samples.thy ===== *)
theory Samples
  imports Reducer_Safety
begin

text \<open>
  A complete orchestration run, used to show that the properties of the reducer apply: the run is
  initialised, an assignment is prepared, its first attempt fails and is retried, a proposal is
  accepted, five host identities are recorded, a panel is prepared, reviews and is synthesized, a
  required gate passes, a person with authority approves, the run is completed, sealed by a passport
  and resumed.  The environment hashes nothing (\<open>id\<close>) and dumps a record as its identifier.
\<close>

section \<open>Environment and records\<close>

primrec sample_dump :: "phase4_record \<Rightarrow> json" where
  "sample_dump (R_assignment a) = JStr (asg_assignment_id a)"
| "sample_dump (R_attempt a) = JStr (att_attempt_id a)"
| "sample_dump (R_proposal a) = JStr (wp_attempt_id a)"
| "sample_dump (R_report a) = JStr (rr_report_id a)"
| "sample_dump (R_receipt a) = JStr (hr_receipt_id a)"
| "sample_dump (R_receipt_v2 a) = JStr (hr2_receipt_id a)"
| "sample_dump (R_panel a) = JStr (pm_panel_id a)"
| "sample_dump (R_authority a) = JStr (ha_authority_id a)"
| "sample_dump (R_matrix a) = JStr (mx_panel_id a)"
| "sample_dump (R_gate a) = JStr (gd_gate_id a)"
| "sample_dump (R_decision a) = JStr (hd_decision_id a)"

definition sample_env :: env where
  "sample_env = \<lparr> sha256_hex = (\<lambda>s. s), model_dump = sample_dump \<rparr>"

definition source :: phase4_payload where
  "source = \<lparr> src_actor_id = None, src_actor_role = None, src_identity_id = None,
              src_host_agent_id = None, src_evidence_sha256 = [] \<rparr>"

definition sample_mode :: execution_mode_selected where
  "sample_mode = phase4_payload.extend source
     \<lparr> ms_execution_mode = Assignment_injected_subagent,
       ms_execution_provenance = Prov_assignment_injected_subagent, ms_role_modes = [],
       ms_role_catalog_sha256 = None, ms_policy_sha256 = None, ms_dag_sha256 = None,
       ms_rationale = None \<rparr>"

definition sample_assignment :: "ident \<Rightarrow> int \<Rightarrow> assignment" where
  "sample_assignment i n =
     \<lparr> asg_assignment_id = i, asg_supersedes_assignment_id = None, asg_run_id = ''run'',
       asg_stage_id = ''analysis'', asg_task_id = ''task'', asg_role_id = ''research_scout'',
       asg_worker_identity_id = ''worker.scout'', asg_execution_mode = Assignment_injected_subagent,
       asg_execution_provenance = Prov_assignment_injected_subagent,
       asg_independence_eligible = False, asg_base_revision = 0, asg_input_sha256 = [],
       asg_capability_ids = [], asg_allowed_read_root_ids = [],
       asg_scratch_path_template = ''scratch/{attempt_id}'',
       asg_result_path_template = ''results/{attempt_id}'',
       asg_output_policy = \<lparr> op_schema_id = ''schema'', op_schema_sha256 = ''schema.sha'',
                             op_max_bytes = 100, op_max_artifacts = 2 \<rparr>,
       asg_policy_sha256 = ''policy'', asg_context_manifest_sha256 = ''context'',
       asg_blind_review = \<lparr> br_required = False, br_subject_sha256 = None,
                            br_rubric_sha256 = None, br_forbidden_peer_role_ids = [] \<rparr>,
       asg_deadline_at = ''2030-01-01T00:00:00Z'',
       asg_completion_contract = \<lparr> cc_requires_completed_proposal = True,
         cc_required_artifact_kinds = [], cc_requires_human_gate = True \<rparr>,
       asg_acceptance_key = \<lparr> key_topological_layer = 0, key_task_ordinal = n,
                              key_assignment_id = i \<rparr>,
       asg_narrative_snapshot = None, asg_paper_output_role = Role_analysis,
       asg_narrative_instructions = None \<rparr>"

definition sample_attempt :: "ident \<Rightarrow> int \<Rightarrow> attempt_descriptor" where
  "sample_attempt i n =
     \<lparr> att_assignment_id = ''work'', att_attempt_id = i, att_attempt_number = n,
       att_proposal_nonce = ''nonce'', att_status = St_prepared, att_retry_reason = None,
       att_retry_eligible = False, att_continuation_count = 0, att_host_agent_id = None,
       att_cancellation_deadline_at = None \<rparr>"

definition sample_proposal :: "ident \<Rightarrow> ident \<Rightarrow> worker_proposal" where
  "sample_proposal i t =
     \<lparr> wp_run_id = ''run'', wp_assignment_id = i, wp_attempt_id = t, wp_role_id = ''research_scout'',
       wp_worker_identity_id = ''worker.scout'', wp_host_agent_id = ''host.scout'',
       wp_execution_mode = Assignment_injected_subagent,
       wp_execution_provenance = Prov_assignment_injected_subagent,
       wp_independence_eligible = False, wp_assignment_sha256 = quote_str i,
       wp_context_manifest_sha256 = ''context'', wp_policy_sha256 = ''policy'', wp_base_revision = 0,
       wp_input_sha256 = [], wp_proposal_nonce = ''nonce'', wp_status = Ps_completed,
       wp_result_provenance_mode = Executed, wp_requested_next_action = Next_accept,
       wp_artifacts = [\<lparr> pa_relative_path = ''results/out.md'', pa_sha256 = ''out'',
         pa_media_type = ''text/markdown'', pa_schema_id = None, pa_byte_count = 10,
         pa_paper_output_role = Role_analysis \<rparr>],
       wp_evidence_sha256 = [], wp_summary = ''done'', wp_narrative_realization = None,
       wp_unresolved = [] \<rparr>"

definition sample_receipt :: "ident \<Rightarrow> ident \<Rightarrow> host_identity_receipt" where
  "sample_receipt i role =
     \<lparr> hr_receipt_id = ''receipt.'' @ i, hr_role_id = role, hr_worker_identity_id = ''worker.'' @ i,
       hr_host_agent_id = ''host.'' @ i, hr_transport = Isolated_codex_exec, hr_codex_version = ''1'',
       hr_assignment_mapping_proven = True, hr_isolation_proven = True,
       hr_peer_isolation_proven = True, hr_credential_isolation_proven = True,
       hr_observed_at = ''2026-01-01T00:00:00Z'', hr_evidence_sha256 = [''evidence''] \<rparr>"

definition digest_of :: "phase4_record \<Rightarrow> sha256" where
  "digest_of r = phase4_record_digest sample_env r"

definition bound_seat :: "ident \<Rightarrow> ident \<Rightarrow> panel_seat" where
  "bound_seat i role = (sample_seat i role)
     \<lparr>seat_identity_receipt_sha256 := digest_of (R_receipt (sample_receipt i role))\<rparr>"

definition bound_panel :: panel_manifest where
  "bound_panel = sample_panel
     \<lparr> pm_reviewer_seats :=
         [bound_seat ''a'' ''methodology_reviewer'', bound_seat ''b'' ''domain_reviewer'',
          bound_seat ''c'' ''perspective_reviewer'', bound_seat ''d'' ''devils_advocate_reviewer''],
       pm_synthesizer_seat := Some (bound_seat ''e'' ''editorial_synthesizer'') \<rparr>"

definition bound_report :: "ident \<Rightarrow> ident \<Rightarrow> review_report" where
  "bound_report i role = (sample_report i role [])
     \<lparr> rr_panel_manifest_sha256 := digest_of (R_panel bound_panel),
       rr_identity_receipt_sha256 := digest_of (R_receipt (sample_receipt i role)),
       rr_report_sha256 := Some (digest_of (R_report (sample_report i role []))) \<rparr>"

definition bound_reports :: "review_report list" where
  "bound_reports =
     [bound_report ''a'' ''methodology_reviewer'', bound_report ''b'' ''domain_reviewer'',
      bound_report ''c'' ''perspective_reviewer'', bound_report ''d'' ''devils_advocate_reviewer'']"

definition bound_matrix :: review_finding_matrix where
  "bound_matrix =
     \<lparr> mx_panel_id = ''panel'', mx_panel_manifest_sha256 = digest_of (R_panel bound_panel),
       mx_subject_sha256 = ''subject'', mx_rubric_sha256 = ''rubric'', mx_reports = bound_reports,
       mx_synthesis =
         \<lparr> rs_synthesis_id = ''synthesis'', rs_panel_manifest_sha256 = digest_of (R_panel bound_panel),
           rs_identity_receipt_sha256 =
             digest_of (R_receipt (sample_receipt ''e'' ''editorial_synthesizer'')),
           rs_worker_identity_id = ''worker.e'', rs_host_agent_id = ''host.e'',
           rs_source_report_sha256 = map (the \<circ> rr_report_sha256) bound_reports,
           rs_findings = [], rs_limitations = [] \<rparr>,
       mx_gate_verdict = Verdict_PASS \<rparr>"

definition sample_gate :: gate_decision where
  "sample_gate =
     \<lparr> gd_gate_id = ''final-gate'', gd_subject_sha256 = ''subject'', gd_evidence_sha256 = [''evidence''],
       gd_verdict = Verdict_PASS, gd_rationale = ''reviewed'',
       gd_fresh_until = Some ''2027-01-01T00:00:00Z'', gd_required = True, gd_human_decision = None \<rparr>"

definition sample_authority :: human_authority where
  "sample_authority =
     \<lparr> ha_authority_id = ''authority'', ha_authenticated_actor_id = ''editor'',
       ha_accountable_role = Acc_review_authority, ha_validated_by_actor_id = ''parent'',
       ha_allowed_decision_kinds = [''approval''], ha_allowed_gate_ids = [''final-gate''],
       ha_allowed_scopes = [''manuscript''], ha_authenticated_at = ''2026-01-01T00:00:00Z'',
       ha_expires_at = ''2026-12-31T00:00:00Z'', ha_evidence_sha256 = [''evidence''] \<rparr>"

definition sample_decision :: human_decision_record where
  "sample_decision =
     \<lparr> hd_decision_id = ''approval-1'', hd_decision_kind = Dk_approval, hd_gate_id = ''final-gate'',
       hd_subject_sha256 = ''subject'', hd_evidence_sha256 = [''evidence''],
       hd_applicable_transition = ''complete'', hd_accountable_actor_id = ''editor'',
       hd_accountable_role = Acc_review_authority, hd_scope = ''manuscript'', hd_rationale = ''ready'',
       hd_prior_verdict_sha256 = digest_of (R_gate sample_gate),
       hd_authority_sha256 = digest_of (R_authority sample_authority),
       hd_supersedes_decision_id = None, hd_blocker_action = Ba_none, hd_blocker_code = None \<rparr>"

section \<open>Events\<close>

definition sample_event :: "int \<Rightarrow> event_type \<Rightarrow> actor_role \<Rightarrow> payload \<Rightarrow> canonical_event" where
  "sample_event n t r p =
     \<lparr> ev_schema_version = event_schema_version t, ev_event_type = t,
       ev_event_id = ''event.'' @ int_str n, ev_command_id = ''command'', ev_run_id = ''run'',
       ev_sequence = n + 1, ev_occurred_at = ''2026-06-01T00:00:00Z'', ev_expected_revision = n,
       ev_resulting_revision = n + 1, ev_actor_id = ''actor'', ev_actor_role = Some r,
       ev_prev_event_sha256 = ''previous'', ev_payload = p, ev_event_sha256 = ''sha.'' @ int_str n \<rparr>"

definition numbered :: "(event_type \<times> payload) list \<Rightarrow> canonical_event list" where
  "numbered tps = map (\<lambda>(n, t, p). sample_event n t
      (if t \<in> {Resume_accepted, Recovery_completed} then Operator else Parent_control_plane) p)
     (zip (map int [0..<length tps]) tps)"

definition move :: "ident \<Rightarrow> ident \<Rightarrow> ident \<Rightarrow> event_type \<times> payload" where
  "move t a b = (Lifecycle_transitioned, P_lifecycle_transitioned
     \<lparr> lt_transition_id = t, lt_from_stage = a, lt_to_stage = b \<rparr>)"

definition prepare_work :: "ident \<Rightarrow> int \<Rightarrow> event_type \<times> payload" where
  "prepare_work i n = (Assignment_prepared, P_assignment_prepared (phase4_payload.extend source
     \<lparr> ap_assignment = sample_assignment i n,
       ap_assignment_sha256 = digest_of (R_assignment (sample_assignment i n)) \<rparr>))"

definition prepare_attempt :: "ident \<Rightarrow> int \<Rightarrow> event_type \<times> payload" where
  "prepare_attempt t n = (Attempt_prepared, P_attempt_prepared (phase4_payload.extend source
     \<lparr> atp_assignment_id = ''work'',
       atp_assignment_sha256 = digest_of (R_assignment (sample_assignment ''work'' 0)),
       atp_attempt = sample_attempt t n, atp_attempt_sha256 = None \<rparr>))"

definition attempt_failed :: "ident \<Rightarrow> event_type \<times> payload" where
  "attempt_failed t = (Attempt_lifecycle, P_attempt_lifecycle (phase4_payload.extend source
     \<lparr> alc_assignment_id = ''work'',
       alc_assignment_sha256 = digest_of (R_assignment (sample_assignment ''work'' 0)),
       alc_attempt_id = t, alc_attempt_number = 1, alc_status = St_failed, alc_proposal_nonce = None,
       alc_retry_reason = Some Rr_timeout, alc_retry_eligible = True, alc_host_agent_id = None,
       alc_cancellation_deadline_at = None, alc_proposal_sha256 = None, alc_reason_code = None \<rparr>))"

definition accept_proposal :: "ident \<Rightarrow> int \<Rightarrow> ident \<Rightarrow> event_type \<times> payload" where
  "accept_proposal i n t = (Proposal_accepted, P_proposal_accepted (phase4_payload.extend source
     \<lparr> pac_assignment_id = i, pac_assignment_sha256 = digest_of (R_assignment (sample_assignment i n)),
       pac_attempt_id = t, pac_proposal = sample_proposal i t,
       pac_proposal_sha256 = digest_of (R_proposal (sample_proposal i t)),
       pac_narrative_report_sha256 = None, pac_acceptance_key = (0, n, i) \<rparr>))"

definition accept_receipt :: "ident \<Rightarrow> ident \<Rightarrow> event_type \<times> payload" where
  "accept_receipt i role = (Host_identity_accepted, P_host_identity (phase4_payload.extend source
     \<lparr> hia_receipt = Receipt_v1 (sample_receipt i role),
       hia_receipt_sha256 = digest_of (R_receipt (sample_receipt i role)) \<rparr>))"

definition accept_report :: "review_report \<Rightarrow> event_type \<times> payload" where
  "accept_report r = (Review_report_accepted, P_review_report (phase4_payload.extend source
     \<lparr> rra_report = r, rra_report_sha256 = the (rr_report_sha256 r) \<rparr>))"

definition start_events :: "(event_type \<times> payload) list" where
  "start_events =
     [(Run_initialized, P_run_initialized \<lparr> ri_manifest_sha256 = ''manifest'' \<rparr>),
      (Execution_mode_selected, P_mode_selected sample_mode),
      move ''prepare'' ''initialized'' ''preparing'',
      prepare_work ''work'' 0,
      move ''freeze'' ''preparing'' ''prepared'',
      move ''dispatch'' ''prepared'' ''dispatching'',
      prepare_attempt ''try.1'' 1,
      attempt_failed ''try.1'',
      prepare_attempt ''try.2'' 2,
      accept_proposal ''work'' 0 ''try.2'',
      move ''collect_proposals'' ''dispatching'' ''proposal_admission'']"

definition review_events :: "(event_type \<times> payload) list" where
  "review_events =
     [accept_receipt ''a'' ''methodology_reviewer'', accept_receipt ''b'' ''domain_reviewer'',
      accept_receipt ''c'' ''perspective_reviewer'', accept_receipt ''d'' ''devils_advocate_reviewer'',
      accept_receipt ''e'' ''editorial_synthesizer'',
      (Panel_prepared, P_panel_prepared (phase4_payload.extend source
         \<lparr> ppd_manifest = bound_panel, ppd_manifest_sha256 = digest_of (R_panel bound_panel) \<rparr>)),
      move ''begin_review'' ''proposal_admission'' ''formal_review'']
     @ map accept_report bound_reports @
     [(Review_synthesis_accepted, P_review_synthesis (phase4_payload.extend source
         \<lparr> rsa_finding_matrix = bound_matrix, rsa_finding_matrix_sha256 = digest_of (R_matrix bound_matrix) \<rparr>)),
      move ''resolve_gate'' ''formal_review'' ''gate_resolution'']"

definition closing_events :: "(event_type \<times> payload) list" where
  "closing_events =
     [(Gate_evaluated, P_gate_evaluated (phase4_payload.extend source
         \<lparr> gev_decision = sample_gate, gev_decision_sha256 = digest_of (R_gate sample_gate) \<rparr>)),
      (Human_authority_accepted, P_human_authority (phase4_payload.extend source
         \<lparr> haa_authority = sample_authority,
           haa_authority_sha256 = digest_of (R_authority sample_authority) \<rparr>)),
      (Human_decision_recorded, P_human_decision_recorded (phase4_payload.extend source
         \<lparr> hdr_decision = sample_decision, hdr_decision_sha256 = digest_of (R_decision sample_decision),
           hdr_authority_sha256 = digest_of (R_authority sample_authority) \<rparr>)),
      move ''complete'' ''gate_resolution'' ''completed'',
      (Passport_accepted, P_passport_accepted
         \<lparr> pp_passport_sha256 = ''passport'', pp_parent_passport_sha256 = None,
           pp_supersedes_passport_sha256 = None, pp_checkpoint_kind = Ck_stage_handoff,
           pp_based_on_revision = 28, pp_stage = ''completed'',
           pp_fresh_until = Some ''2026-12-31T00:00:00Z'' \<rparr>),
      (Resume_accepted, P_resume_accepted \<lparr> rp_passport_sha256 = ''passport'' \<rparr>)]"

definition sample_history :: "canonical_event list" where
  "sample_history = numbered (start_events @ review_events @ closing_events)"

section \<open>Reading the sample\<close>

text \<open>
  Equations that read the fields the reducer looks at; everything else stays folded while the
  history is evaluated.
\<close>

named_theorems sample_simps \<open>evaluation of the sample history\<close>

lemma sample_event_fields [sample_simps]:
  "ev_event_type (sample_event n t r p) = t" "ev_payload (sample_event n t r p) = p"
  "ev_actor_role (sample_event n t r p) = Some r" "ev_run_id (sample_event n t r p) = ''run''"
  "ev_expected_revision (sample_event n t r p) = n" "ev_resulting_revision (sample_event n t r p) = n + 1"
  "ev_occurred_at (sample_event n t r p) = ''2026-06-01T00:00:00Z''"
  "ev_event_id (sample_event n t r p) = ''event.'' @ int_str n"
  "ev_event_sha256 (sample_event n t r p) = ''sha.'' @ int_str n"
  by (simp_all add: sample_event_def)

primrec record_id :: "phase4_record \<Rightarrow> ident" where
  "record_id (R_assignment a) = asg_assignment_id a"
| "record_id (R_attempt a) = att_attempt_id a"
| "record_id (R_proposal a) = wp_attempt_id a"
| "record_id (R_report a) = rr_report_id a"
| "record_id (R_receipt a) = hr_receipt_id a"
| "record_id (R_receipt_v2 a) = hr2_receipt_id a"
| "record_id (R_panel a) = pm_panel_id a"
| "record_id (R_authority a) = ha_authority_id a"
| "record_id (R_matrix a) = mx_panel_id a"
| "record_id (R_gate a) = gd_gate_id a"
| "record_id (R_decision a) = hd_decision_id a"

lemma sample_dump_id: "sample_dump r = JStr (record_id r)"
  by (cases r) simp_all

lemma digest_of_eq [sample_simps]: "digest_of r = digest_of q \<longleftrightarrow> record_id r = record_id q"
proof -
  have "canonical_json_bytes (JStr (record_id r)) = canonical_json_bytes (JStr (record_id q))
      \<longleftrightarrow> norm (JStr (record_id r)) = norm (JStr (record_id q))"
    by (rule canonical_bytes_iff [where fr = id]) simp_all
  then show ?thesis
    by (simp add: digest_of_def phase4_record_digest_def sample_env_def sample_dump_id)
qed

lemma sample_work_fields [sample_simps]:
  "asg_assignment_id (sample_assignment i n) = i" "asg_supersedes_assignment_id (sample_assignment i n) = None"
  "asg_execution_mode (sample_assignment i n) = Assignment_injected_subagent"
  "asg_base_revision (sample_assignment i n) = 0" "asg_input_sha256 (sample_assignment i n) = []"
  "cc_requires_human_gate (asg_completion_contract (sample_assignment i n))"
  "key_value (asg_acceptance_key (sample_assignment i n)) = (0, n, i)"
  "att_attempt_id (sample_attempt t m) = t" "att_attempt_number (sample_attempt t m) = m"
  "att_assignment_id (sample_attempt t m) = ''work''" "att_status (sample_attempt t m) = St_prepared"
  "wp_attempt_id (sample_proposal i t) = t"
  by (simp_all add: sample_assignment_def sample_attempt_def sample_proposal_def key_value_def)

lemma sample_review_fields [sample_simps]:
  "receipt_id (Receipt_v1 (sample_receipt i role)) = ''receipt.'' @ i"
  "hr_receipt_id (sample_receipt i role) = ''receipt.'' @ i"
  "hr_role_id (sample_receipt i role) = role" "hr_worker_identity_id (sample_receipt i role) = ''worker.'' @ i"
  "hr_host_agent_id (sample_receipt i role) = ''host.'' @ i"
  "seat_identity_receipt_sha256 (bound_seat i role) = digest_of (R_receipt (sample_receipt i role))"
  "seat_role_id (bound_seat i role) = role" "seat_worker_identity_id (bound_seat i role) = ''worker.'' @ i"
  "seat_host_agent_id (bound_seat i role) = ''host.'' @ i" "seat_assignment_id (bound_seat i role) = i"
  "seat_attempt_id (bound_seat i role) = ''attempt.'' @ i"
  "pm_panel_id bound_panel = ''panel''" "pm_status bound_panel = Panel_ready"
  "pm_reviewer_seats bound_panel =
     [bound_seat ''a'' ''methodology_reviewer'', bound_seat ''b'' ''domain_reviewer'',
      bound_seat ''c'' ''perspective_reviewer'', bound_seat ''d'' ''devils_advocate_reviewer'']"
  "pm_synthesizer_seat bound_panel = Some (bound_seat ''e'' ''editorial_synthesizer'')"
  "rr_report_id (bound_report i role) = ''report.'' @ i"
  "rr_panel_manifest_sha256 (bound_report i role) = digest_of (R_panel bound_panel)"
  "rr_assignment_id (bound_report i role) = i" "rr_attempt_id (bound_report i role) = ''attempt.'' @ i"
  "rr_role_id (bound_report i role) = role" "rr_worker_identity_id (bound_report i role) = ''worker.'' @ i"
  "rr_host_agent_id (bound_report i role) = ''host.'' @ i"
  "rr_identity_receipt_sha256 (bound_report i role) = digest_of (R_receipt (sample_receipt i role))"
  "rr_report_sha256 (bound_report i role) = Some (digest_of (R_report (sample_report i role [])))"
  "rr_report_id (sample_report i role fs) = ''report.'' @ i"
  "mx_panel_manifest_sha256 bound_matrix = digest_of (R_panel bound_panel)"
  "mx_reports bound_matrix = bound_reports" "mx_gate_verdict bound_matrix = Verdict_PASS"
  "rs_source_report_sha256 (mx_synthesis bound_matrix) = map (the \<circ> rr_report_sha256) bound_reports"
  "rs_worker_identity_id (mx_synthesis bound_matrix) = ''worker.e''"
  "rs_host_agent_id (mx_synthesis bound_matrix) = ''host.e''"
  "rs_identity_receipt_sha256 (mx_synthesis bound_matrix)
     = digest_of (R_receipt (sample_receipt ''e'' ''editorial_synthesizer''))"
  "panel_manifest_sha256 sample_env m = digest_of (R_panel m)"
  by (simp_all add: sample_receipt_def bound_seat_def sample_seat_def bound_panel_def sample_panel_def
      bound_report_def sample_report_def bound_matrix_def panel_manifest_sha256_def digest_of_def)

lemma sample_decision_fields [sample_simps]:
  "gd_gate_id sample_gate = ''final-gate''" "gd_verdict sample_gate = Verdict_PASS" "gd_required sample_gate"
  "\<not> gate_is_stale sample_gate ''2026-06-01T00:00:00Z''"
  "ha_authority_id sample_authority = ''authority''"
  "hd_decision_id sample_decision = ''approval-1''" "hd_decision_kind sample_decision = Dk_approval"
  "hd_gate_id sample_decision = ''final-gate''" "hd_applicable_transition sample_decision = ''complete''"
  "hd_prior_verdict_sha256 sample_decision = digest_of (R_gate sample_gate)"
  "hd_blocker_action sample_decision = Ba_none"
  "within_authority sample_authority sample_decision ''2026-06-01T00:00:00Z''"
  by (simp_all add: sample_gate_def sample_authority_def sample_decision_def gate_is_stale_def
      falsy_def within_authority_def)

lemma sample_workflow [sample_simps]:
  "require_workflow h PHASE4_WORKFLOW_ID = Inr (PHASE4_WORKFLOW h)"
  by (simp add: require_workflow_def WORKFLOW_REGISTRY_def PHASE4_WORKFLOW_ID_def LEGACY_WORKFLOW_ID_def)

lemma sample_moves [sample_simps]:
  "require_transition h PHASE4_WORKFLOW_ID ''initialized'' ''prepare''
     = Inr (transition ''prepare'' [''initialized''] ''preparing'' False)"
  "require_transition h PHASE4_WORKFLOW_ID ''preparing'' ''freeze''
     = Inr (transition ''freeze'' [''preparing''] ''prepared'' False)"
  "require_transition h PHASE4_WORKFLOW_ID ''prepared'' ''dispatch''
     = Inr (transition ''dispatch'' [''prepared''] ''dispatching'' False)"
  "require_transition h PHASE4_WORKFLOW_ID ''dispatching'' ''collect_proposals''
     = Inr (transition ''collect_proposals'' [''dispatching''] ''proposal_admission'' False)"
  "require_transition h PHASE4_WORKFLOW_ID ''proposal_admission'' ''begin_review''
     = Inr (transition ''begin_review'' [''proposal_admission''] ''formal_review'' True)"
  "require_transition h PHASE4_WORKFLOW_ID ''formal_review'' ''resolve_gate''
     = Inr (transition ''resolve_gate'' [''formal_review''] ''gate_resolution'' True)"
  "require_transition h PHASE4_WORKFLOW_ID ''gate_resolution'' ''complete''
     = Inr (transition ''complete'' [''gate_resolution''] ''completed'' True)"
  by (simp_all add: require_transition_def sample_workflow PHASE4_WORKFLOW_def PHASE4_DRAFT_def transition_def)

lemma sample_expiry [sample_simps]:
  "expired t None = Inr False"
  "expired ''2026-06-01T00:00:00Z'' (Some ''2026-12-31T00:00:00Z'') = Inr False"
  by (simp add: expired_def falsy_def, code_simp)

lemma int_str_eq [sample_simps]: "int_str n = int_str m \<longleftrightarrow> n = m"
  using canonical_bytes_iff [of id "JInt n" "JInt m"] by (simp add: canonical_json_bytes_def)

lemma transition_fields [sample_simps]:
  "td_to_stage (transition t fs s c) = s" "td_coherent_checkpoint (transition t fs s c) = c"
  by (simp_all add: transition_def)

lemma sample_checks [sample_simps]:
  "t \<notin> {Resume_accepted, Recovery_completed} \<Longrightarrow>
     actor_check PHASE4_WORKFLOW_ID (sample_event n t Parent_control_plane p) = Inr ()"
  "actor_check PHASE4_WORKFLOW_ID (sample_event n Resume_accepted Operator p) = Inr ()"
  "t \<notin> set EXECUTION_PROVENANCE_EVENT_TYPES \<Longrightarrow> adjacency_check E w s (sample_event n t r p) = Inr ()"
  "t \<notin> set RESEARCH_ARTIFACT_EVENT_TYPES \<Longrightarrow>
     validate_artifact_event_progress es (sample_event n t r p) = Inr ()"
  "t \<notin> set RESEARCH_LEARNING_EVENT_TYPES \<Longrightarrow>
     validate_learning_progress es (sample_event n t r p) = Inr ()"
  by (cases t; simp add: actor_check_def actor_of_def sample_event_fields event_category_def event_families
        actor_can_commit_def category_of_prefix_def raise_again_def)
    (simp_all add: actor_check_def actor_of_def sample_event_fields event_category_def event_families
        actor_can_commit_def category_of_prefix_def raise_again_def adjacency_check_def
        validate_artifact_event_progress_def validate_learning_progress_def)

lemma loop_Nil [sample_simps]: "reduce_loop E w r s [] = Inr s"
  by (rule rd.run_Nil)

lemma loop_Cons [sample_simps]:
  "reduce_loop E w r s (e # es) = rbind (reduce_step E w r s e) (\<lambda>t. reduce_loop E w r t es)"
  by (simp add: rd.run_Cons rbind_def split: sum.split)

lemmas sample_eval = sample_simps numbered_def start_events_def review_events_def closing_events_def
  move_def prepare_work_def prepare_attempt_def attempt_failed_def accept_proposal_def accept_receipt_def
  accept_report_def bound_reports_def source_def sample_mode_def upt_rec
  phase4_payload.defs assignment_prepared.defs execution_mode_selected.defs
  reduce_step_def dispatch_def as_defs initial_state_def step_defs narrowed_def raise_again_def
  event_families retry_check_def falsy_def assignment_state_of_def dset_new dict_simps
  closing_status_def repairable_status_def stale_status_def RETRYABLE_FAILURES_def formal_mode_def
  receipt_of_sha_def panel_seats_def panel_of_sha_def report_binds_seat_def accepted_report_sha256s_def
  synthesis_binds_seat_def gate_state_of_def decision_blockers_def decision_state_of_def
  completion_check_def panel_synthesized_def current_assignments_def needs_human_gate_def
  required_gate_passed_def previous_event_def previous_transition_def checkpoint_coherent_def
  dvalues_def dkeys_def

lemma sample_projected:
  "case prov_run ''run'' prov_init sample_history of Inl _ \<Rightarrow> False | Inr s \<Rightarrow> pv_context s = None"
  by (simp add: sample_eval sample_history_def prov_run_def prov_step_def prov_stage_step_def prov_branch_def
      prov_assignment_def prov_attempt_def prov_intent_def prov_init_def)

lemma sample_reduced: "is_ok (reduce_loop sample_env PHASE4_WORKFLOW_ID ''run'' initial_state sample_history)"
  by (simp add: sample_eval sample_history_def del: set_filter)

lemma accepted_from_parts:
  assumes "es \<noteq> []" and "ev_event_type (hd es) = Run_initialized" and "ev_run_id (hd es) = ''run''"
    and "case prov_run ''run'' prov_init es of Inl _ \<Rightarrow> False | Inr s \<Rightarrow> pv_context s = None"
    and "is_ok (reduce_loop sample_env PHASE4_WORKFLOW_ID ''run'' initial_state es)"
  shows "\<exists>rt. reduce_events sample_env PHASE4_WORKFLOW_ID es None Healthy = Inr rt"
proof -
  obtain p where p: "prov_run ''run'' prov_init es = Inr p" "pv_context p = None"
    using assms(4) by (auto split: sum.splits)
  obtain x where x: "project_execution_provenance es = Inr x" "xp_context x = None"
    using projection_total [of es p] p assms(1-3) by auto
  obtain s where s: "reduce_loop sample_env PHASE4_WORKFLOW_ID ''run'' initial_state es = Inr s"
    using assms(5) by (auto simp: is_ok_iff)
  obtain rt where "finish_state sample_env PHASE4_WORKFLOW_ID ''run'' None Healthy s = Inr rt"
    using finish_state_total [OF loop_stage_ok [OF s] sample_workflow] by blast
  with s x assms(1,3) show ?thesis
    by (simp add: reduce_events_def sample_workflow raise_again_def context_check_def)
qed

lemma sample_accepted:
  obtains rt where "reduce_events sample_env PHASE4_WORKFLOW_ID sample_history None Healthy = Inr rt"
proof -
  have "sample_history \<noteq> []" "ev_event_type (hd sample_history) = Run_initialized"
    "ev_run_id (hd sample_history) = ''run''"
    by (simp_all add: sample_eval sample_history_def)
  from accepted_from_parts [OF this sample_projected sample_reduced] show ?thesis using that by blast
qed

end
