(* ===== verification/Reducer_Evidence.thy ===== *)
theory Reducer_Evidence
  imports Samples
begin

text \<open>
  The evidence chain: what an accepted decision, review report, claim anchor, passport or resumption
  says about the events before it.
\<close>

section \<open>Reading a log\<close>

lemma in_log: "x \<in> set (map (\<lambda>(e, p). f e p) (selected n T es)) \<longleftrightarrow>
    (\<exists>e p. (e, p) \<in> set (selected n T es) \<and> x = f e p)"
  by force

lemma gate_of_log:
  assumes "reduce_loop E w r initial_state xs = Inr u" and "(g, st) \<in> set (rd_gates u)"
  shows "\<exists>e q. (e, q) \<in> set (selected as_gate_evaluated {Gate_evaluated} xs)
    \<and> gd_gate_id (gev_decision q) = g \<and> gev_decision_sha256 q = gst_decision_sha256 st
    \<and> gd_verdict (gev_decision q) = gst_verdict st \<and> gd_required (gev_decision q) = gst_required st"
proof -
  obtain e q where "(e, q) \<in> set (selected as_gate_evaluated {Gate_evaluated} xs)"
    "(g, st) = gate_entry e q"
    using assms(2) gates.log_is_events [OF assms(1)] by (auto simp only: in_log)
  then show ?thesis
    by (intro exI [of _ e] exI [of _ q]) (simp add: gate_entry_def gate_state_of_def Let_def)
qed

lemma authority_of_log:
  assumes "reduce_loop E w r initial_state xs = Inr u" and "st \<in> set (rd_human_authorities u)"
  shows "\<exists>e q. (e, q) \<in> set (selected as_human_authority {Human_authority_accepted} xs)
    \<and> haa_authority_sha256 q = hau_authority_sha256 st \<and> haa_authority q = hau_authority st"
proof -
  obtain e q where "(e, q) \<in> set (selected as_human_authority {Human_authority_accepted} xs)"
    "st = authority_entry e q"
    using assms(2) authorities.log_is_events [OF assms(1)] by (auto simp only: in_log)
  then show ?thesis by (intro exI [of _ e] exI [of _ q]) (simp add: authority_entry_def)
qed

lemma decision_of_log:
  assumes "reduce_loop E w r initial_state xs = Inr u" and "st \<in> set (rd_human_decisions u)"
  shows "\<exists>e q. (e, q) \<in> set (selected as_human_decision_recorded {Human_decision_recorded} xs)
    \<and> hds_decision_id st = hd_decision_id (hdr_decision q) \<and> hds_gate_id st = hd_gate_id (hdr_decision q)
    \<and> hds_scope st = hd_scope (hdr_decision q) \<and> hds_decision_kind st = hd_decision_kind (hdr_decision q)
    \<and> hds_applicable_transition st = hd_applicable_transition (hdr_decision q)"
proof -
  obtain e q where "(e, q) \<in> set (selected as_human_decision_recorded {Human_decision_recorded} xs)"
    "st = decision_state_of q (ev_event_id e)"
    using assms(2) decisions.log_is_events [OF assms(1)] by (auto simp only: in_log)
  then show ?thesis by (intro exI [of _ e] exI [of _ q]) (simp add: decision_state_of_def Let_def)
qed

section \<open>Human decisions\<close>

lemma decision_checks:
  assumes "step_human_decision s e p = Inr s'"
  shows "map_option gst_decision_sha256 (dget (rd_gates s) (hd_gate_id (hdr_decision p)))
         = Some (hd_prior_verdict_sha256 (hdr_decision p))
    \<and> (\<exists>st \<in> set (rd_human_authorities s). hau_authority_sha256 st = hdr_authority_sha256 p
         \<and> within_authority (hau_authority st) (hdr_decision p) (ev_occurred_at e))
    \<and> (hd_decision_kind (hdr_decision p) = Dk_correction \<longrightarrow>
         correction_check (rd_human_decisions s) (hdr_decision p))"
  using assms by (auto simp: step_human_decision_def Let_def guard_simps dest!: find_SomeD)

lemma correction_checkD:
  assumes "correction_check hist d"
  shows "\<exists>x \<in> set hist. hd_supersedes_decision_id d = Some (hds_decision_id x)
    \<and> hds_gate_id x = hd_gate_id d \<and> hds_scope x = hd_scope d"
  using assms unfolding correction_check_def Let_def
  by (metis (mono_tags, lifting) find_SomeD find_rev_SomeD not_Some_eq)

text \<open>
  C5.  Every human decision stays within an authenticated authority.  A decision in an accepted
  history answers the exact verdict of a gate evaluated before it; an authority envelope accepted
  before it, the one whose digest it carries, names its actor and role, allows its kind, gate and
  scope, and had not expired; and a correction names an earlier decision of the same gate and scope.
\<close>

theorem human_decision_is_within_its_authority:
  assumes "reduce_events E w (xs @ e # ys) now h = Inr rt"
    and "ev_event_type e = Human_decision_recorded"
    and "as_human_decision_recorded (ev_payload e) = Some p"
  shows "(\<exists>g q. (g, q) \<in> set (selected as_gate_evaluated {Gate_evaluated} xs)
         \<and> gd_gate_id (gev_decision q) = hd_gate_id (hdr_decision p)
         \<and> gev_decision_sha256 q = hd_prior_verdict_sha256 (hdr_decision p))
    \<and> (\<exists>a q. (a, q) \<in> set (selected as_human_authority {Human_authority_accepted} xs)
         \<and> haa_authority_sha256 q = hdr_authority_sha256 p
         \<and> within_authority (haa_authority q) (hdr_decision p) (ev_occurred_at e))
    \<and> (hd_decision_kind (hdr_decision p) = Dk_correction \<longrightarrow>
         (\<exists>d q. (d, q) \<in> set (selected as_human_decision_recorded {Human_decision_recorded} xs)
          \<and> hd_supersedes_decision_id (hdr_decision p) = Some (hd_decision_id (hdr_decision q))
          \<and> hd_gate_id (hdr_decision q) = hd_gate_id (hdr_decision p)
          \<and> hd_scope (hdr_decision q) = hd_scope (hdr_decision p)))"
proof -
  obtain u v where u: "reduce_loop E w (ev_run_id (hd (xs @ e # ys))) initial_state xs = Inr u"
    and d: "dispatch E w u e = Inr v"
    using event_in_history [OF assms(1) refl] by blast
  have st: "step_human_decision u e p = Inr v" using d assms(2,3) by (simp add: dispatch_def guard_simps)
  note c = decision_checks [OF st]
  obtain gs where g: "dget (rd_gates u) (hd_gate_id (hdr_decision p)) = Some gs"
    "gst_decision_sha256 gs = hd_prior_verdict_sha256 (hdr_decision p)" using c by auto
  obtain as where a: "as \<in> set (rd_human_authorities u)" "hau_authority_sha256 as = hdr_authority_sha256 p"
    "within_authority (hau_authority as) (hdr_decision p) (ev_occurred_at e)" using c by blast
  have corr: "\<exists>d q. (d, q) \<in> set (selected as_human_decision_recorded {Human_decision_recorded} xs)
          \<and> hd_supersedes_decision_id (hdr_decision p) = Some (hd_decision_id (hdr_decision q))
          \<and> hd_gate_id (hdr_decision q) = hd_gate_id (hdr_decision p)
          \<and> hd_scope (hdr_decision q) = hd_scope (hdr_decision p)"
    if "hd_decision_kind (hdr_decision p) = Dk_correction"
  proof -
    have "correction_check (rd_human_decisions u) (hdr_decision p)" using c that by blast
    from correction_checkD [OF this] show ?thesis using decision_of_log [OF u] by metis
  qed
  have "\<exists>g q. (g, q) \<in> set (selected as_gate_evaluated {Gate_evaluated} xs)
         \<and> gd_gate_id (gev_decision q) = hd_gate_id (hdr_decision p)
         \<and> gev_decision_sha256 q = hd_prior_verdict_sha256 (hdr_decision p)"
    using gate_of_log [OF u dget_in_set [OF g(1)]] g(2) by metis
  moreover have "\<exists>a q. (a, q) \<in> set (selected as_human_authority {Human_authority_accepted} xs)
         \<and> haa_authority_sha256 q = hdr_authority_sha256 p
         \<and> within_authority (haa_authority q) (hdr_decision p) (ev_occurred_at e)"
    using authority_of_log [OF u a(1)] a(2,3) by metis
  ultimately show ?thesis using corr by blast
qed

lemma sample_split: "n < 30 \<Longrightarrow>
    sample_history = take n sample_history @ sample_history ! n # drop (Suc n) sample_history"
  by (rule id_take_nth_drop) (simp add: sample_eval sample_history_def)

theorem human_decision_is_within_its_authority_witness:
  "\<exists>rt a q. reduce_events sample_env PHASE4_WORKFLOW_ID sample_history None Healthy = Inr rt
     \<and> (a, q) \<in> set (selected as_human_authority {Human_authority_accepted} (take 26 sample_history))
     \<and> within_authority (haa_authority q) sample_decision ''2026-06-01T00:00:00Z''"
proof (rule sample_accepted)
  fix rt assume rt: "reduce_events sample_env PHASE4_WORKFLOW_ID sample_history None Healthy = Inr rt"
  then have "reduce_events sample_env PHASE4_WORKFLOW_ID
      (take 26 sample_history @ sample_history ! 26 # drop (Suc 26) sample_history) None Healthy = Inr rt"
    by (subst sample_split [symmetric]) simp_all
  moreover obtain p where "ev_event_type (sample_history ! 26) = Human_decision_recorded"
    "as_human_decision_recorded (ev_payload (sample_history ! 26)) = Some p"
    "hdr_decision p = sample_decision" "ev_occurred_at (sample_history ! 26) = ''2026-06-01T00:00:00Z''"
    by (simp add: sample_eval sample_history_def)
  ultimately show ?thesis using human_decision_is_within_its_authority rt by metis
qed

section \<open>Review reports\<close>

lemma receipt_of_log:
  assumes "reduce_loop E w r initial_state xs = Inr u" and "receipt_of_sha u h = Some x"
  shows "\<exists>e q. (e, q) \<in> set (selected as_host_identity {Host_identity_accepted} xs)
    \<and> hia_receipt_sha256 q = h \<and> hia_receipt q = x"
proof -
  have "(h, x) \<in> set (map (\<lambda>y. (his_receipt_sha256 y, his_receipt y)) (rd_host_identities u))"
    using assms(2) unfolding receipt_of_sha_def by (metis map_of_SomeD set_rev)
  then obtain y where y: "y \<in> set (rd_host_identities u)" "h = his_receipt_sha256 y" "x = his_receipt y"
    by auto
  obtain e q where "(e, q) \<in> set (selected as_host_identity {Host_identity_accepted} xs)"
    "y = identity_entry e q"
    using y(1) identities.log_is_events [OF assms(1)] by (auto simp only: in_log)
  then show ?thesis using y(2,3) by (intro exI [of _ e] exI [of _ q]) (simp add: identity_entry_def)
qed

lemma check_seats_all:
  "check_seats s xs = Inr () \<Longrightarrow> x \<in> set xs \<Longrightarrow>
     \<exists>r. receipt_of_sha s (seat_identity_receipt_sha256 x) = Some r
       \<and> receipt_identity r = (seat_role_id x, seat_worker_identity_id x, seat_host_agent_id x)"
  by (induction xs) (auto simp: guard_simps)

lemma selected_split:
  assumes "(k, q) \<in> set (selected f T xs)"
  obtains xs1 xs2 where "xs = xs1 @ k # xs2" "ev_event_type k \<in> T" "f (ev_payload k) = Some q"
  using assms that by (auto simp: in_selected_iff dest!: split_list)

lemma selected_mono: "y \<in> set (selected f T xs) \<Longrightarrow> y \<in> set (selected f T (xs @ ys))"
  by (simp add: selected_append)

text \<open>
  Each seat of an accepted panel carries a host identity accepted before the panel.
\<close>

lemma prepared_seat_has_receipt:
  assumes "reduce_events E w (xs @ ys) now h = Inr rt"
    and "(k, q) \<in> set (selected as_panel_prepared {Panel_prepared} xs)"
    and "x \<in> set (panel_seats (ppd_manifest q))"
  shows "\<exists>i r. (i, r) \<in> set (selected as_host_identity {Host_identity_accepted} xs)
    \<and> hia_receipt_sha256 r = seat_identity_receipt_sha256 x
    \<and> receipt_identity (hia_receipt r) = (seat_role_id x, seat_worker_identity_id x, seat_host_agent_id x)"
  using assms(2)
proof (rule selected_split)
  fix xs1 xs2 assume xs: "xs = xs1 @ k # xs2" and k: "ev_event_type k \<in> {Panel_prepared}"
    "as_panel_prepared (ev_payload k) = Some q"
  have "reduce_events E w (xs1 @ k # (xs2 @ ys)) now h = Inr rt" using assms(1) by (simp add: xs)
  then obtain u v where u: "reduce_loop E w (ev_run_id (hd (xs1 @ k # (xs2 @ ys)))) initial_state xs1 = Inr u"
    and d: "dispatch E w u k = Inr v"
    using event_in_history [OF _ refl] by blast
  have "step_panel_prepared u k q = Inr v" using d k by (simp add: dispatch_def guard_simps)
  then have "check_seats u (panel_seats (ppd_manifest q)) = Inr ()"
    by (auto simp: step_panel_prepared_def Let_def guard_simps)
  from check_seats_all [OF this assms(3)] obtain r where
    "receipt_of_sha u (seat_identity_receipt_sha256 x) = Some r"
    "receipt_identity r = (seat_role_id x, seat_worker_identity_id x, seat_host_agent_id x)" by blast
  with receipt_of_log [OF u] selected_mono [of _ as_host_identity "{Host_identity_accepted}" xs1 "k # xs2"]
  show ?thesis unfolding xs by metis
qed

lemma report_checks:
  assumes "step_review_report E s p = Inr s'"
  shows "\<exists>m x. m \<in> set (rd_panel_manifests s)
    \<and> panel_manifest_sha256 E m = rr_panel_manifest_sha256 (rra_report p) \<and> pm_status m = Panel_ready
    \<and> x \<in> set (pm_reviewer_seats m) \<and> seat_assignment_id x = rr_assignment_id (rra_report p)
    \<and> report_binds_seat (rra_report p) x"
  using assms
  by (auto simp: step_review_report_def ready_panel_def panel_of_sha_def Let_def guard_simps dest!: find_SomeD)

text \<open>
  C17.  A review report is bound to an attested seat.  Each report in an accepted history was written
  for a ready panel prepared before it, occupies one of that panel's reviewer seats with the same
  assignment, attempt, role, worker and host, and that seat carries a host identity receipt accepted
  before, which attests exactly this role, worker and host.
\<close>

theorem review_report_is_bound_to_an_attested_seat:
  assumes "reduce_events E w (xs @ e # ys) now h = Inr rt"
    and "ev_event_type e = Review_report_accepted" and "as_review_report (ev_payload e) = Some p"
  shows "\<exists>k q x i r. (k, q) \<in> set (selected as_panel_prepared {Panel_prepared} xs)
    \<and> panel_manifest_sha256 E (ppd_manifest q) = rr_panel_manifest_sha256 (rra_report p)
    \<and> pm_status (ppd_manifest q) = Panel_ready
    \<and> x \<in> set (pm_reviewer_seats (ppd_manifest q))
    \<and> seat_assignment_id x = rr_assignment_id (rra_report p) \<and> report_binds_seat (rra_report p) x
    \<and> (i, r) \<in> set (selected as_host_identity {Host_identity_accepted} xs)
    \<and> hia_receipt_sha256 r = rr_identity_receipt_sha256 (rra_report p)
    \<and> receipt_identity (hia_receipt r)
        = (rr_role_id (rra_report p), rr_worker_identity_id (rra_report p), rr_host_agent_id (rra_report p))"
proof -
  obtain u v where u: "reduce_loop E w (ev_run_id (hd (xs @ e # ys))) initial_state xs = Inr u"
    and d: "dispatch E w u e = Inr v"
    using event_in_history [OF assms(1) refl] by blast
  have "step_review_report E u p = Inr v" using d assms(2,3) by (simp add: dispatch_def guard_simps)
  from report_checks [OF this] obtain m x where m: "m \<in> set (rd_panel_manifests u)"
    "panel_manifest_sha256 E m = rr_panel_manifest_sha256 (rra_report p)" "pm_status m = Panel_ready"
    and x: "x \<in> set (pm_reviewer_seats m)" "seat_assignment_id x = rr_assignment_id (rra_report p)"
    "report_binds_seat (rra_report p) x" by blast
  obtain k q where q: "(k, q) \<in> set (selected as_panel_prepared {Panel_prepared} xs)" "m = ppd_manifest q"
    using m(1) panels.log_is_events [OF u] by (auto simp only: in_log)
  have "x \<in> set (panel_seats (ppd_manifest q))" using x(1) q(2) by (simp add: panel_seats_def)
  from prepared_seat_has_receipt [OF assms(1) q(1) this] show ?thesis
    using q m x by (simp only: report_binds_seat_def) metis
qed

lemma sample_at_split:
  assumes "reduce_events sample_env PHASE4_WORKFLOW_ID sample_history None Healthy = Inr rt" and "n < 30"
  shows "reduce_events sample_env PHASE4_WORKFLOW_ID
    (take n sample_history @ sample_history ! n # drop (Suc n) sample_history) None Healthy = Inr rt"
  using assms(1) by (subst sample_split [OF assms(2), symmetric])

theorem review_report_is_bound_to_an_attested_seat_witness:
  "\<exists>rt k q. reduce_events sample_env PHASE4_WORKFLOW_ID sample_history None Healthy = Inr rt
     \<and> (k, q) \<in> set (selected as_panel_prepared {Panel_prepared} (take 18 sample_history))
     \<and> pm_status (ppd_manifest q) = Panel_ready"
proof (rule sample_accepted)
  fix rt assume rt: "reduce_events sample_env PHASE4_WORKFLOW_ID sample_history None Healthy = Inr rt"
  have t: "ev_event_type (sample_history ! 18) = Review_report_accepted"
    "\<exists>p. as_review_report (ev_payload (sample_history ! 18)) = Some p"
    by (simp_all add: sample_eval sample_history_def)
  with review_report_is_bound_to_an_attested_seat [OF sample_at_split [OF rt] t(1)] rt
  show ?thesis by fastforce
qed

section \<open>Passports and resumptions\<close>

definition passports_in :: "canonical_event list \<Rightarrow> passport_accepted list" where
  "passports_in es = map snd (selected as_passport_accepted {Passport_accepted} es)"

definition last_passport :: "canonical_event list \<Rightarrow> passport_accepted option" where
  "last_passport es = (if passports_in es = [] then None else Some (last (passports_in es)))"

definition passport_ok :: "run_state \<Rightarrow> bool" where
  "passport_ok s =
     (rd_current_passport s = map_option pp_passport_sha256 (last_passport (rd_prior s))
    \<and> rd_current_passport_stage s = map_option pp_stage (last_passport (rd_prior s)))"

lemma last_passport_snoc:
  "last_passport (es @ [e]) =
     (if ev_event_type e = Passport_accepted
      then (case as_passport_accepted (ev_payload e) of None \<Rightarrow> last_passport es | Some p \<Rightarrow> Some p)
      else last_passport es)"
  by (simp add: last_passport_def passports_in_def selected_append picked_def split: option.split)

lemma step_passport_ok:
  assumes "passport_ok s" and "reduce_step E w r s e = Inr s'"
  shows "passport_ok s'"
  using assms(2)
proof (rule reduce_stepE)
  fix t assume d: "dispatch E w s e = Inr t"
    and s': "s' = t\<lparr> rd_canonical_event_sha256 := rd_canonical_event_sha256 s @ [ev_event_sha256 e],
            rd_revision := ev_resulting_revision e, rd_head := ev_event_sha256 e,
            rd_accepted_event_ids := insert (ev_event_id e) (rd_accepted_event_ids s),
            rd_prior := rd_prior s @ [e] \<rparr>"
  show ?thesis
  proof (cases "ev_event_type e = Passport_accepted")
    case True
    with d obtain p where "as_passport_accepted (ev_payload e) = Some p" "step_passport E w s p = Inr t"
      by (auto simp: dispatch_def guard_simps)
    then show ?thesis by (auto simp: passport_ok_def s' last_passport_snoc True step_passport_def guard_simps)
  next
    case False
    with passports_others [OF d] assms(1) show ?thesis by (simp add: passport_ok_def s' last_passport_snoc)
  qed
qed

lemma passport_ok_init: "passport_ok initial_state"
  by (simp add: passport_ok_def initial_state_def last_passport_def passports_in_def)

lemma loop_passport_ok: "reduce_loop E w r initial_state es = Inr s \<Longrightarrow> passport_ok s"
  by (erule reduce_loop_invariant [where I = passport_ok]) (auto intro: passport_ok_init step_passport_ok)

text \<open>
  C16.  Passports form one chain.  A passport in an accepted history names the previous passport as
  its parent and as the one it supersedes, seals the stage and the revision reached by the events
  before it, and a checkpoint other than an explicit one directly follows the event it is for.  A
  resumption uses the latest passport, in the stage that passport sealed, and each passport once.
\<close>

theorem passports_form_one_chain:
  assumes "reduce_events E w (xs @ e # ys) now h = Inr rt"
  shows "(\<forall>p. ev_event_type e = Passport_accepted \<longrightarrow> as_passport_accepted (ev_payload e) = Some p \<longrightarrow>
        pp_parent_passport_sha256 p = map_option pp_passport_sha256 (last_passport xs)
      \<and> pp_supersedes_passport_sha256 p = pp_parent_passport_sha256 p
      \<and> pp_passport_sha256 p \<notin> pp_passport_sha256 ` set (passports_in xs)
      \<and> pp_stage p = stage_after xs \<and> pp_based_on_revision p = int (length xs)
      \<and> (pp_checkpoint_kind p = Ck_stage_handoff \<longrightarrow> xs \<noteq> [] \<and> is_transition (last xs))
      \<and> (pp_checkpoint_kind p = Ck_human_decision \<longrightarrow>
           xs \<noteq> [] \<and> ev_event_type (last xs) = Human_decision_resolved)
      \<and> (pp_checkpoint_kind p = Ck_recovery \<longrightarrow>
           xs \<noteq> [] \<and> ev_event_type (last xs) = Recovery_completed))
    \<and> (\<forall>p. ev_event_type e = Resume_accepted \<longrightarrow> as_resume_accepted (ev_payload e) = Some p \<longrightarrow>
        map_option pp_passport_sha256 (last_passport xs) = Some (rp_passport_sha256 p)
      \<and> map_option pp_stage (last_passport xs) = Some (stage_after xs)
      \<and> (\<forall>k q. (k, q) \<in> set (selected as_resume_accepted {Resume_accepted} xs) \<longrightarrow>
           rp_passport_sha256 q \<noteq> rp_passport_sha256 p))"
proof -
  obtain u v where u: "reduce_loop E w (ev_run_id (hd (xs @ e # ys))) initial_state xs = Inr u"
    "rd_prior u = xs" and d: "dispatch E w u e = Inr v"
    using event_in_history [OF assms refl] by blast
  have state: "rd_current_passport u = map_option pp_passport_sha256 (last_passport xs)"
    "rd_current_passport_stage u = map_option pp_stage (last_passport xs)" "rd_stage u = stage_after xs"
    "rd_revision u = int (length xs)"
    using loop_passport_ok [OF u(1)] loop_stage_ok [OF u(1)] loop_ledger_ok [OF u(1)] u(2)
    by (simp_all add: passport_ok_def stage_ok_def ledger_ok_def Let_def)
  have log: "rd_passports u = map pp_passport_sha256 (passports_in xs)"
    using passports.log_is_events [OF u(1)] by (simp add: passports_in_def comp_def case_prod_unfold)
  have used: "rp_passport_sha256 q \<in> set (rd_consumed_passports u)"
    if "(k, q) \<in> set (selected as_resume_accepted {Resume_accepted} xs)" for k q
    using resumes.log_is_events [OF u(1)] that by (auto simp only: in_log)
  have prev: "previous_event u = (if xs = [] then None else Some (last xs))"
    by (simp add: previous_event_def u(2))
  have pass: "step_passport E w u p = Inr v"
    if "ev_event_type e = Passport_accepted" "as_passport_accepted (ev_payload e) = Some p" for p
    using d that by (simp add: dispatch_def guard_simps)
  have res: "step_resume u e p = Inr v"
    if "ev_event_type e = Resume_accepted" "as_resume_accepted (ev_payload e) = Some p" for p
    using d that by (simp add: dispatch_def guard_simps)
  note coherent = checkpoint_coherent_def previous_transition_def prev is_transition_def
  show ?thesis
    using pass res
    by (auto simp: step_passport_def step_resume_def guard_simps state log coherent dest!: used
        split: checkpoint_kind.splits option.splits if_splits)
qed

theorem passports_form_one_chain_witness:
  "\<exists>rt. reduce_events sample_env PHASE4_WORKFLOW_ID sample_history None Healthy = Inr rt
     \<and> map_option pp_passport_sha256 (last_passport (take 29 sample_history)) = Some ''passport''
     \<and> map_option pp_stage (last_passport (take 29 sample_history)) = Some ''completed''"
proof (rule sample_accepted)
  fix rt assume rt: "reduce_events sample_env PHASE4_WORKFLOW_ID sample_history None Healthy = Inr rt"
  have "ev_event_type (sample_history ! 29) = Resume_accepted"
    "as_resume_accepted (ev_payload (sample_history ! 29)) = Some \<lparr> rp_passport_sha256 = ''passport'' \<rparr>"
    "stage_after (take 29 sample_history) = ''completed''"
    by (simp_all add: sample_eval sample_history_def stage_after_def is_transition_def)
  with passports_form_one_chain [OF sample_at_split [OF rt, of 29]] rt show ?thesis by simp
qed

section \<open>Claim anchors\<close>

lemma anchor_checks:
  assumes "validate_claim_anchor_authority prior states e p = Inr ()"
  shows "\<exists>st source prefix. st \<in> set states \<and> source \<in> set prior \<and> prefix \<in> set (sm_runs (att2_snapshot_manifest (cla_attestation p)))
    \<and> hau_source_event_id st = ev_event_id source
    \<and> ev_event_id source = au_authority_event_id (att2_authority (cla_attestation p))
    \<and> ev_event_sha256 source = au_authority_event_sha256 (att2_authority (cla_attestation p))
    \<and> ev_event_type source = Human_authority_accepted
    \<and> rpx_run_id prefix = ev_run_id e \<and> ev_resulting_revision source \<le> rpx_revision prefix
    \<and> validate_claim_authority_envelope st (cla_attestation p) (ev_occurred_at e) = Inr ()"
  using assms unfolding validate_claim_anchor_authority_def Let_def guard_simps
  by (elim exE conjE) (fastforce dest!: find_SomeD)

lemma envelope_checks:
  assumes "validate_claim_authority_envelope st att t = Inr ()"
  shows "hau_authority_sha256 st = au_human_authority_sha256 (att2_authority att)
    \<and> ha_authenticated_actor_id (hau_authority st) = au_accountable_actor_id (att2_authority att)
    \<and> ha_accountable_role (hau_authority st) = au_accountable_role (att2_authority att)
    \<and> ''claim_attest'' \<in> set (ha_allowed_decision_kinds (hau_authority st))
    \<and> au_gate_id (att2_authority att) \<in> set (ha_allowed_gate_ids (hau_authority st))
    \<and> att2_scope att = au_scope (att2_authority att)
    \<and> att2_scope att \<in> set (ha_allowed_scopes (hau_authority st))
    \<and> (\<exists>a lo hi. parse_utc_or_raise t = Inr a \<and> parse_utc_or_raise (ha_authenticated_at (hau_authority st)) = Inr lo
         \<and> parse_utc_or_raise (ha_expires_at (hau_authority st)) = Inr hi \<and> lo \<le> a \<and> a \<le> hi)"
  using assms unfolding validate_claim_authority_envelope_def Let_def guard_simps
  by (elim exE conjE) (auto simp: not_less)


text \<open>A run in which a claim is anchored.\<close>

definition claim_authority :: human_authority where
  "claim_authority = sample_authority\<lparr>ha_allowed_decision_kinds := [''claim_attest'']\<rparr>"

definition sample_claim :: claim_attestation_anchored where
  "sample_claim =
     \<lparr> cla_project_id = ''project'', cla_project_root_relative = ''.'', cla_journal_sequence = 1,
       cla_journal_event_sha256 = ''journal'', cla_run_locations = [],
       cla_attestation =
         \<lparr> att2_claim_id = ''claim'', att2_claim_revision = 1, att2_claim_sha256 = ''claim.sha'',
           att2_evidence_dependency_sha256 = ''dependency'', att2_statement = ''it holds'',
           att2_scope = ''manuscript'', att2_policy_version = ''1'', att2_graph_snapshot_sha256 = ''graph'',
           att2_snapshot_manifest = \<lparr> sm_project_id = ''project'', sm_journal_sequence = 1,
             sm_journal_head_sha256 = ''head'',
             sm_runs = [\<lparr> rpx_run_id = ''run'', rpx_run_manifest_sha256 = ''manifest'', rpx_revision = 2,
                          rpx_head_sha256 = ''sha.'' @ int_str 1 \<rparr>] \<rparr>,
           att2_authority = \<lparr> au_authority_run_id = ''run'', au_authority_event_id = ''event.'' @ int_str 1,
             au_authority_event_sha256 = ''sha.'' @ int_str 1, au_human_authority_sha256 = ''authority.sha'',
             au_accountable_actor_id = ''editor'', au_accountable_role = Acc_review_authority,
             au_gate_id = ''final-gate'', au_scope = ''manuscript'' \<rparr> \<rparr> \<rparr>"

definition claim_history :: "canonical_event list" where
  "claim_history = numbered
     [(Run_initialized, P_run_initialized \<lparr> ri_manifest_sha256 = ''manifest'' \<rparr>),
      (Human_authority_accepted, P_human_authority (phase4_payload.extend source
         \<lparr> haa_authority = claim_authority, haa_authority_sha256 = ''authority.sha'' \<rparr>)),
      (Claim_attestation_anchored, P_claim_anchored sample_claim)]"

lemma sample_claim_fields:
  "sm_runs (att2_snapshot_manifest (cla_attestation sample_claim)) =
     [\<lparr> rpx_run_id = ''run'', rpx_run_manifest_sha256 = ''manifest'', rpx_revision = 2,
        rpx_head_sha256 = ''sha.'' @ int_str 1 \<rparr>]"
  "au_authority_run_id (att2_authority (cla_attestation sample_claim)) = ''run''"
  "au_authority_event_id (att2_authority (cla_attestation sample_claim)) = ''event.'' @ int_str 1"
  "au_authority_event_sha256 (att2_authority (cla_attestation sample_claim)) = ''sha.'' @ int_str 1"
  "au_human_authority_sha256 (att2_authority (cla_attestation sample_claim)) = ''authority.sha''"
  by (simp_all add: sample_claim_def)

lemma claim_envelope:
  "validate_claim_authority_envelope
     \<lparr> hau_authority_id = i, hau_authority_sha256 = ''authority.sha'', hau_authority = claim_authority,
       hau_source_event_id = k \<rparr> (cla_attestation sample_claim) ''2026-06-01T00:00:00Z'' = Inr ()"
  by (simp add: validate_claim_authority_envelope_def sample_claim_def claim_authority_def
      sample_authority_def Let_def) code_simp

lemma claim_history_accepted:
  "\<exists>rt. reduce_events sample_env PHASE4_WORKFLOW_ID claim_history None Healthy = Inr rt"
proof (rule accepted_from_parts)
  show "claim_history \<noteq> []" "ev_event_type (hd claim_history) = Run_initialized"
    "ev_run_id (hd claim_history) = ''run''"
    by (simp_all add: claim_history_def sample_eval)
  show "case prov_run ''run'' prov_init claim_history of Inl _ \<Rightarrow> False | Inr s \<Rightarrow> pv_context s = None"
    by (simp add: claim_history_def sample_eval prov_run_def prov_step_def prov_stage_step_def
        prov_branch_def prov_init_def)
  show "is_ok (reduce_loop sample_env PHASE4_WORKFLOW_ID ''run'' initial_state claim_history)"
    by (simp add: claim_history_def sample_eval step_claim_anchored_def
        validate_claim_anchor_authority_def claim_envelope sample_claim_fields)
qed


end
