(* ===== verification/Witnesses.thy ===== *)
theory Witnesses
  imports Samples
begin

text \<open>
  The properties of whole histories at the sample run: each is applied to it, so its hypotheses can
  hold and its conclusion says something there.
\<close>

lemma sample_length: "length sample_history = 30"
  by (simp add: sample_eval sample_history_def)

lemma sample_final: "stage_after sample_history = ''completed''"
  by (simp add: sample_eval sample_history_def stage_after_def is_transition_def)

theorem reduced_state_is_the_ledger_position_witness:
  "\<exists>rt. reduce_events sample_env PHASE4_WORKFLOW_ID sample_history None Healthy = Inr rt
     \<and> rd_revision (rt_locals rt) = 30 \<and> rd_head (rt_locals rt) = ''sha.'' @ int_str 29"
proof (rule sample_accepted)
  fix rt assume rt: "reduce_events sample_env PHASE4_WORKFLOW_ID sample_history None Healthy = Inr rt"
  have "ev_event_sha256 (last sample_history) = ''sha.'' @ int_str 29"
    by (simp add: sample_eval sample_history_def sample_event_def)
  with reduced_state_is_the_ledger_position [OF rt] rt show ?thesis by (simp add: sample_length)
qed

theorem reduced_stage_follows_the_workflow_witness:
  "\<exists>rt. reduce_events sample_env PHASE4_WORKFLOW_ID sample_history None Healthy = Inr rt
     \<and> rd_stage (rt_locals rt) = ''completed''
     \<and> reachable_stage (PHASE4_WORKFLOW (sha256_hex sample_env)) ''completed''
     \<and> (\<forall>e \<in> set (drop 28 sample_history). \<not> is_transition e)"
proof (rule sample_accepted)
  fix rt assume rt: "reduce_events sample_env PHASE4_WORKFLOW_ID sample_history None Healthy = Inr rt"
  have "sample_history = take 28 sample_history @ drop 28 sample_history" by simp
  moreover have "stage_after (take 28 sample_history) \<in> {''completed'', ''aborted''}"
    by (simp add: sample_eval sample_history_def stage_after_def is_transition_def)
  ultimately have "\<forall>e \<in> set (drop 28 sample_history). \<not> is_transition e"
    using reduced_stage_follows_the_workflow [OF rt] by blast
  with reduced_stage_follows_the_workflow [OF rt] rt show ?thesis
    by (auto simp: sample_final sample_workflow)
qed

theorem prefix_of_accepted_history_is_accepted_witness:
  "\<exists>rt. reduce_events sample_env PHASE4_WORKFLOW_ID (take 7 sample_history) None Recoverable_tail = Inr rt"
proof (rule sample_accepted)
  fix rt assume "reduce_events sample_env PHASE4_WORKFLOW_ID sample_history None Healthy = Inr rt"
  then have "reduce_events sample_env PHASE4_WORKFLOW_ID (take 7 sample_history @ drop 7 sample_history)
      None Healthy = Inr rt" by simp
  moreover have "take 7 sample_history \<noteq> []" by (simp add: sample_eval sample_history_def)
  ultimately show ?thesis using prefix_of_accepted_history_is_accepted by blast
qed


theorem execution_mode_is_frozen_witness:
  "\<exists>rt. reduce_events sample_env PHASE4_WORKFLOW_ID sample_history None Healthy = Inr rt
     \<and> mode_events (take 3 sample_history) = [sample_mode]
     \<and> asg_execution_mode (sample_assignment ''work'' 0) = ms_execution_mode sample_mode"
proof (rule sample_accepted)
  fix rt assume rt: "reduce_events sample_env PHASE4_WORKFLOW_ID sample_history None Healthy = Inr rt"
  have m: "mode_events (take 3 sample_history) = [sample_mode]"
    by (simp add: sample_eval sample_history_def mode_events_def picked_def)
  obtain a where a: "ev_event_type (sample_history ! 3) = Assignment_prepared"
    "as_assignment_prepared (ev_payload (sample_history ! 3)) = Some a"
    "ap_assignment a = sample_assignment ''work'' 0"
    by (simp add: sample_eval sample_history_def)
  have "sample_history = take 3 sample_history @ sample_history ! 3 # drop 4 sample_history"
    by (simp add: sample_eval sample_history_def)
  with execution_mode_is_frozen [OF rt] a m
  have "asg_execution_mode (ap_assignment a) = ms_execution_mode sample_mode"
    by (metis (no_types, lifting) insertCI list.set_intros(1))
  with m a rt show ?thesis by metis
qed

section \<open>Research artifacts\<close>

definition staged :: "event_type \<Rightarrow> event_type \<times> payload" where
  "staged t = (t, P_artifact_stage
     \<lparr> rst_artifact_id = ''figure'', rst_ir_sha256 = ''ir'', rst_renderer_identity_digest = ''renderer'',
       rst_receipt_sha256 = ''receipt'', rst_source_event_sha256 = [''sha.'' @ int_str 0] \<rparr>)"

definition sample_accepted_artifact :: artifact_accepted where
  "sample_accepted_artifact =
     \<lparr> aa_artifact_id = ''dataset'', aa_manifest_sha256 = ''manifest.d'', aa_artifact_sha256 = ''data'',
       aa_attempt_id = None, aa_narrative_report_sha256 = None \<rparr>"

definition sample_research_artifact :: research_artifact_accepted where
  "sample_research_artifact =
     \<lparr> aa_artifact_id = ''figure'', aa_manifest_sha256 = ''manifest.f'', aa_artifact_sha256 = ''receipt'',
       aa_attempt_id = None, aa_narrative_report_sha256 = None, ra_ir_sha256 = ''ir'',
       ra_renderer_identity_digest = ''renderer'', ra_source_event_sha256 = [''sha.'' @ int_str 0],
       ra_supersedes = None \<rparr>"

definition artifact_history :: "canonical_event list" where
  "artifact_history = numbered
     [(Artifact_accepted, P_artifact_accepted sample_accepted_artifact), staged Artifact_ir_frozen,
      staged Artifact_rendered, staged Artifact_validated,
      (Research_artifact_accepted, P_research_artifact_accepted sample_research_artifact)]"

lemma all_less_5: "(\<forall>i < (5::nat). P i) \<longleftrightarrow> P 0 \<and> P 1 \<and> P 2 \<and> P 3 \<and> P 4"
  by (auto simp: less_Suc_eq numeral_eq_Suc)

lemma artifact_history_accepted: "accepted_history validate_artifact_event_progress artifact_history"
proof -
  have "length artifact_history = 5" by (simp add: artifact_history_def numbered_def)
  then show ?thesis
    by (simp add: accepted_history_def all_less_5)
      (simp add: artifact_history_def sample_accepted_artifact_def sample_research_artifact_def staged_def
        numbered_def upt_rec sample_event_fields int_str_eq validate_artifact_event_progress_def
        event_families artifact_stages_def stage_progress_def artifact_events_def accepted_artifact_def
        artifact_id_of_def frozen_identity_of_def receipt_sha256_of_def artifact_sha256_of_def
        supersedes_of_def Let_def)
qed

theorem accepted_artifact_passed_every_stage_witness:
  "\<exists>e1 e2 e3. artifact_events (take 4 artifact_history) ''figure'' = [e1, e2, e3]
     \<and> map ev_event_type [e1, e2, e3] = [Artifact_ir_frozen, Artifact_rendered, Artifact_validated]"
proof -
  have i: "4 < length artifact_history" by (simp add: artifact_history_def numbered_def)
  have e: "ev_event_type (artifact_history ! 4) = Research_artifact_accepted"
    "ev_payload (artifact_history ! 4) = P_research_artifact_accepted sample_research_artifact"
    by (simp_all add: artifact_history_def numbered_def upt_rec sample_event_fields)
  have "aa_artifact_id sample_research_artifact = ''figure''" by (simp add: sample_research_artifact_def)
  with accepted_artifact_passed_every_stage [OF artifact_history_accepted i e] show ?thesis by metis
qed

section \<open>Research heuristics\<close>

definition sample_learning :: "learning_status \<Rightarrow> sha256 \<Rightarrow> sha256 option \<Rightarrow> research_learning" where
  "sample_learning st digest prev =
     \<lparr> ln_record_id = ''lesson'', ln_project_id = ''project'', ln_content_digest = digest,
       ln_scope = (if st = Ln_promoted then Scope_project else Scope_run),
       ln_previous_event_sha256 = prev, ln_source_event_ids = [''event.'' @ int_str 0],
       ln_source_digests = [''data''], ln_status = st,
       ln_evaluation_receipt_id = (if st = Ln_candidate then None else Some ''evaluation''),
       ln_qualification_receipt_id = (if st \<in> {Ln_qualified, Ln_promoted} then Some ''qualification'' else None),
       ln_approval_artifact_id = (if st = Ln_promoted then Some ''dataset'' else None),
       ln_consent = (st = Ln_promoted), ln_from_scope = (if st = Ln_promoted then Some Scope_run else None),
       ln_supporting_projects = [], ln_supporting_runs = [], ln_counterexample_ids = [],
       ln_successor_id = None \<rparr>"

definition learning_sample :: "canonical_event list" where
  "learning_sample = numbered
     [(Artifact_accepted, P_artifact_accepted sample_accepted_artifact),
      (Heuristic_proposed, P_learning (sample_learning Ln_candidate ''proposal'' None)),
      (Heuristic_evaluated, P_learning (sample_learning Ln_evaluated ''evaluation'' (Some (''sha.'' @ int_str 1)))),
      (Heuristic_qualified, P_learning (sample_learning Ln_qualified ''qualification'' (Some (''sha.'' @ int_str 2)))),
      (Heuristic_promoted, P_learning (sample_learning Ln_promoted ''promotion'' (Some (''sha.'' @ int_str 3))))]"

lemma learning_sample_accepted: "accepted_history validate_learning_progress learning_sample"
proof -
  have "length learning_sample = 5" by (simp add: learning_sample_def numbered_def)
  then show ?thesis
    by (simp add: accepted_history_def all_less_5)
      (simp add: learning_sample_def sample_accepted_artifact_def sample_learning_def
        numbered_def upt_rec sample_event_fields int_str_eq validate_learning_progress_def
        event_families learning_events_def learning_history_def learning_status_of_event_def learning_of_def
        learning_lifecycle_def allowed_predecessors_def learning_provenance_def
        artifact_id_of_def artifact_sha256_of_def falsy_def Let_def)
qed

theorem promotion_rests_on_recorded_evidence_witness:
  "\<exists>k q. k < 4 \<and> learning_at learning_sample k q
     \<and> ev_event_type (learning_sample ! k) = Heuristic_qualified \<and> ln_record_id q = ''lesson''"
proof -
  have at: "learning_at learning_sample 4 (sample_learning Ln_promoted ''promotion'' (Some (''sha.'' @ int_str 3)))"
    and t: "ev_event_type (learning_sample ! 4) = Heuristic_promoted"
    by (simp_all add: learning_sample_def numbered_def upt_rec sample_event_fields learning_at_def
        event_families learning_of_def)
  have "ln_record_id (sample_learning Ln_promoted ''promotion'' (Some (''sha.'' @ int_str 3))) = ''lesson''"
    by (simp add: sample_learning_def)
  with promotion_rests_on_recorded_evidence [OF learning_sample_accepted at t] show ?thesis by metis
qed

section \<open>Execution provenance\<close>

text \<open>
  A workflow action with one tool action: the tool reads a run input and its proposal's artifact is
  bound as output.
\<close>

definition traced_assignment :: assignment where
  "traced_assignment = (sample_assignment ''work'' 0)\<lparr>asg_input_sha256 := [''data'']\<rparr>"

definition traced_context :: execution_context_accepted where
  "traced_context =
     \<lparr> ctx_workflow_definition_id = ''orchestration.phase4.v1'', ctx_workflow_definition_sha256 = ''workflow'',
       ctx_workflow_source = \<lparr> ws_entity_id = ''source'', ws_relative_path = ''workflow.py'',
         ws_content_base64 = None, ws_sha256 = None, ws_programming_language = None \<rparr>,
       ctx_steps = [\<lparr> step_step_id = ''step'', step_tool_id = ''tool'', step_position = 0 \<rparr>],
       ctx_tools = [\<lparr> tool_tool_id = ''tool'', tool_name = ''codex'', tool_version = None \<rparr>],
       ctx_runtime = \<lparr> rt_name = None, rt_version = None, rt_build_sha256 = None \<rparr> \<rparr>"

definition traced_start :: "ident \<Rightarrow> action_kind \<Rightarrow> execution_action_started" where
  "traced_start i k =
     \<lparr> act_action_id = i, act_kind = k,
       act_workflow_action_id = (if k = Tool_action then Some ''flow'' else None),
       act_assignment_id = (if k = Tool_action then Some ''work'' else None),
       act_attempt_id = (if k = Tool_action then Some ''try'' else None),
       act_step_id = (if k = Tool_action then Some ''step'' else None),
       act_tool_id = (if k = Tool_action then Some ''tool'' else None),
       act_started_at = ''2026-06-01T00:00:00Z'' \<rparr>"

definition traced_finish :: "ident \<Rightarrow> execution_action_finished" where
  "traced_finish i =
     \<lparr> fin_action_id = i, fin_ended_at = ''2026-06-01T00:00:00Z'', fin_outcome = Succeeded,
       fin_host_agent_id = Some ''host'', fin_host_result_sha256 = Some ''result'',
       fin_observed_runtime_version = Some ''1'', fin_observed_runtime_sha256 = None,
       fin_observed_transport = None, fin_error = None \<rparr>"

definition traced_binding ::
  "ident \<Rightarrow> direction \<Rightarrow> source_kind \<Rightarrow> int \<Rightarrow> sha256 \<Rightarrow> string \<Rightarrow> sha256 \<Rightarrow> execution_artifact_bound"
  where
  "traced_binding i d k n manifest path content =
     \<lparr> bd_entity_id = i, bd_direction = d, bd_action_id = ''tool-run'', bd_assignment_id = ''work'',
       bd_attempt_id = ''try'', bd_source_kind = k, bd_source_event_id = ''event.'' @ int_str n,
       bd_source_event_sha256 = ''sha.'' @ int_str n, bd_source_manifest_sha256 = Some manifest,
       bd_relative_path = path, bd_content_sha256 = content, bd_byte_count = 10 \<rparr>"

definition traced_attempt :: "attempt_status \<Rightarrow> event_type \<times> payload" where
  "traced_attempt st = (Attempt_lifecycle, P_attempt_lifecycle (phase4_payload.extend source
     \<lparr> alc_assignment_id = ''work'', alc_assignment_sha256 = ''work'', alc_attempt_id = ''try'',
       alc_attempt_number = 1, alc_status = st, alc_proposal_nonce = None, alc_retry_reason = None,
       alc_retry_eligible = False, alc_host_agent_id = None, alc_cancellation_deadline_at = None,
       alc_proposal_sha256 = None, alc_reason_code = None \<rparr>))"

definition traced_history :: "canonical_event list" where
  "traced_history = numbered
     [(Run_initialized, P_run_initialized \<lparr> ri_manifest_sha256 = ''manifest'' \<rparr>),
      (Ep_context_accepted, P_context traced_context),
      (Assignment_prepared, P_assignment_prepared (phase4_payload.extend source
         \<lparr> ap_assignment = traced_assignment, ap_assignment_sha256 = ''work'' \<rparr>)),
      (Attempt_prepared, P_attempt_prepared (phase4_payload.extend source
         \<lparr> atp_assignment_id = ''work'', atp_assignment_sha256 = ''work'',
           atp_attempt = sample_attempt ''try'' 1, atp_attempt_sha256 = None \<rparr>)),
      traced_attempt St_active,
      (Ep_action_started, P_action_started (traced_start ''flow'' Workflow_action)),
      (Ep_action_started, P_action_started (traced_start ''tool-run'' Tool_action)),
      (Ep_artifact_bound, P_artifact_bound
         (traced_binding ''input.data'' Dir_input Src_run_input 0 ''manifest'' ''data.csv'' ''data'')),
      (Proposal_accepted, P_proposal_accepted (phase4_payload.extend source
         \<lparr> pac_assignment_id = ''work'', pac_assignment_sha256 = ''work'', pac_attempt_id = ''try'',
           pac_proposal = sample_proposal ''work'' ''try'', pac_proposal_sha256 = ''proposal'',
           pac_narrative_report_sha256 = None, pac_acceptance_key = (0, 0, ''work'') \<rparr>)),
      (Ep_artifact_bound, P_artifact_bound
         (traced_binding ''output'' Dir_output Src_proposal 8 ''proposal'' ''results/out.md'' ''out'')),
      (Ep_action_finished, P_action_finished (traced_finish ''tool-run''))]"

lemma traced_run:
  "case prov_run ''run'' prov_init traced_history of Inl _ \<Rightarrow> False
   | Inr s \<Rightarrow> map fst (pv_actions s) = [''flow'', ''tool-run''] \<and> length (pv_bindings s) = 2"
  by (simp add: traced_history_def traced_attempt_def sample_eval prov_run_def prov_step_def
      prov_stage_step_def prov_branch_def prov_assignment_def prov_attempt_def prov_intent_def
      prov_init_def prov_context_def prov_action_started_def prov_action_finished_def
      prov_artifact_bound_def tool_action_check_def workflow_action_check_def binding_action_check_def
      binding_source_check_def run_input_source_check_def proposal_source_check_def
      binding_key_of_def binding_identity_def traced_context_def traced_start_def traced_finish_def
      traced_binding_def traced_assignment_def sample_proposal_def Let_def)

lemma traced_projection:
  "\<exists>x. project_execution_provenance traced_history = Inr x"
proof -
  obtain s where s: "prov_run ''run'' prov_init traced_history = Inr s"
    using traced_run by (auto split: sum.splits)
  have "traced_history \<noteq> []" "ev_event_type (hd traced_history) = Run_initialized"
    "ev_run_id (hd traced_history) = ''run''"
    by (simp_all add: traced_history_def sample_eval)
  then show ?thesis using projection_total [of traced_history s] s by auto
qed

lemma traced_projection_facts:
  assumes "project_execution_provenance traced_history = Inr x"
  shows "length (xp_actions x) = 2 \<and> length (xp_bindings x) = 2"
proof -
  have "ev_run_id (hd traced_history) = ''run''" by (simp add: traced_history_def sample_eval)
  with assms obtain s where "prov_run ''run'' prov_init traced_history = Inr s"
    "xp_actions x = dvalues (pv_actions s)" "xp_bindings x = pv_bindings s"
    by (auto elim: projection_facts)
  with traced_run show ?thesis
    by (auto simp: dvalues_def dest: arg_cong [where f = length])
qed

theorem projected_actions_are_consistent_witness:
  "\<exists>x. project_execution_provenance traced_history = Inr x \<and> length (xp_actions x) = 2
     \<and> xp_context x \<noteq> None \<and> distinct (map (\<lambda>a. act_action_id (af_started a)) (xp_actions x))"
proof -
  obtain x where x: "project_execution_provenance traced_history = Inr x" using traced_projection by blast
  with projected_actions_are_consistent [OF x] traced_projection_facts [OF x] show ?thesis by force
qed

theorem projected_bindings_identify_artifacts_witness:
  "\<exists>x. project_execution_provenance traced_history = Inr x \<and> length (xp_bindings x) = 2
     \<and> distinct (map (binding_key_of \<circ> snd) (xp_bindings x))"
proof -
  obtain x where x: "project_execution_provenance traced_history = Inr x" using traced_projection by blast
  with projected_bindings_identify_artifacts [OF x] traced_projection_facts [OF x] show ?thesis by blast
qed

end
