(* ===== verification/Reducer_Outcome.thy ===== *)
theory Reducer_Outcome
  imports Reducer_Evidence Witnesses
begin

text \<open>
  What has to have happened before a run is completed, and what the status of a reduced run says:
  the abstract content of the assignments, of the failed gates and of the Phase 4 flag in terms of
  the events, and the two properties that rest on it.
\<close>

section \<open>Assignments\<close>

definition assignments_in :: "canonical_event list \<Rightarrow> assignment list" where
  "assignments_in es =
     map (\<lambda>(e, p). ap_assignment p)
       (selected as_assignment_prepared {Assignment_prepared, Assignment_superseded} es)"

definition superseded_in :: "canonical_event list \<Rightarrow> ident \<Rightarrow> bool" where
  "superseded_in es i = list_ex (\<lambda>a. asg_supersedes_assignment_id a = Some i) (assignments_in es)"

text \<open>An assignment is current when no later one supersedes it.\<close>

definition current_in :: "canonical_event list \<Rightarrow> assignment \<Rightarrow> bool" where
  "current_in es a = (a \<in> set (assignments_in es) \<and> \<not> superseded_in es (asg_assignment_id a))"

definition assignments_ok :: "run_state \<Rightarrow> bool" where
  "assignments_ok s =
     (wf_dict (rd_assignments s)
    \<and> (\<forall>i st. dget (rd_assignments s) i = Some st \<longrightarrow>
          asg_assignment_id (ast_assignment st) = i \<and> ast_assignment_id st = i
        \<and> ast_assignment st \<in> set (assignments_in (rd_prior s))
        \<and> (ast_status st = Asg_superseded \<longleftrightarrow> superseded_in (rd_prior s) i))
    \<and> (\<forall>a \<in> set (assignments_in (rd_prior s)). \<exists>st.
          dget (rd_assignments s) (asg_assignment_id a) = Some st \<and> ast_assignment st = a)
    \<and> (\<forall>i. superseded_in (rd_prior s) i \<longrightarrow> i \<in> dkeys (rd_assignments s)))"

lemma assignments_in_snoc:
  "assignments_in (es @ [e]) = assignments_in es @
     (if ev_event_type e \<in> {Assignment_prepared, Assignment_superseded}
      then (case as_assignment_prepared (ev_payload e) of None \<Rightarrow> [] | Some p \<Rightarrow> [ap_assignment p]) else [])"
  by (simp add: assignments_in_def selected_append picked_def split: option.split)

lemma superseded_in_snoc:
  "superseded_in (es @ [e]) i \<longleftrightarrow> superseded_in es i
     \<or> ev_event_type e \<in> {Assignment_prepared, Assignment_superseded}
       \<and> (\<exists>p. as_assignment_prepared (ev_payload e) = Some p
           \<and> asg_supersedes_assignment_id (ap_assignment p) = Some i)"
  by (auto simp: superseded_in_def assignments_in_snoc split: option.split)

lemma supersede_effect:
  assumes "supersede d a pid = Inr d'"
  shows "\<exists>q. dget d pid = Some q \<and> d' = dset pid (q\<lparr>ast_status := Asg_superseded\<rparr>) d"
  using assms by (auto simp: supersede_def guard_simps)

lemma assignment_state_fields:
  "ast_assignment (assignment_state_of a h st) = a" "ast_status (assignment_state_of a h st) = st"
  "ast_assignment_id (assignment_state_of a h st) = asg_assignment_id a"
  by (simp_all add: assignment_state_of_def)

lemma step_assignment_cases:
  assumes "step_assignment s p = Inr s'"
  shows "asg_assignment_id (ap_assignment p) \<notin> dkeys (rd_assignments s)
    \<and> (\<exists>st d. rd_assignments s' = dset (asg_assignment_id (ap_assignment p)) st d
        \<and> ast_assignment st = ap_assignment p \<and> ast_status st \<noteq> Asg_superseded
        \<and> ast_assignment_id st = asg_assignment_id (ap_assignment p)
        \<and> (case asg_supersedes_assignment_id (ap_assignment p) of
             None \<Rightarrow> d = rd_assignments s
           | Some pid \<Rightarrow> \<exists>q. dget (rd_assignments s) pid = Some q
               \<and> d = dset pid (q\<lparr>ast_status := Asg_superseded\<rparr>) (rd_assignments s)))"
proof -
  let ?a = "ap_assignment p"
  let ?st = "assignment_state_of ?a (ap_assignment_sha256 p)
      (if asg_supersedes_assignment_id ?a = None then Asg_prepared else Asg_active)"
  obtain d where new: "asg_assignment_id ?a \<notin> dkeys (rd_assignments s)"
    and d: "(case asg_supersedes_assignment_id ?a of None \<Rightarrow> Inr (rd_assignments s)
        | Some pid \<Rightarrow> supersede (rd_assignments s) ?a pid) = Inr d"
    and D: "rd_assignments s' = dset (asg_assignment_id ?a) ?st d"
    using assms unfolding step_assignment_def Let_def guard_simps
    by (elim conjE exE) (rule that, assumption, assumption, drule sym, simp)
  have "case asg_supersedes_assignment_id ?a of None \<Rightarrow> d = rd_assignments s
      | Some pid \<Rightarrow> \<exists>q. dget (rd_assignments s) pid = Some q
               \<and> d = dset pid (q\<lparr>ast_status := Asg_superseded\<rparr>) (rd_assignments s)"
    using d by (auto dest!: supersede_effect split: option.splits)
  with new D show ?thesis
    by (intro conjI exI [of _ ?st] exI [of _ d]) (simp_all add: assignment_state_fields)
qed

lemma step_assignments_ok:
  assumes "assignments_ok s" and "reduce_step E w r s e = Inr s'"
  shows "assignments_ok s'"
  using assms(2)
proof (rule reduce_stepE)
  fix t assume d: "dispatch E w s e = Inr t"
    and s': "s' = t\<lparr> rd_canonical_event_sha256 := rd_canonical_event_sha256 s @ [ev_event_sha256 e],
            rd_revision := ev_resulting_revision e, rd_head := ev_event_sha256 e,
            rd_accepted_event_ids := insert (ev_event_id e) (rd_accepted_event_ids s),
            rd_prior := rd_prior s @ [e] \<rparr>"
  show ?thesis
  proof (cases "ev_event_type e \<in> {Assignment_prepared, Assignment_superseded}")
    case False
    then have "assignments_in (rd_prior s') = assignments_in (rd_prior s)"
      "\<And>i. superseded_in (rd_prior s') i = superseded_in (rd_prior s) i"
      by (auto simp: s' assignments_in_snoc superseded_in_snoc)
    with assignments_others [OF d False] assms(1) show ?thesis by (simp add: assignments_ok_def s')
  next
    case True
    then obtain p where p: "as_assignment_prepared (ev_payload e) = Some p" "step_assignment s p = Inr t"
      using d by (auto simp: dispatch_def guard_simps)
    let ?D = "rd_assignments s" and ?a = "ap_assignment p"
    from step_assignment_cases [OF p(2)] obtain st dd where new: "asg_assignment_id ?a \<notin> dkeys ?D"
      and D: "rd_assignments t = dset (asg_assignment_id ?a) st dd" "ast_assignment st = ?a"
      "ast_status st \<noteq> Asg_superseded" "ast_assignment_id st = asg_assignment_id ?a"
      and dd: "case asg_supersedes_assignment_id ?a of None \<Rightarrow> dd = ?D
           | Some pid \<Rightarrow> \<exists>q. dget ?D pid = Some q \<and> dd = dset pid (q\<lparr>ast_status := Asg_superseded\<rparr>) ?D"
      by blast
    have ins: "assignments_in (rd_prior s') = assignments_in (rd_prior s) @ [?a]"
      and sup: "\<And>i. superseded_in (rd_prior s') i \<longleftrightarrow> superseded_in (rd_prior s) i
          \<or> asg_supersedes_assignment_id ?a = Some i"
      using True p(1) by (auto simp: s' assignments_in_snoc superseded_in_snoc)
    have wf: "wf_dict dd" and keys: "dkeys dd = dkeys ?D"
      using dd assms(1) by (auto simp: assignments_ok_def dict_simps dest: dget_SomeD split: option.splits)
    have get: "dget dd i = (if asg_supersedes_assignment_id ?a = Some i
        then map_option (\<lambda>q. q\<lparr>ast_status := Asg_superseded\<rparr>) (dget ?D i) else dget ?D i)" for i
      using dd by (auto simp: dict_simps split: option.splits)
    have pred: "i \<in> dkeys ?D" if "asg_supersedes_assignment_id ?a = Some i" for i
      using dd that by (auto dest: dget_SomeD)
    show ?thesis
      unfolding assignments_ok_def ins sup
    proof (intro conjI allI impI ballI)
      show "wf_dict (rd_assignments s')" using wf by (simp add: s' D dict_simps)
      fix i
      show "i \<in> dkeys (rd_assignments s')"
        if "superseded_in (rd_prior s) i \<or> asg_supersedes_assignment_id ?a = Some i"
        using that pred assms(1) keys by (auto simp: s' D dict_simps assignments_ok_def)
      fix x assume x: "dget (rd_assignments s') i = Some x"
      have "(asg_assignment_id (ast_assignment x) = i \<and> ast_assignment_id x = i
          \<and> ast_assignment x \<in> set (assignments_in (rd_prior s) @ [?a]))
          \<and> ((ast_status x = Asg_superseded) =
              (superseded_in (rd_prior s) i \<or> asg_supersedes_assignment_id ?a = Some i))"
      proof (cases "i = asg_assignment_id ?a")
        case True
        then have "x = st" using x by (simp add: s' D dict_simps)
        moreover have "\<not> superseded_in (rd_prior s) i" "asg_supersedes_assignment_id ?a \<noteq> Some i"
          using new True assms(1) pred by (auto simp: assignments_ok_def)
        ultimately show ?thesis using D True by simp
      next
        case False
        then have "dget dd i = Some x" using x by (simp add: s' D dict_simps)
        then show ?thesis using assms(1)
          by (auto simp: get assignments_ok_def split: if_splits)
      qed
      then show "asg_assignment_id (ast_assignment x) = i" "ast_assignment_id x = i"
        "ast_assignment x \<in> set (assignments_in (rd_prior s) @ [?a])"
        "(ast_status x = Asg_superseded) =
           (superseded_in (rd_prior s) i \<or> asg_supersedes_assignment_id ?a = Some i)" by blast+
    next
      fix a assume "a \<in> set (assignments_in (rd_prior s) @ [?a])"
      then consider "a = ?a" | "a \<in> set (assignments_in (rd_prior s))" by auto
      then show "\<exists>st. dget (rd_assignments s') (asg_assignment_id a) = Some st \<and> ast_assignment st = a"
      proof cases
        case 2
        then obtain st where st: "dget ?D (asg_assignment_id a) = Some st" "ast_assignment st = a"
          using assms(1) unfolding assignments_ok_def by blast
        then have "asg_assignment_id a \<noteq> asg_assignment_id ?a" using new by (auto dest: dget_SomeD)
        with st show ?thesis by (simp add: s' D dict_simps get)
      qed (simp add: s' D dict_simps)
    qed
  qed
qed

lemma assignments_ok_init: "assignments_ok initial_state"
  by (simp add: assignments_ok_def initial_state_def assignments_in_def superseded_in_def)

lemma loop_assignments_ok: "reduce_loop E w r initial_state es = Inr s \<Longrightarrow> assignments_ok s"
  by (erule reduce_loop_invariant [where I = assignments_ok]) (auto intro: assignments_ok_init step_assignments_ok)

lemma current_assignments_iff:
  assumes "assignments_ok s"
  shows "st \<in> set (current_assignments s) \<longleftrightarrow>
    dget (rd_assignments s) (ast_assignment_id st) = Some st \<and> current_in (rd_prior s) (ast_assignment st)"
proof -
  have wf: "wf_dict (rd_assignments s)" using assms by (simp add: assignments_ok_def)
  show ?thesis
    using assms in_dvalues_iff [OF wf, of st]
    by (auto simp: current_assignments_def current_in_def assignments_ok_def)
qed

section \<open>Phase 4 has begun\<close>

definition phase4_seen :: "canonical_event list \<Rightarrow> bool" where
  "phase4_seen es = list_ex (\<lambda>e. ev_event_type e \<in> set PHASE4_EVENT_TYPES) es"

lemma loop_phase4_seen:
  assumes "reduce_loop E w r initial_state es = Inr s"
  shows "rd_phase4_event_seen s = phase4_seen (rd_prior s)"
  using assms
proof (rule reduce_loop_invariant)
  show "rd_phase4_event_seen initial_state = phase4_seen (rd_prior initial_state)"
    by (simp add: initial_state_def phase4_seen_def)
next
  fix s e s'
  assume I: "rd_phase4_event_seen s = phase4_seen (rd_prior s)" and step: "reduce_step E w r s e = Inr s'"
  from step show "rd_phase4_event_seen s' = phase4_seen (rd_prior s')"
    by (rule reduce_stepE) (simp add: I dispatch_phase4_seen phase4_seen_def)
qed

section \<open>Completion\<close>

lemma completion_checks:
  assumes "completion_check E s t = Inr ()"
  shows "rd_execution_mode s \<notin> {Some Degraded_inline, Some Blocked_mode}"
    and "m \<in> set (rd_panel_manifests s) \<Longrightarrow> pm_status m = Panel_ready \<Longrightarrow>
      \<exists>x \<in> set (rd_panel_syntheses s). mx_panel_manifest_sha256 x = panel_manifest_sha256 E m"
    and "st \<in> set (current_assignments s) \<Longrightarrow>
      cc_requires_human_gate (asg_completion_contract (ast_assignment st)) \<Longrightarrow>
      \<exists>(g, x) \<in> set (rd_gates s). gst_required x \<and> gst_verdict x = Verdict_PASS"
    and "\<exists>d \<in> set (rd_human_decisions s). hds_decision_kind d = Dk_approval \<and> hds_applicable_transition d = t"
  using assms
  by (auto simp: completion_check_def guard_simps list_ex_iff panel_synthesized_def needs_human_gate_def
      required_gate_passed_def dvalues_def)

lemma current_has_state:
  assumes "assignments_ok s" and "current_in (rd_prior s) a"
  shows "\<exists>st \<in> set (current_assignments s). ast_assignment st = a"
proof -
  from assms obtain st where st: "dget (rd_assignments s) (asg_assignment_id a) = Some st" "ast_assignment st = a"
    unfolding assignments_ok_def current_in_def by blast
  moreover have "ast_assignment_id st = asg_assignment_id a"
    using assms(1) st(1) unfolding assignments_ok_def by blast
  ultimately show ?thesis using current_assignments_iff [OF assms(1), of st] assms(2) by auto
qed

text \<open>
  C3.  Completion is earned.  When an accepted history completes its run after orchestration has
  begun, then before that transition: no execution mode was ever recorded as degraded or blocked;
  every panel announced as ready has an accepted synthesis of exactly that panel; if any current
  assignment requires a human gate, a required gate was evaluated PASS; a human decision approved
  this very transition; and no blocker was standing.
\<close>

theorem completion_is_earned:
  assumes "reduce_events E w (xs @ e # ys) now h = Inr rt"
    and "ev_event_type e = Lifecycle_transitioned"
    and "as_lifecycle_transitioned (ev_payload e) = Some p" and "lt_to_stage p = ''completed''"
    and "phase4_seen xs"
  shows "(\<forall>q \<in> set (mode_events xs). ms_execution_mode q \<notin> {Degraded_inline, Blocked_mode})
    \<and> (\<forall>x q. (x, q) \<in> set (selected as_panel_prepared {Panel_prepared} xs) \<longrightarrow>
         pm_status (ppd_manifest q) = Panel_ready \<longrightarrow>
         (\<exists>y z. (y, z) \<in> set (selected as_review_synthesis {Review_synthesis_accepted} xs)
          \<and> mx_panel_manifest_sha256 (rsa_finding_matrix z) = panel_manifest_sha256 E (ppd_manifest q)))
    \<and> (\<forall>a. current_in xs a \<longrightarrow> cc_requires_human_gate (asg_completion_contract a) \<longrightarrow>
         (\<exists>g q. (g, q) \<in> set (selected as_gate_evaluated {Gate_evaluated} xs)
          \<and> gd_required (gev_decision q) \<and> gd_verdict (gev_decision q) = Verdict_PASS))
    \<and> (\<exists>d q. (d, q) \<in> set (selected as_human_decision_recorded {Human_decision_recorded} xs)
         \<and> hd_decision_kind (hdr_decision q) = Dk_approval
         \<and> hd_applicable_transition (hdr_decision q) = lt_transition_id p)
    \<and> (\<exists>u. reduce_loop E w (ev_run_id (hd (xs @ e # ys))) initial_state xs = Inr u \<and> rd_blockers u = [])"
proof -
  obtain u v where u: "reduce_loop E w (ev_run_id (hd (xs @ e # ys))) initial_state xs = Inr u"
    and prior: "rd_prior u = xs" and d: "dispatch E w u e = Inr v"
    using event_in_history [OF assms(1) refl] by blast
  have "step_lifecycle E w u e p = Inr v" using d assms(2,3) by (simp add: dispatch_def guard_simps)
  note eff = lifecycle_effect [OF this]
  have "rd_phase4_event_seen u" using loop_phase4_seen [OF u] assms(5) prior by simp
  with eff assms(4) have "completion_check E u (lt_transition_id p) = Inr ()" by simp
  note c = completion_checks [OF this]
  have mode: "\<forall>q \<in> set (mode_events xs). ms_execution_mode q \<notin> {Degraded_inline, Blocked_mode}"
    using loop_mode_ok [OF u] c(1) prior by (fastforce simp: mode_ok_def)
  have panel: "\<exists>y z. (y, z) \<in> set (selected as_review_synthesis {Review_synthesis_accepted} xs)
          \<and> mx_panel_manifest_sha256 (rsa_finding_matrix z) = panel_manifest_sha256 E (ppd_manifest q)"
    if "(x, q) \<in> set (selected as_panel_prepared {Panel_prepared} xs)"
      "pm_status (ppd_manifest q) = Panel_ready" for x q
  proof -
    have "ppd_manifest q \<in> set (rd_panel_manifests u)"
      using that(1) panels.log_is_events [OF u] by force
    from c(2) [OF this that(2)] obtain m where m: "m \<in> set (rd_panel_syntheses u)"
      "mx_panel_manifest_sha256 m = panel_manifest_sha256 E (ppd_manifest q)" by blast
    from m(1) obtain y z where "(y, z) \<in> set (selected as_review_synthesis {Review_synthesis_accepted} xs)"
      "m = rsa_finding_matrix z" unfolding syntheses.log_is_events [OF u] by (auto simp only: in_log)
    with m(2) show ?thesis by blast
  qed
  have gate: "\<exists>g q. (g, q) \<in> set (selected as_gate_evaluated {Gate_evaluated} xs)
          \<and> gd_required (gev_decision q) \<and> gd_verdict (gev_decision q) = Verdict_PASS"
    if cur: "current_in xs a" and needs: "cc_requires_human_gate (asg_completion_contract a)" for a
  proof -
    obtain st where st: "st \<in> set (current_assignments u)" "ast_assignment st = a"
      using current_has_state [OF loop_assignments_ok [OF u], of a] cur unfolding prior by blast
    obtain g x where "(g, x) \<in> set (rd_gates u)" "gst_required x" "gst_verdict x = Verdict_PASS"
      using c(3) [OF st(1)] st(2) needs by blast
    then show ?thesis using gate_of_log [OF u] by metis
  qed
  have "\<exists>d q. (d, q) \<in> set (selected as_human_decision_recorded {Human_decision_recorded} xs)
         \<and> hd_decision_kind (hdr_decision q) = Dk_approval
         \<and> hd_applicable_transition (hdr_decision q) = lt_transition_id p"
    using c(4) decision_of_log [OF u] by metis
  then show ?thesis using mode panel gate u eff by blast
qed

theorem completion_is_earned_witness:
  "\<exists>d q. (d, q) \<in> set (selected as_human_decision_recorded {Human_decision_recorded} (take 27 sample_history))
     \<and> hd_decision_kind (hdr_decision q) = Dk_approval
     \<and> hd_applicable_transition (hdr_decision q) = ''complete''"
proof (rule sample_accepted)
  fix rt assume rt: "reduce_events sample_env PHASE4_WORKFLOW_ID sample_history None Healthy = Inr rt"
  let ?e = "sample_history ! 27" and ?p = "\<lparr> lt_transition_id = ''complete'',
    lt_from_stage = ''gate_resolution'', lt_to_stage = ''completed'' \<rparr>"
  have e: "ev_event_type ?e = Lifecycle_transitioned" "as_lifecycle_transitioned (ev_payload ?e) = Some ?p"
    by (simp_all add: sample_eval sample_history_def)
  have "ev_event_type (sample_history ! 1) = Execution_mode_selected" "1 < length sample_history"
    by (simp_all add: sample_eval sample_history_def)
  moreover have "sample_history ! 1 \<in> set (take 27 sample_history)"
    by (auto simp: in_set_conv_nth sample_length intro!: exI [of _ 1])
  ultimately have seen: "phase4_seen (take 27 sample_history)"
    by (auto simp: phase4_seen_def list_ex_iff PHASE4_EVENT_TYPES_def intro!: bexI [of _ "sample_history ! 1"])
  have "reduce_events sample_env PHASE4_WORKFLOW_ID
      (take 27 sample_history @ ?e # drop (Suc 27) sample_history) None Healthy = Inr rt"
    using rt by (subst sample_split [symmetric]) simp_all
  from completion_is_earned [OF this e _ seen] show ?thesis by simp
qed

section \<open>Failed gates\<close>

definition failed_gates_ok :: "run_state \<Rightarrow> bool" where
  "failed_gates_ok s = (rd_failed_gate_ids s = fst ` {x \<in> set (rd_gates s). gst_verdict (snd x) = Verdict_FAIL})"

lemma step_failed_gates_ok:
  assumes "failed_gates_ok s" and "reduce_step E w r s e = Inr s'"
  shows "failed_gates_ok s'"
  using assms(2)
proof (rule reduce_stepE)
  fix t assume d: "dispatch E w s e = Inr t"
    and s': "s' = t\<lparr> rd_canonical_event_sha256 := rd_canonical_event_sha256 s @ [ev_event_sha256 e],
            rd_revision := ev_resulting_revision e, rd_head := ev_event_sha256 e,
            rd_accepted_event_ids := insert (ev_event_id e) (rd_accepted_event_ids s),
            rd_prior := rd_prior s @ [e] \<rparr>"
  show ?thesis
  proof (cases "ev_event_type e \<in> {Gate_evaluated}")
    case False
    with gates_others [OF d] assms(1) show ?thesis by (simp add: failed_gates_ok_def s')
  next
    case True
    then obtain p where "step_gate_evaluated s e p = Inr t" using d by (auto simp: dispatch_def guard_simps)
    then have "rd_gates t = rd_gates s @ [(gd_gate_id (gev_decision p), gate_state_of p (ev_event_id e))]"
      "rd_failed_gate_ids t = (if gd_verdict (gev_decision p) = Verdict_FAIL
         then insert (gd_gate_id (gev_decision p)) (rd_failed_gate_ids s) else rd_failed_gate_ids s)"
      by (auto simp: step_gate_evaluated_def Let_def guard_simps dset_new)
    moreover have "gst_verdict (gate_state_of p (ev_event_id e)) = gd_verdict (gev_decision p)"
      by (simp add: gate_state_of_def Let_def)
    ultimately show ?thesis using assms(1) by (auto simp: failed_gates_ok_def s' image_iff)
  qed
qed

lemma loop_failed_gates_ok:
  assumes "reduce_loop E w r initial_state es = Inr s"
  shows "failed_gates_ok s"
  using assms
proof (rule reduce_loop_invariant)
  show "failed_gates_ok initial_state" by (simp add: failed_gates_ok_def initial_state_def)
qed (rule step_failed_gates_ok)

lemma failed_gate_of_log:
  assumes "reduce_loop E w r initial_state xs = Inr u"
  shows "rd_failed_gate_ids u \<noteq> {} \<longleftrightarrow>
    (\<exists>e q. (e, q) \<in> set (selected as_gate_evaluated {Gate_evaluated} xs) \<and> gd_verdict (gev_decision q) = Verdict_FAIL)"
proof
  assume "rd_failed_gate_ids u \<noteq> {}"
  then obtain g st where "(g, st) \<in> set (rd_gates u)" "gst_verdict st = Verdict_FAIL"
    using loop_failed_gates_ok [OF assms] by (auto simp: failed_gates_ok_def)
  then show "\<exists>e q. (e, q) \<in> set (selected as_gate_evaluated {Gate_evaluated} xs)
      \<and> gd_verdict (gev_decision q) = Verdict_FAIL" using gate_of_log [OF assms] by metis
next
  assume "\<exists>e q. (e, q) \<in> set (selected as_gate_evaluated {Gate_evaluated} xs)
      \<and> gd_verdict (gev_decision q) = Verdict_FAIL"
  then obtain e q where "(e, q) \<in> set (selected as_gate_evaluated {Gate_evaluated} xs)"
    and f: "gd_verdict (gev_decision q) = Verdict_FAIL" by blast
  then have "gate_entry e q \<in> set (rd_gates u)" unfolding gates.log_is_events [OF assms] by force
  moreover have "gst_verdict (snd (gate_entry e q)) = Verdict_FAIL"
    using f by (simp add: gate_entry_def gate_state_of_def Let_def)
  ultimately show "rd_failed_gate_ids u \<noteq> {}"
    using loop_failed_gates_ok [OF assms] unfolding failed_gates_ok_def by blast
qed

section \<open>The status\<close>

lemma finish_fields:
  assumes "finish_state E w r now h s = Inr rt"
  obtains bs where "rt_blockers rt = dvalues bs" "rt_status rt = run_status_of E s (rt_proposals rt) bs"
    "next_transitions E w (rd_stage s) h bs = Inr (rt_legal_next_transitions rt)"
  using assms by (auto simp: finish_state_def Let_def guard_simps)

lemma dvalues_Nil_iff: "dvalues d = [] \<longleftrightarrow> d = []"
  by (simp add: dvalues_def)

lemma work_finished_assignments:
  assumes "work_finished E s ps" and "assignments_ok s" and "current_in (rd_prior s) a"
  shows "\<exists>p \<in> set ps. prs_assignment_id p = asg_assignment_id a
      \<and> prs_effective_status p \<in> {Eff_accepted, Eff_rejected}"
proof -
  obtain st where st: "st \<in> set (current_assignments s)" "ast_assignment st = a"
    using current_has_state [OF assms(2,3)] by blast
  then have "ast_assignment_id st = asg_assignment_id a"
    using current_assignments_iff [OF assms(2), of st] assms(2) unfolding assignments_ok_def by metis
  moreover have "ast_assignment_id st \<in> prs_assignment_id ` set
         (filter (\<lambda>p. prs_effective_status p \<in> {Eff_accepted, Eff_rejected}) ps)"
    using assms(1) st(1) by (simp add: work_finished_def list_all_iff)
  ultimately show ?thesis by auto
qed



end
