(* ===== verification/Json_Lines.thy ===== *)
theory Json_Lines
  imports Canonical
begin

text \<open>
  Canonical JSON as the lines of a file: a canonical text has one newline, at its end, and no part
  of the text of a JSON object that stops before the closing brace can be read as a value.  The
  journal rests on both facts when it tells a torn last record from the records before it.
\<close>

section \<open>The characters of a canonical text\<close>

lemma nat_str_no_newline: "newline \<notin> set (nat_str n)"
  using nat_str_digits [of n] by (auto simp: newline_def is_digit_def code_def)

lemma int_str_no_newline: "newline \<notin> set (int_str i)"
  using nat_str_no_newline by (auto simp: int_str_def newline_def)

lemma hex_digit_no_newline:
  assumes "n < 16" shows "hex_digit n \<noteq> newline"
proof
  assume "hex_digit n = newline"
  then have "code (hex_digit n) = code newline" by (rule arg_cong)
  moreover have "code newline = 10" by code_simp
  moreover have "48 \<le> code (hex_digit n)" using assms by (simp add: hex_digit_def code_char_of)
  ultimately show False by simp
qed

lemma esc_char_no_newline: "newline \<notin> set (esc_char c)"
proof -
  have "hex_digit (code c div 16) \<noteq> newline" if "code c < 32"
    by (rule hex_digit_no_newline) (use that in simp)
  moreover have "hex_digit (code c mod 16) \<noteq> newline" by (rule hex_digit_no_newline) simp
  ultimately show ?thesis by (auto simp: esc_char_def newline_def)
qed

lemma quote_str_no_newline: "newline \<notin> set (quote_str s)"
  using esc_char_no_newline by (auto simp: quote_str_def newline_def)

text \<open>What the number scanner consumes.\<close>

lemma scan_int_text:
  assumes "scan_int s = Some (i, r)"
  shows "s = i @ r \<and> (\<forall>c \<in> set i. is_digit c)"
proof -
  obtain c t where s: "s = c # t" using assms by (cases s) (auto simp: scan_int_def)
  show ?thesis
  proof (cases "c = CHR ''0''")
    case True
    have "is_digit (CHR ''0'')" by (simp add: is_digit_def code_def)
    with True assms s show ?thesis by (auto simp: scan_int_def)
  next
    case False
    then have "i = takeWhile is_digit s" "r = dropWhile is_digit s"
      using assms s by (simp_all add: scan_int_def split: if_splits)
    moreover have "\<forall>c \<in> set (takeWhile is_digit s). is_digit c" by (auto dest: set_takeWhileD)
    ultimately show ?thesis by simp
  qed
qed

lemma takeWhile_digits: "newline \<notin> set (takeWhile is_digit s)"
  by (auto dest!: set_takeWhileD simp: newline_def is_digit_def code_def)

lemma scan_frac_text:
  "s = fst (scan_frac s) @ snd (scan_frac s) \<and> newline \<notin> set (fst (scan_frac s))"
proof (cases s)
  case (Cons c r)
  show ?thesis
    using takeWhile_digits [of r] unfolding Cons scan_frac_def list.case by (simp add: newline_def)
qed (simp add: scan_frac_def)

lemma scan_exp_text:
  "s = fst (scan_exp s) @ snd (scan_exp s) \<and> newline \<notin> set (fst (scan_exp s))"
proof (cases s)
  case (Cons c r)
  let ?P = "\<lambda>x. x \<in> {CHR ''+'', CHR ''-''}"
  let ?sg = "takeWhile ?P (take 1 r)"
  have "?sg @ drop (length ?sg) r = r" by (cases r) auto
  then have "c # ?sg @ takeWhile is_digit (drop (length ?sg) r)
      @ dropWhile is_digit (drop (length ?sg) r) = s"
    using Cons by simp
  moreover have "newline \<notin> set ?sg" by (auto dest!: set_takeWhileD simp: newline_def)
  moreover have "newline \<notin> set (takeWhile is_digit (drop (length ?sg) r))" by (rule takeWhile_digits)
  ultimately show ?thesis using Cons by (auto simp: scan_exp_def Let_def newline_def)
qed (simp add: scan_exp_def)

lemma scan_number_text:
  assumes "scan_number fr s = Some (v, r)"
  shows "\<exists>u. s = u @ r \<and> newline \<notin> set u"
proof -
  let ?b = "if take 1 s = ''-'' then drop 1 s else s"
  obtain i q where i: "scan_int ?b = Some (i, q)"
    using assms by (auto simp: scan_number_def Let_def split: option.splits)
  let ?f = "scan_frac q"
  have r: "r = snd (scan_exp (snd ?f))"
    using assms i by (auto simp: scan_number_def Let_def split: prod.splits if_splits)
  have q: "q = fst ?f @ fst (scan_exp (snd ?f)) @ r"
    using scan_frac_text [of q] scan_exp_text [of "snd ?f"] r by metis
  have "newline \<notin> set i"
    using scan_int_text [OF i] by (auto simp: newline_def is_digit_def code_def)
  moreover have "s = (if take 1 s = ''-'' then ''-'' else []) @ i @ q"
    using scan_int_text [OF i] by (cases s) (auto split: if_splits)
  ultimately show ?thesis
    using q scan_frac_text [of q] scan_exp_text [of "snd ?f"]
    by (intro exI [of _ "(if take 1 s = ''-'' then ''-'' else []) @ i @ fst ?f @ fst (scan_exp (snd ?f))"])
      (auto simp: newline_def)
qed

lemma comma_no_newline: "\<forall>s \<in> set ss. newline \<notin> set s \<Longrightarrow> newline \<notin> set (comma ss)"
  by (induction ss rule: comma.induct) (auto simp: newline_def)

lemma dumps_no_newline: "json_ok fr v \<Longrightarrow> newline \<notin> set (dumps v)"
proof (induction v)
  case (JFloat t)
  then have "scan_number fr t = Some (JFloat t, [])" by simp
  then obtain u where "t = u @ []" "newline \<notin> set u" using scan_number_text by blast
  then show ?case by simp
next
  case (JInt i)
  then show ?case by (simp add: int_str_no_newline)
next
  case (JStr s)
  then show ?case by (simp add: quote_str_no_newline)
next
  case (JArr vs)
  then have "\<forall>s \<in> set (map dumps vs). newline \<notin> set s" by auto
  from comma_no_newline [OF this] show ?case by (simp add: newline_def)
next
  case (JObj kvs)
  let ?ms = "sort_key fst (map (\<lambda>(k, v). (k, dumps v)) kvs)"
  have "\<forall>s \<in> set (map member_str ?ms). newline \<notin> set s"
    using JObj quote_str_no_newline by (fastforce simp: member_str_def newline_def)
  from comma_no_newline [OF this] show ?case by (simp add: newline_def)
qed (auto simp: newline_def)

section \<open>Reading on after a value\<close>

text \<open>
  A reader that has stopped before a separator, a closing bracket or white space stops there
  whatever follows.
\<close>

definition stops :: "string \<Rightarrow> bool" where
  "stops r = (case r of [] \<Rightarrow> False | c # _ \<Rightarrow> ws c \<or> c \<in> {CHR '','', CHR '']'', CHR ''}''})"

lemma stops_Cons [simp]: "stops (c # r) \<longleftrightarrow> ws c \<or> c \<in> {CHR '','', CHR '']'', CHR ''}''}"
  by (simp add: stops_def)

lemma stops_Nil [simp]: "\<not> stops []"
  by (simp add: stops_def)

lemma takeWhile_append_stop:
  "dropWhile P s \<noteq> [] \<Longrightarrow> takeWhile P (s @ t) = takeWhile P s \<and> dropWhile P (s @ t) = dropWhile P s @ t"
  by (induction s) auto

lemma scan_int_extend:
  "scan_int s = Some (i, q) \<Longrightarrow> q \<noteq> [] \<Longrightarrow> scan_int (s @ t) = Some (i, q @ t)"
  using takeWhile_append_stop [of is_digit s t] by (cases s) (auto simp: scan_int_def split: if_splits)

lemma stops_not_number:
  assumes "stops r"
  shows "r \<noteq> []" "hd r \<noteq> CHR ''.''" "hd r \<noteq> CHR ''e''" "hd r \<noteq> CHR ''E''"
  using assms by (cases r; auto simp: ws_def)+

lemma scan_exp_other:
  "s \<noteq> [] \<Longrightarrow> hd s \<noteq> CHR ''e'' \<Longrightarrow> hd s \<noteq> CHR ''E'' \<Longrightarrow> scan_exp s = ([], s)"
  by (cases s) (auto simp: scan_exp_def Let_def)

lemma scan_exp_extend:
  assumes "scan_exp s = (e, r)" and "stops r"
  shows "scan_exp (s @ t) = (e, r @ t)"
proof (cases "e = []")
  case True
  then have "s = r" using assms(1) scan_exp_text [of s] by simp
  then show ?thesis
    using True stops_not_number [OF assms(2)] by (simp add: scan_exp_other)
next
  case False
  let ?P = "\<lambda>x. x \<in> {CHR ''+'', CHR ''-''}"
  obtain c d where s: "s = c # d" using assms(1) False by (cases s) (auto simp: scan_exp_def)
  let ?sg = "takeWhile ?P (take 1 d)"
  let ?d = "drop (length ?sg) d"
  from assms(1) False s have c: "c \<in> {CHR ''e'', CHR ''E''}" "takeWhile is_digit ?d \<noteq> []"
    and e: "e = c # ?sg @ takeWhile is_digit ?d" and r: "r = dropWhile is_digit ?d"
    by (auto simp: scan_exp_def Let_def split: if_splits)
  have "d \<noteq> []" using c(2) by auto
  then have sg: "takeWhile ?P (take 1 (d @ t)) = ?sg" by (cases d) auto
  have "length ?sg \<le> length d" by (cases d) auto
  then have dr: "drop (length ?sg) (d @ t) = ?d @ t" by simp
  have "takeWhile is_digit (?d @ t) = takeWhile is_digit ?d"
    "dropWhile is_digit (?d @ t) = dropWhile is_digit ?d @ t"
    using takeWhile_append_stop [of is_digit ?d t] stops_not_number(1) [OF assms(2)] r by auto
  then show ?thesis
    using c e r unfolding s scan_exp_def append_Cons list.case Let_def sg dr by simp
qed

lemma scan_frac_extend:
  assumes "scan_frac s = (f, r)" and "r \<noteq> []" and "hd r \<noteq> CHR ''.''"
  shows "scan_frac (s @ t) = (f, r @ t)"
  using assms takeWhile_append_stop [of is_digit "tl s" t]
  by (cases s) (auto simp: scan_frac_def split: if_splits)

lemma scan_number_extend:
  assumes "scan_number fr s = Some (v, r)" and "stops r"
  shows "scan_number fr (s @ t) = Some (v, r @ t)"
proof -
  have s: "s \<noteq> []" using scan_number_shorter [OF assms(1)] by auto
  let ?b = "if take 1 s = ''-'' then drop 1 s else s"
  obtain i q where i: "scan_int ?b = Some (i, q)"
    using assms(1) by (auto simp: scan_number_def Let_def split: option.splits)
  obtain f r1 where f: "scan_frac q = (f, r1)" by fastforce
  obtain e r2 where e: "scan_exp r1 = (e, r2)" by fastforce
  have r2: "r2 = r" using assms(1) i f e by (auto simp: scan_number_def Let_def split: if_splits)
  have r1: "r1 = e @ r" using scan_exp_text [of r1] e r2 by simp
  have "r1 \<noteq> []" "hd r1 \<noteq> CHR ''.''"
  proof -
    show "r1 \<noteq> []" using r1 stops_not_number [OF assms(2)] by simp
    show "hd r1 \<noteq> CHR ''.''"
    proof (cases e)
      case Nil
      then show ?thesis using r1 stops_not_number [OF assms(2)] by simp
    next
      case (Cons c e')
      then have "c \<in> {CHR ''e'', CHR ''E''}"
        using e by (cases r1) (auto simp: scan_exp_def Let_def split: if_splits)
      then show ?thesis using r1 Cons by auto
    qed
  qed
  moreover from this have "q \<noteq> []" using scan_frac_text [of q] f by auto
  ultimately have "scan_int (?b @ t) = Some (i, q @ t)" "scan_frac (q @ t) = (f, r1 @ t)"
    "scan_exp (r1 @ t) = (e, r @ t)"
    using scan_int_extend [OF i] scan_frac_extend [OF f] scan_exp_extend [OF e] r2 assms(2) by auto
  moreover have "take 1 (s @ t) = take 1 s" "drop 1 (s @ t) = drop 1 s @ t" using s by (cases s; simp)+
  ultimately show ?thesis
    using assms(1) i f e r2 by (auto simp: scan_number_def Let_def split: if_splits)
qed

lemma hex4_extend: "hex4 s = Some (n, r) \<Longrightarrow> hex4 (s @ t) = Some (n, r @ t)"
  by (induction s rule: hex4.induct) (auto split: option.splits)

lemma scan_u_extend:
  assumes "scan_u s = Some (n, r)" shows "scan_u (s @ t) = Some (n, r @ t)"
proof -
  obtain m q where q: "hex4 s = Some (m, q)"
    using assms by (auto simp: scan_u_def split: option.splits)
  show ?thesis
  proof (cases "m < 55296 \<or> 57344 \<le> m")
    case True
    then show ?thesis using assms q hex4_extend [OF q, of t] by (simp add: scan_u_def)
  next
    case False
    then obtain q' where q': "q = CHR 0x5C # CHR ''u'' # q'"
      using assms q by (cases q; cases "tl q") (auto simp: scan_u_def split: if_splits)
    obtain k r' where "hex4 q' = Some (k, r')"
      using assms q q' False by (auto simp: scan_u_def split: option.splits if_splits)
    then show ?thesis
      using assms q q' False hex4_extend [OF q, of t] hex4_extend [of q' k r' t]
      by (auto simp: scan_u_def split: if_splits)
  qed
qed

lemma scan_char_extend: "scan_char s = Some (x, r) \<Longrightarrow> scan_char (s @ t) = Some (x, r @ t)"
  by (cases s) (auto simp: scan_char.simps scan_u_extend split: if_splits list.splits)

lemma scan_string_extend: "scan_string s = Some (x, r) \<Longrightarrow> scan_string (s @ t) = Some (x, r @ t)"
proof (induction s arbitrary: x r rule: scan_string.induct)
  case (1 s)
  then obtain c s' where s: "s = c # s'" by (cases s) (auto simp: scan_string.simps)
  show ?case
  proof (cases "c = CHR 0x22")
    case True
    with "1.prems" s show ?thesis by (subst (asm) scan_string.simps) (simp add: scan_string.simps)
  next
    case False
    then obtain y q x' where y: "scan_char s = Some (y, q)" "scan_string q = Some (x', r)" "x = y @ x'"
      using "1.prems" s by (subst (asm) scan_string.simps) (auto split: option.splits)
    then have "scan_string (q @ t) = Some (x', r @ t)" using "1.IH" [OF s False y(1)] by blast
    with scan_char_extend [OF y(1), of t] False s y(3) show ?thesis
      by (subst scan_string.simps) simp
  qed
qed

lemma skip_ws_extend: "skip_ws s \<noteq> [] \<Longrightarrow> skip_ws (s @ t) = skip_ws s @ t"
  by (simp add: skip_ws_def takeWhile_append_stop)

lemma skip_ws_stops: "skip_ws r = c # q \<Longrightarrow> c \<in> {CHR '','', CHR '']'', CHR ''}''} \<Longrightarrow> stops r"
  by (cases r) (auto simp: skip_ws_def split: if_splits)

text \<open>A number may go on; every other value is closed by its own last character.\<close>

fun is_number :: "json \<Rightarrow> bool" where
  "is_number (JInt _) = True"
| "is_number (JFloat _) = True"
| "is_number _ = False"

lemma take_literal:
  "take n (c # s) = l \<Longrightarrow> length l = n \<Longrightarrow> take n (c # s @ t) = l \<and> drop n (c # s @ t) = drop n (c # s) @ t"
  by (cases n) auto

lemma take1_extend: "s \<noteq> [] \<Longrightarrow> take 1 (s @ t) = take 1 s \<and> drop 1 (s @ t) = drop 1 s @ t"
  by (cases s) auto

lemma parse_literal:
  "take 4 s = ''null'' \<Longrightarrow> parse_value fr s = Some (JNull, drop 4 s)"
  "take 4 s = ''true'' \<Longrightarrow> parse_value fr s = Some (JBool True, drop 4 s)"
  "take 5 s = ''false'' \<Longrightarrow> parse_value fr s = Some (JBool False, drop 5 s)"
  by (cases s; simp)+

lemma parse_extend:
  "parse_value fr s = Some (v, r) \<Longrightarrow> \<not> is_number v \<or> stops r \<Longrightarrow> parse_value fr (s @ t) = Some (v, r @ t)"
  "parse_elems fr s = Some (vs, r) \<Longrightarrow> parse_elems fr (s @ t) = Some (vs, r @ t)"
  "parse_members fr s = Some (kvs, r) \<Longrightarrow> parse_members fr (s @ t) = Some (kvs, r @ t)"
proof (induction fr s and fr s and fr s arbitrary: v r and vs r and kvs r
    rule: parse_value_parse_elems_parse_members.induct)
  case (2 fr c s)
  consider "c = CHR 0x22" | "c = CHR ''{''" | "c = CHR ''[''"
    | "c \<notin> {CHR 0x22, CHR ''{'', CHR ''[''}" by auto
  then show ?case
  proof cases
    case 1
    then show ?thesis using 2(3) scan_string_extend [of s _ _ t] by auto
  next
    case c: 2
    then obtain a b where ab: "skip_ws s = a # b" using 2(3) by (cases "skip_ws s") auto
    then have sk: "skip_ws (s @ t) = a # b @ t" by (simp add: skip_ws_extend)
    show ?thesis
    proof (cases "a = CHR ''}''")
      case True
      with 2(3) c ab sk show ?thesis by simp
    next
      case False
      with 2(3) c ab obtain kvs where k: "parse_members fr (skip_ws s) = Some (kvs, r)"
        "distinct (map fst kvs)" "v = JObj kvs"
        by (auto simp del: parse_members.simps split: option.splits if_splits)
      from 2(1) [OF _ c _ k(1)] c ab False have "parse_members fr (a # b @ t) = Some (kvs, r @ t)"
        by (simp del: parse_members.simps)
      with k c sk False show ?thesis by (simp del: parse_members.simps)
    qed
  next
    case c: 3
    then obtain a b where ab: "skip_ws s = a # b" using 2(3) by (cases "skip_ws s") auto
    then have sk: "skip_ws (s @ t) = a # b @ t" by (simp add: skip_ws_extend)
    show ?thesis
    proof (cases "a = CHR '']''")
      case True
      with 2(3) c ab sk show ?thesis by simp
    next
      case False
      with 2(3) c ab obtain vs where k: "parse_elems fr (skip_ws s) = Some (vs, r)" "v = JArr vs"
        by (auto simp del: parse_elems.simps split: option.splits if_splits)
      from 2(2) [OF _ _ c _ k(1)] c ab False have "parse_elems fr (a # b @ t) = Some (vs, r @ t)"
        by (simp del: parse_elems.simps)
      with k c sk False show ?thesis by (simp del: parse_elems.simps)
    qed
  next
    case 4
    note lit = parse_literal [of "c # s" fr] parse_literal [of "c # s @ t" fr]
      take_literal [where c = c and s = s and t = t]
    consider "take 4 (c # s) = ''null''" | "take 4 (c # s) = ''true''" | "take 5 (c # s) = ''false''"
      | "take 4 (c # s) \<noteq> ''null''" "take 4 (c # s) \<noteq> ''true''" "take 5 (c # s) \<noteq> ''false''" by blast
    then show ?thesis
    proof cases
      case 1
      with "2.prems"(1) lit(1,4) lit(7) [OF 1] show ?thesis by simp
    next
      case 2
      with "2.prems"(1) lit(2,5) lit(7) [OF 2] show ?thesis by simp
    next
      case 3
      with "2.prems"(1) lit(3,6) lit(7) [OF 3] show ?thesis by simp
    next
      case n: 4
      have "parse_value fr (c # s) = scan_number fr (c # s)"
        using 4 n by (simp only: parse_value.simps insert_iff empty_iff de_Morgan_disj simp_thms if_False)
      then have num: "scan_number fr (c # s) = Some (v, r)" using "2.prems"(1) by simp
      then have "is_number v" by (auto simp: scan_number_def Let_def split: option.splits prod.splits if_splits)
      with 2(4) have "stops r" by simp
      from scan_number_extend [OF num this, of t] scan_number_numeric [OF num]
      show ?thesis using parse_numeric [of c fr "s @ t"] by simp
    qed
  qed
next
  case (3 fr s)
  from 3(3) obtain w q where w: "parse_value fr s = Some (w, q)" by (auto split: option.splits)
  from 3(3) w obtain d u where u: "skip_ws q = d # u" by (auto split: list.splits)
  have d: "d = CHR '']'' \<or> d = CHR '',''" using 3(3) w u by (auto split: if_splits)
  have q: "parse_value fr (s @ t) = Some (w, q @ t)"
    using 3(1) [OF w] skip_ws_stops [OF u] d by blast
  have sk: "skip_ws (q @ t) = d # u @ t" using skip_ws_extend [of q t] u by simp
  show ?case
  proof (cases "d = CHR '']''")
    case True
    with 3(3) w u q sk show ?thesis by simp
  next
    case False
    with 3(3) w u d obtain vs' where vs: "length u < length s"
      "parse_elems fr (skip_ws u) = Some (vs', r)" "vs = w # vs'" by (auto split: if_splits)
    have "skip_ws u \<noteq> []" using vs(2) by (auto split: option.splits)
    then have sku: "skip_ws (u @ t) = skip_ws u @ t" by (rule skip_ws_extend)
    have "parse_elems fr (skip_ws u @ t) = Some (vs', r @ t)"
      using 3(2) w u False d vs by simp
    with q sk sku vs d False show ?thesis by simp
  qed
next
  case (5 fr c s)
  from 5(3) obtain k r0 d r1 w r2 e q where
    k: "scan_string s = Some (k, r0)" and d: "skip_ws r0 = d # r1" "c = CHR 0x22" "d = CHR '':''"
    and w: "parse_value fr (skip_ws r1) = Some (w, r2)" and e: "skip_ws r2 = e # q"
    by (auto split: option.splits list.splits if_splits)
  have e2: "e = CHR ''}'' \<or> e = CHR '',''" using 5(3) k d w e by (auto split: if_splits)
  have ne1: "skip_ws r1 \<noteq> []" using w by auto
  have W: "parse_value fr (skip_ws r1 @ t) = Some (w, r2 @ t)"
    using 5(1) k d w skip_ws_stops [OF e] e2 by blast
  note ext = scan_string_extend [OF k, of t] skip_ws_extend [of r0 t] skip_ws_extend [OF ne1, of t]
    skip_ws_extend [of r2 t]
  show ?case
  proof (cases "e = CHR ''}''")
    case True
    with 5(3) k d w e W ext show ?thesis by simp
  next
    case False
    with 5(3) k d w e e2 obtain kvs' where kvs: "length q < length s"
      "parse_members fr (skip_ws q) = Some (kvs', r)" "kvs = (k, w) # kvs'" by (auto split: if_splits)
    have "skip_ws q \<noteq> []" using kvs(2) by auto
    then have skq: "skip_ws (q @ t) = skip_ws q @ t" by (rule skip_ws_extend)
    have "parse_members fr (skip_ws q @ t) = Some (kvs', r @ t)"
      using 5(2) k d w e False e2 kvs by simp
    with d e W ext skq kvs e2 False show ?thesis by simp
  qed
qed simp_all

section \<open>A torn record is not a value\<close>

lemma torn_text_is_rejected:
  assumes v: "json_ok fr (JObj kvs)" and pt: "canonical_json_bytes (JObj kvs) = p @ t"
    and t: "t \<noteq> []" "t \<noteq> [newline]"
  shows "\<exists>x. strict_json_loads fr p = Inl x"
proof (rule ccontr)
  assume "\<not> ?thesis"
  then obtain u where "strict_json_loads fr p = Inr u" by (metis obj_sumE)
  then obtain r where p: "parse_value fr (skip_ws p) = Some (u, r)" and r: "skip_ws r = []"
    by (auto simp: strict_json_loads_def split: if_splits option.splits)
  obtain b where b: "dumps (JObj kvs) = CHR ''{'' # b" by simp
  have "p \<noteq> []" using p by (auto simp: skip_ws_def)
  then obtain p' where p': "p = CHR ''{'' # p'"
    using pt b by (cases p) (auto simp: canonical_json_bytes_def)
  then have sk: "skip_ws p = p" by (simp add: skip_ws_nonspace)
  have "\<not> is_number u" using p p' sk by (auto split: if_splits option.splits)
  with parse_extend(1) [OF p, of t] sk have "parse_value fr (p @ t) = Some (u, r @ t)" by simp
  moreover have nl: "ends [newline]" by simp
  have "parse_value fr (p @ t) = Some (norm (JObj kvs), [newline])"
    using parse_dumps [OF norm_ok [OF v] norm_sorted nl] pt by (simp only: dumps_norm canonical_json_bytes_def)
  ultimately have "r @ t = [newline]" by simp
  with t show False by (cases r) auto
qed

end
