(* ===== verification/Files.thy ===== *)
theory Files
  imports Prelude
begin

text \<open>
  The files of a run as the journal and the manifests see them: the tree under the run root, from
  path components to nodes, and the write-once discipline of the evidence files.  A path that runs
  through a symbolic link is refused by every reader before it is used, so a link has no target here.
  A directory is present exactly when the tree says so; the run root itself always is.
\<close>

section \<open>The tree\<close>

datatype node = File string | Dir | Link

type_synonym path = "string list"
type_synonym fs = "(path, node) dict"

definition lexists :: "fs \<Rightarrow> path \<Rightarrow> bool" where
  "lexists fs p = (p = [] \<or> dget fs p \<noteq> None)"

definition is_link :: "fs \<Rightarrow> path \<Rightarrow> bool" where
  "is_link fs p = (dget fs p = Some Link)"

definition is_dir :: "fs \<Rightarrow> path \<Rightarrow> bool" where
  "is_dir fs p = (p = [] \<or> dget fs p = Some Dir)"

definition read_bytes :: "fs \<Rightarrow> path \<Rightarrow> string option" where
  "read_bytes fs p = (case dget fs p of Some (File b) \<Rightarrow> Some b | _ \<Rightarrow> None)"

definition is_file :: "fs \<Rightarrow> path \<Rightarrow> bool" where
  "is_file fs p = (read_bytes fs p \<noteq> None)"

text \<open>\<open>iterdir\<close>: the names of the entries of a directory.\<close>

definition children :: "fs \<Rightarrow> path \<Rightarrow> string list" where
  "children fs d = map last (filter (\<lambda>p. p \<noteq> [] \<and> butlast p = d) (map fst fs))"

text \<open>The directories on the way to a path and the path itself.\<close>

definition cursors :: "path \<Rightarrow> path list" where
  "cursors p = map (\<lambda>n. take n p) [1..<Suc (length p)]"

lemma in_cursors: "q \<in> set (cursors p) \<longleftrightarrow> (\<exists>n. 1 \<le> n \<and> n \<le> length p \<and> q = take n p)"
  by (auto simp: cursors_def)

lemma read_bytes_iff: "read_bytes fs p = Some b \<longleftrightarrow> dget fs p = Some (File b)"
  by (auto simp: read_bytes_def split: option.splits node.splits)

lemma read_bytes_dset:
  "read_bytes (dset p n fs) q = (if q = p then (case n of File b \<Rightarrow> Some b | _ \<Rightarrow> None) else read_bytes fs q)"
  by (simp add: read_bytes_def dict_simps)

lemma is_file_link: "is_link fs p \<Longrightarrow> \<not> is_file fs p"
  by (simp add: is_link_def is_file_def read_bytes_def)

text \<open>Every entry stands in a directory.\<close>

definition wf_fs :: "fs \<Rightarrow> bool" where
  "wf_fs fs = (\<forall>p \<in> dkeys fs. p \<noteq> [] \<and> is_dir fs (butlast p))"

lemma dget_after_dset [simp]: "dget (dset p n fs) q = (if q = p then Some n else dget fs q)"
  by (simp add: dict_simps)

lemma is_dir_dset: "is_dir (dset p n fs) q \<longleftrightarrow> q = [] \<or> (if q = p then n = Dir else is_dir fs q)"
  by (auto simp: is_dir_def)

lemma wf_fs_dset:
  assumes "wf_fs fs" and "p \<noteq> []" and "is_dir fs (butlast p)" and "dget fs p = None \<or> n = Dir \<or> \<not> is_dir fs p"
  shows "wf_fs (dset p n fs)"
proof -
  have "butlast p \<noteq> p" using assms(2) by (metis append_butlast_last_id list.distinct(1) self_append_conv)
  moreover have "\<not> is_dir fs p \<or> n = Dir"
    using assms(2,4) by (auto simp: is_dir_def)
  ultimately show ?thesis
    using assms by (auto simp: wf_fs_def is_dir_dset dict_simps)
qed

section \<open>Creating directories\<close>

text \<open>\<open>_ensure_directory\<close> (\<^verbatim>\<open>recovery.py\<close>) and the loop at the start of \<open>_install\<close>
  (\<^verbatim>\<open>manifests.py\<close>); \<open>m\<close> and \<open>m'\<close> are the messages.\<close>

fun ensure_directory :: "string \<Rightarrow> string \<Rightarrow> fs \<Rightarrow> path \<Rightarrow> string list \<Rightarrow> (string, fs) result" where
  "ensure_directory m m' fs cursor [] = Inr fs"
| "ensure_directory m m' fs cursor (part # parts) = (let c = cursor @ [part] in
     guard (is_link fs c) m
    (guard (lexists fs c \<and> \<not> is_dir fs c) m'
    (ensure_directory m m' (if lexists fs c then fs else dset c Dir fs) c parts)))"

lemma ensure_directory_reads:
  "ensure_directory m m' fs c ps = Inr fs' \<Longrightarrow> read_bytes fs' p = read_bytes fs p"
  by (induction m m' fs c ps rule: ensure_directory.induct)
    (auto simp: Let_def guard_simps read_bytes_dset lexists_def read_bytes_def split: if_splits option.splits)

lemma ensure_directory_wf:
  "ensure_directory m m' fs c ps = Inr fs' \<Longrightarrow> wf_fs fs \<Longrightarrow> is_dir fs c
    \<Longrightarrow> wf_fs fs' \<and> is_dir fs' (c @ ps)"
proof (induction m m' fs c ps rule: ensure_directory.induct)
  case (2 m m' fs c part parts)
  let ?c = "c @ [part]" let ?fs = "if lexists fs ?c then fs else dset ?c Dir fs"
  from 2(2) have g: "\<not> is_link fs ?c" "\<not> (lexists fs ?c \<and> \<not> is_dir fs ?c)"
    "ensure_directory m m' ?fs ?c parts = Inr fs'" by (auto simp: Let_def guard_simps)
  have "wf_fs ?fs" using 2(3,4) by (auto simp: lexists_def intro!: wf_fs_dset)
  moreover have "is_dir ?fs ?c" using g(2) by (auto simp: is_dir_dset)
  ultimately show ?case using 2(1) [OF refl] g(3) by simp
qed simp

lemma ensure_directory_present:
  "wf_fs fs \<Longrightarrow> is_dir fs (c @ ps) \<Longrightarrow> ensure_directory m m' fs c ps = Inr fs"
proof (induction ps arbitrary: c rule: list.induct)
  case (Cons part parts)
  have all: "is_dir fs (take n p)" if "is_dir fs p" for n p
    using that
  proof (induction p rule: rev_induct)
    case (snoc x p)
    have "is_dir fs p"
      using snoc.prems bspec [OF Cons.prems(1) [unfolded wf_fs_def], of "p @ [x]"]
      by (auto simp: is_dir_def [of fs "p @ [x]"] dest: dget_SomeD)
    then show ?case using snoc by (cases "n \<le> length p") simp_all
  qed (simp add: is_dir_def)
  let ?c = "c @ [part]"
  have "is_dir fs (take (length ?c) (c @ part # parts))" by (rule all [OF Cons.prems(2)])
  then have d: "is_dir fs ?c" by simp
  then have "\<not> is_link fs ?c" "lexists fs ?c" by (auto simp: is_dir_def is_link_def lexists_def)
  with d Cons show ?case by simp
qed simp

lemma file_in_directory:
  "wf_fs fs \<Longrightarrow> read_bytes fs (d @ [name]) = Some b \<Longrightarrow> is_dir fs d"
  by (auto simp: wf_fs_def read_bytes_iff dest!: dget_SomeD bspec)

section \<open>Write-once storage\<close>

text \<open>
  What the evidence stores of the kernel promise.  \<open>put\<close> publishes bytes under a key or refuses,
  \<open>peek\<close> is what a reader finds: published bytes are what was put, nothing else changes, and what is
  there already is never replaced.
\<close>

locale write_once =
  fixes put :: "fs \<Rightarrow> 'k \<Rightarrow> string \<Rightarrow> (string, fs) result"
    and peek :: "fs \<Rightarrow> 'k \<Rightarrow> string option"
  assumes put_ok: "wf_fs s \<Longrightarrow> put s k v = Inr s' \<Longrightarrow> wf_fs s'"
    and put_peek: "wf_fs s \<Longrightarrow> put s k v = Inr s' \<Longrightarrow> peek s' k = Some v"
    and put_frame: "wf_fs s \<Longrightarrow> put s k v = Inr s' \<Longrightarrow> j \<noteq> k \<Longrightarrow> peek s' j = peek s j"
    and put_kept: "wf_fs s \<Longrightarrow> put s k v = Inr s' \<Longrightarrow> peek s k = Some w \<Longrightarrow> w = v"
    and put_present: "wf_fs s \<Longrightarrow> peek s k = Some v \<Longrightarrow> put s k v = Inr s"
begin

lemma put_monotone: "wf_fs s \<Longrightarrow> put s k v = Inr s' \<Longrightarrow> peek s j = Some w \<Longrightarrow> peek s' j = Some w"
  using put_peek [of s k v s'] put_frame [of s k v s' j] put_kept [of s k v s' w] by (cases "j = k") auto

lemma put_again: "wf_fs s \<Longrightarrow> put s k v = Inr s' \<Longrightarrow> put s' k v = Inr s'"
  using put_ok put_peek put_present by blast

text \<open>Two different contents are never published under one key.\<close>

lemma put_conflict: "wf_fs s \<Longrightarrow> peek s k = Some w \<Longrightarrow> v \<noteq> w \<Longrightarrow> \<exists>m. put s k v = Inl m"
  using put_kept by (metis obj_sumE)

text \<open>A batch that was cut short after its first item can be run again from the start.\<close>

lemma put_resume:
  assumes "wf_fs s" and "put s k v = Inr t" and "put t j w = Inr u"
  shows "put t k v = Inr t" and "put u k v = Inr u" and "put u j w = Inr u"
proof -
  have t: "wf_fs t" by (rule put_ok [OF assms(1,2)])
  show "put t k v = Inr t" by (rule put_again [OF assms(1,2)])
  show "put u k v = Inr u"
    using put_monotone [OF t assms(3)] put_peek [OF assms(1,2)] put_ok [OF t assms(3)] put_present by blast
  show "put u j w = Inr u" by (rule put_again [OF t assms(3)])
qed

end

text \<open>\<open>_write_immutable\<close> (\<^verbatim>\<open>recovery.py\<close>): the directory is there, the file may be.\<close>

definition write_immutable :: "fs \<Rightarrow> path \<Rightarrow> string \<Rightarrow> (string, fs) result" where
  "write_immutable fs p value =
     guard (is_link fs p) ''recovery evidence target must not be a symlink''
    (if lexists fs p then
       guard (read_bytes fs p \<noteq> Some value) ''existing recovery evidence differs from this request'' (Inr fs)
     else guard (\<not> is_dir fs (butlast p)) ''[Errno 2] No such file or directory'' (Inr (dset p (File value) fs)))"

interpretation evidence: write_once write_immutable read_bytes
proof
  fix s s' :: fs and k j :: path and v w :: string
  assume wf: "wf_fs s"
  show "write_immutable s k v = Inr s" if "read_bytes s k = Some v"
    using that by (auto simp: write_immutable_def guard_simps is_link_def lexists_def read_bytes_iff)
  assume p: "write_immutable s k v = Inr s'"
  show "wf_fs s'"
    using p wf wf_fs_dset [OF wf, of k "File v"]
    by (auto simp: write_immutable_def guard_simps lexists_def split: if_splits)
  show "read_bytes s' k = Some v"
    using p by (auto simp: write_immutable_def guard_simps read_bytes_dset split: if_splits)
  show "read_bytes s' j = read_bytes s j" if "j \<noteq> k"
    using p that by (auto simp: write_immutable_def guard_simps read_bytes_dset split: if_splits)
  show "w = v" if "read_bytes s k = Some w"
    using p that by (auto simp: write_immutable_def guard_simps lexists_def read_bytes_iff split: if_splits)
qed

end
