(* ===== verification/Manifests.thy ===== *)
theory Manifests
  imports Files Reducer
begin

text \<open>
  The content-addressed manifests of \<^verbatim>\<open>kernel/ledger/manifests.py\<close>: artifact manifests and material
  passports are published once under the digest of their canonical bytes, read back with every byte
  checked, and compared with the event that accepts them and with the state before it.
\<close>

section \<open>Records\<close>

record artifact_manifest =
  am_schema_version :: string
  am_run_id :: ident
  am_artifact_id :: ident
  am_artifact_kind :: ident
  am_media_type :: string
  am_content_path :: string
  am_content_sha256 :: sha256
  am_producer_id :: ident
  am_attempt_id :: "ident option"
  am_base_revision :: int
  am_consumed_sha256 :: "sha256 list"
  am_created_at :: timestamp

record passport_decision =
  pds2_decision_id :: ident
  pds2_blocker_code :: ident
  pds2_source_event_ids :: "ident list"
  pds2_starting_revision :: int
  pds2_allowed_choices :: "ident list"
  pds2_rationale_required :: bool
  pds2_unlock_transitions :: "ident list"

record passport_attempt =
  pat_attempt_id :: ident
  pat_base_revision :: int
  pat_consumed_sha256 :: "sha256 list"

record material_passport =
  mp_schema_version :: string
  mp_run_id :: ident
  mp_workflow_definition_id :: ident
  mp_workflow_definition_sha256 :: sha256
  mp_based_on_revision :: int
  mp_ledger_head_sha256 :: sha256
  mp_stage :: ident
  mp_checkpoint_kind :: checkpoint_kind
  mp_parent_passport_sha256 :: "sha256 option"
  mp_supersedes_passport_sha256 :: "sha256 option"
  mp_accepted_artifact_manifest_sha256 :: "sha256 list"
  mp_pending_human_decisions :: "passport_decision list"
  mp_active_attempts :: "passport_attempt list"
  mp_fresh_until :: "timestamp option"
  mp_created_at :: timestamp
  mp_created_by :: ident

record passport_pointer =
  ptr_run_id :: ident
  ptr_passport_sha256 :: sha256
  ptr_accepted_revision :: int
  ptr_ledger_head_sha256 :: sha256

record immutable_input =
  imi_path :: string
  imi_sha256 :: sha256

record run_manifest =
  mf_run_id :: ident
  mf_created_at :: timestamp
  mf_immutable_input :: immutable_input
  mf_workflow_definition_id :: "ident option"
  mf_workflow_definition_sha256 :: "sha256 option"
  mf_segmented :: bool
  mf_capabilities :: "string list"
  mf_narrative_binding :: "json option"
  mf_task_kind :: "string option"

text \<open>\<open>journal_layout\<close> is absent or \<^verbatim>\<open>"segmented-v1"\<close>: \<open>mf_segmented\<close>.\<close>

definition workflow_identity_is_complete :: "run_manifest \<Rightarrow> (string, run_manifest) result" where
  "workflow_identity_is_complete m =
     guard (\<not> distinct (mf_capabilities m)) ''capabilities must be unique''
    (guard ((mf_workflow_definition_id m = None) \<noteq> (mf_workflow_definition_sha256 m = None))
       ''workflow definition ID and digest must be provided together''
    (guard (mf_segmented m \<and> mf_workflow_definition_id m = None)
       ''segmented journals require a bound workflow definition''
    (guard ((mf_task_kind m = Some ''paper'') \<noteq> (mf_narrative_binding m \<noteq> None))
       ''paper task kind and narrative binding must occur together'' (Inr m))))"

record recovery_receipt =
  rcp_run_id :: ident
  rcp_recovery_id :: ident
  rcp_segment_relative_path :: string
  rcp_original_segment_sha256 :: sha256
  rcp_original_segment_byte_count :: int
  rcp_accepted_byte_end :: int
  rcp_fault_offset :: int
  rcp_fault_class :: recovery_fault
  rcp_quarantine_raw_path :: string
  rcp_quarantine_raw_sha256 :: sha256
  rcp_prior_valid_revision :: int
  rcp_prior_valid_head_sha256 :: sha256
  rcp_operator_id :: ident
  rcp_reason_code :: ident
  rcp_reason_text :: string
  rcp_command_id :: ident
  rcp_event_id :: ident
  rcp_occurred_at :: timestamp

definition offsets_fit_original_segment :: "recovery_receipt \<Rightarrow> (string, recovery_receipt) result" where
  "offsets_fit_original_segment r =
     guard (\<not> is_ok (recovery_path (rcp_segment_relative_path r))
          \<or> \<not> is_ok (recovery_path (rcp_quarantine_raw_path r)))
       ''recovery paths must be normalized relative POSIX paths''
    (guard (rcp_accepted_byte_end r \<noteq> rcp_fault_offset r) ''accepted byte end must equal the fault offset''
    (guard (rcp_original_segment_byte_count r \<le> rcp_fault_offset r)
       ''fault offset must precede the end of the damaged segment'' (Inr r)))"

section \<open>The environment\<close>

text \<open>
  What the kernel takes from libraries: the hash function, \<open>repr \<circ> float\<close>, and for every record class
  the JSON value it is dumped to and the object a JSON value is validated to (\<open>None\<close> when the
  validation library refuses it).  The last four fields are the checks of code outside this model:
  experiment contracts and provenance, narrative reports and observations of the host.
\<close>

record store_env =
  se_env :: env
  se_float :: "string \<Rightarrow> string"
  se_event :: "json \<Rightarrow> canonical_event option"
  se_event_dump :: "canonical_event \<Rightarrow> wire_event"
  se_run_manifest :: "json \<Rightarrow> run_manifest option"
  se_run_manifest_dump :: "run_manifest \<Rightarrow> json"
  se_receipt :: "json \<Rightarrow> recovery_receipt option"
  se_receipt_dump :: "recovery_receipt \<Rightarrow> json"
  se_artifact :: "json \<Rightarrow> artifact_manifest option"
  se_artifact_dump :: "artifact_manifest \<Rightarrow> json"
  se_passport :: "json \<Rightarrow> material_passport option"
  se_passport_dump :: "material_passport \<Rightarrow> json"
  se_experiment_contract :: "fs \<Rightarrow> canonical_event list \<Rightarrow> canonical_event \<Rightarrow> (string, unit) result"
  se_experiment_provenance :: "fs \<Rightarrow> canonical_event \<Rightarrow> (string, unit) result"
  se_narrative_report :: "fs \<Rightarrow> canonical_event \<Rightarrow> (string, unit) result"
  se_harness_identity :: "fs \<Rightarrow> host_identity_receipt_v2 \<Rightarrow> (string, unit) result"

abbreviation hash :: "store_env \<Rightarrow> string \<Rightarrow> sha256" where
  "hash S \<equiv> sha256_hex (se_env S)"

section \<open>The content-addressed stores\<close>

definition MAX_MANIFEST_BYTES :: nat where
  "MAX_MANIFEST_BYTES = 1048576"

definition MAX_LEGACY_MANIFEST_BYTES :: nat where
  "MAX_LEGACY_MANIFEST_BYTES = 16777216"

definition ARTIFACT_STORE :: path where
  "ARTIFACT_STORE = [''manifests'', ''artifacts'', ''sha256'']"

definition PASSPORT_STORE :: path where
  "PASSPORT_STORE = [''passports'', ''sha256'']"

definition json_name :: "string \<Rightarrow> string" where
  "json_name digest = digest @ ''.json''"

text \<open>The part of \<open>_install\<close> after the digest is known; \<open>digest\<close> is the address.\<close>

definition publish :: "path \<Rightarrow> fs \<Rightarrow> sha256 \<Rightarrow> string \<Rightarrow> (string, fs) result" where
  "publish store fs digest value =
     guard (MAX_MANIFEST_BYTES < length value) ''manifest exceeds the byte limit''
    (rbind (ensure_directory ''manifest store path must not contain symlinks''
        ''manifest store path contains a non-directory'' fs [] store) (\<lambda>fs.
     let target = store @ [json_name digest] in
     if lexists fs target then
       guard (read_bytes fs target \<noteq> Some value) ''content-address collision or unsafe manifest path'' (Inr fs)
     else Inr (dset target (File value) fs)))"

definition content :: "path \<Rightarrow> fs \<Rightarrow> sha256 \<Rightarrow> string option" where
  "content store fs digest = read_bytes fs (store @ [json_name digest])"

definition small_content :: "path \<Rightarrow> fs \<Rightarrow> sha256 \<Rightarrow> string option" where
  "small_content store fs digest =
     (case content store fs digest of
        Some b \<Rightarrow> if length b \<le> MAX_MANIFEST_BYTES then Some b else None
      | None \<Rightarrow> None)"

definition install ::
  "(string \<Rightarrow> sha256) \<Rightarrow> path \<Rightarrow> fs \<Rightarrow> json \<Rightarrow> (string, fs \<times> sha256) result" where
  "install h store fs v = (let value = canonical_json_bytes v; digest = h value in
     rbind (publish store fs digest value) (\<lambda>fs'. Inr (fs', digest)))"

definition load ::
  "store_env \<Rightarrow> path \<Rightarrow> (json \<Rightarrow> 'm option) \<Rightarrow> ('m \<Rightarrow> json) \<Rightarrow> fs \<Rightarrow> sha256 \<Rightarrow> (string, 'm) result" where
  "load S store parse dump fs digest =
     require_some (content store fs digest) ''manifest path is missing or unsafe'' (\<lambda>raw.
     guard (MAX_LEGACY_MANIFEST_BYTES < length raw) ''manifest exceeds the byte limit''
    (case strict_json_loads (se_float S) raw of
       Inl _ \<Rightarrow> Inl ''manifest is invalid''
     | Inr v \<Rightarrow>
         require_some (parse v) ''manifest is invalid'' (\<lambda>m.
         let canonical = canonical_json_bytes (dump m) in
         guard (raw \<noteq> canonical \<or> json_name digest \<noteq> json_name (hash S canonical))
           ''manifest bytes or content address are invalid'' (Inr m))))"

abbreviation install_artifact_manifest :: "store_env \<Rightarrow> fs \<Rightarrow> artifact_manifest \<Rightarrow> (string, fs \<times> sha256) result" where
  "install_artifact_manifest S fs m \<equiv> install (hash S) ARTIFACT_STORE fs (se_artifact_dump S m)"

abbreviation load_artifact_manifest :: "store_env \<Rightarrow> fs \<Rightarrow> sha256 \<Rightarrow> (string, artifact_manifest) result" where
  "load_artifact_manifest S \<equiv> load S ARTIFACT_STORE (se_artifact S) (se_artifact_dump S)"

abbreviation install_material_passport :: "store_env \<Rightarrow> fs \<Rightarrow> material_passport \<Rightarrow> (string, fs \<times> sha256) result" where
  "install_material_passport S fs m \<equiv> install (hash S) PASSPORT_STORE fs (se_passport_dump S m)"

abbreviation load_material_passport :: "store_env \<Rightarrow> fs \<Rightarrow> sha256 \<Rightarrow> (string, material_passport) result" where
  "load_material_passport S \<equiv> load S PASSPORT_STORE (se_passport S) (se_passport_dump S)"

text \<open>\<open>write_passport_pointer\<close> replaces the pointer: it is a projection, not evidence.  \<open>os.replace\<close> puts
  the new file in place of a file or a link and refuses a directory.\<close>

definition pointer_json :: "passport_pointer \<Rightarrow> json" where
  "pointer_json p = JObj
     [(''schema_version'', JStr ''1.0.0''), (''run_id'', JStr (ptr_run_id p)),
      (''passport_sha256'', JStr (ptr_passport_sha256 p)),
      (''accepted_revision'', JInt (ptr_accepted_revision p)),
      (''ledger_head_sha256'', JStr (ptr_ledger_head_sha256 p))]"

definition write_passport_pointer :: "fs \<Rightarrow> passport_pointer \<Rightarrow> (string, fs) result" where
  "write_passport_pointer fs p =
     guard (is_dir fs [''passport.json'']) ''[Errno 21] Is a directory''
       (Inr (dset [''passport.json''] (File (canonical_json_bytes (pointer_json p))) fs))"

section \<open>Content and bindings\<close>

definition manifest_result :: "(string, 'a) result \<Rightarrow> (py_error, 'a) result" where
  "manifest_result r = (case r of Inl m \<Rightarrow> Inl (ManifestError m) | Inr v \<Rightarrow> Inr v)"

lemma manifest_result_Inr [guard_simps]: "manifest_result r = Inr v \<longleftrightarrow> r = Inr v"
  by (simp add: manifest_result_def split: sum.split)

definition validate_content_file ::
  "store_env \<Rightarrow> fs \<Rightarrow> string \<Rightarrow> sha256 \<Rightarrow> int option \<Rightarrow> (string, string) result" where
  "validate_content_file S fs relative expected_sha256 expected_byte_count =
     guard (bad_chars relative \<or> is_absolute relative \<or> list_ex dotted (posix_parts relative))
       ''content path must be normalized and relative''
    (let p = posix_parts relative in
     guard (list_ex (is_link fs) (cursors p)) ''content path must not contain a symlink''
    (guard (\<not> lexists fs p) ''artifact content is unavailable''
    (require_some (read_bytes fs p) ''artifact content must be a regular file under the run root'' (\<lambda>raw.
     guard (expected_byte_count \<noteq> None \<and> expected_byte_count \<noteq> Some (int (length raw)))
       ''artifact content byte count mismatch''
    (guard (hash S raw \<noteq> expected_sha256) ''artifact content digest mismatch'' (Inr raw))))))"

definition attempt_result_path :: "ident \<Rightarrow> string \<Rightarrow> string" where
  "attempt_result_path attempt relative = ''attempts/'' @ attempt @ ''/result/'' @ relative"

definition binding_location ::
  "store_env \<Rightarrow> fs \<Rightarrow> canonical_event \<Rightarrow> execution_artifact_bound \<Rightarrow> run_manifest \<Rightarrow> (string, string) result"
  where
  "binding_location S fs e b m =
    (case bd_source_kind b of
       Src_run_input \<Rightarrow>
         guard (bd_relative_path b \<noteq> imi_path (mf_immutable_input m)
              \<or> bd_content_sha256 b \<noteq> imi_sha256 (mf_immutable_input m)
              \<or> bd_source_manifest_sha256 b
                  \<noteq> Some (hash S (canonical_json_bytes (se_run_manifest_dump S m))))
           ''execution input binding differs from run manifest'' (Inr (bd_relative_path b))
     | Src_proposal \<Rightarrow> Inr (attempt_result_path (bd_attempt_id b) (bd_relative_path b))
     | Src_artifact \<Rightarrow>
         require_some (bd_source_manifest_sha256 b) ''accepted artifact binding needs its manifest digest'' (\<lambda>d.
         rbind (load_artifact_manifest S fs d) (\<lambda>a.
         guard (am_run_id a \<noteq> ev_run_id e \<or> am_content_path a \<noteq> bd_relative_path b
              \<or> am_content_sha256 a \<noteq> bd_content_sha256 b)
           ''execution artifact binding differs from manifest'' (Inr (bd_relative_path b)))))"

definition validate_execution_binding_source ::
  "store_env \<Rightarrow> fs \<Rightarrow> canonical_event \<Rightarrow> run_manifest \<Rightarrow> (py_error, unit) result" where
  "validate_execution_binding_source S fs e m =
    (if ev_event_type e \<noteq> Ep_artifact_bound then Inr ()
     else require_some (as_artifact_bound (ev_payload e)) PyAssertionError (\<lambda>b. manifest_result
       (rbind (binding_location S fs e b m) (\<lambda>relative.
        rbind (validate_content_file S fs relative (bd_content_sha256 b) (Some (bd_byte_count b))) (\<lambda>raw.
        guard (int (length raw) \<noteq> bd_byte_count b)
          ''execution binding byte count differs from retained file'' (Inr ()))))))"

section \<open>Accepted events and their manifests\<close>

definition harness_receipt :: "canonical_event \<Rightarrow> host_identity_receipt_v2 option" where
  "harness_receipt e =
    (if ev_event_type e \<noteq> Host_identity_accepted then None
     else case as_host_identity (ev_payload e) of
       Some p \<Rightarrow> (case hia_receipt p of Receipt_v2 r \<Rightarrow> Some r | Receipt_v1 _ \<Rightarrow> None)
     | None \<Rightarrow> None)"

definition narrative_report_of :: "payload \<Rightarrow> sha256 option" where
  "narrative_report_of p =
    (case p of P_proposal_accepted q \<Rightarrow> pac_narrative_report_sha256 q
     | _ \<Rightarrow> (case as_artifact_accepted p of Some a \<Rightarrow> aa_narrative_report_sha256 a | None \<Rightarrow> None))"

definition artifact_matches_event ::
  "canonical_event \<Rightarrow> artifact_accepted \<Rightarrow> artifact_manifest \<Rightarrow> bool" where
  "artifact_matches_event e p m =
     (am_run_id m = ev_run_id e \<and> am_artifact_id m = aa_artifact_id p
      \<and> am_content_sha256 m = aa_artifact_sha256 p \<and> am_attempt_id m = aa_attempt_id p)"

definition passport_matches_event ::
  "canonical_event \<Rightarrow> passport_accepted \<Rightarrow> material_passport \<Rightarrow> bool" where
  "passport_matches_event e p m =
     (mp_run_id m = ev_run_id e \<and> mp_based_on_revision m = pp_based_on_revision p
      \<and> mp_stage m = pp_stage p \<and> mp_checkpoint_kind m = pp_checkpoint_kind p
      \<and> mp_parent_passport_sha256 m = pp_parent_passport_sha256 p
      \<and> mp_supersedes_passport_sha256 m = pp_supersedes_passport_sha256 p
      \<and> mp_fresh_until m = pp_fresh_until p)"

text \<open>\<open>validate_accepted_event_manifests\<close> on one event that is not an experiment contract.\<close>

definition validate_accepted_event ::
  "store_env \<Rightarrow> fs \<Rightarrow> canonical_event \<Rightarrow> (py_error, unit) result" where
  "validate_accepted_event S fs e =
     rbind (manifest_result
       (case harness_receipt e of Some r \<Rightarrow> se_harness_identity S fs r | None \<Rightarrow> Inr ())) (\<lambda>_.
     rbind (manifest_result (if ev_event_type e = Experiment_provenance_accepted
            then se_experiment_provenance S fs e else Inr ())) (\<lambda>_.
     if ev_event_type e \<in> {Artifact_accepted, Research_artifact_accepted} then
       require_some (as_artifact_accepted (ev_payload e)) PyAssertionError (\<lambda>p. manifest_result
       (rbind (load_artifact_manifest S fs (aa_manifest_sha256 p)) (\<lambda>m.
        guard (\<not> artifact_matches_event e p m) ''artifact acceptance event differs from its manifest''
          (if aa_narrative_report_sha256 p \<noteq> None then se_narrative_report S fs e else Inr ()))))
     else if ev_event_type e = Passport_accepted then
       require_some (as_passport_accepted (ev_payload e)) PyAssertionError (\<lambda>p. manifest_result
       (rbind (load_material_passport S fs (pp_passport_sha256 p)) (\<lambda>m.
        guard (\<not> passport_matches_event e p m) ''Passport acceptance event differs from its manifest'' (Inr ()))))
     else if ev_event_type e = Proposal_accepted \<and> narrative_report_of (ev_payload e) \<noteq> None then
       manifest_result (se_narrative_report S fs e)
     else Inr ()))"

text \<open>The loop over all accepted events, with the contract events before each one.\<close>

fun validate_accepted_events ::
  "store_env \<Rightarrow> fs \<Rightarrow> canonical_event list \<Rightarrow> canonical_event list \<Rightarrow> (py_error, unit) result" where
  "validate_accepted_events S fs contracts [] = Inr ()"
| "validate_accepted_events S fs contracts (e # es) =
     rbind (if ev_event_type e = Experiment_contract_accepted
            then manifest_result (se_experiment_contract S fs contracts e)
            else validate_accepted_event S fs e) (\<lambda>_.
     validate_accepted_events S fs
       (if ev_event_type e = Experiment_contract_accepted then contracts @ [e] else contracts) es)"

section \<open>An accepted manifest binds the state before it\<close>

definition known_hashes :: "runtime_state \<Rightarrow> sha256 set" where
  "known_hashes st = (let s = rt_locals st in
     insert (rd_head s) (set (rd_artifacts s) \<union> set (rd_passports s)))"

definition harness_evidence :: "runtime_state \<Rightarrow> sha256 set" where
  "harness_evidence st = (let s = rt_locals st in
     known_hashes st \<union> set (rd_canonical_event_sha256 s) \<union> set (rt_accepted_evidence st)
     \<union> set (rt_accepted_proposal_sha256 st)
     \<union> set (filter (\<lambda>d. d \<noteq> []) (List.map_filter rr_report_sha256 (rd_panel_reports s))))"

definition harness_matches :: "runtime_state \<Rightarrow> host_identity_receipt_v2 \<Rightarrow> proposal_state list" where
  "harness_matches st r =
     filter (\<lambda>p. prs_effective_status p = Eff_accepted \<and> prs_attempt_id p = hr2_attempt_id r
       \<and> prs_assignment_id p = hr2_assignment_id r
       \<and> map_option wp_host_agent_id (prs_proposal p) = Some (hr2_host_agent_id r)) (rt_proposals st)"

definition artifact_inputs_current ::
  "runtime_state \<Rightarrow> artifact_manifest \<Rightarrow> (string, unit) result" where
  "artifact_inputs_current st m =
    (case am_attempt_id m of
       None \<Rightarrow>
         guard (am_base_revision m \<noteq> rd_revision (rt_locals st))
           ''artifact manifest base revision is not current''
        (guard (\<not> set (am_consumed_sha256 m) \<subseteq> known_hashes st)
           ''artifact manifest consumes an unknown hash'' (Inr ()))
     | Some i \<Rightarrow>
         (case List.find (\<lambda>a. aat_attempt_id a = i) (rt_active_attempts st) of
            None \<Rightarrow> Inl ''artifact manifest does not match its active attempt''
          | Some a \<Rightarrow>
              guard (am_base_revision m \<noteq> aat_base_revision a \<or> am_consumed_sha256 m \<noteq> aat_consumed_sha256 a)
                ''artifact manifest does not match its active attempt'' (Inr ())))"

definition decision_snapshot :: "pending_decision \<Rightarrow> passport_decision" where
  "decision_snapshot d =
     \<lparr> pds2_decision_id = pds_decision_id d, pds2_blocker_code = pds_blocker_code d,
       pds2_source_event_ids = pds_source_event_ids d, pds2_starting_revision = pds_starting_revision d,
       pds2_allowed_choices = pds_allowed_choices d, pds2_rationale_required = pds_rationale_required d,
       pds2_unlock_transitions = pds_unlock_transitions d \<rparr>"

definition attempt_snapshot :: "active_attempt \<Rightarrow> passport_attempt" where
  "attempt_snapshot a =
     \<lparr> pat_attempt_id = aat_attempt_id a, pat_base_revision = aat_base_revision a,
       pat_consumed_sha256 = aat_consumed_sha256 a \<rparr>"

definition passport_binds_state ::
  "canonical_event \<Rightarrow> runtime_state \<Rightarrow> workflow_definition \<Rightarrow> material_passport \<Rightarrow> bool" where
  "passport_binds_state e st w m = (let s = rt_locals st in
     mp_workflow_definition_id m = rt_workflow_definition_id st
   \<and> mp_workflow_definition_sha256 m = wf_sha256 w
   \<and> mp_based_on_revision m = rd_revision s
   \<and> mp_ledger_head_sha256 m = rd_head s
   \<and> mp_stage m = rd_stage s
   \<and> mp_parent_passport_sha256 m = rd_current_passport s
   \<and> mp_supersedes_passport_sha256 m = rd_current_passport s
   \<and> mp_accepted_artifact_manifest_sha256 m = rd_artifacts s
   \<and> mp_pending_human_decisions m = map decision_snapshot (rt_pending_human_decisions st)
   \<and> mp_active_attempts m = map attempt_snapshot (rt_active_attempts st)
   \<and> mp_created_at m = ev_occurred_at e
   \<and> mp_created_by m = ev_actor_id e)"

definition validate_event_manifest_semantics ::
  "store_env \<Rightarrow> fs \<Rightarrow> canonical_event \<Rightarrow> runtime_state \<Rightarrow> (py_error, unit) result" where
  "validate_event_manifest_semantics S fs e st =
     rbind (case harness_receipt e of None \<Rightarrow> Inr ()
            | Some r \<Rightarrow> manifest_result (guard (length (harness_matches st r) \<noteq> 1
                  \<or> \<not> set (hr2_evidence_sha256 r) \<subseteq> harness_evidence st)
                ''harness identity lacks a prior accepted task and canonical evidence''
                (se_harness_identity S fs r))) (\<lambda>_.
     if ev_event_type e \<in> {Artifact_accepted, Research_artifact_accepted} then
       require_some (as_artifact_accepted (ev_payload e)) PyAssertionError (\<lambda>p. manifest_result
        (rbind (load_artifact_manifest S fs (aa_manifest_sha256 p)) (\<lambda>m.
         guard (am_created_at m \<noteq> ev_occurred_at e \<or> am_producer_id m \<noteq> ev_actor_id e)
           ''artifact manifest producer or timestamp differs from its event''
           (artifact_inputs_current st m))))
     else if ev_event_type e = Passport_accepted then
       require_some (as_passport_accepted (ev_payload e)) PyAssertionError (\<lambda>p.
       rbind (manifest_result (load_material_passport S fs (pp_passport_sha256 p))) (\<lambda>m.
       rbind (require_workflow (hash S) (rt_workflow_definition_id st)) (\<lambda>w.
       guard (\<not> passport_binds_state e st w m)
         (ManifestError ''Passport manifest does not bind the accepted checkpoint state'') (Inr ()))))
     else Inr ())"

section \<open>Published manifests are durable\<close>

lemma json_name_inject [simp]: "json_name a = json_name b \<longleftrightarrow> a = b"
  by (simp add: json_name_def)

lemma publish_cases:
  assumes "publish store s k v = Inr s'"
  obtains t where "ensure_directory ''manifest store path must not contain symlinks''
      ''manifest store path contains a non-directory'' s [] store = Inr t"
    "length v \<le> MAX_MANIFEST_BYTES"
    "s' = t \<and> read_bytes t (store @ [json_name k]) = Some v
     \<or> s' = dset (store @ [json_name k]) (File v) t \<and> \<not> lexists t (store @ [json_name k])"
  using assms by (auto simp: publish_def Let_def guard_simps split: if_splits)

lemma publish_write_once: "write_once (publish store) (small_content store)"
proof
  fix s s' :: fs and k j :: sha256 and v w :: string
  assume wf: "wf_fs s"
  show "publish store s k v = Inr s" if "small_content store s k = Some v"
  proof -
    have v: "read_bytes s (store @ [json_name k]) = Some v" "length v \<le> MAX_MANIFEST_BYTES"
      using that by (auto simp: small_content_def content_def split: option.splits if_splits)
    then have "is_dir s ([] @ store)" using file_in_directory [OF wf] by simp
    from ensure_directory_present [OF wf this] v show ?thesis
      by (auto simp: publish_def Let_def guard_simps lexists_def read_bytes_iff)
  qed
  assume "publish store s k v = Inr s'"
  then obtain t where t: "ensure_directory ''manifest store path must not contain symlinks''
      ''manifest store path contains a non-directory'' s [] store = Inr t"
    and len: "length v \<le> MAX_MANIFEST_BYTES"
    and s': "s' = t \<and> read_bytes t (store @ [json_name k]) = Some v
     \<or> s' = dset (store @ [json_name k]) (File v) t \<and> \<not> lexists t (store @ [json_name k])"
    by (rule publish_cases)
  have dir: "wf_fs t" "is_dir t store"
    using ensure_directory_wf [OF t wf] by (simp_all add: is_dir_def)
  note reads = ensure_directory_reads [OF t]
  show "wf_fs s'"
    using s' dir wf_fs_dset [OF dir(1), of "store @ [json_name k]" "File v"] by (auto simp: lexists_def)
  show "small_content store s' k = Some v"
    using s' len by (auto simp: small_content_def content_def read_bytes_dset)
  show "small_content store s' j = small_content store s j" if "j \<noteq> k"
    using s' that by (auto simp: small_content_def content_def read_bytes_dset reads)
  show "w = v" if "small_content store s k = Some w"
    using s' that by (auto simp: small_content_def content_def reads [symmetric] lexists_def read_bytes_iff
        split: option.splits if_splits)
qed

text \<open>A store whose keys are the digests of its contents.\<close>

locale content_store = write_once put peek
  for put :: "fs \<Rightarrow> sha256 \<Rightarrow> string \<Rightarrow> (string, fs) result" and peek +
  fixes h :: "string \<Rightarrow> sha256"
begin

definition addressed :: "fs \<Rightarrow> bool" where
  "addressed s = (\<forall>k v. peek s k = Some v \<longrightarrow> h v = k)"

lemma put_addressed:
  assumes "wf_fs s" and "addressed s" and "put s (h v) v = Inr s'"
  shows "addressed s'"
  unfolding addressed_def
proof (intro allI impI)
  fix k w assume "peek s' k = Some w"
  then show "h w = k"
    using put_peek [OF assms(1,3)] put_frame [OF assms(1,3), of k] assms(2)
    by (cases "k = h v") (auto simp: addressed_def)
qed

text \<open>Two addresses differ unless the contents are equal or the hash function collides.\<close>

lemma addressed_unique: "addressed s \<Longrightarrow> peek s k = Some v \<Longrightarrow> peek s j = Some v \<Longrightarrow> k = j"
  by (auto simp: addressed_def)

end

interpretation artifact_store: content_store "publish ARTIFACT_STORE" "small_content ARTIFACT_STORE" h for h
  unfolding content_store_def by (rule publish_write_once)

interpretation passport_store: content_store "publish PASSPORT_STORE" "small_content PASSPORT_STORE" h for h
  unfolding content_store_def by (rule publish_write_once)

lemma publish_elsewhere:
  assumes "publish store s k v = Inr s'" and "wf_fs s" and "content store' s j = Some w"
    and "store \<noteq> store'"
  shows "content store' s' j = Some w"
proof -
  have "store' @ [json_name j] \<noteq> store @ [json_name k]" using assms(4) by simp
  then show ?thesis
    using assms(1,3) by (elim publish_cases) (auto simp: content_def read_bytes_dset ensure_directory_reads)
qed

lemma load_content:
  assumes "content store fs d = Some (canonical_json_bytes (dump m))"
    and "length (canonical_json_bytes (dump m)) \<le> MAX_LEGACY_MANIFEST_BYTES"
    and "hash S (canonical_json_bytes (dump m)) = d"
    and "parse (norm (dump m)) = Some m" and "json_ok (se_float S) (dump m)"
    and "utf8_valid (canonical_json_bytes (dump m))"
  shows "load S store parse dump fs d = Inr m"
  using assms loads_canonical [OF assms(5,6)] by (auto simp: load_def Let_def guard_simps)

lemma load_exact:
  assumes "load S store parse dump fs d = Inr m"
  shows "content store fs d = Some (canonical_json_bytes (dump m)) \<and> hash S (canonical_json_bytes (dump m)) = d"
proof -
  from assms obtain raw where raw: "content store fs d = Some raw" by (auto simp: load_def guard_simps)
  with assms show ?thesis
    by (cases "strict_json_loads (se_float S) raw") (auto simp: load_def Let_def guard_simps)
qed

text \<open>What happens to the stores while a run goes on.\<close>

inductive store_steps :: "store_env \<Rightarrow> fs \<Rightarrow> fs \<Rightarrow> bool" for S where
  none: "store_steps S fs fs"
| artifact: "store_steps S fs fs1 \<Longrightarrow> install_artifact_manifest S fs1 m = Inr (fs2, d) \<Longrightarrow> store_steps S fs fs2"
| passport: "store_steps S fs fs1 \<Longrightarrow> install_material_passport S fs1 p = Inr (fs2, d) \<Longrightarrow> store_steps S fs fs2"
| pointer: "store_steps S fs fs1 \<Longrightarrow> write_passport_pointer fs1 q = Inr fs2 \<Longrightarrow> store_steps S fs fs2"

inductive_cases store_stepsE: "store_steps S fs fs'"

lemma stores_differ: "ARTIFACT_STORE \<noteq> PASSPORT_STORE" "PASSPORT_STORE \<noteq> ARTIFACT_STORE"
  "[''passport.json''] \<noteq> ARTIFACT_STORE @ [x]"
  by (simp_all add: ARTIFACT_STORE_def PASSPORT_STORE_def)

lemma install_publish: "install h store fs v = Inr (fs', d) \<longleftrightarrow>
    d = h (canonical_json_bytes v) \<and> publish store fs (h (canonical_json_bytes v)) (canonical_json_bytes v) = Inr fs'"
  by (auto simp: install_def Let_def guard_simps)

lemma pointer_effect:
  assumes "write_passport_pointer fs q = Inr fs'" and "wf_fs fs"
  shows "wf_fs fs'" and "content ARTIFACT_STORE fs' d = content ARTIFACT_STORE fs d"
    and "content PASSPORT_STORE fs' d = content PASSPORT_STORE fs d"
proof -
  have fs': "fs' = dset [''passport.json''] (File (canonical_json_bytes (pointer_json q))) fs"
    "\<not> is_dir fs [''passport.json'']" using assms(1) by (auto simp: write_passport_pointer_def guard_simps)
  show "wf_fs fs'" unfolding fs'(1) by (rule wf_fs_dset [OF assms(2)]) (use fs'(2) in \<open>simp_all add: is_dir_def\<close>)
  show "content ARTIFACT_STORE fs' d = content ARTIFACT_STORE fs d"
    "content PASSPORT_STORE fs' d = content PASSPORT_STORE fs d"
    unfolding fs'(1) by (simp_all add: content_def read_bytes_dset stores_differ [symmetric]
        ARTIFACT_STORE_def PASSPORT_STORE_def)
qed

lemma store_steps_keep:
  assumes "store_steps S fs fs'" and "wf_fs fs" and "small_content ARTIFACT_STORE fs d = Some w"
  shows "wf_fs fs' \<and> small_content ARTIFACT_STORE fs' d = Some w"
  using assms
proof (induction rule: store_steps.induct)
  case (artifact fs fs1 m fs2 d')
  then have I: "wf_fs fs1" "small_content ARTIFACT_STORE fs1 d = Some w"
    and p: "publish ARTIFACT_STORE fs1 (hash S (canonical_json_bytes (se_artifact_dump S m)))
      (canonical_json_bytes (se_artifact_dump S m)) = Inr fs2" by (simp_all add: install_publish)
  show ?case using artifact_store.put_ok [OF I(1) p] artifact_store.put_monotone [OF I(1) p I(2)] by blast
next
  case (passport fs fs1 m fs2 d')
  then have I: "wf_fs fs1" "small_content ARTIFACT_STORE fs1 d = Some w"
    and p: "publish PASSPORT_STORE fs1 (hash S (canonical_json_bytes (se_passport_dump S m)))
      (canonical_json_bytes (se_passport_dump S m)) = Inr fs2" by (simp_all add: install_publish)
  from I(2) have c: "content ARTIFACT_STORE fs1 d = Some w" "length w \<le> MAX_MANIFEST_BYTES"
    by (auto simp: small_content_def split: option.splits if_splits)
  from publish_elsewhere [OF p I(1) c(1) stores_differ(2)] c(2)
  show ?case using passport_store.put_ok [OF I(1) p] by (simp add: small_content_def)
next
  case (pointer fs fs1 q fs2)
  then have I: "wf_fs fs1" "small_content ARTIFACT_STORE fs1 d = Some w"
    and p: "write_passport_pointer fs1 q = Inr fs2" by simp_all
  show ?case using pointer_effect [OF p I(1)] I(2) by (simp add: small_content_def)
qed simp_all

text \<open>
  C24.  An artifact manifest is published once and for all.  After it has been installed it is read
  back exactly as it was from its digest, installing it again changes nothing, and whatever is
  installed later, or written over the passport pointer, it is still read back the same; what is read
  from a digest always has that digest.  The round trip rests on the validation library giving back
  the object whose dump it is shown, keys in canonical order.
\<close>

theorem installed_manifest_is_durable:
  assumes "wf_fs fs" and "install_artifact_manifest S fs m = Inr (fs1, d)"
    and "se_artifact S (norm (se_artifact_dump S m)) = Some m"
    and "json_ok (se_float S) (se_artifact_dump S m)"
    and "utf8_valid (canonical_json_bytes (se_artifact_dump S m))"
  shows "load_artifact_manifest S fs1 d = Inr m
    \<and> install_artifact_manifest S fs1 m = Inr (fs1, d)
    \<and> (\<forall>fs2. store_steps S fs1 fs2 \<longrightarrow> load_artifact_manifest S fs2 d = Inr m)
    \<and> (\<forall>fs2 k n. load_artifact_manifest S fs2 k = Inr n \<longrightarrow> hash S (canonical_json_bytes (se_artifact_dump S n)) = k)"
proof -
  let ?b = "canonical_json_bytes (se_artifact_dump S m)"
  have p: "publish ARTIFACT_STORE fs d ?b = Inr fs1" and d: "hash S ?b = d"
    using assms(2) by (simp_all add: install_publish)
  have wf: "wf_fs fs1" and c: "small_content ARTIFACT_STORE fs1 d = Some ?b"
    using artifact_store.put_ok [OF assms(1) p] artifact_store.put_peek [OF assms(1) p] by blast+
  have load: "load_artifact_manifest S fs2 d = Inr m" if "small_content ARTIFACT_STORE fs2 d = Some ?b" for fs2
  proof -
    have "content ARTIFACT_STORE fs2 d = Some ?b" "length ?b \<le> MAX_LEGACY_MANIFEST_BYTES"
      using that by (auto simp: small_content_def MAX_MANIFEST_BYTES_def MAX_LEGACY_MANIFEST_BYTES_def
          split: option.splits if_splits)
    from load_content [where dump = "se_artifact_dump S" and parse = "se_artifact S" and m = m, OF this]
    show ?thesis using d assms(3-5) by blast
  qed
  have "install_artifact_manifest S fs1 m = Inr (fs1, d)"
    using artifact_store.put_again [OF assms(1) p] d by (simp add: install_publish)
  moreover have "load_artifact_manifest S fs2 d = Inr m" if "store_steps S fs1 fs2" for fs2
    using load store_steps_keep [OF that wf c] by simp
  moreover have "hash S (canonical_json_bytes (se_artifact_dump S n)) = k"
    if "load_artifact_manifest S fs2 k = Inr n" for fs2 k n
    using load_exact [OF that] by simp
  ultimately show ?thesis using load [OF c] by simp
qed

section \<open>A store environment\<close>

definition sample_artifact :: artifact_manifest where
  "sample_artifact =
     \<lparr> am_schema_version = ''1.0.0'', am_run_id = ''run'', am_artifact_id = ''draft'',
       am_artifact_kind = ''outline'', am_media_type = ''text/markdown'', am_content_path = ''out.md'',
       am_content_sha256 = ''out'', am_producer_id = ''parent'', am_attempt_id = None,
       am_base_revision = 2, am_consumed_sha256 = [], am_created_at = ''2026-06-01T00:00:00Z'' \<rparr>"

definition sample_run_manifest :: run_manifest where
  "sample_run_manifest =
     \<lparr> mf_run_id = ''run'', mf_created_at = ''2026-06-01T00:00:00Z'',
       mf_immutable_input = \<lparr> imi_path = ''input.md'', imi_sha256 = ''in'' \<rparr>,
       mf_workflow_definition_id = Some ''wf'', mf_workflow_definition_sha256 = Some ''sha'',
       mf_segmented = True, mf_capabilities = [], mf_narrative_binding = None, mf_task_kind = None \<rparr>"

definition sample_passport :: material_passport where
  "sample_passport =
     \<lparr> mp_schema_version = ''1.0.0'', mp_run_id = ''run'', mp_workflow_definition_id = ''wf'',
       mp_workflow_definition_sha256 = ''sha'', mp_based_on_revision = 1, mp_ledger_head_sha256 = ''head'',
       mp_stage = ''prepared'', mp_checkpoint_kind = Ck_explicit, mp_parent_passport_sha256 = None,
       mp_supersedes_passport_sha256 = None, mp_accepted_artifact_manifest_sha256 = [],
       mp_pending_human_decisions = [], mp_active_attempts = [], mp_fresh_until = None,
       mp_created_at = ''2026-06-01T00:00:00Z'', mp_created_by = ''parent'' \<rparr>"

definition sample_receipt_of :: "ident \<Rightarrow> recovery_receipt" where
  "sample_receipt_of i =
     \<lparr> rcp_run_id = ''run'', rcp_recovery_id = i, rcp_segment_relative_path = ''journal/segments/00000001.jsonl'',
       rcp_original_segment_sha256 = ''raw'', rcp_original_segment_byte_count = 9, rcp_accepted_byte_end = 3,
       rcp_fault_offset = 3, rcp_fault_class = Fault_incomplete_record,
       rcp_quarantine_raw_path = ''quarantine/r/segment.raw'', rcp_quarantine_raw_sha256 = ''raw'',
       rcp_prior_valid_revision = 1, rcp_prior_valid_head_sha256 = ''head'', rcp_operator_id = ''operator'',
       rcp_reason_code = ''crash'', rcp_reason_text = ''crash'', rcp_command_id = ''cmd'',
       rcp_event_id = ''evt'', rcp_occurred_at = ''2026-06-01T00:00:00Z'' \<rparr>"

text \<open>A library that dumps an artifact manifest to its identifier and reads it back, as a witness.\<close>

definition sample_store_env :: store_env where
  "sample_store_env =
     \<lparr> se_env = \<lparr> sha256_hex = (\<lambda>s. s), model_dump = (\<lambda>_. JNull) \<rparr>, se_float = (\<lambda>s. s),
       se_event = (\<lambda>_. None), se_event_dump = (\<lambda>_. []),
       se_run_manifest = (\<lambda>_. None), se_run_manifest_dump = (\<lambda>_. JNull),
       se_receipt = (\<lambda>_. None), se_receipt_dump = (\<lambda>_. JNull),
       se_artifact = (\<lambda>v. case v of JStr i \<Rightarrow> Some (sample_artifact\<lparr>am_artifact_id := i\<rparr>) | _ \<Rightarrow> None),
       se_artifact_dump = (\<lambda>m. JStr (am_artifact_id m)),
       se_passport = (\<lambda>_. None), se_passport_dump = (\<lambda>_. JNull),
       se_experiment_contract = (\<lambda>_ _ _. Inr ()), se_experiment_provenance = (\<lambda>_ _. Inr ()),
       se_narrative_report = (\<lambda>_ _. Inr ()), se_harness_identity = (\<lambda>_ _. Inr ()) \<rparr>"

theorem installed_manifest_is_durable_witness:
  "\<exists>fs1 d. install_artifact_manifest sample_store_env [] sample_artifact = Inr (fs1, d)
     \<and> load_artifact_manifest sample_store_env fs1 d = Inr sample_artifact"
proof -
  let ?v = "JStr (am_artifact_id sample_artifact)"
  let ?b = "canonical_json_bytes ?v"
  have dump: "se_artifact_dump sample_store_env sample_artifact = ?v" by (simp add: sample_store_env_def)
  have wf: "wf_fs []" by (simp add: wf_fs_def dkeys_def)
  have parse: "se_artifact sample_store_env (norm ?v) = Some sample_artifact"
    by (simp add: sample_store_env_def sample_artifact_def)
  have utf: "utf8_valid ?b" and "length ?b = 8"
    unfolding sample_artifact_def artifact_manifest.simps by code_simp+
  then have len: "\<not> MAX_MANIFEST_BYTES < length ?b" by (simp add: MAX_MANIFEST_BYTES_def)
  have "\<exists>fs1. publish ARTIFACT_STORE [] ?b ?b = Inr fs1"
    using len by (auto simp: publish_def Let_def guard_simps ARTIFACT_STORE_def is_link_def lexists_def)
  then obtain fs1 where p: "install_artifact_manifest sample_store_env [] sample_artifact = Inr (fs1, ?b)"
    by (auto simp: install_publish dump) (simp add: sample_store_env_def)
  from installed_manifest_is_durable [OF wf p, unfolded dump, OF parse] utf p show ?thesis by auto
qed

end
