(* ===== verification/Recovery.thy ===== *)
theory Recovery
  imports Manifests
begin

text \<open>
  Recovery of a damaged journal tail (\<^verbatim>\<open>kernel/ledger/recovery.py\<close>): the quarantined copy of the
  damaged segment with its receipt, the comparison of a recovery event with both, and the
  publication of the segment that continues the journal.  Test failpoints that kill the process are
  not modelled as code; the theorems speak of the states between two writes instead.
\<close>

section \<open>Segments\<close>

text \<open>
  What replay found in one segment (\<open>SegmentScan\<close> of \<^verbatim>\<open>journal.py\<close>).  \<open>sg_path\<close> holds the components
  of \<open>relative_path\<close>; the name of a segment is its last component.
\<close>

datatype scan_fault = Tail_fault recovery_fault | Event_integrity | Recovery_binding | Empty_segment

record segment_scan =
  sg_index :: nat
  sg_path :: path
  sg_byte_count :: nat
  sg_sha256 :: sha256
  sg_accepted_byte_end :: nat
  sg_events :: "canonical_event list"
  sg_fault_offset :: "nat option"
  sg_fault_class :: "scan_fault option"
  sg_raw_tail :: string

definition posix_name :: "path \<Rightarrow> string" where
  "posix_name p = join_with slash p"

definition JOURNAL_ROOT :: path where
  "JOURNAL_ROOT = [''journal'']"

definition SEGMENTS :: path where
  "SEGMENTS = [''journal'', ''segments'']"

text \<open>\<open>f"{index:08d}.jsonl"\<close>\<close>

definition segment_name :: "nat \<Rightarrow> string" where
  "segment_name n = replicate (8 - length (nat_str n)) (CHR ''0'') @ nat_str n @ ''.jsonl''"

section \<open>Reading evidence\<close>

definition safe_file :: "fs \<Rightarrow> path \<Rightarrow> (string, string) result" where
  "safe_file fs p =
     guard (list_ex (is_link fs) (cursors p)) ''recovery evidence path contains a symlink''
    (guard (\<not> lexists fs p) ''recovery evidence is unavailable''
    (require_some (read_bytes fs p) ''recovery evidence must be a regular file under the run root'' Inr))"

definition bundle_path :: "ident \<Rightarrow> path" where
  "bundle_path recovery_id = [''quarantine'', recovery_id]"

definition raw_path :: "ident \<Rightarrow> path" where
  "raw_path recovery_id = bundle_path recovery_id @ [''segment.raw'']"

definition receipt_path :: "ident \<Rightarrow> path" where
  "receipt_path recovery_id = bundle_path recovery_id @ [''receipt.json'']"

definition load_recovery_receipt :: "store_env \<Rightarrow> fs \<Rightarrow> ident \<Rightarrow> (string, recovery_receipt) result" where
  "load_recovery_receipt S fs recovery_id =
     rbind (safe_file fs (receipt_path recovery_id)) (\<lambda>raw.
     case strict_json_loads (se_float S) raw of
       Inl _ \<Rightarrow> Inl ''recovery receipt is invalid''
     | Inr v \<Rightarrow>
         require_some (se_receipt S v) ''recovery receipt is invalid'' (\<lambda>r.
         guard (canonical_json_bytes (se_receipt_dump S r) \<noteq> raw) ''recovery receipt bytes are not canonical''
        (guard (rcp_recovery_id r \<noteq> recovery_id) ''recovery receipt identity differs from its path'' (Inr r))))"

section \<open>The boundary\<close>

definition boundary_checks ::
  "store_env \<Rightarrow> canonical_event \<Rightarrow> recovery_completed \<Rightarrow> recovery_receipt \<Rightarrow> string \<Rightarrow> string \<Rightarrow> string
    \<Rightarrow> segment_scan \<Rightarrow> nat \<Rightarrow> scan_fault \<Rightarrow> bool" where
  "boundary_checks S e p r receipt_bytes raw segment_bytes d offset fault =
    (rv_prior_valid_revision p = ev_expected_revision e
   \<and> rv_prior_valid_head_sha256 p = ev_prev_event_sha256 e
   \<and> rv_original_segment_sha256 p = sg_sha256 d
   \<and> rv_original_segment_byte_count p = int (sg_byte_count d)
   \<and> rv_quarantine_sha256 p = hash S raw
   \<and> rv_quarantine_receipt_sha256 p = hash S receipt_bytes
   \<and> rv_fault_offset p = int offset
   \<and> Tail_fault (rv_fault_class p) = fault
   \<and> rcp_run_id r = ev_run_id e
   \<and> rcp_segment_relative_path r = posix_name (sg_path d)
   \<and> rcp_original_segment_sha256 r = sg_sha256 d
   \<and> rcp_original_segment_byte_count r = int (sg_byte_count d)
   \<and> rcp_accepted_byte_end r = int (sg_accepted_byte_end d)
   \<and> rcp_fault_offset r = int offset
   \<and> Tail_fault (rcp_fault_class r) = fault
   \<and> rcp_quarantine_raw_path r = posix_name (raw_path (rv_recovery_id p))
   \<and> rcp_quarantine_raw_sha256 r = hash S raw
   \<and> raw = segment_bytes
   \<and> rcp_prior_valid_revision r = ev_expected_revision e
   \<and> rcp_prior_valid_head_sha256 r = ev_prev_event_sha256 e
   \<and> rcp_operator_id r = ev_actor_id e
   \<and> rcp_reason_code r = rv_reason_code p
   \<and> rcp_command_id r = ev_command_id e
   \<and> rcp_event_id r = ev_event_id e
   \<and> rcp_occurred_at r = ev_occurred_at e)"

definition validate_recovery_boundary ::
  "store_env \<Rightarrow> fs \<Rightarrow> canonical_event \<Rightarrow> segment_scan \<Rightarrow> (string, unit) result" where
  "validate_recovery_boundary S fs e d =
     require_some (if ev_event_type e = Recovery_completed then as_recovery_completed (ev_payload e) else None)
       ''segment after damaged tail must begin with recovery.completed'' (\<lambda>p.
     require_some (sg_fault_offset d) ''recovery boundary has no classified damaged segment'' (\<lambda>offset.
     require_some (sg_fault_class d) ''recovery boundary has no classified damaged segment'' (\<lambda>fault.
     rbind (load_recovery_receipt S fs (rv_recovery_id p)) (\<lambda>r.
     rbind (safe_file fs (receipt_path (rv_recovery_id p))) (\<lambda>receipt_bytes.
     rbind (safe_file fs (raw_path (rv_recovery_id p))) (\<lambda>raw.
     rbind (safe_file fs (sg_path d)) (\<lambda>segment_bytes.
     guard (\<not> boundary_checks S e p r receipt_bytes raw segment_bytes d offset fault)
       ''recovery event, damaged segment, and quarantine evidence differ'' (Inr ()))))))))"

section \<open>Preparing the evidence\<close>

text \<open>The fields every command carries, and those of a recovery.\<close>

record command_request =
  cr_run_id :: ident
  cr_event_id :: ident
  cr_command_id :: ident
  cr_expected_revision :: int
  cr_occurred_at :: timestamp
  cr_actor_id :: ident
  cr_actor_role :: actor_role

record recovery_request = command_request +
  rcq_expected_head_sha256 :: sha256
  rcq_recovery_id :: ident
  rcq_original_segment_sha256 :: sha256
  rcq_reason_code :: ident
  rcq_reason_text :: string

fun preflight_directory :: "fs \<Rightarrow> path \<Rightarrow> string list \<Rightarrow> (string, bool) result" where
  "preflight_directory fs cursor [] = Inr True"
| "preflight_directory fs cursor (part # parts) = (let c = cursor @ [part] in
     guard (is_link fs c) ''recovery evidence path contains a symlink''
    (guard (lexists fs c \<and> \<not> is_dir fs c) ''recovery evidence path contains a non-directory''
    (if \<not> lexists fs c then Inr False else preflight_directory fs c parts)))"

definition preflight_immutable :: "fs \<Rightarrow> path \<Rightarrow> string \<Rightarrow> (string, unit) result" where
  "preflight_immutable fs p value =
     rbind (preflight_directory fs [] (butlast p)) (\<lambda>present.
     if \<not> present then Inr ()
     else guard (is_link fs p) ''recovery evidence target must not be a symlink''
         (guard (lexists fs p \<and> read_bytes fs p \<noteq> Some value)
            ''existing recovery evidence differs from this request'' (Inr ())))"

definition receipt_of ::
  "recovery_request \<Rightarrow> ident \<Rightarrow> int \<Rightarrow> sha256 \<Rightarrow> segment_scan \<Rightarrow> nat \<Rightarrow> recovery_fault \<Rightarrow> sha256
    \<Rightarrow> recovery_receipt" where
  "receipt_of q run_id revision head d offset fault raw_sha256 =
     \<lparr> rcp_run_id = run_id, rcp_recovery_id = rcq_recovery_id q,
       rcp_segment_relative_path = posix_name (sg_path d), rcp_original_segment_sha256 = sg_sha256 d,
       rcp_original_segment_byte_count = int (sg_byte_count d),
       rcp_accepted_byte_end = int (sg_accepted_byte_end d), rcp_fault_offset = int offset,
       rcp_fault_class = fault, rcp_quarantine_raw_path = posix_name (raw_path (rcq_recovery_id q)),
       rcp_quarantine_raw_sha256 = raw_sha256, rcp_prior_valid_revision = revision,
       rcp_prior_valid_head_sha256 = head, rcp_operator_id = cr_actor_id q,
       rcp_reason_code = rcq_reason_code q, rcp_reason_text = rcq_reason_text q,
       rcp_command_id = cr_command_id q, rcp_event_id = cr_event_id q,
       rcp_occurred_at = cr_occurred_at q \<rparr>"

record prepared_recovery =
  prv_receipt :: recovery_receipt
  prv_receipt_sha256 :: sha256
  prv_raw_sha256 :: sha256
  prv_segment :: segment_scan

text \<open>
  The receipt is constructed, which runs its validators, before anything is written; the two files
  are written in this order.
\<close>

definition prepare_recovery_evidence ::
  "store_env \<Rightarrow> fs \<Rightarrow> recovery_request \<Rightarrow> ident \<Rightarrow> int \<Rightarrow> sha256 \<Rightarrow> segment_scan list
    \<Rightarrow> (string, fs \<times> prepared_recovery) result" where
  "prepare_recovery_evidence S fs q run_id revision head segments =
     guard (segments = []) ''recoverable replay has no damaged segment''
    (let d = last segments in
     require_some (sg_fault_offset d) ''last segment is not a recoverable terminal tail'' (\<lambda>offset.
     require_some (case sg_fault_class d of Some (Tail_fault f) \<Rightarrow> Some f | _ \<Rightarrow> None)
       ''last segment is not a recoverable terminal tail'' (\<lambda>fault.
     rbind (safe_file fs (sg_path d)) (\<lambda>original.
     guard (hash S original \<noteq> sg_sha256 d \<or> length original \<noteq> sg_byte_count d
          \<or> rcq_original_segment_sha256 q \<noteq> sg_sha256 d)
       ''damaged segment changed after classification''
    (rbind (offsets_fit_original_segment
              (receipt_of q run_id revision head d offset fault (hash S original))) (\<lambda>receipt.
     let receipt_bytes = canonical_json_bytes (se_receipt_dump S receipt);
         i = rcq_recovery_id q in
     rbind (preflight_immutable fs (raw_path i) original) (\<lambda>_.
     rbind (preflight_immutable fs (receipt_path i) receipt_bytes) (\<lambda>_.
     rbind (ensure_directory ''recovery directory path contains a symlink''
              ''recovery directory path contains a non-directory'' fs [] (bundle_path i)) (\<lambda>fs.
     rbind (write_immutable fs (raw_path i) original) (\<lambda>fs.
     rbind (write_immutable fs (receipt_path i) receipt_bytes) (\<lambda>fs. Inr
       (fs, \<lparr> prv_receipt = receipt, prv_receipt_sha256 = hash S receipt_bytes,
              prv_raw_sha256 = hash S original, prv_segment = d \<rparr>))))))))))))"

section \<open>Publishing the next segment\<close>

definition publish_recovery_segment ::
  "store_env \<Rightarrow> fs \<Rightarrow> nat \<Rightarrow> canonical_event \<Rightarrow> (string, fs) result" where
  "publish_recovery_segment S fs index e =
    (let target = SEGMENTS @ [segment_name index];
         value = canonical_json_bytes (JObj (se_event_dump S e)) in
     guard (\<not> is_dir fs SEGMENTS) ''[Errno 2] No such file or directory''
    (if lexists fs target
     then guard (read_bytes fs target \<noteq> Some value) ''recovery segment target already differs'' (Inr fs)
     else Inr (dset target (File value) fs)))"

end
