(* ===== verification/Journal.thy ===== *)
theory Journal
  imports Recovery Json_Lines
begin

text \<open>
  The segmented journal (\<^verbatim>\<open>kernel/ledger/journal.py\<close>): discovery of its segments, replay with the
  classification of damage, construction and appending of events.  The writer lock is held
  throughout, so the files change only by the operations below; test failpoints are left out.
\<close>

section \<open>The run manifest\<close>

definition MANIFEST_NAME :: path where
  "MANIFEST_NAME = [''run-manifest.json'']"

definition JOURNAL_NAME :: path where
  "JOURNAL_NAME = [''events.jsonl'']"

definition caught :: "(py_error, 'a) result \<Rightarrow> (py_error, 'a) result" where
  "caught r = (case r of Inl (WorkflowDefinitionError m) \<Rightarrow> Inl (JournalError m) | _ \<Rightarrow> r)"

definition read_manifest :: "store_env \<Rightarrow> fs \<Rightarrow> (py_error, run_manifest \<times> string) result" where
  "read_manifest S fs =
     guard (is_link fs MANIFEST_NAME) (JournalError ''manifest must not be a symlink'')
    (require_some (read_bytes fs MANIFEST_NAME) (JournalError ''manifest is missing or malformed'') (\<lambda>raw.
     case strict_json_loads (se_float S) raw of
       Inl _ \<Rightarrow> Inl (JournalError ''manifest is missing or malformed'')
     | Inr v \<Rightarrow>
         require_some (se_run_manifest S v) (JournalError ''invalid manifest'') (\<lambda>m.
         guard (canonical_json_bytes (se_run_manifest_dump S m) \<noteq> raw)
           (JournalError ''manifest bytes are not canonical'')
        (case mf_workflow_definition_id m of
           None \<Rightarrow> Inr (m, raw)
         | Some w \<Rightarrow>
             rbind (caught (require_workflow (hash S) w)) (\<lambda>d.
             guard (Some (wf_sha256 d) \<noteq> mf_workflow_definition_sha256 m)
               (JournalError ''manifest workflow definition digest does not match the registry'')
               (Inr (m, raw)))))))"

section \<open>Discovering the segments\<close>

text \<open>\<open>SEGMENT_PATTERN\<close>: eight digits and the extension.\<close>

definition segment_index :: "string \<Rightarrow> nat option" where
  "segment_index s =
     (if length s = 14 \<and> list_all is_digit (take 8 s) \<and> drop 8 s = ''.jsonl''
      then Some (digits_value (take 8 s)) else None)"

definition journal_storage ::
  "fs \<Rightarrow> run_manifest \<Rightarrow> bool \<Rightarrow> (py_error, path \<times> bool) result" where
  "journal_storage fs m historical =
    (if \<not> mf_segmented m then
       guard (\<not> historical \<and> lexists fs JOURNAL_ROOT)
         (JournalError ''legacy run contains an undeclared journal directory'')
      (guard (\<not> is_file fs JOURNAL_NAME) (JournalError ''legacy journal is missing or unsafe'')
        (Inr (JOURNAL_NAME, False)))
     else
       guard (\<not> historical \<and> lexists fs JOURNAL_NAME)
         (JournalError ''segmented run contains an undeclared legacy journal'')
      (guard (\<not> is_dir fs JOURNAL_ROOT \<or> \<not> is_dir fs SEGMENTS)
         (JournalError ''segmented journal directories are missing or unsafe'')
        (Inr (SEGMENTS, True))))"

definition discover_segments :: "fs \<Rightarrow> run_manifest \<Rightarrow> (py_error, path list) result" where
  "discover_segments fs m =
     rbind (journal_storage fs m False) (\<lambda>(storage, segmented).
     if \<not> segmented then Inr [storage]
     else (let names = children fs storage in
       guard (list_ex (\<lambda>n. \<not> is_file fs (storage @ [n]) \<or> segment_index n = None) names)
         (JournalError ''unexpected or unsafe segment entry'')
      (let found = sort_key fst (map (\<lambda>n. (the (segment_index n), n)) names) in
       guard (found = []) (JournalError ''segmented journal has no segments'')
      (guard (map fst found \<noteq> [1..<Suc (length found)])
         (JournalError ''segment sequence is not contiguous'')
        (Inr (map (\<lambda>(i, n). storage @ [n]) found))))))"

text \<open>
  \<open>_prefix_segments\<close> looks for one segment after the other; an unsafe entry raises when it is
  reached.  There are at most as many segments as entries in the tree, the \<open>fuel\<close>.
\<close>

fun prefix_slots :: "fs \<Rightarrow> nat \<Rightarrow> nat \<Rightarrow> (py_error, path) result list" where
  "prefix_slots fs 0 index = []"
| "prefix_slots fs (Suc fuel) index =
    (let p = SEGMENTS @ [segment_name index] in
     if \<not> lexists fs p then []
     else (if is_file fs p then Inr p else Inl (JournalError ''unexpected or unsafe segment entry''))
          # prefix_slots fs fuel (Suc index))"

definition segment_slots ::
  "fs \<Rightarrow> run_manifest \<Rightarrow> int option \<Rightarrow> (py_error, (py_error, path) result list) result" where
  "segment_slots fs m stop =
    (case stop of
       None \<Rightarrow> rbind (discover_segments fs m) (\<lambda>ps. Inr (map Inr ps))
     | Some _ \<Rightarrow>
         rbind (journal_storage fs m True) (\<lambda>(storage, segmented).
         Inr (if \<not> segmented then [Inr storage] else prefix_slots fs (length fs) 1)))"

section \<open>Checking one event\<close>

definition event_wire :: "store_env \<Rightarrow> canonical_event \<Rightarrow> wire_event" where
  "event_wire S e = (if ev_actor_role e = None then dpop ''actor_role'' (se_event_dump S e)
                     else se_event_dump S e)"

definition event_bytes :: "store_env \<Rightarrow> canonical_event \<Rightarrow> string" where
  "event_bytes S e = canonical_json_bytes (JObj (event_wire S e))"

record replay =
  rl_revision :: int
  rl_previous_hash :: sha256
  rl_event_ids :: "ident set"
  rl_command_ids :: "ident set"
  rl_events :: "canonical_event list"
  rl_segments :: "segment_scan list"
  rl_health :: recovery_health
  rl_message :: "string option"
  rl_pending :: "segment_scan option"
  rl_reduced :: "runtime_state option"

definition initial_replay :: replay where
  "initial_replay =
     \<lparr> rl_revision = 0, rl_previous_hash = ZERO_HASH, rl_event_ids = {}, rl_command_ids = {},
       rl_events = [], rl_segments = [], rl_health = Healthy, rl_message = None, rl_pending = None,
       rl_reduced = None \<rparr>"

text \<open>The checks that read nothing but the event, its line and the chain so far.\<close>

definition chain_checks ::
  "store_env \<Rightarrow> run_manifest \<Rightarrow> sha256 \<Rightarrow> replay \<Rightarrow> string \<Rightarrow> canonical_event \<Rightarrow> (py_error, unit) result" where
  "chain_checks S m manifest_hash s line e = (let number = int (length (rl_events s)) + 1 in
     guard (event_bytes S e \<noteq> line) (JournalError ''journal event bytes are not canonical'')
    (guard (ev_event_sha256 e \<noteq> hash S (canonical_event_bytes (event_wire S e)))
       (JournalError ''journal event hash does not cover its bytes'')
    (guard (ev_run_id e \<noteq> mf_run_id m) (JournalError ''journal event run identity differs from manifest'')
    (guard (ev_sequence e \<noteq> number) (JournalError ''journal event sequence is not contiguous'')
    (guard (ev_expected_revision e \<noteq> rl_revision s \<or> ev_resulting_revision e \<noteq> rl_revision s + 1)
       (JournalError ''journal event revision is not contiguous'')
    (guard (ev_prev_event_sha256 e \<noteq> rl_previous_hash s)
       (JournalError ''journal event previous hash does not match'')
    (guard (ev_event_id e \<in> rl_event_ids s \<or> ev_command_id e \<in> rl_command_ids s)
       (JournalError ''journal event repeats an accepted identity'')
    (if number = 1 then
       guard (ev_event_type e \<noteq> Run_initialized) (JournalError ''first journal event must initialize the run'')
      (require_some (as_run_initialized (ev_payload e))
         (JournalError ''first journal event has the wrong payload'') (\<lambda>p.
       guard (ri_manifest_sha256 p \<noteq> manifest_hash)
         (JournalError ''first journal event does not bind the manifest bytes'') (Inr ())))
     else guard (\<not> mf_segmented m \<and> ev_event_type e \<noteq> Baseline_probe_recorded)
         (JournalError ''Phase 1 journal contains an unsupported later event'') (Inr ())))))))))"

definition MANIFEST_EVENT_TYPES :: "event_type list" where
  "MANIFEST_EVENT_TYPES =
     [Artifact_accepted, Research_artifact_accepted, Passport_accepted, Proposal_accepted,
      Experiment_contract_accepted, Experiment_provenance_accepted, Host_identity_accepted]"

definition SEMANTIC_EVENT_TYPES :: "event_type list" where
  "SEMANTIC_EVENT_TYPES =
     [Artifact_accepted, Research_artifact_accepted, Passport_accepted, Host_identity_accepted]"

text \<open>\<open>except ManifestError\<close>\<close>

primrec journal_error :: "py_error \<Rightarrow> py_error" where
  "journal_error (ManifestError m) = JournalError m"
| "journal_error (ReducerError m) = ReducerError m"
| "journal_error (WorkflowDefinitionError m) = WorkflowDefinitionError m"
| "journal_error (ExecutionProvenanceError m) = ExecutionProvenanceError m"
| "journal_error (RecoveryError m) = RecoveryError m"
| "journal_error (JournalError m) = JournalError m"
| "journal_error (PyValueError m) = PyValueError m"
| "journal_error (PyAttributeError m) = PyAttributeError m"
| "journal_error PyAssertionError = PyAssertionError"
| "journal_error (PyKeyError m) = PyKeyError m"
| "journal_error (PyTypeError m) = PyTypeError m" | "journal_error (PyOSError m) = PyOSError m"
| "journal_error PyStopIteration = PyStopIteration"

text \<open>The checks that read manifests and other evidence files.\<close>

definition file_checks ::
  "store_env \<Rightarrow> fs \<Rightarrow> run_manifest \<Rightarrow> canonical_event list \<Rightarrow> canonical_event \<Rightarrow> (py_error, unit) result" where
  "file_checks S fs m prior e =
     raise_again journal_error
      (rbind (if ev_event_type e \<notin> set MANIFEST_EVENT_TYPES then Inr ()
              else if ev_event_type e = Experiment_contract_accepted
              then manifest_result (se_experiment_contract S fs
                     (filter (\<lambda>x. ev_event_type x = Experiment_contract_accepted) prior) e)
              else validate_accepted_event S fs e) (\<lambda>_.
       if ev_event_type e \<noteq> Ep_artifact_bound then Inr ()
       else validate_execution_binding_source S fs e m))"

text \<open>\<open>except (ManifestError, ReducerError, WorkflowDefinitionError)\<close>\<close>

primrec runtime_error :: "py_error \<Rightarrow> py_error" where
  "runtime_error (ReducerError m) = JournalError (''runtime event is invalid: '' @ m)"
| "runtime_error (WorkflowDefinitionError m) = JournalError (''runtime event is invalid: '' @ m)"
| "runtime_error (ManifestError m) = JournalError (''runtime event is invalid: '' @ m)"
| "runtime_error (ExecutionProvenanceError m) = ExecutionProvenanceError m"
| "runtime_error (RecoveryError m) = RecoveryError m"
| "runtime_error (JournalError m) = JournalError m"
| "runtime_error (PyValueError m) = PyValueError m"
| "runtime_error (PyAttributeError m) = PyAttributeError m"
| "runtime_error PyAssertionError = PyAssertionError"
| "runtime_error (PyKeyError m) = PyKeyError m"
| "runtime_error (PyTypeError m) = PyTypeError m" | "runtime_error (PyOSError m) = PyOSError m"
| "runtime_error PyStopIteration = PyStopIteration"

definition workflow_of :: "run_manifest \<Rightarrow> ident" where
  "workflow_of m = (if falsy (mf_workflow_definition_id m) then LEGACY_WORKFLOW_ID
                    else the (mf_workflow_definition_id m))"

definition runtime_checks ::
  "store_env \<Rightarrow> fs \<Rightarrow> run_manifest \<Rightarrow> replay \<Rightarrow> canonical_event \<Rightarrow> (py_error, runtime_state) result" where
  "runtime_checks S fs m s e = raise_again runtime_error
    (rbind (reduce_events (se_env S) (workflow_of m) (rl_events s @ [e]) None Healthy) (\<lambda>candidate.
     if ev_event_type e \<notin> set SEMANTIC_EVENT_TYPES then Inr candidate
     else require_some (rl_reduced s) (ManifestError ''accepted manifest has no prior runtime state'') (\<lambda>before.
       rbind (validate_event_manifest_semantics S fs e before) (\<lambda>_. Inr candidate))))"

definition validate_event ::
  "store_env \<Rightarrow> fs \<Rightarrow> run_manifest \<Rightarrow> sha256 \<Rightarrow> replay \<Rightarrow> json \<Rightarrow> string
    \<Rightarrow> (py_error, canonical_event \<times> runtime_state) result" where
  "validate_event S fs m manifest_hash s payload line =
     require_some (se_event S payload) (JournalError ''invalid event'') (\<lambda>e.
     rbind (chain_checks S m manifest_hash s line e) (\<lambda>_.
     rbind (file_checks S fs m (rl_events s) e) (\<lambda>_.
     rbind (runtime_checks S fs m s e) (\<lambda>candidate. Inr (e, candidate)))))"

definition accept_event :: "replay \<Rightarrow> canonical_event \<Rightarrow> runtime_state \<Rightarrow> replay" where
  "accept_event s e candidate =
     s\<lparr> rl_revision := ev_resulting_revision e, rl_previous_hash := ev_event_sha256 e,
        rl_event_ids := insert (ev_event_id e) (rl_event_ids s),
        rl_command_ids := insert (ev_command_id e) (rl_command_ids s),
        rl_events := rl_events s @ [e], rl_reduced := Some candidate \<rparr>"

text \<open>The event with the check that recovery events stand exactly after damaged tails.\<close>

definition check_record ::
  "store_env \<Rightarrow> fs \<Rightarrow> run_manifest \<Rightarrow> sha256 \<Rightarrow> replay \<Rightarrow> nat \<Rightarrow> json \<Rightarrow> string
    \<Rightarrow> (py_error, canonical_event \<times> runtime_state) result" where
  "check_record S fs m manifest_hash s offset payload line =
     rbind (validate_event S fs m manifest_hash s payload line) (\<lambda>(e, candidate).
     case rl_pending s of
       Some damaged \<Rightarrow>
         guard (offset \<noteq> 0 \<or> ev_event_type e \<noteq> Recovery_completed)
           (RecoveryError ''segment after damaged tail must begin with recovery.completed'')
        (case validate_recovery_boundary S fs e damaged of
           Inl x \<Rightarrow> Inl (RecoveryError x) | Inr _ \<Rightarrow> Inr (e, candidate))
     | None \<Rightarrow>
         guard (ev_event_type e = Recovery_completed)
           (RecoveryError ''recovery.completed is legal only as the first event after a damaged tail'')
           (Inr (e, candidate)))"

section \<open>One segment\<close>

definition line_of :: "string \<Rightarrow> string" where
  "line_of rest = takeWhile (\<lambda>c. c \<noteq> newline) rest @ (if newline \<in> set rest then [newline] else [])"

lemma line_of_not_Nil: "rest \<noteq> [] \<Longrightarrow> line_of rest \<noteq> []"
  by (cases rest) (auto simp: line_of_def)

definition record_fault :: "json_error \<Rightarrow> string \<Rightarrow> recovery_fault" where
  "record_fault x line =
    (if last line = newline then Fault_malformed_record
     else case x of Unicode_decode_error \<Rightarrow> Fault_truncated_utf8 | Invalid_json \<Rightarrow> Fault_incomplete_record)"

primrec error_text :: "py_error \<Rightarrow> string" where
  "error_text (ReducerError m) = m" | "error_text (WorkflowDefinitionError m) = m"
| "error_text (ManifestError m) = m" | "error_text (ExecutionProvenanceError m) = m"
| "error_text (RecoveryError m) = m" | "error_text (JournalError m) = m"
| "error_text (PyValueError m) = m" | "error_text (PyAttributeError m) = m"
| "error_text PyAssertionError = []" | "error_text (PyKeyError m) = m"
| "error_text (PyTypeError m) = m" | "error_text (PyOSError m) = m" | "error_text PyStopIteration = []"

text \<open>\<open>except (JournalError, RecoveryError)\<close>; anything else leaves the replay.\<close>

definition blocking_fault :: "py_error \<Rightarrow> scan_fault option" where
  "blocking_fault x = (case x of JournalError _ \<Rightarrow> Some Event_integrity
                       | RecoveryError _ \<Rightarrow> Some Recovery_binding | _ \<Rightarrow> None)"

text \<open>
  What a segment leaves when its reading stops at \<open>offset\<close>: \<open>accepted_byte_end\<close> and \<open>offset\<close> are
  always equal in the loop, and \<open>raw_tail\<close> is what has not been accepted.
\<close>

record segment_view =
  sv_index :: nat
  sv_path :: path
  sv_bytes :: string
  sv_following :: bool

definition scan_of ::
  "store_env \<Rightarrow> segment_view \<Rightarrow> nat \<Rightarrow> canonical_event list \<Rightarrow> scan_fault option \<Rightarrow> segment_scan" where
  "scan_of S v offset es fault =
     \<lparr> sg_index = sv_index v, sg_path = sv_path v, sg_byte_count = length (sv_bytes v),
       sg_sha256 = hash S (sv_bytes v), sg_accepted_byte_end = offset, sg_events = es,
       sg_fault_offset = (if fault = None then None else Some offset), sg_fault_class = fault,
       sg_raw_tail = (if fault = None then [] else drop offset (sv_bytes v)) \<rparr>"

definition stopped_scan :: "store_env \<Rightarrow> segment_view \<Rightarrow> nat \<Rightarrow> canonical_event list \<Rightarrow> segment_scan" where
  "stopped_scan S v offset es =
     scan_of S (v\<lparr>sv_bytes := take offset (sv_bytes v)\<rparr>) offset es None"

definition add_scan :: "segment_scan \<Rightarrow> replay \<Rightarrow> replay" where
  "add_scan c s = s\<lparr> rl_segments := rl_segments s @ [c] \<rparr>"

definition blocked :: "string \<Rightarrow> replay \<Rightarrow> replay" where
  "blocked message s = s\<lparr> rl_health := Recovery_blocked, rl_message := Some message \<rparr>"

definition fault_text :: "json_error \<Rightarrow> string" where
  "fault_text x = (case x of Unicode_decode_error \<Rightarrow> ''utf-8 codec cannot decode''
                   | Invalid_json \<Rightarrow> ''invalid JSON'')"

text \<open>The end of the loop for a line that is not JSON.\<close>

definition damaged_line ::
  "store_env \<Rightarrow> run_manifest \<Rightarrow> replay \<Rightarrow> segment_view \<Rightarrow> nat \<Rightarrow> canonical_event list \<Rightarrow> string \<Rightarrow> json_error
    \<Rightarrow> (py_error, replay) result" where
  "damaged_line S m s v offset es line x =
     guard (rl_events s = [])
       (JournalError (''journal has no trustworthy prefix: malformed first event: '' @ fault_text x))
    (if rl_pending s \<noteq> None then
       Inr (blocked ''recovery boundary first record is malformed''
         (add_scan (scan_of S v offset es (Some Recovery_binding)) s))
     else
       let c = scan_of S v offset es (Some (Tail_fault (record_fault x line))); s' = add_scan c s;
           terminal = (offset + length line = length (sv_bytes v)) in
       Inr (if \<not> (terminal \<and> mf_segmented m)
            then blocked ''malformed record is not the final segment suffix'' s'
            else if sv_following v then s'\<lparr> rl_pending := Some c \<rparr>
            else s'\<lparr> rl_health := Recoverable_tail, rl_message := Some (fault_text x) \<rparr>))"

text \<open>The while loop over the lines of a segment; the flag says that the cutoff has been reached.\<close>

function replay_lines ::
  "store_env \<Rightarrow> fs \<Rightarrow> run_manifest \<Rightarrow> sha256 \<Rightarrow> int option \<Rightarrow> segment_view \<Rightarrow> replay \<Rightarrow> nat
    \<Rightarrow> canonical_event list \<Rightarrow> string \<Rightarrow> (py_error, replay \<times> bool) result" where
  "replay_lines S fs m mh stop v s offset es rest =
    (if rest = [] then Inr (add_scan (scan_of S v offset es None) s, False)
     else let line = line_of rest in
      case strict_json_loads (se_float S) line of
        Inl x \<Rightarrow> rbind (damaged_line S m s v offset es line x) (\<lambda>s'. Inr (s', False))
      | Inr payload \<Rightarrow>
          (case check_record S fs m mh s offset payload line of
             Inl x \<Rightarrow>
               require_some (blocking_fault x) x (\<lambda>fault.
               guard (rl_events s = [])
                 (JournalError (''journal has no trustworthy prefix: '' @ error_text x))
                 (Inr (blocked (error_text x) (add_scan (scan_of S v offset es (Some fault)) s), False)))
           | Inr (e, candidate) \<Rightarrow>
               let s' = accept_event (s\<lparr> rl_pending := None \<rparr>) e candidate;
                   offset' = offset + length line in
               if stop = Some (rl_revision s')
               then Inr (add_scan (stopped_scan S v offset' (es @ [e])) s', True)
               else replay_lines S fs m mh stop v s' offset' (es @ [e]) (drop (length line) rest)))"
  by pat_completeness auto

termination
  by (relation "measure (\<lambda>(S, fs, m, mh, stop, v, s, offset, es, rest). length rest)")
    (auto simp: line_of_not_Nil)

declare replay_lines.simps [simp del]

section \<open>All segments\<close>

text \<open>A damaged last segment is the tail to recover.\<close>

definition after_segment :: "bool \<Rightarrow> replay \<Rightarrow> replay" where
  "after_segment final s =
    (if rl_pending s \<noteq> None \<and> final
     then s\<lparr> rl_health := Recoverable_tail,
             rl_message := Some ''damaged terminal suffix requires explicit recovery'' \<rparr>
     else s)"

fun replay_segments ::
  "store_env \<Rightarrow> fs \<Rightarrow> run_manifest \<Rightarrow> sha256 \<Rightarrow> int option \<Rightarrow> nat \<Rightarrow> (py_error, path) result list
    \<Rightarrow> replay \<Rightarrow> (py_error, replay \<times> bool) result" where
  "replay_segments S fs m mh stop index [] s = Inr (s, False)"
| "replay_segments S fs m mh stop index (slot # slots) s =
     rbind slot (\<lambda>p.
     require_some (read_bytes fs p) (JournalError ''segment is unreadable'') (\<lambda>b.
     let v = \<lparr> sv_index = index, sv_path = p, sv_bytes = b, sv_following = (slots \<noteq> []) \<rparr> in
     if b = [] then
       guard (rl_events s = []) (JournalError ''journal has no trustworthy prefix: first segment is empty'')
         (Inr (blocked ''empty segment cannot establish a recovery boundary''
            (add_scan (scan_of S v 0 [] (Some Empty_segment)) s), False))
     else
       rbind (replay_lines S fs m mh stop v s 0 [] b) (\<lambda>(s', stopped).
       if stopped \<or> rl_health s' = Recovery_blocked then Inr (s', stopped)
       else replay_segments S fs m mh stop (Suc index) slots
         (after_segment (slots = []) s'))))"

record replay_state =
  ry_run_id :: ident
  ry_revision :: int
  ry_last_event_sha256 :: sha256
  ry_event_count :: nat
  ry_event_ids :: "ident set"
  ry_command_ids :: "ident set"
  ry_workflow_definition_id :: ident
  ry_events :: "canonical_event list"
  ry_segments :: "segment_scan list"
  ry_segmented :: bool
  ry_recovery_health :: recovery_health
  ry_recovery_message :: "string option"

definition replayed :: "run_manifest \<Rightarrow> replay \<Rightarrow> replay_state" where
  "replayed m s =
     \<lparr> ry_run_id = mf_run_id m, ry_revision = rl_revision s, ry_last_event_sha256 = rl_previous_hash s,
       ry_event_count = length (rl_events s), ry_event_ids = rl_event_ids s,
       ry_command_ids = rl_command_ids s, ry_workflow_definition_id = workflow_of m,
       ry_events = rl_events s, ry_segments = rl_segments s, ry_segmented = mf_segmented m,
       ry_recovery_health = rl_health s, ry_recovery_message = rl_message s \<rparr>"

text \<open>A cutoff that was reached ends in a healthy prefix; a damaged segment that nothing follows up
  is not left unnoticed.\<close>

definition concluded :: "run_manifest \<Rightarrow> replay \<times> bool \<Rightarrow> replay_state" where
  "concluded m r = (let (s, stopped) = r in replayed m
    (if stopped then s\<lparr> rl_health := Healthy, rl_message := None \<rparr>
     else if rl_pending s \<noteq> None \<and> rl_health s = Healthy
     then blocked ''damaged segment is not followed by a valid recovery boundary'' s else s))"

definition replay_unlocked :: "store_env \<Rightarrow> fs \<Rightarrow> int option \<Rightarrow> (py_error, replay_state) result" where
  "replay_unlocked S fs stop =
     rbind (read_manifest S fs) (\<lambda>(m, raw).
     rbind (segment_slots fs m stop) (\<lambda>slots.
     rbind (replay_segments S fs m (hash S raw) stop 1 slots initial_replay) (\<lambda>r. Inr (concluded m r))))"

text \<open>\<open>replay_run_prefix\<close>: a fixed prefix, bound to its revision and its head.\<close>

definition replay_run_prefix ::
  "store_env \<Rightarrow> fs \<Rightarrow> int \<Rightarrow> sha256 \<Rightarrow> sha256 option \<Rightarrow> (py_error, replay_state) result" where
  "replay_run_prefix S fs revision expected_head expected_manifest =
     guard (revision < 1) (JournalError ''historical revision must be positive'')
    (rbind (read_manifest S fs) (\<lambda>(m, raw).
     guard (expected_manifest \<noteq> None \<and> Some (hash S raw) \<noteq> expected_manifest)
       (JournalError ''historical run manifest digest mismatch'')
    (rbind (replay_unlocked S fs (Some revision)) (\<lambda>st.
     guard (ry_recovery_health st \<noteq> Healthy \<or> ry_revision st \<noteq> revision)
       (JournalError ''historical prefix is missing or corrupt'')
    (guard (ry_last_event_sha256 st \<noteq> expected_head)
       (JournalError ''historical prefix head digest mismatch'') (Inr st))))))"

section \<open>Writing\<close>

text \<open>
  \<open>build_runtime_event\<close> fills in the fields the writer owns and seals the mapping;
  \<open>draft\<close> is the event without its digest.
\<close>

definition draft ::
  "replay_state \<Rightarrow> event_type \<Rightarrow> 'a command_request_scheme \<Rightarrow> payload \<Rightarrow> canonical_event" where
  "draft st t q p =
     \<lparr> ev_schema_version = event_schema_version t, ev_event_type = t, ev_event_id = cr_event_id q,
       ev_command_id = cr_command_id q, ev_run_id = ry_run_id st,
       ev_sequence = int (ry_event_count st) + 1, ev_occurred_at = cr_occurred_at q,
       ev_expected_revision = ry_revision st, ev_resulting_revision = ry_revision st + 1,
       ev_actor_id = cr_actor_id q, ev_actor_role = Some (cr_actor_role q),
       ev_prev_event_sha256 = ry_last_event_sha256 st, ev_payload = p, ev_event_sha256 = [] \<rparr>"

definition build_runtime_event ::
  "store_env \<Rightarrow> replay_state \<Rightarrow> event_type \<Rightarrow> 'a command_request_scheme \<Rightarrow> payload
    \<Rightarrow> (py_error, canonical_event) result" where
  "build_runtime_event S st t q p =
     require_some (se_event S (JObj (seal_event (hash S) (se_event_dump S (draft st t q p)))))
       (JournalError ''writer constructed an invalid event'') Inr"

definition extends_tip :: "replay_state \<Rightarrow> canonical_event \<Rightarrow> bool" where
  "extends_tip st e =
    (ev_run_id e = ry_run_id st \<and> ev_sequence e = int (ry_event_count st) + 1
   \<and> ev_expected_revision e = ry_revision st \<and> ev_resulting_revision e = ry_revision st + 1
   \<and> ev_prev_event_sha256 e = ry_last_event_sha256 st)"

definition append_bytes :: "fs \<Rightarrow> path \<Rightarrow> string \<Rightarrow> (py_error, fs) result" where
  "append_bytes fs p value =
     require_some (read_bytes fs p) (JournalError ''[Errno 2] No such file or directory'') (\<lambda>b.
       Inr (dset p (File (b @ value)) fs))"

definition append_runtime_event_unlocked ::
  "store_env \<Rightarrow> fs \<Rightarrow> replay_state \<Rightarrow> canonical_event \<Rightarrow> (py_error, fs \<times> replay_state) result" where
  "append_runtime_event_unlocked S fs st e =
     guard (ry_segments st = []) (JournalError ''accepted replay has no active segment'')
    (guard (\<not> ry_segmented st) (JournalError ''Phase 2 runtime events require a segmented journal'')
    (guard (ry_recovery_health st \<noteq> Healthy) (JournalError ''runtime append requires a healthy journal'')
    (guard (\<not> extends_tip st e) (JournalError ''runtime event does not extend the accepted tip'')
    (rbind (append_bytes fs (sg_path (last (ry_segments st))) (event_bytes S e)) (\<lambda>fs'.
     rbind (replay_unlocked S fs' None) (\<lambda>st'. Inr (fs', st')))))))"

definition publish_recovery_event_unlocked ::
  "store_env \<Rightarrow> fs \<Rightarrow> replay_state \<Rightarrow> canonical_event \<Rightarrow> (py_error, fs \<times> replay_state) result" where
  "publish_recovery_event_unlocked S fs st e =
     guard (\<not> ry_segmented st \<or> ry_segments st = []) (JournalError ''recovery requires a segmented journal'')
    (guard (ry_recovery_health st \<noteq> Recoverable_tail)
       (JournalError ''recovery publication requires a recoverable terminal tail'')
    (guard (ev_event_type e \<noteq> Recovery_completed \<or> \<not> extends_tip st e)
       (JournalError ''recovery event does not extend the trustworthy prefix'')
    (rbind (case publish_recovery_segment S fs (sg_index (last (ry_segments st)) + 1) e of
              Inl x \<Rightarrow> Inl (RecoveryError x) | Inr fs' \<Rightarrow> Inr fs') (\<lambda>fs'.
     rbind (replay_unlocked S fs' None) (\<lambda>st'.
     guard (ry_recovery_health st' \<noteq> Healthy)
       (JournalError ''published recovery segment did not restore healthy replay'')
       (Inr (fs', st')))))))"

end
