(* ===== verification/Journal_Chain.thy ===== *)
theory Journal_Chain
  imports Journal
begin

text \<open>
  What a replayed journal is: the accepted events form one hash chain that the reducer accepts, and
  the accepted bytes of every segment are exactly the canonical bytes of its events.
\<close>

section \<open>Invariants of replay\<close>

lemma segment_fields:
  "rl_revision (add_scan c s) = rl_revision s" "rl_previous_hash (add_scan c s) = rl_previous_hash s"
  "rl_event_ids (add_scan c s) = rl_event_ids s" "rl_command_ids (add_scan c s) = rl_command_ids s"
  "rl_events (add_scan c s) = rl_events s" "rl_reduced (add_scan c s) = rl_reduced s"
  "rl_segments (add_scan c s) = rl_segments s @ [c]" "rl_health (add_scan c s) = rl_health s"
  "rl_pending (add_scan c s) = rl_pending s" "rl_message (add_scan c s) = rl_message s"
  "rl_revision (blocked x s) = rl_revision s" "rl_previous_hash (blocked x s) = rl_previous_hash s"
  "rl_event_ids (blocked x s) = rl_event_ids s" "rl_command_ids (blocked x s) = rl_command_ids s"
  "rl_events (blocked x s) = rl_events s" "rl_reduced (blocked x s) = rl_reduced s"
  "rl_segments (blocked x s) = rl_segments s" "rl_health (blocked x s) = Recovery_blocked"
  "rl_pending (blocked x s) = rl_pending s"
  by (simp_all add: add_scan_def blocked_def)

text \<open>The part of the replay state that only an accepted event changes.\<close>

definition core :: "replay \<Rightarrow> replay" where
  "core s = s\<lparr> rl_segments := [], rl_health := Healthy, rl_message := None, rl_pending := None \<rparr>"

lemma core_update [simp]:
  "core (s\<lparr>rl_segments := x\<rparr>) = core s" "core (s\<lparr>rl_health := h\<rparr>) = core s"
  "core (s\<lparr>rl_message := y\<rparr>) = core s" "core (s\<lparr>rl_pending := p\<rparr>) = core s"
  "core (add_scan c s) = core s" "core (blocked z s) = core s"
  by (simp_all add: core_def add_scan_def blocked_def)

lemma after_segment_fields [simp]:
  "core (after_segment f s) = core s" "rl_segments (after_segment f s) = rl_segments s"
  "rl_events (after_segment f s) = rl_events s"
  by (simp_all add: after_segment_def)

lemma core_sel:
  "rl_events (core s) = rl_events s" "rl_revision (core s) = rl_revision s"
  "rl_previous_hash (core s) = rl_previous_hash s" "rl_event_ids (core s) = rl_event_ids s"
  "rl_command_ids (core s) = rl_command_ids s" "rl_reduced (core s) = rl_reduced s"
  by (simp_all add: core_def)

lemma damaged_line_core: "damaged_line S m s v offset es line x = Inr s' \<Longrightarrow> core s' = core s"
  by (auto simp: damaged_line_def Let_def guard_simps split: if_splits)

text \<open>One record: the three ways the loop goes on.\<close>

lemma replay_lines_cases:
  assumes "replay_lines S fs m mh stop v s offset es rest = Inr (s', b)"
  obtains (complete) "rest = []" "s' = add_scan (scan_of S v offset es None) s" "\<not> b"
  | (stuck) x where "rest \<noteq> []" "core s' = core s" "\<not> b"
      "strict_json_loads (se_float S) (line_of rest) = Inl x"
      "damaged_line S m s v offset es (line_of rest) x = Inr s'"
  | (refused) payload x f where "rest \<noteq> []" "\<not> b" "rl_events s \<noteq> []"
      "strict_json_loads (se_float S) (line_of rest) = Inr payload"
      "check_record S fs m mh s offset payload (line_of rest) = Inl x" "blocking_fault x = Some f"
      "s' = blocked (error_text x) (add_scan (scan_of S v offset es (Some f)) s)"
  | (cutoff) payload e c where "rest \<noteq> []" "b"
      "strict_json_loads (se_float S) (line_of rest) = Inr payload"
      "check_record S fs m mh s offset payload (line_of rest) = Inr (e, c)"
      "stop = Some (ev_resulting_revision e)"
      "s' = add_scan (stopped_scan S v (offset + length (line_of rest)) (es @ [e]))
              (accept_event (s\<lparr>rl_pending := None\<rparr>) e c)"
  | (more) payload e c where "rest \<noteq> []"
      "strict_json_loads (se_float S) (line_of rest) = Inr payload"
      "check_record S fs m mh s offset payload (line_of rest) = Inr (e, c)"
      "stop \<noteq> Some (ev_resulting_revision e)"
      "replay_lines S fs m mh stop v (accept_event (s\<lparr>rl_pending := None\<rparr>) e c)
         (offset + length (line_of rest)) (es @ [e]) (drop (length (line_of rest)) rest) = Inr (s', b)"
proof (cases "rest = []")
  case True
  with assms show ?thesis using complete by (subst (asm) replay_lines.simps) auto
next
  case False
  let ?line = "line_of rest"
  show ?thesis
  proof (cases "strict_json_loads (se_float S) ?line")
    case (Inl x)
    with assms False have "damaged_line S m s v offset es ?line x = Inr s'" "\<not> b"
      by (subst (asm) replay_lines.simps, simp add: guard_simps)+
    with stuck [OF False damaged_line_core] Inl show ?thesis by blast
  next
    case (Inr payload)
    show ?thesis
    proof (cases "check_record S fs m mh s offset payload ?line")
      case (Inl x)
      with assms False \<open>strict_json_loads _ _ = _\<close> show ?thesis
        using refused by (subst (asm) replay_lines.simps) (auto simp: guard_simps)
    next
      case chk: (Inr ec)
      obtain e c where ec: "ec = (e, c)" by fastforce
      show ?thesis
      proof (cases "stop = Some (ev_resulting_revision e)")
        case True
        with assms False \<open>strict_json_loads _ _ = _\<close> chk ec show ?thesis
          using cutoff by (subst (asm) replay_lines.simps) (auto simp: accept_event_def Let_def)
      next
        case False
        with assms \<open>rest \<noteq> []\<close> \<open>strict_json_loads _ _ = _\<close> chk ec show ?thesis
          using more by (subst (asm) replay_lines.simps) (auto simp: accept_event_def Let_def)
      qed
    qed
  qed
qed

lemma replay_lines_invariant:
  assumes "replay_lines S fs m mh stop v s offset es rest = Inr (s', b)" and "I (core s)"
    and step: "\<And>s offset payload line e c. I (core s) \<Longrightarrow>
      check_record S fs m mh s offset payload line = Inr (e, c) \<Longrightarrow>
      I (core (accept_event (s\<lparr>rl_pending := None\<rparr>) e c))"
  shows "I (core s')"
  using assms(1,2)
proof (induction "length rest" arbitrary: s offset es rest rule: less_induct)
  case less
  from less.prems(1) show ?case
  proof (cases rule: replay_lines_cases)
    case (more payload e c)
    have "length (drop (length (line_of rest)) rest) < length rest"
      using more(1) line_of_not_Nil [of rest] by (cases rest) auto
    from less.hyps [OF this more(5) step [OF less.prems(2) more(3)]] show ?thesis .
  next
    case (cutoff payload e c)
    then show ?thesis using step [OF less.prems(2) cutoff(4)] by simp
  qed (use less.prems in simp_all)
qed

text \<open>One segment: it is empty, or its reading ends the replay, or the replay goes on.\<close>

abbreviation view :: "nat \<Rightarrow> path \<Rightarrow> string \<Rightarrow> bool \<Rightarrow> segment_view" where
  "view i p bytes following \<equiv> \<lparr> sv_index = i, sv_path = p, sv_bytes = bytes, sv_following = following \<rparr>"

lemma replay_segments_cases:
  assumes "replay_segments S fs m mh stop i (slot # slots) s = Inr (s', b)"
  obtains (vacant) p where "slot = Inr p" "read_bytes fs p = Some []" "rl_events s \<noteq> []" "\<not> b"
      "s' = blocked ''empty segment cannot establish a recovery boundary''
         (add_scan (scan_of S (view i p [] (slots \<noteq> [])) 0 [] (Some Empty_segment)) s)"
  | (last) p bytes where "slot = Inr p" "read_bytes fs p = Some bytes" "bytes \<noteq> []"
      "replay_lines S fs m mh stop (view i p bytes (slots \<noteq> [])) s 0 [] bytes = Inr (s', b)"
      "b \<or> rl_health s' = Recovery_blocked"
  | (through) p bytes t where "slot = Inr p" "read_bytes fs p = Some bytes" "bytes \<noteq> []"
      "replay_lines S fs m mh stop (view i p bytes (slots \<noteq> [])) s 0 [] bytes = Inr (t, False)"
      "rl_health t \<noteq> Recovery_blocked"
      "replay_segments S fs m mh stop (Suc i) slots (after_segment (slots = []) t) = Inr (s', b)"
proof -
  from assms obtain p bytes where p: "slot = Inr p" "read_bytes fs p = Some bytes"
    by (auto simp: guard_simps)
  show ?thesis
  proof (cases "bytes = []")
    case True
    with assms p vacant show ?thesis
      by (auto simp: guard_simps rbind_simps require_some_simps Let_def)
  next
    case False
    with assms p obtain t d where
      t: "replay_lines S fs m mh stop (view i p bytes (slots \<noteq> [])) s 0 [] bytes = Inr (t, d)"
      by (auto simp: guard_simps rbind_simps require_some_simps Let_def)
    with assms p False have "(if d \<or> rl_health t = Recovery_blocked then Inr (t, d)
        else replay_segments S fs m mh stop (Suc i) slots (after_segment (slots = []) t)) = Inr (s', b)"
      by (simp add: rbind_simps require_some_simps Let_def)
    with last [OF p False] through [OF p False] t show ?thesis by (auto split: if_splits)
  qed
qed

lemma replay_segments_invariant:
  assumes "replay_segments S fs m mh stop index slots s = Inr (s', b)" and "I (core s)"
    and step: "\<And>s offset payload line e c. I (core s) \<Longrightarrow>
      check_record S fs m mh s offset payload line = Inr (e, c) \<Longrightarrow>
      I (core (accept_event (s\<lparr>rl_pending := None\<rparr>) e c))"
  shows "I (core s')"
  using assms(1,2)
proof (induction slots arbitrary: index s)
  case (Cons slot slots)
  note I = replay_lines_invariant [where I = I, OF _ Cons.prems(2) step]
  from Cons.prems(1) show ?case
  proof (cases rule: replay_segments_cases)
    case (through p bytes t)
    from Cons.IH [OF through(6)] I [OF through(4)] show ?thesis by simp
  qed (use Cons.prems(2) I in auto)
qed simp

lemma replay_unlocked_Inr:
  "replay_unlocked S fs stop = Inr st \<longleftrightarrow> (\<exists>m raw slots r. read_manifest S fs = Inr (m, raw)
     \<and> segment_slots fs m stop = Inr slots
     \<and> replay_segments S fs m (hash S raw) stop 1 slots initial_replay = Inr r \<and> st = concluded m r)"
  by (auto simp: replay_unlocked_def guard_simps simp del: One_nat_def)

lemma concluded_fields:
  "ry_run_id (concluded m (s, b)) = mf_run_id m" "ry_events (concluded m (s, b)) = rl_events s"
  "ry_revision (concluded m (s, b)) = rl_revision s"
  "ry_last_event_sha256 (concluded m (s, b)) = rl_previous_hash s"
  "ry_event_count (concluded m (s, b)) = length (rl_events s)"
  "ry_event_ids (concluded m (s, b)) = rl_event_ids s" "ry_command_ids (concluded m (s, b)) = rl_command_ids s"
  "ry_workflow_definition_id (concluded m (s, b)) = workflow_of m"
  "ry_segments (concluded m (s, b)) = rl_segments s" "ry_segmented (concluded m (s, b)) = mf_segmented m"
  "ry_recovery_health (concluded m (s, b)) = (if b then Healthy
       else if rl_pending s \<noteq> None \<and> rl_health s = Healthy then Recovery_blocked else rl_health s)"
  by (simp_all add: concluded_def replayed_def segment_fields)

lemma replay_unlockedE:
  assumes "replay_unlocked S fs stop = Inr st"
  obtains m raw slots s b where "read_manifest S fs = Inr (m, raw)" "segment_slots fs m stop = Inr slots"
    "replay_segments S fs m (hash S raw) stop 1 slots initial_replay = Inr (s, b)"
    "ry_run_id st = mf_run_id m" "ry_events st = rl_events s" "ry_revision st = rl_revision s"
    "ry_last_event_sha256 st = rl_previous_hash s" "ry_event_count st = length (rl_events s)"
    "ry_event_ids st = rl_event_ids s" "ry_command_ids st = rl_command_ids s"
    "ry_workflow_definition_id st = workflow_of m" "ry_segments st = rl_segments s"
    "ry_segmented st = mf_segmented m"
    "ry_recovery_health st = (if b then Healthy
       else if rl_pending s \<noteq> None \<and> rl_health s = Healthy then Recovery_blocked else rl_health s)"
proof -
  from assms obtain m raw slots r where r: "read_manifest S fs = Inr (m, raw)" "segment_slots fs m stop = Inr slots"
    "replay_segments S fs m (hash S raw) stop 1 slots initial_replay = Inr r" "st = concluded m r"
    unfolding replay_unlocked_Inr by blast
  obtain s b where "r = (s, b)" by fastforce
  with r that show ?thesis by (simp add: concluded_fields)
qed

section \<open>The chain\<close>

definition link_ok :: "store_env \<Rightarrow> ident \<Rightarrow> nat \<Rightarrow> sha256 \<Rightarrow> canonical_event \<Rightarrow> bool" where
  "link_ok S run_id i prev e =
    (ev_run_id e = run_id \<and> ev_sequence e = int i + 1 \<and> ev_expected_revision e = int i
   \<and> ev_resulting_revision e = int i + 1 \<and> ev_prev_event_sha256 e = prev
   \<and> ev_event_sha256 e = hash S (canonical_event_bytes (event_wire S e)))"

definition linked :: "store_env \<Rightarrow> ident \<Rightarrow> canonical_event list \<Rightarrow> bool" where
  "linked S run_id es =
    (\<forall>i < length es. link_ok S run_id i (if i = 0 then ZERO_HASH else ev_event_sha256 (es ! (i - 1))) (es ! i))"

definition head_of :: "canonical_event list \<Rightarrow> sha256" where
  "head_of es = (if es = [] then ZERO_HASH else ev_event_sha256 (last es))"

lemma linked_snoc:
  "linked S r (es @ [e]) \<longleftrightarrow> linked S r es \<and> link_ok S r (length es) (head_of es) e"
proof -
  let ?prev = "\<lambda>es i. if i = 0 then ZERO_HASH else ev_event_sha256 (es ! (i - 1))"
  have "link_ok S r i (?prev (es @ [e]) i) ((es @ [e]) ! i) \<longleftrightarrow> link_ok S r i (?prev es i) (es ! i)"
    if "i < length es" for i using that by (cases i) (simp_all add: nth_append)
  moreover have "?prev (es @ [e]) (length es) = head_of es"
    by (simp add: head_of_def nth_append last_conv_nth)
  ultimately show ?thesis unfolding linked_def length_append_singleton All_less_Suc by auto
qed

definition chain_ok :: "store_env \<Rightarrow> run_manifest \<Rightarrow> replay \<Rightarrow> bool" where
  "chain_ok S m s =
    (linked S (mf_run_id m) (rl_events s)
   \<and> rl_revision s = int (length (rl_events s)) \<and> rl_previous_hash s = head_of (rl_events s)
   \<and> rl_event_ids s = ev_event_id ` set (rl_events s) \<and> distinct (map ev_event_id (rl_events s))
   \<and> rl_command_ids s = ev_command_id ` set (rl_events s) \<and> distinct (map ev_command_id (rl_events s))
   \<and> (rl_events s \<noteq> [] \<longrightarrow> (\<exists>rt. rl_reduced s = Some rt
        \<and> reduce_events (se_env S) (workflow_of m) (rl_events s) None Healthy = Inr rt))
   \<and> (rl_events s = [] \<longrightarrow> rl_reduced s = None))"

lemma chain_ok_core: "chain_ok S m (core s) = chain_ok S m s"
  by (simp add: chain_ok_def core_def)

lemma boundary_Inr:
  "(case r of Inl x \<Rightarrow> Inl (RecoveryError x) | Inr _ \<Rightarrow> Inr y) = Inr z \<longleftrightarrow> r = Inr () \<and> y = z"
  by (cases r) auto

lemma check_record_Inr:
  "check_record S fs m mh s offset payload line = Inr (e, c) \<longleftrightarrow>
     validate_event S fs m mh s payload line = Inr (e, c)
   \<and> (case rl_pending s of None \<Rightarrow> ev_event_type e \<noteq> Recovery_completed
      | Some d \<Rightarrow> offset = 0 \<and> ev_event_type e = Recovery_completed
          \<and> validate_recovery_boundary S fs e d = Inr ())"
  by (auto simp: check_record_def guard_simps boundary_Inr split: option.split)

lemma validate_event_Inr:
  "validate_event S fs m mh s payload line = Inr (e, c) \<longleftrightarrow>
     se_event S payload = Some e \<and> chain_checks S m mh s line e = Inr ()
   \<and> file_checks S fs m (rl_events s) e = Inr () \<and> runtime_checks S fs m s e = Inr c"
  by (auto simp: validate_event_def guard_simps)

lemma check_recordD:
  assumes "check_record S fs m mh s offset payload line = Inr (e, c)"
  shows "se_event S payload = Some e" "chain_checks S m mh s line e = Inr ()"
    "file_checks S fs m (rl_events s) e = Inr ()" "runtime_checks S fs m s e = Inr c"
    "rl_pending s = None \<Longrightarrow> ev_event_type e \<noteq> Recovery_completed"
    "rl_pending s = Some d \<Longrightarrow> offset = 0 \<and> ev_event_type e = Recovery_completed
       \<and> validate_recovery_boundary S fs e d = Inr ()"
  using assms by (simp_all add: check_record_Inr validate_event_Inr)

lemma chain_checksD:
  assumes "chain_checks S m mh s line e = Inr ()"
  shows "event_bytes S e = line" "ev_event_sha256 e = hash S (canonical_event_bytes (event_wire S e))"
    "ev_run_id e = mf_run_id m" "ev_sequence e = int (length (rl_events s)) + 1"
    "ev_expected_revision e = rl_revision s" "ev_resulting_revision e = rl_revision s + 1"
    "ev_prev_event_sha256 e = rl_previous_hash s" "ev_event_id e \<notin> rl_event_ids s"
    "ev_command_id e \<notin> rl_command_ids s"
    "rl_events s = [] \<Longrightarrow> ev_event_type e = Run_initialized"
  using assms by (auto simp: chain_checks_def Let_def guard_simps split: if_splits)

lemma runtime_checksD:
  assumes "runtime_checks S fs m s e = Inr c"
  shows "reduce_events (se_env S) (workflow_of m) (rl_events s @ [e]) None Healthy = Inr c"
  using assms by (auto simp: runtime_checks_def guard_simps split: if_splits)

lemma accept_event_chain:
  assumes "chain_ok S m (core s)" and "check_record S fs m mh s offset payload line = Inr (e, c)"
  shows "chain_ok S m (core (accept_event (s\<lparr>rl_pending := None\<rparr>) e c))"
proof -
  note c = chain_checksD [OF check_recordD(2) [OF assms(2)]] runtime_checksD [OF check_recordD(4) [OF assms(2)]]
  have ok: "chain_ok S m s" using assms(1) by (simp add: chain_ok_core)
  have "link_ok S (mf_run_id m) (length (rl_events s)) (head_of (rl_events s)) e"
    using ok c by (simp add: link_ok_def chain_ok_def)
  with ok c show ?thesis
    unfolding chain_ok_core by (auto simp: chain_ok_def accept_event_def linked_snoc head_of_def)
qed

lemma initial_chain: "chain_ok S m (core initial_replay)"
  by (simp add: chain_ok_def core_def initial_replay_def linked_def head_of_def)

lemma replayed_chain:
  assumes "replay_segments S fs m mh stop i slots initial_replay = Inr (s, b)"
  shows "chain_ok S m s"
  using replay_segments_invariant [where I = "chain_ok S m", OF assms initial_chain accept_event_chain]
  by (simp add: chain_ok_core)

end
