(* ===== verification/Journal_Bytes.thy ===== *)
theory Journal_Bytes
  imports Journal_Chain
begin

text \<open>
  The bytes behind a replayed journal: every segment holds the canonical bytes of its accepted
  events up to the accepted end, and the events of the segments in order are the accepted events.
\<close>

definition bytes_of :: "store_env \<Rightarrow> canonical_event list \<Rightarrow> string" where
  "bytes_of S es = concat (map (event_bytes S) es)"

lemma bytes_of_simps [simp]:
  "bytes_of S [] = []" "bytes_of S (xs @ ys) = bytes_of S xs @ bytes_of S ys"
  "bytes_of S (e # es) = event_bytes S e @ bytes_of S es"
  by (simp_all add: bytes_of_def)

lemma line_of_prefix: "line_of rest @ drop (length (line_of rest)) rest = rest"
proof (cases "newline \<in> set rest")
  case True
  then obtain xs ys where r: "rest = xs @ newline # ys" "newline \<notin> set xs" by (metis split_list_first)
  then have "takeWhile (\<lambda>c. c \<noteq> newline) rest = xs" by (auto simp: takeWhile_append)
  with r show ?thesis by (simp add: line_of_def)
next
  case False
  then have "takeWhile (\<lambda>c. c \<noteq> newline) rest = rest" by (subst takeWhile_eq_all_conv) auto
  with False have "line_of rest = rest" unfolding line_of_def by (simp del: takeWhile_eq_all_conv)
  then show ?thesis by simp
qed

lemma accepted_line:
  assumes "check_record S fs m mh s offset payload line = Inr (e, c)"
  shows "event_bytes S e = line"
  by (rule chain_checksD(1) [OF check_recordD(2) [OF assms]])

text \<open>Where a scan stands: its own segment, and the accepted bytes before its end.\<close>

definition scan_matches :: "store_env \<Rightarrow> path \<Rightarrow> string \<Rightarrow> segment_scan \<Rightarrow> bool" where
  "scan_matches S p b c =
    (sg_path c = p \<and> sg_accepted_byte_end c \<le> length b
   \<and> take (sg_accepted_byte_end c) b = bytes_of S (sg_events c))"

lemma scan_of_matches:
  "offset \<le> length (sv_bytes v) \<Longrightarrow> take offset (sv_bytes v) = bytes_of S es
    \<Longrightarrow> scan_matches S (sv_path v) (sv_bytes v) (scan_of S v offset es f)"
  by (simp add: scan_matches_def scan_of_def)

lemma damaged_line_scan:
  assumes "damaged_line S m s v offset es line x = Inr s'"
  shows "\<exists>f. rl_segments s' = rl_segments s @ [scan_of S v offset es (Some f)] \<and> rl_events s' = rl_events s"
  using assms by (auto simp: damaged_line_def Let_def guard_simps segment_fields split: if_splits)

lemma replay_lines_effect:
  assumes "replay_lines S fs m mh stop v s offset es rest = Inr (s', b)"
    and "offset \<le> length (sv_bytes v)" and "take offset (sv_bytes v) = bytes_of S es"
    and "drop offset (sv_bytes v) = rest"
  shows "\<exists>c new. rl_segments s' = rl_segments s @ [c] \<and> scan_matches S (sv_path v) (sv_bytes v) c
    \<and> sg_events c = es @ new \<and> rl_events s' = rl_events s @ new
    \<and> (\<not> b \<and> sg_fault_class c = None \<longrightarrow> sg_accepted_byte_end c = length (sv_bytes v))"
  using assms
proof (induction "length rest" arbitrary: s offset es rest rule: less_induct)
  case less
  let ?line = "line_of rest"
  have next_pos: "offset + length ?line \<le> length (sv_bytes v)"
    "take (offset + length ?line) (sv_bytes v) = bytes_of S es @ ?line"
    "drop (offset + length ?line) (sv_bytes v) = drop (length ?line) rest"
  proof -
    have l: "length ?line \<le> length rest" using line_of_prefix [of rest] by (metis le_add1 length_append)
    then show "offset + length ?line \<le> length (sv_bytes v)" using less.prems(2,4) by auto
    have "take (length ?line) rest = ?line" using line_of_prefix [of rest] by (metis append_eq_conv_conj)
    then show "take (offset + length ?line) (sv_bytes v) = bytes_of S es @ ?line"
      using less.prems(3,4) by (simp add: take_add)
    show "drop (offset + length ?line) (sv_bytes v) = drop (length ?line) rest"
      using less.prems(4) by (metis add.commute drop_drop)
  qed
  note here = scan_of_matches [OF less.prems(2,3)]
  from less.prems(1) show ?case
  proof (cases rule: replay_lines_cases)
    case complete
    then show ?thesis
      using here [of None] less.prems(2,4)
      by (intro exI [of _ "scan_of S v offset es None"]) (simp add: segment_fields scan_of_def)
  next
    case (stuck x)
    from damaged_line_scan [OF stuck(5)] obtain f where
      "rl_segments s' = rl_segments s @ [scan_of S v offset es (Some f)]" "rl_events s' = rl_events s" by blast
    then show ?thesis
      using here [of "Some f"]
      by (intro exI [of _ "scan_of S v offset es (Some f)"]) (simp add: segment_fields scan_of_def)
  next
    case (refused payload x f)
    then show ?thesis
      using here [of "Some f"]
      by (intro exI [of _ "scan_of S v offset es (Some f)"]) (simp add: segment_fields scan_of_def)
  next
    case (cutoff payload e c)
    let ?c = "stopped_scan S v (offset + length ?line) (es @ [e])"
    have "scan_matches S (sv_path v) (sv_bytes v) ?c"
      using next_pos accepted_line [OF cutoff(4)]
      by (simp add: scan_matches_def stopped_scan_def scan_of_def)
    moreover have "sg_events ?c = es @ [e]" by (simp add: stopped_scan_def scan_of_def)
    ultimately show ?thesis
      using cutoff(2,6) by (intro exI [of _ ?c] exI [of _ "[e]"]) (simp add: segment_fields accept_event_def)
  next
    case (more payload e c)
    let ?s = "accept_event (s\<lparr>rl_pending := None\<rparr>) e c"
    have "length (drop (length ?line) rest) < length rest"
      using more(1) line_of_not_Nil [of rest] by (cases rest) auto
    from less.hyps [OF this more(5) next_pos(1) _ next_pos(3)] obtain d new where
      "rl_segments s' = rl_segments ?s @ [d]" "scan_matches S (sv_path v) (sv_bytes v) d"
      "sg_events d = (es @ [e]) @ new" "rl_events s' = rl_events ?s @ new"
      "\<not> b \<and> sg_fault_class d = None \<longrightarrow> sg_accepted_byte_end d = length (sv_bytes v)"
      using next_pos(2) accepted_line [OF more(3)] by auto
    then show ?thesis
      by (intro exI [of _ d] exI [of _ "e # new"]) (simp add: accept_event_def)
  qed
qed

text \<open>The scans of a replay over the segments it was given.\<close>

definition scans_match :: "store_env \<Rightarrow> fs \<Rightarrow> segment_scan list \<Rightarrow> bool" where
  "scans_match S fs cs = (\<forall>c \<in> set cs. \<exists>b. read_bytes fs (sg_path c) = Some b \<and> scan_matches S (sg_path c) b c)"

definition scans_whole :: "fs \<Rightarrow> segment_scan list \<Rightarrow> bool" where
  "scans_whole fs cs = (\<forall>c \<in> set cs. sg_fault_class c = None \<longrightarrow>
     map_option length (read_bytes fs (sg_path c)) = Some (sg_accepted_byte_end c))"

lemma replay_segments_effect:
  assumes "replay_segments S fs m mh stop i slots s = Inr (s', b)"
  shows "\<exists>cs. rl_segments s' = rl_segments s @ cs \<and> scans_match S fs cs \<and> (\<not> b \<longrightarrow> scans_whole fs cs)
    \<and> rl_events s' = rl_events s @ concat (map sg_events cs)
    \<and> (\<forall>c \<in> set cs. Inr (sg_path c) \<in> set slots)"
  using assms
proof (induction slots arbitrary: i s)
  case Nil
  then show ?case by (intro exI [of _ "[]"]) (simp add: scans_match_def scans_whole_def)
next
  case (Cons slot slots)
  let ?one = "\<lambda>c. scans_match S fs [c] \<and> Inr (sg_path c) = slot"
  have one: "\<exists>c. rl_segments t = rl_segments s @ [c] \<and> ?one c \<and> rl_events t = rl_events s @ sg_events c
      \<and> (\<not> d \<longrightarrow> scans_whole fs [c])"
    if r: "replay_lines S fs m mh stop (view i p bytes (slots \<noteq> [])) s 0 [] bytes = Inr (t, d)"
      and slot: "slot = Inr p" "read_bytes fs p = Some bytes" for t d p bytes
  proof -
    obtain c where "rl_segments t = rl_segments s @ [c]" "scan_matches S p bytes c"
      "rl_events t = rl_events s @ sg_events c"
      "\<not> d \<and> sg_fault_class c = None \<longrightarrow> sg_accepted_byte_end c = length bytes"
      using replay_lines_effect [OF r] by auto
    moreover from this(2) have "sg_path c = p" by (simp add: scan_matches_def)
    ultimately show ?thesis
      using slot by (intro exI [of _ c]) (auto simp: scans_match_def scans_whole_def)
  qed
  from Cons.prems show ?case
  proof (cases rule: replay_segments_cases)
    case (vacant p)
    let ?c = "scan_of S (view i p [] (slots \<noteq> [])) 0 [] (Some Empty_segment)"
    have "scan_matches S p [] ?c" "sg_path ?c = p" "sg_events ?c = []" "sg_fault_class ?c \<noteq> None"
      by (simp_all add: scan_matches_def scan_of_def)
    with vacant show ?thesis
      by (intro exI [of _ "[?c]"]) (auto simp: scans_match_def scans_whole_def segment_fields)
  next
    case (last p bytes)
    from one [OF last(4,1,2)] obtain c where "rl_segments s' = rl_segments s @ [c]" "?one c"
      "rl_events s' = rl_events s @ sg_events c" "\<not> b \<longrightarrow> scans_whole fs [c]" by blast
    then show ?thesis by (intro exI [of _ "[c]"]) auto
  next
    case (through p bytes t)
    from one [OF through(4,1,2)] obtain c where c: "rl_segments t = rl_segments s @ [c]" "?one c"
      "rl_events t = rl_events s @ sg_events c" "scans_whole fs [c]" by blast
    from Cons.IH [OF through(6)] obtain cs where cs: "rl_segments s' = rl_segments t @ cs"
      "scans_match S fs cs" "\<not> b \<longrightarrow> scans_whole fs cs"
      "rl_events s' = rl_events t @ concat (map sg_events cs)" "\<forall>c \<in> set cs. Inr (sg_path c) \<in> set slots"
      by auto
    show ?thesis
      using c cs by (intro exI [of _ "c # cs"]) (auto simp: scans_match_def scans_whole_def)
  qed
qed

section \<open>The replayed journal\<close>

lemma not_stopped:
  assumes "replay_lines S fs m mh None v s offset es rest = Inr (s', b)"
  shows "\<not> b"
  using assms
proof (induction "length rest" arbitrary: s offset es rest rule: less_induct)
  case less
  from less.prems show ?case
  proof (cases rule: replay_lines_cases)
    case (more payload e c)
    have "length (drop (length (line_of rest)) rest) < length rest"
      using more(1) line_of_not_Nil [of rest] by (cases rest) auto
    from less.hyps [OF this more(5)] show ?thesis .
  qed simp_all
qed

lemma segments_not_stopped:
  "replay_segments S fs m mh None i slots s = Inr (s', b) \<Longrightarrow> \<not> b"
proof (induction slots arbitrary: i s)
  case (Cons slot slots)
  from Cons.prems show ?case
    by (cases rule: replay_segments_cases) (auto dest: not_stopped Cons.IH)
qed simp

text \<open>
  C2.  A replayed journal is one chain.  Whatever is on disk, the events a replay returns, of the
  whole journal or up to a revision, form a chain: each belongs to the run of the manifest, carries
  the next sequence number and revision, the digest of its predecessor and the digest of its own
  bytes; no event or command identity occurs twice; revision, count, head and identities of the
  result are those of the chain; and the reducer accepts it.  The accepted part of every segment
  file is exactly the canonical bytes of its events, which in the order of the segments are all the
  events; and without a cutoff a segment in which no fault was found is accepted to its last byte.
\<close>

theorem replayed_journal_is_one_chain:
  assumes "replay_unlocked S fs stop = Inr st"
  shows "(\<forall>i < length (ry_events st). link_ok S (ry_run_id st) i
            (if i = 0 then ZERO_HASH else ev_event_sha256 (ry_events st ! (i - 1))) (ry_events st ! i))
    \<and> distinct (map ev_event_id (ry_events st)) \<and> distinct (map ev_command_id (ry_events st))
    \<and> ry_revision st = int (length (ry_events st)) \<and> ry_event_count st = length (ry_events st)
    \<and> ry_last_event_sha256 st = head_of (ry_events st)
    \<and> ry_event_ids st = ev_event_id ` set (ry_events st)
    \<and> ry_command_ids st = ev_command_id ` set (ry_events st)
    \<and> (ry_events st \<noteq> [] \<longrightarrow>
         (\<exists>rt. reduce_events (se_env S) (ry_workflow_definition_id st) (ry_events st) None Healthy = Inr rt))
    \<and> ry_events st = concat (map sg_events (ry_segments st))
    \<and> (\<forall>c \<in> set (ry_segments st). \<exists>b. read_bytes fs (sg_path c) = Some b
         \<and> take (sg_accepted_byte_end c) b = concat (map (event_bytes S) (sg_events c))
         \<and> (stop = None \<and> sg_fault_class c = None \<longrightarrow> sg_accepted_byte_end c = length b))"
proof -
  obtain m raw slots s b where
    r: "replay_segments S fs m (hash S raw) stop 1 slots initial_replay = Inr (s, b)"
    and st: "ry_run_id st = mf_run_id m" "ry_events st = rl_events s" "ry_revision st = rl_revision s"
    "ry_last_event_sha256 st = rl_previous_hash s" "ry_event_count st = length (rl_events s)"
    "ry_event_ids st = rl_event_ids s" "ry_command_ids st = rl_command_ids s"
    "ry_workflow_definition_id st = workflow_of m" "ry_segments st = rl_segments s"
    using assms by (rule replay_unlockedE)
  have chain: "chain_ok S m s" by (rule replayed_chain [OF r])
  obtain cs where cs: "rl_segments s = cs" "scans_match S fs cs" "\<not> b \<longrightarrow> scans_whole fs cs"
    "rl_events s = concat (map sg_events cs)"
    using replay_segments_effect [OF r] by (auto simp: initial_replay_def)
  have "\<exists>b. read_bytes fs (sg_path c) = Some b
         \<and> take (sg_accepted_byte_end c) b = concat (map (event_bytes S) (sg_events c))
         \<and> (stop = None \<and> sg_fault_class c = None \<longrightarrow> sg_accepted_byte_end c = length b)"
    if c: "c \<in> set cs" for c
  proof -
    obtain d where d: "read_bytes fs (sg_path c) = Some d" "scan_matches S (sg_path c) d c"
      using cs(2) c unfolding scans_match_def by blast
    have "sg_accepted_byte_end c = length d" if "stop = None" "sg_fault_class c = None"
    proof -
      have "scans_whole fs cs" using segments_not_stopped r cs(3) \<open>stop = None\<close> by blast
      then show ?thesis using that c d(1) by (auto simp: scans_whole_def)
    qed
    with d show ?thesis by (auto simp: scan_matches_def bytes_of_def)
  qed
  then have "\<forall>c \<in> set (ry_segments st). \<exists>b. read_bytes fs (sg_path c) = Some b
         \<and> take (sg_accepted_byte_end c) b = concat (map (event_bytes S) (sg_events c))
         \<and> (stop = None \<and> sg_fault_class c = None \<longrightarrow> sg_accepted_byte_end c = length b)"
    using st(9) cs(1) by simp
  moreover have "ry_events st = concat (map sg_events (ry_segments st))" using st(2,9) cs(1,4) by simp
  moreover have "ry_events st \<noteq> [] \<longrightarrow>
      (\<exists>rt. reduce_events (se_env S) (ry_workflow_definition_id st) (ry_events st) None Healthy = Inr rt)"
    using chain st(2,8) unfolding chain_ok_def by metis
  moreover have "\<forall>i < length (ry_events st). link_ok S (ry_run_id st) i
      (if i = 0 then ZERO_HASH else ev_event_sha256 (ry_events st ! (i - 1))) (ry_events st ! i)"
    using chain unfolding chain_ok_def linked_def st(1,2) by blast
  moreover have "distinct (map ev_event_id (ry_events st))" "distinct (map ev_command_id (ry_events st))"
    "ry_revision st = int (length (ry_events st))" "ry_event_count st = length (ry_events st)"
    "ry_last_event_sha256 st = head_of (ry_events st)" "ry_event_ids st = ev_event_id ` set (ry_events st)"
    "ry_command_ids st = ev_command_id ` set (ry_events st)"
    using chain st(1-7) unfolding chain_ok_def by simp_all
  ultimately show ?thesis by (intro conjI)
qed

end
