(* ===== verification/Journal_Head.thy ===== *)
theory Journal_Head
  imports Journal_Bytes
begin

text \<open>
  The head digest of a journal pins down the whole run: its events and the bytes of its manifest.
\<close>

definition opens_run :: "sha256 \<Rightarrow> canonical_event list \<Rightarrow> bool" where
  "opens_run manifest_hash es \<longleftrightarrow> (es \<noteq> [] \<longrightarrow> ev_event_type (hd es) = Run_initialized
     \<and> map_option ri_manifest_sha256 (as_run_initialized (ev_payload (hd es))) = Some manifest_hash)"

lemma accept_event_opens:
  assumes "opens_run mh (rl_events (core s))" and "check_record S fs m mh s offset payload line = Inr (e, c)"
  shows "opens_run mh (rl_events (core (accept_event (s\<lparr>rl_pending := None\<rparr>) e c)))"
proof (cases "rl_events s = []")
  case True
  with check_recordD(2) [OF assms(2)] show ?thesis
    by (auto simp: chain_checks_def Let_def guard_simps opens_run_def accept_event_def core_sel)
next
  case False
  with assms(1) show ?thesis by (simp add: opens_run_def accept_event_def core_sel)
qed

lemma replayed_opens:
  assumes "replay_segments S fs m mh stop i slots initial_replay = Inr (s, b)"
  shows "opens_run mh (rl_events s)"
proof -
  have "opens_run mh (rl_events (core initial_replay))"
    by (simp add: opens_run_def core_sel initial_replay_def)
  from replay_segments_invariant [where I = "\<lambda>s. opens_run mh (rl_events s)", OF assms this accept_event_opens]
  show ?thesis by (simp add: core_sel)
qed

text \<open>Two linked lists that end in the same event are the same.\<close>

abbreviation signed_bytes :: "store_env \<Rightarrow> canonical_event \<Rightarrow> string" where
  "signed_bytes S e \<equiv> canonical_event_bytes (event_wire S e)"

lemma linked_same:
  assumes "linked S r es" and "linked S r' es'" and "es \<noteq> []" and "es' \<noteq> []" and "head_of es = head_of es'"
    and inj: "inj_on (hash S) (signed_bytes S ` (set es \<union> set es'))"
    and faithful: "\<And>e e'. e \<in> set es \<Longrightarrow> e' \<in> set es' \<Longrightarrow> signed_bytes S e = signed_bytes S e' \<Longrightarrow>
      e\<lparr>ev_event_sha256 := []\<rparr> = e'\<lparr>ev_event_sha256 := []\<rparr>"
  shows "es = es'"
  using assms
proof (induction es arbitrary: es' rule: rev_induct)
  case (snoc e es)
  obtain e' fs where es': "es' = fs @ [e']" using snoc.prems(4) by (cases es' rule: rev_cases) auto
  have l: "link_ok S r (length es) (head_of es) e" "linked S r es"
    "link_ok S r' (length fs) (head_of fs) e'" "linked S r' fs"
    using snoc.prems(1,2) es' by (simp_all add: linked_snoc)
  have "hash S (signed_bytes S e) = hash S (signed_bytes S e')"
    using snoc.prems(5) es' l by (simp add: head_of_def link_ok_def)
  then have "signed_bytes S e = signed_bytes S e'"
    by (rule inj_onD [OF snoc.prems(6)]) (simp_all add: es')
  with snoc.prems(7) [of e e'] es' have "e\<lparr>ev_event_sha256 := []\<rparr> = e'\<lparr>ev_event_sha256 := []\<rparr>" by simp
  moreover have "ev_event_sha256 e = ev_event_sha256 e'"
    using snoc.prems(5) es' by (simp add: head_of_def)
  ultimately have e: "e = e'" by (cases e; cases e') simp
  then have n: "length es = length fs" and h: "head_of es = head_of fs"
    using l(1,3) by (simp_all add: link_ok_def)
  have "es = fs"
  proof (cases "es = []")
    case False
    with n have "fs \<noteq> []" by auto
    have "inj_on (hash S) (signed_bytes S ` (set es \<union> set fs))"
      by (rule inj_on_subset [OF snoc.prems(6)]) (auto simp: es')
    from snoc.IH [OF l(2,4) False \<open>fs \<noteq> []\<close> h this] snoc.prems(7) es' show ?thesis by simp
  qed (use n in simp)
  with e es' show ?case by simp
qed simp

text \<open>
  C6.  The head pins the history.  Two replays, of any two run directories and up to any revisions,
  that end in the same head digest have the same events, and their manifests have the same digest.
  This holds when the digest does not collide on the events of the two journals and an event can be
  read off its dump: nobody can rewrite an accepted event, or the manifest, and keep the head.
\<close>

theorem journal_head_pins_its_history:
  assumes "replay_unlocked S fs stop = Inr st" and "replay_unlocked S fs' stop' = Inr st'"
    and "ry_events st \<noteq> []" and "ry_events st' \<noteq> []"
    and "ry_last_event_sha256 st = ry_last_event_sha256 st'"
    and "inj_on (hash S) ((\<lambda>e. canonical_event_bytes (event_wire S e)) ` (set (ry_events st) \<union> set (ry_events st')))"
    and "\<And>e e'. e \<in> set (ry_events st) \<Longrightarrow> e' \<in> set (ry_events st') \<Longrightarrow>
      canonical_event_bytes (event_wire S e) = canonical_event_bytes (event_wire S e') \<Longrightarrow>
      e\<lparr>ev_event_sha256 := []\<rparr> = e'\<lparr>ev_event_sha256 := []\<rparr>"
  shows "ry_events st = ry_events st' \<and> ry_revision st = ry_revision st'
    \<and> (\<exists>m raw m' raw'. read_manifest S fs = Inr (m, raw) \<and> read_manifest S fs' = Inr (m', raw')
        \<and> hash S raw = hash S raw')"
proof -
  obtain m raw slots s b where r: "read_manifest S fs = Inr (m, raw)"
    "replay_segments S fs m (hash S raw) stop 1 slots initial_replay = Inr (s, b)"
    "ry_events st = rl_events s" "ry_revision st = rl_revision s" "ry_last_event_sha256 st = rl_previous_hash s"
    using assms(1) by (rule replay_unlockedE)
  obtain m' raw' slots' s' b' where r': "read_manifest S fs' = Inr (m', raw')"
    "replay_segments S fs' m' (hash S raw') stop' 1 slots' initial_replay = Inr (s', b')"
    "ry_events st' = rl_events s'" "ry_revision st' = rl_revision s'"
    "ry_last_event_sha256 st' = rl_previous_hash s'"
    using assms(2) by (rule replay_unlockedE)
  note chain = replayed_chain [OF r(2), unfolded chain_ok_def] replayed_chain [OF r'(2), unfolded chain_ok_def]
  have "rl_events s = rl_events s'"
    by (rule linked_same [of S "mf_run_id m" _ "mf_run_id m'"])
      (use chain assms(3-7) r(3,5) r'(3,5) in simp_all)
  moreover have "hash S raw = hash S raw'"
    using replayed_opens [OF r(2)] replayed_opens [OF r'(2)] calculation assms(3) r(3)
    by (auto simp: opens_run_def)
  moreover have "rl_revision s = rl_revision s'" using chain calculation(1) by simp
  ultimately show ?thesis unfolding r(1,3,4) r'(1,3,4) by simp
qed

end
