(* ===== verification/Journal_Append.thy ===== *)
theory Journal_Append
  imports Journal_Head
begin

text \<open>
  What a write at the end of the last segment does to a healthy journal: every accepted record is
  read as before, and the replay goes on at the tip with the bytes that were added.
\<close>

section \<open>What the checks read\<close>

text \<open>The file a binding event names.\<close>

definition bound_location :: "execution_artifact_bound \<Rightarrow> string" where
  "bound_location b = (if bd_source_kind b = Src_proposal
     then attempt_result_path (bd_attempt_id b) (bd_relative_path b) else bd_relative_path b)"

definition binds_path :: "path \<Rightarrow> canonical_event \<Rightarrow> bool" where
  "binds_path p e = (case as_artifact_bound (ev_payload e) of
     Some b \<Rightarrow> posix_parts (bound_location b) = p | None \<Rightarrow> False)"

text \<open>The checks of other packages do not read the file at \<open>p\<close>.\<close>

definition blind :: "store_env \<Rightarrow> path \<Rightarrow> bool" where
  "blind S p = (\<forall>fs b. is_file fs p \<longrightarrow>
     se_experiment_contract S (dset p (File b) fs) = se_experiment_contract S fs
   \<and> se_experiment_provenance S (dset p (File b) fs) = se_experiment_provenance S fs
   \<and> se_narrative_report S (dset p (File b) fs) = se_narrative_report S fs
   \<and> se_harness_identity S (dset p (File b) fs) = se_harness_identity S fs)"

text \<open>The contents of one segment have changed.\<close>

definition rewritten :: "store_env \<Rightarrow> path \<Rightarrow> fs \<Rightarrow> fs \<Rightarrow> bool" where
  "rewritten S p fs fs' = (is_file fs p \<and> butlast p = SEGMENTS \<and> p \<noteq> [] \<and> blind S p \<and> (\<exists>b. fs' = dset p (File b) fs))"

lemma same_tree:
  assumes "rewritten S p fs fs'"
  shows "is_link fs' q = is_link fs q" "lexists fs' q = lexists fs q" "is_dir fs' q = is_dir fs q"
    "is_file fs' q = is_file fs q" "q \<noteq> p \<Longrightarrow> read_bytes fs' q = read_bytes fs q"
  using assms by (cases "q = p"; auto simp: rewritten_def is_link_def lexists_def is_dir_def is_file_def
      read_bytes_def split: option.splits node.splits)+

lemma same_link: "rewritten S p fs fs' \<Longrightarrow> is_link fs' = is_link fs"
  by (simp add: fun_eq_iff same_tree)

lemma same_entries:
  assumes "rewritten S p fs fs'"
  shows "map fst fs' = map fst fs"
proof -
  obtain n where "dget fs p = Some n"
    using assms by (auto simp: rewritten_def is_file_def read_bytes_def split: option.splits)
  then have "p \<in> fst ` set fs" by (metis dget_in_set fst_conv imageI)
  then have "map fst (dset p v fs) = map fst fs" for v by (simp add: update_keys)
  with assms show ?thesis by (auto simp: rewritten_def)
qed

lemma same_outside:
  assumes "rewritten S p fs fs'" and "hd q \<noteq> ''journal''"
  shows "q \<noteq> p" and "read_bytes fs' q = read_bytes fs q"
proof -
  have "hd p = ''journal''" using assms(1) by (cases p) (auto simp: rewritten_def SEGMENTS_def split: if_splits)
  with assms(2) show "q \<noteq> p" by auto
  then show "read_bytes fs' q = read_bytes fs q" by (rule same_tree(5) [OF assms(1)])
qed

lemma same_load:
  assumes "rewritten S p fs fs'"
  shows "load_artifact_manifest S fs' = load_artifact_manifest S fs"
    "load_material_passport S fs' = load_material_passport S fs"
  by (simp_all add: fun_eq_iff load_def content_def same_outside [OF assms] ARTIFACT_STORE_def PASSPORT_STORE_def)

lemma same_packages:
  assumes "rewritten S p fs fs'"
  shows "se_experiment_contract S fs' = se_experiment_contract S fs"
    "se_experiment_provenance S fs' = se_experiment_provenance S fs"
    "se_narrative_report S fs' = se_narrative_report S fs"
    "se_harness_identity S fs' = se_harness_identity S fs"
  using assms by (auto simp: rewritten_def blind_def)

lemma same_manifest:
  assumes "rewritten S p fs fs'"
  shows "read_manifest S fs' = read_manifest S fs"
  by (simp add: read_manifest_def same_tree [OF assms] same_outside [OF assms] MANIFEST_NAME_def)

lemma same_slots:
  assumes "rewritten S p fs fs'"
  shows "segment_slots fs' m stop = segment_slots fs m stop"
proof -
  note same = same_tree [OF assms] same_entries [OF assms]
  have "prefix_slots fs' n i = prefix_slots fs n i" for n i
    by (induction n arbitrary: i) (simp_all add: same Let_def)
  moreover have "length fs' = length fs" using same(6) by (metis length_map)
  moreover have "children fs' = children fs" "is_file fs' = is_file fs"
    by (simp_all add: fun_eq_iff children_def same)
  ultimately show ?thesis
    unfolding segment_slots_def discover_segments_def journal_storage_def by (simp only: same(1-4))
qed

lemma same_safe_file: "rewritten S p fs fs' \<Longrightarrow> q \<noteq> p \<Longrightarrow> safe_file fs' q = safe_file fs q"
  by (simp add: safe_file_def same_tree [of S p] same_link [of S p])

lemma same_boundary:
  assumes "rewritten S p fs fs'" and "sg_path d \<noteq> p"
  shows "validate_recovery_boundary S fs' e d = validate_recovery_boundary S fs e d"
proof -
  have "receipt_path i \<noteq> p" "raw_path i \<noteq> p" for i
    by (rule same_outside(1) [OF assms(1)], simp add: receipt_path_def raw_path_def bundle_path_def)+
  then show ?thesis
    using assms(2)
    by (simp add: validate_recovery_boundary_def load_recovery_receipt_def same_safe_file [OF assms(1)])
qed

lemma same_content_file:
  "rewritten S p fs fs' \<Longrightarrow> posix_parts relative \<noteq> p \<Longrightarrow>
    validate_content_file S fs' relative d n = validate_content_file S fs relative d n"
  by (simp add: validate_content_file_def Let_def same_tree [of S p] same_link [of S p])

lemma same_binding:
  assumes "rewritten S p fs fs'" and "\<not> binds_path p e"
  shows "validate_execution_binding_source S fs' e m = validate_execution_binding_source S fs e m"
proof (cases "as_artifact_bound (ev_payload e)")
  case (Some x)
  have "binding_location S fs' e x m = binding_location S fs e x m"
    by (simp add: binding_location_def same_load [OF assms(1)] split: source_kind.split)
  moreover have "posix_parts r \<noteq> p" if "binding_location S fs e x m = Inr r" for r
    using that assms(2) Some
    by (auto simp: binding_location_def binds_path_def bound_location_def guard_simps split: source_kind.splits)
  ultimately show ?thesis
    by (cases "binding_location S fs e x m")
      (simp_all add: validate_execution_binding_source_def Some rbind_simps require_some_simps
        same_content_file [OF assms(1)])
qed (simp add: validate_execution_binding_source_def require_some_simps)

lemma same_file_checks:
  assumes "rewritten S p fs fs'" and "\<not> binds_path p e"
  shows "file_checks S fs' m prior e = file_checks S fs m prior e"
  unfolding file_checks_def validate_accepted_event_def same_packages [OF assms(1)] same_load [OF assms(1)]
    same_binding [OF assms] ..

lemma same_runtime_checks:
  assumes "rewritten S p fs fs'"
  shows "runtime_checks S fs' m s e = runtime_checks S fs m s e"
  unfolding runtime_checks_def validate_event_manifest_semantics_def same_packages [OF assms]
    same_load [OF assms] ..

lemma same_check_record:
  assumes "rewritten S p fs fs'" and "check_record S fs m mh s offset payload line = Inr (e, c)"
    and "\<not> binds_path p e" and "\<And>d. rl_pending s = Some d \<Longrightarrow> sg_path d \<noteq> p"
  shows "check_record S fs' m mh s offset payload line = Inr (e, c)"
  using assms same_boundary [OF assms(1)]
  by (auto simp: check_record_Inr validate_event_Inr same_file_checks [OF assms(1)]
      same_runtime_checks [OF assms(1)] split: option.splits)

end
