(* ===== verification/Journal_Names.thy ===== *)
theory Journal_Names
  imports Journal
begin

text \<open>
  The names of segments: a name determines its index, the discovered segments are the numbered files
  in order, and the search for the segments of a prefix ends.
\<close>

section \<open>A name and its index\<close>

lemma digits_value_zeros: "digits_value (replicate k (CHR ''0'') @ s) = digits_value s"
  by (induction k) (simp_all add: digits_value_Cons code_def)

lemma nat_str_short: "n < 10 ^ k \<Longrightarrow> 0 < k \<Longrightarrow> length (nat_str n) \<le> k"
proof (induction k arbitrary: n)
  case (Suc k)
  show ?case
  proof (cases "n < 10")
    case True
    then show ?thesis by (simp add: nat_str.simps [of n])
  next
    case False
    then have "0 < k" using Suc.prems(1) by (cases k) auto
    moreover have "n div 10 < 10 ^ k" using Suc.prems(1) by (simp add: less_mult_imp_div_less mult.commute)
    ultimately show ?thesis using Suc.IH [of "n div 10"] False by (subst nat_str.simps) simp
  qed
qed simp

text \<open>The digits of a name: at least eight.\<close>

abbreviation padded :: "nat \<Rightarrow> string" where
  "padded n \<equiv> replicate (8 - length (nat_str n)) (CHR ''0'') @ nat_str n"

lemma segment_name_padded: "segment_name n = padded n @ ''.jsonl''"
  by (simp add: segment_name_def)

lemma padded_value: "digits_value (padded n) = n"
  by (simp only: digits_value_zeros digits_value_nat_str)

lemma segment_name_inject [simp]: "segment_name n = segment_name k \<longleftrightarrow> n = k"
  unfolding segment_name_padded using padded_value by (metis append_same_eq)

lemma padded_digits: "list_all is_digit (padded n)"
  using nat_str_digits by (auto simp: list_all_iff is_digit_def code_def)

lemma segment_index_name: "n < 10 ^ 8 \<Longrightarrow> segment_index (segment_name n) = Some n"
proof -
  assume "n < 10 ^ 8"
  then have "length (padded n) = 8" using nat_str_short [of n 8] by simp
  then have "take 8 (segment_name n) = padded n" "drop 8 (segment_name n) = ''.jsonl''"
    "length (segment_name n) = 14" unfolding segment_name_padded by simp_all
  then show ?thesis using padded_digits padded_value by (simp only: segment_index_def simp_thms if_True)
qed

lemma segment_index_SomeD:
  assumes "segment_index x = Some n"
  shows "x = segment_name n"
proof -
  let ?d = "take 8 x"
  have x: "length x = 14" "list_all is_digit ?d" "drop 8 x = ''.jsonl''" "n = digits_value ?d"
    using assms by (auto simp: segment_index_def split: if_splits)
  have "n < 10 ^ 8" using digits_value_bound [OF x(2)] x(1,4) by simp
  then have "length (padded n) = length ?d" using nat_str_short [of n 8] x(1) by simp
  then have "padded n = ?d"
    using digits_order [of "padded n" ?d] padded_digits x(2,4) padded_value by metis
  then show ?thesis using x(3) unfolding segment_name_padded by (metis append_take_drop_id)
qed

section \<open>The search ends\<close>

definition segment_path :: "nat \<Rightarrow> path" where
  "segment_path n = SEGMENTS @ [segment_name n]"

lemma segment_path_inject [simp]: "segment_path n = segment_path k \<longleftrightarrow> n = k"
  by (simp add: segment_path_def)

definition slot_of :: "fs \<Rightarrow> nat \<Rightarrow> (py_error, path) result" where
  "slot_of fs n = (if is_file fs (segment_path n) then Inr (segment_path n)
     else Inl (JournalError ''unexpected or unsafe segment entry''))"

lemma present_segments:
  assumes "\<And>i. 1 \<le> i \<Longrightarrow> i \<le> n \<Longrightarrow> lexists fs (segment_path i)"
  shows "n \<le> length fs"
proof -
  have "segment_path ` {1..n} \<subseteq> fst ` set fs"
  proof
    fix p assume "p \<in> segment_path ` {1..n}"
    then obtain i where i: "1 \<le> i" "i \<le> n" "p = segment_path i" by auto
    then obtain x where "dget fs p = Some x" using assms [of i] by (auto simp: lexists_def segment_path_def)
    then show "p \<in> fst ` set fs" by (metis dget_in_set fst_conv imageI)
  qed
  then have "card (segment_path ` {1..n}) \<le> card (fst ` set fs)" by (simp add: card_mono)
  moreover have "card (segment_path ` {1..n}) = n" by (simp add: card_image inj_on_def)
  moreover have "card (fst ` set fs) \<le> length fs" by (metis card_image_le card_length le_trans List.finite_set)
  ultimately show ?thesis by linarith
qed

lemma prefix_slots_until:
  assumes "\<And>j. i \<le> j \<Longrightarrow> j < k \<Longrightarrow> lexists fs (segment_path j)" and "\<not> lexists fs (segment_path k)"
    and "i \<le> k" and "k - i \<le> fuel"
  shows "prefix_slots fs fuel i = map (slot_of fs) [i..<k]"
  using assms
proof (induction fuel arbitrary: i)
  case 0
  then show ?case by simp
next
  case (Suc fuel)
  show ?case
  proof (cases "i = k")
    case True
    then show ?thesis using Suc.prems(2) by (simp add: segment_path_def Let_def)
  next
    case False
    have "prefix_slots fs fuel (Suc i) = map (slot_of fs) [Suc i..<k]"
      by (rule Suc.IH) (use Suc.prems False in auto)
    moreover have "lexists fs (segment_path i)" using Suc.prems(1,3) False by simp
    ultimately show ?thesis
      using Suc.prems(3) False by (simp add: segment_path_def slot_of_def upt_conv_Cons Let_def)
  qed
qed

lemma first_missing:
  "\<exists>n \<le> length fs. (\<forall>i. 1 \<le> i \<and> i \<le> n \<longrightarrow> lexists fs (segment_path i)) \<and> \<not> lexists fs (segment_path (Suc n))"
proof -
  have ex: "\<exists>n. \<not> lexists fs (segment_path (Suc n))"
    using present_segments [of "Suc (length fs)" fs] by (metis not_less_eq_eq order_refl Suc_le_D One_nat_def)
  let ?n = "LEAST n. \<not> lexists fs (segment_path (Suc n))"
  have missing: "\<not> lexists fs (segment_path (Suc ?n))" by (rule LeastI_ex [OF ex])
  have here: "lexists fs (segment_path i)" if "1 \<le> i" "i \<le> ?n" for i
    using not_less_Least [of "i - 1" "\<lambda>n. \<not> lexists fs (segment_path (Suc n))"] that by auto
  from present_segments [OF here] here missing show ?thesis by blast
qed

text \<open>
  The search for the segments of a prefix ends.  \<open>_prefix_segments\<close> loops until an index has no
  entry.  There is such an index, at most one more than the entries of the tree, and from the number
  of segments before it on every bound on the iterations gives the same slots, one for each of these
  segments in order; so the bound the model uses leaves nothing out.
\<close>

theorem search_for_segments_ends:
  "\<exists>n \<le> length fs. (\<forall>i. 1 \<le> i \<and> i \<le> n \<longrightarrow> lexists fs (SEGMENTS @ [segment_name i]))
     \<and> \<not> lexists fs (SEGMENTS @ [segment_name (Suc n)])
     \<and> (\<forall>fuel \<ge> n. prefix_slots fs fuel 1 = prefix_slots fs (length fs) 1
          \<and> length (prefix_slots fs fuel 1) = n)"
proof -
  obtain n where n: "n \<le> length fs" "\<forall>i. 1 \<le> i \<and> i \<le> n \<longrightarrow> lexists fs (segment_path i)"
    "\<not> lexists fs (segment_path (Suc n))" using first_missing by blast
  have "prefix_slots fs fuel 1 = map (slot_of fs) [1..<Suc n]" if "n \<le> fuel" for fuel
    by (rule prefix_slots_until) (use n that in auto)
  with n show ?thesis
    unfolding segment_path_def by (intro exI [of _ n]) (auto simp del: upt_Suc prefix_slots.simps)
qed

section \<open>The discovered segments\<close>

lemma discovered_paths:
  assumes "segment_slots fs m None = Inr slots" and "mf_segmented m"
  obtains n where "slots = map (Inr \<circ> segment_path) [1..<Suc n]" "1 \<le> n"
    "\<And>i. 1 \<le> i \<Longrightarrow> i \<le> n \<Longrightarrow> is_file fs (segment_path i)" "\<not> lexists fs (segment_path (Suc n))"
proof -
  from assms obtain names found where
    found: "found = sort_key fst (map (\<lambda>n. (the (segment_index n), n)) names)" "found \<noteq> []"
      "map fst found = [1..<Suc (length found)]"
    and names: "names = children fs SEGMENTS"
      "\<And>x. x \<in> set names \<Longrightarrow> is_file fs (SEGMENTS @ [x]) \<and> segment_index x \<noteq> None"
    and slots: "slots = map Inr (map (\<lambda>(i, n). SEGMENTS @ [n]) found)"
    by (auto simp: segment_slots_def discover_segments_def journal_storage_def guard_simps Let_def list_ex_iff
        simp del: upt_Suc)
  have in_found: "(i, x) \<in> set found \<longleftrightarrow> x \<in> set names \<and> x = segment_name i" for i x
  proof
    assume "(i, x) \<in> set found"
    then have "x \<in> set names" "i = the (segment_index x)" unfolding found(1) by auto
    with names(2) [of x] segment_index_SomeD [of x i] show "x \<in> set names \<and> x = segment_name i" by auto
  next
    assume x: "x \<in> set names \<and> x = segment_name i"
    then obtain j where j: "segment_index x = Some j" using names(2) by blast
    with x have "j = i" using segment_index_SomeD [OF j] by simp
    with x j have "(i, x) = (the (segment_index x), x)" by simp
    with x show "(i, x) \<in> set found" unfolding found(1) set_sort set_map by blast
  qed
  have pair: "(\<lambda>(i, n). SEGMENTS @ [n]) q = segment_path (fst q)" if "q \<in> set found" for q
    using in_found [of "fst q" "snd q"] that by (simp add: segment_path_def case_prod_beta)
  have "map (\<lambda>(i, n). SEGMENTS @ [n]) found = map (segment_path \<circ> fst) found"
    by (rule map_cong [OF refl]) (simp add: pair)
  then have "map (\<lambda>(i, n). SEGMENTS @ [n]) found = map segment_path (map fst found)" by simp
  then have s: "slots = map (Inr \<circ> segment_path) [1..<Suc (length found)]"
    unfolding slots using found(3) by (simp del: upt_Suc)
  have name: "segment_name i \<in> set names \<longleftrightarrow> 1 \<le> i \<and> i \<le> length found" for i
  proof -
    have "segment_name i \<in> set names \<longleftrightarrow> (i, segment_name i) \<in> set found" by (simp only: in_found simp_thms)
    also have "\<dots> \<longleftrightarrow> i \<in> set (map fst found)"
    proof
      assume "i \<in> set (map fst found)"
      then obtain x where "(i, x) \<in> set found" by auto
      with in_found [of i x] show "(i, segment_name i) \<in> set found" by simp
    qed force
    also have "\<dots> \<longleftrightarrow> 1 \<le> i \<and> i \<le> length found" unfolding found(3) by auto
    finally show ?thesis .
  qed
  show ?thesis
  proof (rule that [OF s])
    show "1 \<le> length found" using found(2) by (cases found) auto
    show "is_file fs (segment_path i)" if "1 \<le> i" "i \<le> length found" for i
      using names(2) name [of i] that by (simp add: segment_path_def)
    show "\<not> lexists fs (segment_path (Suc (length found)))"
    proof
      assume "lexists fs (segment_path (Suc (length found)))"
      then obtain y where "dget fs (segment_path (Suc (length found))) = Some y"
        by (auto simp: lexists_def segment_path_def)
      then have "segment_path (Suc (length found)) \<in> fst ` set fs" by (metis dget_in_set fst_conv imageI)
      then have "segment_name (Suc (length found)) \<in> set names"
        unfolding names(1) children_def segment_path_def by (force simp: image_iff)
      with name [of "Suc (length found)"] show False by simp
    qed
  qed
qed

text \<open>A prefix sees the same segments as the whole journal.\<close>

lemma prefix_sees_segments:
  assumes "segment_slots fs m None = Inr slots" and "mf_segmented m"
  shows "segment_slots fs m (Some k) = Inr slots"
proof -
  from discovered_paths [OF assms] obtain n where n: "slots = map (Inr \<circ> segment_path) [1..<Suc n]" "1 \<le> n"
    "\<And>i. 1 \<le> i \<Longrightarrow> i \<le> n \<Longrightarrow> is_file fs (segment_path i)" "\<not> lexists fs (segment_path (Suc n))" by blast
  have here: "lexists fs (segment_path i)" if "1 \<le> i" "i \<le> n" for i
    using n(3) [OF that] by (auto simp: is_file_def read_bytes_def lexists_def split: option.splits)
  have "prefix_slots fs (length fs) 1 = map (slot_of fs) [1..<Suc n]"
    by (rule prefix_slots_until) (use n(2,4) here present_segments [of n fs] in auto)
  also have "\<dots> = slots" unfolding n(1) using n(3) by (auto simp: slot_of_def simp del: upt_Suc)
  finally show ?thesis
    using assms by (auto simp: segment_slots_def discover_segments_def journal_storage_def guard_simps rbind_simps
        simp del: prefix_slots.simps split: if_splits)
qed

end
