(* ===== verification/Journal_Tip.thy ===== *)
theory Journal_Tip
  imports Journal_Append Journal_Names
begin

text \<open>
  A healthy journal with bytes added to its last segment: the replay passes through what was there
  as before and reads the new bytes at the tip.
\<close>

section \<open>One step of the loop\<close>

lemma line_of_append: "newline \<in> set rest \<Longrightarrow> line_of (rest @ x) = line_of rest"
  by (simp add: line_of_def)

lemma event_bytes_newline: "newline \<in> set (event_bytes S e)"
  by (simp add: event_bytes_def canonical_json_bytes_def)

lemma accepted_newline:
  "check_record S fs m mh s offset payload line = Inr (e, c) \<Longrightarrow> newline \<in> set line"
  using accepted_line event_bytes_newline [of S e] by fastforce

lemma line_of_newline: "newline \<in> set (line_of rest) \<Longrightarrow> newline \<in> set rest"
  by (auto simp: line_of_def split: if_splits dest: set_takeWhileD)

lemma replay_lines_done: "replay_lines S fs m mh stop v s offset es [] = Inr (add_scan (scan_of S v offset es None) s, False)"
  by (simp add: replay_lines.simps)

lemma replay_lines_stuck:
  "rest \<noteq> [] \<Longrightarrow> strict_json_loads (se_float S) (line_of rest) = Inl x \<Longrightarrow>
    replay_lines S fs m mh stop v s offset es rest
      = rbind (damaged_line S m s v offset es (line_of rest) x) (\<lambda>s'. Inr (s', False))"
  by (subst replay_lines.simps) simp

lemma replay_lines_refused:
  "rest \<noteq> [] \<Longrightarrow> strict_json_loads (se_float S) (line_of rest) = Inr payload \<Longrightarrow>
    check_record S fs m mh s offset payload (line_of rest) = Inl x \<Longrightarrow> rl_events s \<noteq> [] \<Longrightarrow>
    replay_lines S fs m mh stop v s offset es rest = (case blocking_fault x of None \<Rightarrow> Inl x
      | Some f \<Rightarrow> Inr (blocked (error_text x) (add_scan (scan_of S v offset es (Some f)) s), False))"
  by (subst replay_lines.simps) (simp add: require_some_def split: option.split)

lemma replay_lines_next:
  "rest \<noteq> [] \<Longrightarrow> strict_json_loads (se_float S) (line_of rest) = Inr payload \<Longrightarrow>
    check_record S fs m mh s offset payload (line_of rest) = Inr (e, c) \<Longrightarrow>
    stop \<noteq> Some (ev_resulting_revision e) \<Longrightarrow>
    replay_lines S fs m mh stop v s offset es rest =
      replay_lines S fs m mh stop v (accept_event (s\<lparr>rl_pending := None\<rparr>) e c)
         (offset + length (line_of rest)) (es @ [e]) (drop (length (line_of rest)) rest)"
  by (subst replay_lines.simps) (simp add: accept_event_def Let_def)

lemma replay_lines_cut:
  "rest \<noteq> [] \<Longrightarrow> strict_json_loads (se_float S) (line_of rest) = Inr payload \<Longrightarrow>
    check_record S fs m mh s offset payload (line_of rest) = Inr (e, c) \<Longrightarrow>
    replay_lines S fs m mh (Some (ev_resulting_revision e)) v s offset es rest =
      Inr (add_scan (stopped_scan S v (offset + length (line_of rest)) (es @ [e]))
              (accept_event (s\<lparr>rl_pending := None\<rparr>) e c), True)"
  by (subst replay_lines.simps) (simp add: accept_event_def Let_def)

lemma shorter_rest: "rest \<noteq> [] \<Longrightarrow> length (drop (length (line_of rest)) rest) < length rest"
  using line_of_not_Nil [of rest] by (cases rest) auto

lemma replay_lines_events:
  assumes "replay_lines S fs m mh stop v s offset es rest = Inr (s', b)"
  shows "set (rl_events s) \<subseteq> set (rl_events s')"
proof -
  have "set (rl_events s) \<subseteq> set (rl_events (core s'))"
    by (rule replay_lines_invariant [OF assms]) (auto simp: core_sel accept_event_def)
  then show ?thesis by (simp add: core_sel)
qed

lemma replay_segments_events:
  assumes "replay_segments S fs m mh stop i slots s = Inr (s', b)"
  shows "set (rl_events s) \<subseteq> set (rl_events s')"
proof -
  have "set (rl_events s) \<subseteq> set (rl_events (core s'))"
    by (rule replay_segments_invariant [OF assms]) (auto simp: core_sel accept_event_def)
  then show ?thesis by (simp add: core_sel)
qed

section \<open>The accepted part is read as before\<close>

lemma replay_lines_same:
  assumes "rewritten S p fs fs'" and "replay_lines S fs m mh stop v s offset es rest = Inr (s', b)"
    and "rl_health s' \<noteq> Recovery_blocked" and "\<forall>e \<in> set (rl_events s'). \<not> binds_path p e"
    and "\<And>d. rl_pending s = Some d \<Longrightarrow> sg_path d \<noteq> p"
  shows "replay_lines S fs' m mh stop v s offset es rest = Inr (s', b)"
  using assms(2-5)
proof (induction "length rest" arbitrary: s offset es rest rule: less_induct)
  case less
  note same = same_check_record [OF assms(1) _ _ less.prems(4)]
  from less.prems(1) show ?case
  proof (cases rule: replay_lines_cases)
    case complete
    then show ?thesis by (simp add: replay_lines_done)
  next
    case (stuck x)
    then show ?thesis by (simp add: replay_lines_stuck rbind_simps)
  next
    case (refused payload x f)
    with less.prems(2) show ?thesis by (simp add: segment_fields)
  next
    case (cutoff payload e c)
    have "e \<in> set (rl_events s')" using cutoff(6) by (simp add: segment_fields accept_event_def)
    with less.prems(3) have "\<not> binds_path p e" by blast
    from replay_lines_cut [OF cutoff(1,3) same [OF cutoff(4) this]] cutoff show ?thesis by simp
  next
    case (more payload e c)
    have "e \<in> set (rl_events s')" using replay_lines_events [OF more(5)] by (auto simp: accept_event_def)
    with less.prems(3) have "\<not> binds_path p e" by blast
    note this = replay_lines_next [OF more(1,2) same [OF more(3) this] more(4)]
    from less.hyps [OF shorter_rest [OF more(1)] more(5) less.prems(2,3)] this
    show ?thesis by (simp add: accept_event_def)
  qed
qed

lemma replay_lines_extend:
  assumes "replay_lines S fs m mh None v s offset es rest = Inr (s', b)"
    and "rl_health s' = Healthy" and "rl_pending s' = None" and "\<not> sv_following v"
  shows "\<exists>t new. s' = add_scan (scan_of S v (offset + length rest) (es @ new) None) t
    \<and> (\<forall>v' x. replay_lines S fs m mh None v' s offset es (rest @ x)
         = replay_lines S fs m mh None v' t (offset + length rest) (es @ new) x)"
  using assms(1-3)
proof (induction "length rest" arbitrary: s offset es rest rule: less_induct)
  case less
  from less.prems(1) show ?case
  proof (cases rule: replay_lines_cases)
    case complete
    then show ?thesis by (intro exI [of _ s] exI [of _ "[]"]) simp
  next
    case (stuck x)
    with less.prems(2) assms(4) show ?thesis
      by (auto simp: damaged_line_def Let_def guard_simps segment_fields split: if_splits)
  next
    case (refused payload x f)
    with less.prems(2) show ?thesis by (simp add: segment_fields)
  next
    case (more payload e c)
    let ?n = "length (line_of rest)" let ?s = "accept_event (s\<lparr>rl_pending := None\<rparr>) e c"
    have len: "offset + ?n + length (drop ?n rest) = offset + length rest"
      using line_of_prefix [of rest] by (metis length_append add.assoc)
    from less.hyps [OF shorter_rest [OF more(1)] more(5) less.prems(2,3)] obtain t new where
      t: "s' = add_scan (scan_of S v (offset + length rest) ((es @ [e]) @ new) None) t"
      and ext: "\<And>v' x. replay_lines S fs m mh None v' ?s (offset + ?n) (es @ [e]) (drop ?n rest @ x)
         = replay_lines S fs m mh None v' t (offset + length rest) ((es @ [e]) @ new) x"
      unfolding len by blast
    have nl: "newline \<in> set rest" by (rule line_of_newline [OF accepted_newline [OF more(3)]])
    have "?n \<le> length rest" using line_of_prefix [of rest] by (metis le_add1 length_append)
    then have "replay_lines S fs m mh None v' s offset es (rest @ x)
         = replay_lines S fs m mh None v' t (offset + length rest) ((es @ [e]) @ new) x" for v' x
      using replay_lines_next [of "rest @ x" S payload fs m mh s offset e c None v' es]
        more(1-4) line_of_append [OF nl] ext by simp
    then show ?thesis using t by (intro exI [of _ t] exI [of _ "e # new"]) simp
  qed simp
qed

section \<open>The last segment\<close>

text \<open>What replay does after the bytes that were there.\<close>

definition ends_replay :: "(py_error, replay \<times> bool) result \<Rightarrow> (py_error, replay \<times> bool) result" where
  "ends_replay r = rbind r (\<lambda>(u, stopped).
     if stopped \<or> rl_health u = Recovery_blocked then Inr (u, stopped) else Inr (after_segment True u, False))"

lemma pending_elsewhere:
  assumes "replay_lines S fs m mh stop v s offset es rest = Inr (s', b)"
    and "\<And>d. rl_pending s = Some d \<Longrightarrow> sg_path d \<noteq> p" and "sv_path v \<noteq> p" and "rl_pending s' = Some d"
  shows "sg_path d \<noteq> p"
  using assms(1,2,4)
proof (induction "length rest" arbitrary: s offset es rest rule: less_induct)
  case less
  from less.prems(1) show ?case
  proof (cases rule: replay_lines_cases)
    case (stuck x)
    with less.prems(2,3) assms(3) show ?thesis
      by (auto simp: damaged_line_def Let_def guard_simps segment_fields scan_of_def split: if_splits)
  next
    case (more payload e c)
    from less.hyps [OF shorter_rest [OF more(1)] more(5)] less.prems(3)
    show ?thesis by (simp add: accept_event_def)
  qed (use less.prems(2,3) in \<open>auto simp: segment_fields accept_event_def\<close>)
qed

lemma after_segment_id [simp]: "after_segment False s = s" "rl_pending s = None \<Longrightarrow> after_segment f s = s"
  by (simp_all add: after_segment_def)

lemma healthy_after: "rl_pending (after_segment f s) = None \<Longrightarrow> after_segment f s = s"
  by (auto simp: after_segment_def split: if_splits)

lemma replay_segments_extend:
  assumes R: "rewritten S p fs fs'" and bytes: "read_bytes fs p = Some bytes" "read_bytes fs' p = Some (bytes @ x)"
    and "replay_segments S fs m mh None i (map Inr (ps @ [p])) s = Inr (s', b)"
    and "rl_health s' = Healthy" and "rl_pending s' = None" and "p \<notin> set ps"
    and "\<forall>e \<in> set (rl_events s'). \<not> binds_path p e" and "\<And>d. rl_pending s = Some d \<Longrightarrow> sg_path d \<noteq> p"
  shows "\<exists>t new k. s' = add_scan (scan_of S (view k p bytes False) (length bytes) new None) t
    \<and> replay_segments S fs' m mh None i (map Inr (ps @ [p])) s
        = ends_replay (replay_lines S fs' m mh None (view k p (bytes @ x) False) t (length bytes) new x)"
  using assms(4,7,9)
proof (induction ps arbitrary: i s)
  case Nil
  from Nil.prems(1) have r: "replay_segments S fs m mh None i (Inr p # []) s = Inr (s', b)" by simp
  then show ?case
  proof (cases rule: replay_segments_cases)
    case (through q bs t)
    have q: "q = p" "bs = bytes" using through(1,2) bytes by simp_all
    have t: "s' = t" using through(6) assms(6) healthy_after [of True t] by simp
    have "rl_health t \<noteq> Recovery_blocked" using through(5) .
    note lines = replay_lines_same [OF R through(4) this _ Nil.prems(3)] assms(8)
    from lines have "replay_lines S fs' m mh None (view i p bytes False) s 0 [] bytes = Inr (s', False)"
      unfolding t q by simp
    from replay_lines_extend [OF this assms(5,6)] obtain u new where
      u: "s' = add_scan (scan_of S (view i p bytes False) (length bytes) new None) u"
      "\<And>v' x. replay_lines S fs' m mh None v' s 0 [] (bytes @ x) = replay_lines S fs' m mh None v' u (length bytes) new x"
      by auto
    have "bytes \<noteq> []" using through(3) q by simp
    then have "replay_segments S fs' m mh None i (map Inr ([] @ [p])) s
        = ends_replay (replay_lines S fs' m mh None (view i p (bytes @ x) False) s 0 [] (bytes @ x))"
      using bytes(2)
      by (cases "replay_lines S fs' m mh None (view i p (bytes @ x) False) s 0 [] (bytes @ x)")
        (auto simp: ends_replay_def require_some_simps Let_def rbind_simps)
    then show ?thesis using u by (intro exI [of _ u] exI [of _ new] exI [of _ i]) simp
  qed (use assms(5) segments_not_stopped [OF r] in \<open>auto simp: segment_fields\<close>)
next
  case (Cons q ps)
  from Cons.prems(1) have r: "replay_segments S fs m mh None i (Inr q # map Inr (ps @ [p])) s = Inr (s', b)" by simp
  then show ?case
  proof (cases rule: replay_segments_cases)
    case (through q' bs t)
    have q: "q' = q" "q \<noteq> p" using through(1) Cons.prems(2) by auto
    have goes: "replay_segments S fs m mh None (Suc i) (map Inr (ps @ [p])) t = Inr (s', b)"
      using through(6) by simp
    have ev: "\<forall>e \<in> set (rl_events t). \<not> binds_path p e"
      using replay_segments_events [OF goes] assms(8) by blast
    have pend: "sg_path d \<noteq> p" if "rl_pending t = Some d" for d
      using pending_elsewhere [OF through(4) Cons.prems(3) _ that] q by simp
    have lines: "replay_lines S fs' m mh None (view i q bs True) s 0 [] bs = Inr (t, False)"
      using replay_lines_same [OF R through(4,5) ev Cons.prems(3)] q by simp
    have "read_bytes fs' q = Some bs" using through(2) q same_tree(5) [OF R] by simp
    then have "replay_segments S fs' m mh None i (map Inr ((q # ps) @ [p])) s
        = replay_segments S fs' m mh None (Suc i) (map Inr (ps @ [p])) t"
      using through(3,5) lines by (simp add: require_some_simps Let_def rbind_simps)
    with Cons.IH [OF goes _ pend] Cons.prems(2) show ?thesis by simp
  qed (use assms(5) segments_not_stopped [OF r] in \<open>auto simp: segment_fields\<close>)
qed

end
