(* ===== verification/Journal_Write.thy ===== *)
theory Journal_Write
  imports Journal_Tip
begin

text \<open>
  Writing to a journal: an admissible event extends it by exactly that event, a refused event blocks
  it without touching what was accepted, and a write that stopped half way is found and classified.
\<close>

section \<open>The segments of a healthy journal\<close>

lemma discovered:
  assumes "segment_slots fs m None = Inr slots" and "mf_segmented m"
  obtains ps q where "slots = map Inr (ps @ [q])" "q \<notin> set ps" "butlast q = SEGMENTS" "q \<noteq> []" "is_file fs q"
proof -
  from discovered_paths [OF assms] obtain n where n: "slots = map (Inr \<circ> segment_path) [1..<Suc n]" "1 \<le> n"
    "\<And>i. 1 \<le> i \<Longrightarrow> i \<le> n \<Longrightarrow> is_file fs (segment_path i)" by blast
  have "slots = map Inr (map segment_path [1..<n] @ [segment_path n])" using n(1,2) by simp
  moreover have "segment_path n \<notin> set (map segment_path [1..<n])" by auto
  moreover have "butlast (segment_path n) = SEGMENTS" "segment_path n \<noteq> []" by (simp_all add: segment_path_def)
  moreover have "is_file fs (segment_path n)" using n(2,3) by simp
  ultimately show ?thesis by (rule that)
qed

lemma last_segment_path:
  assumes "replay_segments S fs m mh None i (map Inr (ps @ [q])) s = Inr (s', b)"
    and "rl_health s' \<noteq> Recovery_blocked"
  shows "rl_segments s' \<noteq> [] \<and> sg_path (last (rl_segments s')) = q"
  using assms(1)
proof (induction ps arbitrary: i s)
  case Nil
  then have r: "replay_segments S fs m mh None i (Inr q # []) s = Inr (s', b)" by simp
  then show ?case
  proof (cases rule: replay_segments_cases)
    case (through p bytes t)
    from replay_lines_effect [OF through(4)] obtain c where
      "rl_segments t = rl_segments s @ [c]" "scan_matches S p bytes c" by auto
    with through(1,6) show ?thesis by (auto simp: scan_matches_def)
  qed (use assms(2) segments_not_stopped [OF r] in \<open>auto simp: segment_fields\<close>)
next
  case (Cons q' ps)
  then have r: "replay_segments S fs m mh None i (Inr q' # map Inr (ps @ [q])) s = Inr (s', b)" by simp
  then show ?case
  proof (cases rule: replay_segments_cases)
    case (through p bytes t)
    then show ?thesis using Cons.IH by simp
  qed (use assms(2) segments_not_stopped [OF r] in \<open>auto simp: segment_fields\<close>)
qed

text \<open>A replay that returns has accepted an event.\<close>

lemma replay_lines_nonempty:
  assumes "replay_lines S fs m mh stop v s offset es rest = Inr (s', b)" and "rest \<noteq> []"
  shows "rl_events s' \<noteq> []"
  using assms(1)
proof (cases rule: replay_lines_cases)
  case (stuck x)
  then have "rl_events s \<noteq> []" by (auto simp: damaged_line_def guard_simps)
  moreover have "rl_events s' = rl_events s" using damaged_line_scan [OF stuck(5)] by blast
  ultimately show ?thesis by simp
next
  case (more payload e c)
  from replay_lines_events [OF more(5)] show ?thesis by (auto simp: accept_event_def)
qed (use assms(2) in \<open>auto simp: segment_fields accept_event_def\<close>)

lemma replay_segments_nonempty:
  assumes "replay_segments S fs m mh stop i slots s = Inr (s', b)" and "slots \<noteq> []"
  shows "rl_events s' \<noteq> []"
proof -
  from assms obtain slot rest where "replay_segments S fs m mh stop i (slot # rest) s = Inr (s', b)"
    by (cases slots) auto
  then show ?thesis
  proof (cases rule: replay_segments_cases)
    case (through p bytes t)
    from replay_lines_nonempty [OF through(4,3)] replay_segments_events [OF through(6)]
    show ?thesis by auto
  qed (auto simp: segment_fields dest: replay_lines_nonempty)
qed

text \<open>The position a replay has reached, as the next record finds it.\<close>

definition tip :: "store_env \<Rightarrow> replay_state \<Rightarrow> replay" where
  "tip S st = initial_replay\<lparr> rl_revision := ry_revision st, rl_previous_hash := ry_last_event_sha256 st,
     rl_event_ids := ry_event_ids st, rl_command_ids := ry_command_ids st, rl_events := ry_events st,
     rl_reduced := (case reduce_events (se_env S) (ry_workflow_definition_id st) (ry_events st) None Healthy of
       Inr rt \<Rightarrow> Some rt | Inl _ \<Rightarrow> None) \<rparr>"

lemma tip_core:
  assumes "chain_ok S m s"
  shows "core s = tip S (concluded m (s, b))"
proof -
  have "?thesis" if "reduce_events (se_env S) (workflow_of m) [] None Healthy = Inl y" for y
    using that assms by (cases "rl_events s = []")
      (auto simp: chain_ok_def tip_def core_def initial_replay_def concluded_fields)
  moreover have "\<exists>y. reduce_events (se_env S) (workflow_of m) [] None Healthy = Inl y"
    by (cases "require_workflow (sha256_hex (se_env S)) (workflow_of m)") (simp_all add: reduce_events_def rbind_simps guard_simps)
  ultimately show ?thesis by blast
qed

lemma validate_event_core: "validate_event S fs m mh (core s) payload line = validate_event S fs m mh s payload line"
  unfolding validate_event_def chain_checks_def runtime_checks_def core_sel ..

lemma add_scan_inject: "add_scan c s = add_scan d t \<longleftrightarrow> c = d \<and> s = t"
  by (cases s; cases t) (auto simp: add_scan_def)

text \<open>Replaying after a write is reading what was written at the tip.\<close>

lemma written_replay:
  assumes st: "replay_unlocked S fs None = Inr st" "ry_segmented st" "ry_recovery_health st = Healthy"
    and p: "p = sg_path (last (ry_segments st))" "blind S p" "\<forall>x \<in> set (ry_events st). \<not> binds_path p x"
    and man: "read_manifest S fs = Inr (m, raw)" and bytes: "read_bytes fs p = Some bytes"
  obtains t new k where "mf_segmented m" "core t = tip S st" "rl_pending t = None" "rl_health t = Healthy"
    "st = replayed m (add_scan (scan_of S (view k p bytes False) (length bytes) new None) t)"
    "rl_events t \<noteq> []"
    "ry_segments st = rl_segments t @ [scan_of S (view k p bytes False) (length bytes) new None]"
    "ry_events st = rl_events t" "ry_revision st = rl_revision t" "ry_event_ids st = rl_event_ids t"
    "ry_command_ids st = rl_command_ids t" "ry_last_event_sha256 st = rl_previous_hash t"
    "ry_run_id st = mf_run_id m" "ry_event_count st = length (rl_events t)"
    "\<And>x fs'. fs' = dset p (File (bytes @ x)) fs \<Longrightarrow> replay_unlocked S fs' None
       = rbind (ends_replay (replay_lines S fs' m (hash S raw) None (view k p (bytes @ x) False) t (length bytes) new x))
           (\<lambda>r. Inr (concluded m r))"
proof -
  from st(1) man obtain slots s b where r: "read_manifest S fs = Inr (m, raw)" "segment_slots fs m None = Inr slots"
    "replay_segments S fs m (hash S raw) None 1 slots initial_replay = Inr (s, b)" "st = concluded m (s, b)"
    unfolding replay_unlocked_Inr by fastforce
  have b: "\<not> b" by (rule segments_not_stopped [OF r(3)])
  with st(2,3) r(4) have m: "mf_segmented m" and s: "rl_health s = Healthy" "rl_pending s = None"
    by (auto simp: concluded_fields split: if_splits)
  from discovered [OF r(2) m] obtain ps q where q: "slots = map Inr (ps @ [q])" "q \<notin> set ps"
    "butlast q = SEGMENTS" "q \<noteq> []" "is_file fs q" .
  have goes: "replay_segments S fs m (hash S raw) None 1 (map Inr (ps @ [q])) initial_replay = Inr (s, b)"
    using r(3) q(1) by simp
  have "p = q" using last_segment_path [OF goes] s(1) r(4) p(1) by (simp add: concluded_fields)
  have R: "rewritten S p fs (dset p (File (bytes @ x)) fs)" for x
    using q(3-5) \<open>p = q\<close> p(2) by (auto simp: rewritten_def)
  have rd: "read_bytes (dset p (File (bytes @ x)) fs) p = Some (bytes @ x)" for x
    by (simp add: read_bytes_dset)
  have ev: "\<forall>e \<in> set (rl_events s). \<not> binds_path p e" using p(3) r(4) by (simp add: concluded_fields)
  have pend: "sg_path d \<noteq> p" if "rl_pending initial_replay = Some d" for d
    using that by (simp add: initial_replay_def)
  note extend = replay_segments_extend [OF R bytes rd goes [folded \<open>p = q\<close>] s(1,2) _ ev pend]
  let ?scan = "\<lambda>k new. scan_of S (view k p bytes False) (length bytes) new None"
  let ?goes = "\<lambda>x t k new. replay_segments S (dset p (File (bytes @ x)) fs) m (hash S raw) None 1 (map Inr (ps @ [p]))
      initial_replay = ends_replay (replay_lines S (dset p (File (bytes @ x)) fs) m (hash S raw) None
        (view k p (bytes @ x) False) t (length bytes) new x)"
  obtain t new k where t: "s = add_scan (?scan k new) t"
    using extend [of "[]"] q(2) \<open>p = q\<close> by auto
  have go: "?goes x t k new" for x
  proof -
    obtain t' new' k' where t': "s = add_scan (?scan k' new') t'" "?goes x t' k' new'"
      using extend [of x] q(2) \<open>p = q\<close> by auto
    from t t'(1) have "?scan k new = ?scan k' new'" "t = t'" by (simp_all add: add_scan_inject)
    then have "k = k'" "new = new'" "t = t'" by (simp_all add: scan_of_def)
    with t'(2) show ?thesis by simp
  qed
  have slots: "segment_slots (dset p (File (bytes @ x)) fs) m None = Inr (map Inr (ps @ [p]))" for x
    using same_slots [OF R] r(2) q(1) \<open>p = q\<close> by simp
  have man: "read_manifest S (dset p (File (bytes @ x)) fs) = Inr (m, raw)" for x
    using same_manifest [OF R] r(1) by simp
  have eq: "st = replayed m (add_scan (?scan k new) t)" using r(4) b s t by (simp add: concluded_def)
  show ?thesis
  proof (rule that [OF m])
    show "st = replayed m (add_scan (?scan k new) t)" by (rule eq)
    show "ry_segments st = rl_segments t @ [?scan k new]"
      "ry_events st = rl_events t" "ry_revision st = rl_revision t" "ry_event_ids st = rl_event_ids t"
      "ry_command_ids st = rl_command_ids t" "ry_last_event_sha256 st = rl_previous_hash t"
      "ry_run_id st = mf_run_id m" "ry_event_count st = length (rl_events t)"
      by (simp_all add: eq replayed_def segment_fields)
    show "core t = tip S st" using tip_core [OF replayed_chain [OF r(3)]] r(4) t by simp
    show "rl_pending t = None" "rl_health t = Healthy" using s t by (simp_all add: segment_fields)
    show "rl_events t \<noteq> []"
      using replay_segments_nonempty [OF goes] t by (simp add: segment_fields)
    show "replay_unlocked S fs' None
       = rbind (ends_replay (replay_lines S fs' m (hash S raw) None (view k p (bytes @ x) False) t (length bytes) new x))
           (\<lambda>r. Inr (concluded m r))" if "fs' = dset p (File (bytes @ x)) fs" for x fs'
      unfolding that replay_unlocked_def by (simp only: man slots rbind_simps split go)
  qed
qed

section \<open>Appending an event\<close>

lemma line_is_all:
  assumes "newline \<notin> set b"
  shows "line_of (b @ [newline]) = b @ [newline]" and "line_of b = b"
proof -
  have t: "takeWhile (\<lambda>c. c \<noteq> newline) (b @ x) = b @ takeWhile (\<lambda>c. c \<noteq> newline) x" for x
    by (rule takeWhile_append2) (use assms in auto)
  show "line_of (b @ [newline]) = b @ [newline]" using t [of "[newline]"] by (simp add: line_of_def)
  show "line_of b = b" using t [of "[]"] assms unfolding line_of_def by simp
qed

text \<open>The one record that was written, read at the tip.\<close>

lemma event_line:
  assumes "json_ok (se_float S) (JObj (event_wire S e))" and "utf8_valid (event_bytes S e)"
  shows "line_of (event_bytes S e) = event_bytes S e" "event_bytes S e \<noteq> []"
    "strict_json_loads (se_float S) (event_bytes S e) = Inr (norm (JObj (event_wire S e)))"
proof -
  have "event_bytes S e = dumps (JObj (event_wire S e)) @ [newline]"
    by (simp only: event_bytes_def canonical_json_bytes_def)
  with dumps_no_newline [OF assms(1)] show "line_of (event_bytes S e) = event_bytes S e"
    by (metis line_is_all)
  show "event_bytes S e \<noteq> []" using event_bytes_newline [of S e] by auto
  show "strict_json_loads (se_float S) (event_bytes S e) = Inr (norm (JObj (event_wire S e)))"
    using loads_canonical [OF assms(1)] assms(2) by (simp add: event_bytes_def)
qed

lemma check_at_tip:
  assumes "rl_pending t = None"
  shows "check_record S fs m mh t offset payload line =
     rbind (validate_event S fs m mh (core t) payload line) (\<lambda>(e, c).
       guard (ev_event_type e = Recovery_completed)
         (RecoveryError ''recovery.completed is legal only as the first event after a damaged tail'') (Inr (e, c)))"
  by (simp add: check_record_def assms validate_event_core)

text \<open>The replay after an admissible event has been written at the tip.\<close>

lemma append_extends:
  assumes st: "replay_unlocked S fs None = Inr st" "ry_segmented st" "ry_recovery_health st = Healthy"
    and p: "p = sg_path (last (ry_segments st))" "blind S p" "\<forall>x \<in> set (ry_events st). \<not> binds_path p x"
    and files: "read_manifest S fs = Inr (m, raw)" "read_bytes fs p = Some b"
      "fs' = dset p (File (b @ event_bytes S e)) fs"
    and library: "json_ok (se_float S) (JObj (event_wire S e))" "utf8_valid (event_bytes S e)"
      "se_event S (norm (JObj (event_wire S e))) = Some e"
    and e: "extends_tip st e" "ev_event_type e \<noteq> Recovery_completed"
      "ev_event_sha256 e = hash S (canonical_event_bytes (event_wire S e))"
      "ev_event_id e \<notin> ry_event_ids st" "ev_command_id e \<notin> ry_command_ids st"
    and checks: "file_checks S fs' m (ry_events st) e = Inr ()" "runtime_checks S fs' m (tip S st) e = Inr c"
  obtains t new k where "rl_health t = Healthy" "rl_pending t = None"
    "ry_segments st = rl_segments t @ [scan_of S (view k p b False) (length b) new None]"
    "ry_events st = rl_events t" "ry_revision st = rl_revision t" "ry_event_count st = length (rl_events t)"
    "append_runtime_event_unlocked S fs st e = Inr (fs', concluded m (add_scan
       (scan_of S (view k p (b @ event_bytes S e) False) (length b + length (event_bytes S e)) (new @ [e]) None)
       (accept_event t e c), False))"
proof -
  let ?x = "event_bytes S e"
  from written_replay [OF st p files(1,2)] obtain t new k where w: "mf_segmented m"
    "core t = tip S st" "rl_pending t = None" "rl_health t = Healthy"
    "st = replayed m (add_scan (scan_of S (view k p b False) (length b) new None) t)" "rl_events t \<noteq> []"
    "ry_segments st = rl_segments t @ [scan_of S (view k p b False) (length b) new None]"
    and ev: "ry_events st = rl_events t" "ry_revision st = rl_revision t" "ry_event_ids st = rl_event_ids t"
    "ry_command_ids st = rl_command_ids t" "ry_last_event_sha256 st = rl_previous_hash t"
    "ry_run_id st = mf_run_id m" "ry_event_count st = length (rl_events t)"
    and go: "\<And>x fs'. fs' = dset p (File (b @ x)) fs \<Longrightarrow> replay_unlocked S fs' None
       = rbind (ends_replay (replay_lines S fs' m (hash S raw) None (view k p (b @ x) False) t (length b) new x))
           (\<lambda>r. Inr (concluded m r))" by metis
  have "chain_checks S m (hash S raw) (core t) ?x e = Inr ()"
    using e w(1,6) unfolding extends_tip_def ev
    by (auto simp: chain_checks_def Let_def guard_simps core_sel)
  then have "validate_event S fs' m (hash S raw) (core t) (norm (JObj (event_wire S e))) ?x = Inr (e, c)"
    using library(3) checks by (simp add: validate_event_Inr w(2)) (simp add: tip_def)
  then have "check_record S fs' m (hash S raw) t (length b) (norm (JObj (event_wire S e))) ?x = Inr (e, c)"
    using e(2) by (simp add: check_at_tip [OF w(3)] rbind_simps guard_simps)
  note line = event_line [OF library(1,2)]
  have id: "t\<lparr>rl_pending := None\<rparr> = t" using w(3) by simp
  let ?t = "accept_event t e c"
  let ?s = "add_scan (scan_of S (view k p (b @ ?x) False) (length b + length ?x) (new @ [e]) None) ?t"
  have "replay_lines S fs' m (hash S raw) None (view k p (b @ ?x) False) t (length b) new ?x = Inr (?s, False)"
    using replay_lines_next [of ?x S _ fs' m "hash S raw" t "length b" e c None] line
      \<open>check_record _ _ _ _ _ _ _ _ = _\<close> by (simp add: replay_lines_done id)
  then have "replay_unlocked S fs' None = Inr (concluded m (?s, False))"
    using go [OF files(3)] w(3,4)
    by (simp add: ends_replay_def rbind_simps segment_fields accept_event_def)
  moreover have "append_bytes fs (sg_path (last (ry_segments st))) ?x = Inr fs'"
    using files p(1) by (simp add: append_bytes_def require_some_simps)
  moreover have "ry_segments st \<noteq> []" using w(7) by simp
  ultimately have "append_runtime_event_unlocked S fs st e = Inr (fs', concluded m (?s, False))"
    using st e(1) by (simp add: append_runtime_event_unlocked_def guard_simps rbind_simps)
  with that w(3,4,7) ev show ?thesis by blast
qed

text \<open>
  C4.  An admissible event extends a healthy journal by exactly itself.  Let a segmented journal be
  healthy and let an event extend its tip: it carries the digest of its own bytes and identities not
  used before, is not a recovery, and passes the file checks and the reducer.  Then appending it
  succeeds, changes no file but the last segment, and the journal replays healthy again with the old
  events followed by this one; revision, count and head are those of the event, and the segment
  before the write is the segment after it less the bytes of the event.  The event is read back
  through the library, so its dump must be JSON that denotes it; and neither an accepted binding nor
  the checks of other packages may refer to the journal's own file.
\<close>

theorem append_adds_exactly_the_event:
  assumes st: "replay_unlocked S fs None = Inr st" "ry_segmented st" "ry_recovery_health st = Healthy"
    and p: "p = sg_path (last (ry_segments st))" "blind S p" "\<forall>x \<in> set (ry_events st). \<not> binds_path p x"
    and files: "read_manifest S fs = Inr (m, raw)" "read_bytes fs p = Some b"
      "fs' = dset p (File (b @ event_bytes S e)) fs"
    and library: "json_ok (se_float S) (JObj (event_wire S e))" "utf8_valid (event_bytes S e)"
      "se_event S (norm (JObj (event_wire S e))) = Some e"
    and e: "extends_tip st e" "ev_event_type e \<noteq> Recovery_completed"
      "ev_event_sha256 e = hash S (canonical_event_bytes (event_wire S e))"
      "ev_event_id e \<notin> ry_event_ids st" "ev_command_id e \<notin> ry_command_ids st"
    and checks: "file_checks S fs' m (ry_events st) e = Inr ()" "runtime_checks S fs' m (tip S st) e = Inr c"
  shows "\<exists>st' before after. append_runtime_event_unlocked S fs st e = Inr (fs', st')
    \<and> replay_unlocked S fs' None = Inr st'
    \<and> ry_recovery_health st' = Healthy \<and> ry_events st' = ry_events st @ [e]
    \<and> ry_revision st' = ry_revision st + 1 \<and> ry_event_count st' = ry_event_count st + 1
    \<and> ry_last_event_sha256 st' = ev_event_sha256 e
    \<and> ry_segments st = before @ [after] \<and> (\<exists>after'. ry_segments st' = before @ [after']
         \<and> sg_path after' = p \<and> sg_fault_class after' = None \<and> sg_events after' = sg_events after @ [e]
         \<and> sg_accepted_byte_end after' = sg_accepted_byte_end after + length (event_bytes S e)
         \<and> sg_byte_count after' = sg_accepted_byte_end after')"
proof -
  let ?x = "event_bytes S e"
  from append_extends [OF assms] obtain t new k where t: "rl_health t = Healthy" "rl_pending t = None"
    "ry_segments st = rl_segments t @ [scan_of S (view k p b False) (length b) new None]"
    "ry_events st = rl_events t" "ry_revision st = rl_revision t" "ry_event_count st = length (rl_events t)"
    and app: "append_runtime_event_unlocked S fs st e = Inr (fs', concluded m (add_scan
       (scan_of S (view k p (b @ ?x) False) (length b + length ?x) (new @ [e]) None) (accept_event t e c), False))"
    (is "_ = Inr (_, ?st')") .
  moreover have "replay_unlocked S fs' None = Inr ?st'"
    using app by (auto simp: append_runtime_event_unlocked_def guard_simps)
  ultimately show ?thesis
    using e(1) unfolding extends_tip_def
    by (intro exI [of _ ?st'] exI [of _ "rl_segments t"]
        exI [of _ "scan_of S (view k p b False) (length b) new None"])
      (simp add: concluded_fields segment_fields accept_event_def scan_of_def)
qed

section \<open>A refused event\<close>

lemma refused_at_tip:
  assumes "rest \<noteq> []" "strict_json_loads (se_float S) (line_of rest) = Inr payload"
    and "validate_event S fs m mh (core t) payload (line_of rest) = Inl x" "blocking_fault x = Some f"
    and "rl_events t \<noteq> []" "rl_pending t = None"
  shows "ends_replay (replay_lines S fs m mh None v t offset es rest)
    = Inr (blocked (error_text x) (add_scan (scan_of S v offset es (Some f)) t), False)"
proof -
  have "check_record S fs m mh t offset payload (line_of rest) = Inl x"
    using assms(3) by (simp add: check_at_tip [OF assms(6)] rbind_simps)
  from replay_lines_refused [OF assms(1,2) this assms(5)] assms(4)
  show ?thesis by (simp add: ends_replay_def rbind_simps segment_fields)
qed

text \<open>
  C8.  A refused event blocks the journal and changes nothing that was accepted.  Appending writes
  before it validates: an event that extends the tip of a healthy journal but is refused there, by
  the library, the chain, the file checks or the reducer, stays behind in the segment.  The journal
  then replays with exactly the events, revision and head it had, blocked at the first byte of that
  event with the reason, and no event can be appended and no recovery published from there.
\<close>

theorem refused_append_blocks_the_journal:
  assumes st: "replay_unlocked S fs None = Inr st" "ry_segmented st" "ry_recovery_health st = Healthy"
    and p: "p = sg_path (last (ry_segments st))" "blind S p" "\<forall>x \<in> set (ry_events st). \<not> binds_path p x"
    and files: "read_manifest S fs = Inr (m, raw)" "read_bytes fs p = Some b"
      "fs' = dset p (File (b @ event_bytes S e)) fs"
    and library: "json_ok (se_float S) (JObj (event_wire S e))" "utf8_valid (event_bytes S e)"
    and e: "extends_tip st e"
    and refused: "validate_event S fs' m (hash S raw) (tip S st) (norm (JObj (event_wire S e))) (event_bytes S e) = Inl x"
      "blocking_fault x = Some f"
  shows "\<exists>st' after. append_runtime_event_unlocked S fs st e = Inr (fs', st')
    \<and> replay_unlocked S fs' None = Inr st'
    \<and> ry_recovery_health st' = Recovery_blocked \<and> ry_recovery_message st' = Some (error_text x)
    \<and> ry_events st' = ry_events st \<and> ry_revision st' = ry_revision st
    \<and> ry_last_event_sha256 st' = ry_last_event_sha256 st
    \<and> ry_segments st' = butlast (ry_segments st) @ [after] \<and> sg_path after = p
    \<and> sg_fault_class after = Some f \<and> sg_fault_offset after = Some (length b)
    \<and> sg_raw_tail after = event_bytes S e
    \<and> (\<forall>e'. append_runtime_event_unlocked S fs' st' e' = Inl (JournalError ''runtime append requires a healthy journal'')
         \<and> publish_recovery_event_unlocked S fs' st' e'
             = Inl (JournalError ''recovery publication requires a recoverable terminal tail''))"
proof -
  let ?x = "event_bytes S e"
  from written_replay [OF st p files(1,2)] obtain t new k where w: "mf_segmented m"
    "core t = tip S st" "rl_pending t = None" "rl_health t = Healthy" "rl_events t \<noteq> []"
    "ry_segments st = rl_segments t @ [scan_of S (view k p b False) (length b) new None]"
    and ev: "ry_events st = rl_events t" "ry_revision st = rl_revision t"
    "ry_last_event_sha256 st = rl_previous_hash t"
    and go: "\<And>x fs'. fs' = dset p (File (b @ x)) fs \<Longrightarrow> replay_unlocked S fs' None
       = rbind (ends_replay (replay_lines S fs' m (hash S raw) None (view k p (b @ x) False) t (length b) new x))
           (\<lambda>r. Inr (concluded m r))" by metis
  note line = event_line [OF library]
  let ?after = "scan_of S (view k p (b @ ?x) False) (length b) new (Some f)"
  let ?st = "concluded m (blocked (error_text x) (add_scan ?after t), False)"
  have "strict_json_loads (se_float S) (line_of ?x) = Inr (norm (JObj (event_wire S e)))"
    using line by simp
  from refused_at_tip [OF line(2) this _ refused(2) w(5,3)] refused(1) line(1) w(2)
  have new: "replay_unlocked S fs' None = Inr ?st"
    using go [OF files(3)] by (simp add: rbind_simps)
  moreover have "append_bytes fs (sg_path (last (ry_segments st))) ?x = Inr fs'"
    using files p(1) by (simp add: append_bytes_def require_some_simps)
  moreover have "ry_segments st \<noteq> []" using w(6) by simp
  ultimately have "append_runtime_event_unlocked S fs st e = Inr (fs', ?st)"
    using st e(1) by (simp add: append_runtime_event_unlocked_def guard_simps rbind_simps)
  moreover have stuck: "ry_segments ?st \<noteq> []" "ry_segmented ?st" "ry_recovery_health ?st = Recovery_blocked"
    using w(1) by (simp_all add: concluded_fields segment_fields)
  then have "\<forall>e'. append_runtime_event_unlocked S fs' ?st e' = Inl (JournalError ''runtime append requires a healthy journal'')
         \<and> publish_recovery_event_unlocked S fs' ?st e'
             = Inl (JournalError ''recovery publication requires a recoverable terminal tail'')"
    by (simp add: append_runtime_event_unlocked_def publish_recovery_event_unlocked_def guard_simps)
  moreover have "ry_recovery_message ?st = Some (error_text x)"
    by (simp add: concluded_def replayed_def blocked_def)
  moreover have "ry_segments ?st = butlast (ry_segments st) @ [?after]" "sg_path ?after = p"
    "sg_fault_class ?after = Some f" "sg_fault_offset ?after = Some (length b)" "sg_raw_tail ?after = ?x"
    "ry_events ?st = ry_events st" "ry_revision ?st = ry_revision st"
    "ry_last_event_sha256 ?st = ry_last_event_sha256 st"
    using w(6) ev by (simp_all add: concluded_fields segment_fields scan_of_def)
  ultimately show ?thesis using new stuck(3) by blast
qed

end
