(* ===== verification/Journal_Torn.thy ===== *)
theory Journal_Torn
  imports Journal_Write
begin

text \<open>
  A write to the journal that stopped half way.
\<close>

lemma event_bytes_dumps: "event_bytes S e = dumps (JObj (event_wire S e)) @ [newline]"
  by (simp only: event_bytes_def canonical_json_bytes_def)

lemma torn_prefix:
  assumes "json_ok (se_float S) (JObj (event_wire S e))" and "k < length (event_bytes S e)"
  shows "newline \<notin> set (take k (event_bytes S e))" and "line_of (take k (event_bytes S e)) = take k (event_bytes S e)"
proof -
  have "take k (event_bytes S e) = take k (dumps (JObj (event_wire S e)))"
    using assms(2) by (simp add: event_bytes_dumps del: dumps.simps)
  then show nl: "newline \<notin> set (take k (event_bytes S e))"
    using dumps_no_newline [OF assms(1)] by (metis in_set_takeD)
  show "line_of (take k (event_bytes S e)) = take k (event_bytes S e)" by (rule line_is_all(2) [OF nl])
qed

text \<open>All but the newline is JSON, but never the canonical bytes of an event.\<close>

lemma loads_without_newline:
  assumes "json_ok fr v" and "utf8_valid (dumps v)"
  shows "strict_json_loads fr (dumps v) = Inr (norm v)"
proof -
  obtain c s where c: "dumps v = c # s" "\<not> Json.ws c" using dumps_first [OF assms(1)] by blast
  have "parse_value fr (dumps v) = Some (norm v, [])"
    using parse_dumps [OF norm_ok [OF assms(1)] norm_sorted ends_Nil] by (simp only: dumps_norm append_Nil2)
  moreover have "skip_ws (dumps v) = dumps v" using c by (simp add: skip_ws_nonspace)
  moreover have "skip_ws [] = []" by (simp add: skip_ws_def)
  ultimately show ?thesis using assms(2) by (simp add: strict_json_loads_def)
qed

lemma unterminated_refused:
  assumes "newline \<notin> set line"
  shows "\<exists>x. validate_event S fs m mh s payload line = Inl (JournalError x)"
proof (cases "se_event S payload")
  case (Some e)
  have "event_bytes S e \<noteq> line" using event_bytes_newline [of S e] assms by auto
  with Some show ?thesis
    by (simp add: validate_event_def chain_checks_def require_some_simps Let_def guard_simps rbind_simps)
qed (simp add: validate_event_def require_some_simps)

lemma damaged_at_tip:
  assumes "rest \<noteq> []" "line_of rest = rest" "newline \<notin> set rest" "strict_json_loads (se_float S) rest = Inl x"
    and "rl_events t \<noteq> []" "rl_pending t = None" "mf_segmented m" "\<not> sv_following v"
    and "offset + length rest = length (sv_bytes v)"
  obtains f u where "f = Fault_incomplete_record \<or> f = Fault_truncated_utf8"
    "ends_replay (replay_lines S fs m mh None v t offset es rest) = Inr (u, False)"
    "rl_health u = Recoverable_tail" "rl_pending u = None" "core u = core t"
    "rl_segments u = rl_segments t @ [scan_of S v offset es (Some (Tail_fault f))]"
proof -
  let ?f = "record_fault x rest"
  let ?u = "(add_scan (scan_of S v offset es (Some (Tail_fault ?f))) t)\<lparr> rl_health := Recoverable_tail,
    rl_message := Some (fault_text x) \<rparr>"
  have "last rest \<noteq> newline" using last_in_set [OF assms(1)] assms(3) by metis
  then have f: "?f = Fault_incomplete_record \<or> ?f = Fault_truncated_utf8"
    by (simp add: record_fault_def split: json_error.split)
  have "damaged_line S m t v offset es rest x = Inr ?u"
    using assms(5-9) by (simp add: damaged_line_def Let_def guard_simps)
  with replay_lines_stuck [OF assms(1), of S x fs m mh None v t offset es] assms(2,4)
  have "replay_lines S fs m mh None v t offset es rest = Inr (?u, False)"
    by (simp add: rbind_simps)
  with that [OF f] assms(6) show ?thesis by (simp add: ends_replay_def rbind_simps segment_fields)
qed

text \<open>
  C7.  A torn write is found and classified.  When appending an event to a healthy journal stops
  after some of its bytes, nothing that was accepted is lost: the journal replays with the same
  events, revision and head.  If nothing was written it is as it was; if at least the closing brace
  is missing the journal has a recoverable tail that starts at the old end of the last segment and
  holds exactly the bytes that were written, and the record is incomplete or cut inside a character;
  but if only the newline is missing the record reads as JSON, and the journal is blocked for
  damaged integrity, from where no recovery is possible.
\<close>

theorem torn_append_is_classified:
  assumes st: "replay_unlocked S fs None = Inr st" "ry_segmented st" "ry_recovery_health st = Healthy"
    and p: "p = sg_path (last (ry_segments st))" "blind S p" "\<forall>x \<in> set (ry_events st). \<not> binds_path p x"
    and files: "read_manifest S fs = Inr (m, raw)" "read_bytes fs p = Some b"
      "fs' = dset p (File (b @ take k (event_bytes S e))) fs"
    and library: "json_ok (se_float S) (JObj (event_wire S e))" "utf8_valid (dumps (JObj (event_wire S e)))"
    and k: "k < length (event_bytes S e)"
  shows "\<exists>st'. replay_unlocked S fs' None = Inr st'
    \<and> ry_events st' = ry_events st \<and> ry_revision st' = ry_revision st
    \<and> ry_last_event_sha256 st' = ry_last_event_sha256 st
    \<and> (k = 0 \<longrightarrow> st' = st)
    \<and> (0 < k \<longrightarrow> (\<exists>after f. ry_segments st' = butlast (ry_segments st) @ [after] \<and> sg_path after = p
         \<and> sg_fault_offset after = Some (length b) \<and> sg_raw_tail after = take k (event_bytes S e)
         \<and> sg_fault_class after = Some f
         \<and> (Suc k < length (event_bytes S e) \<longrightarrow> ry_recovery_health st' = Recoverable_tail
              \<and> f \<in> {Tail_fault Fault_incomplete_record, Tail_fault Fault_truncated_utf8})
         \<and> (Suc k = length (event_bytes S e) \<longrightarrow> ry_recovery_health st' = Recovery_blocked
              \<and> f = Event_integrity)))"
proof -
  let ?x = "take k (event_bytes S e)"
  from written_replay [OF st p files(1,2)] obtain t new i where w: "mf_segmented m"
    "core t = tip S st" "rl_pending t = None" "rl_health t = Healthy" "rl_events t \<noteq> []"
    "ry_segments st = rl_segments t @ [scan_of S (view i p b False) (length b) new None]"
    "st = replayed m (add_scan (scan_of S (view i p b False) (length b) new None) t)"
    and ev: "ry_events st = rl_events t" "ry_revision st = rl_revision t"
    "ry_last_event_sha256 st = rl_previous_hash t"
    and go: "\<And>x fs'. fs' = dset p (File (b @ x)) fs \<Longrightarrow> replay_unlocked S fs' None
       = rbind (ends_replay (replay_lines S fs' m (hash S raw) None (view i p (b @ x) False) t (length b) new x))
           (\<lambda>r. Inr (concluded m r))" by metis
  note torn = torn_prefix [OF library(1) k]
  let ?v = "view i p (b @ ?x) False"
  let ?scan = "\<lambda>f. scan_of S ?v (length b) new (Some f)"
  have last: "sg_path (?scan f) = p \<and> sg_fault_offset (?scan f) = Some (length b)
    \<and> sg_raw_tail (?scan f) = ?x \<and> sg_fault_class (?scan f) = Some f" for f by (simp add: scan_of_def)
  consider "k = 0" | (tail) "0 < k" "Suc k < length (event_bytes S e)" | (line) "0 < k" "Suc k = length (event_bytes S e)"
    using k by linarith
  then show ?thesis
  proof cases
    case 1
    have "concluded m (add_scan (scan_of S (view i p b False) (length b) new None) t, False) = st"
      using w(3,4,7) by (simp add: concluded_def segment_fields)
    with go [OF files(3)] 1 w(3,4) have "replay_unlocked S fs' None = Inr st"
      by (simp add: ends_replay_def rbind_simps replay_lines_done segment_fields)
    with 1 show ?thesis by simp
  next
    case tail
    have "event_bytes S e = ?x @ drop k (event_bytes S e)" by simp
    moreover have "drop k (event_bytes S e) \<noteq> []" "drop k (event_bytes S e) \<noteq> [newline]"
      using tail(2) by (auto dest: arg_cong [where f = length])
    ultimately obtain x where x: "strict_json_loads (se_float S) ?x = Inl x"
      using torn_text_is_rejected [OF library(1), of ?x "drop k (event_bytes S e)"] by (auto simp: event_bytes_def)
    have "?x \<noteq> []" using tail k by auto
    from damaged_at_tip [OF this torn(2,1) x w(5,3,1), of ?v "length b" fs' "hash S raw" new] obtain f u where
      u: "f = Fault_incomplete_record \<or> f = Fault_truncated_utf8"
      "ends_replay (replay_lines S fs' m (hash S raw) None ?v t (length b) new ?x) = Inr (u, False)"
      "rl_health u = Recoverable_tail" "rl_pending u = None" "core u = core t"
      "rl_segments u = rl_segments t @ [?scan (Tail_fault f)]" by auto
    have "rl_events u = rl_events t" "rl_revision u = rl_revision t" "rl_previous_hash u = rl_previous_hash t"
      using u(5) core_sel by metis+
    moreover have "replay_unlocked S fs' None = Inr (concluded m (u, False))"
      using go [OF files(3)] u(2) by (simp add: rbind_simps)
    ultimately show ?thesis
      using u(1,3,4,6) w(6) ev tail last
      by (intro exI [of _ "concluded m (u, False)"]) (auto simp: concluded_fields)
  next
    case line
    have x: "?x = dumps (JObj (event_wire S e))"
      using line(2) by (simp add: event_bytes_dumps del: dumps.simps)
    have loads: "strict_json_loads (se_float S) (line_of ?x) = Inr (norm (JObj (event_wire S e)))"
      unfolding torn(2) unfolding x by (rule loads_without_newline [OF library])
    obtain y where "validate_event S fs' m (hash S raw) (core t) (norm (JObj (event_wire S e))) (line_of ?x)
        = Inl (JournalError y)"
      using unterminated_refused [OF torn(1), of S fs' m "hash S raw" "core t"] unfolding torn(2) by blast
    moreover have "?x \<noteq> []" using line k by auto
    moreover have "blocking_fault (JournalError y) = Some Event_integrity" by (simp add: blocking_fault_def)
    ultimately have "ends_replay (replay_lines S fs' m (hash S raw) None ?v t (length b) new ?x)
      = Inr (blocked y (add_scan (?scan Event_integrity) t), False)"
      using refused_at_tip [OF _ loads _ _ w(5,3)] by fastforce
    then have "replay_unlocked S fs' None = Inr (concluded m (blocked y (add_scan (?scan Event_integrity) t), False))"
      using go [OF files(3)] by (simp add: rbind_simps)
    then show ?thesis
      using w(6) ev line last
      by (intro exI [of _ "concluded m (blocked y (add_scan (?scan Event_integrity) t), False)"])
        (auto simp: concluded_fields segment_fields)
  qed
qed

end
