(* ===== verification/Journal_Samples.thy ===== *)
theory Journal_Samples
  imports Journal_Torn Samples
begin

text \<open>
  A small journal, used to show that the properties of journals apply: a run of the orchestration
  workflow with its initialisation in the first segment and a transition to append.  As in the other
  samples the digest is the identity; an event is dumped to its identifier and its digest and read
  back from a table, and a Passport is dumped to the revision it is based on.
\<close>

section \<open>The run\<close>

definition sealed :: "int \<Rightarrow> sha256" where
  "sealed n = canonical_json_bytes (JObj [(''event_id'', JStr (''event.'' @ int_str n))])"

definition logged :: "int \<Rightarrow> event_type \<Rightarrow> actor_role \<Rightarrow> payload \<Rightarrow> canonical_event" where
  "logged n t role p = (sample_event n t role p)
     \<lparr> ev_command_id := ''command.'' @ int_str n,
       ev_prev_event_sha256 := (if n = 0 then ZERO_HASH else sealed (n - 1)), ev_event_sha256 := sealed n \<rparr>"

definition manifest_bytes :: string where
  "manifest_bytes = canonical_json_bytes (JStr ''run'')"

definition first_event :: canonical_event where
  "first_event = logged 0 Run_initialized Parent_control_plane
     (P_run_initialized \<lparr> ri_manifest_sha256 = manifest_bytes \<rparr>)"

definition second_event :: canonical_event where
  "second_event = logged 1 Lifecycle_transitioned Parent_control_plane
     (snd (move ''prepare'' ''initialized'' ''preparing''))"

definition third_event :: canonical_event where
  "third_event = logged 2 Lifecycle_transitioned Parent_control_plane
     (snd (move ''freeze'' ''preparing'' ''prepared''))"

definition logged_run :: run_manifest where
  "logged_run = sample_run_manifest\<lparr> mf_workflow_definition_id := Some PHASE4_WORKFLOW_ID,
     mf_workflow_definition_sha256 := Some (wf_sha256 (PHASE4_WORKFLOW (\<lambda>s. s))) \<rparr>"

definition logged_env :: store_env where
  "logged_env = sample_store_env\<lparr> se_env := sample_env,
     se_event := (\<lambda>v. case v of
        JObj d \<Rightarrow> (case dget d ''event_id'' of
            Some (JStr i) \<Rightarrow> List.find (\<lambda>e. ev_event_id e = i) [first_event, second_event, third_event] | _ \<Rightarrow> None)
      | _ \<Rightarrow> None),
     se_event_dump := (\<lambda>e. [(''event_id'', JStr (ev_event_id e)), (''event_sha256'', JStr (ev_event_sha256 e))]),
     se_run_manifest := (\<lambda>v. if v = JStr ''run'' then Some logged_run else None),
     se_run_manifest_dump := (\<lambda>_. JStr ''run''),
     se_passport_dump := (\<lambda>m. JInt (mp_based_on_revision m)) \<rparr>"

definition first_segment :: path where
  "first_segment = SEGMENTS @ [segment_name 1]"

definition logged_files :: "string \<Rightarrow> fs" where
  "logged_files b = [(MANIFEST_NAME, File manifest_bytes), (JOURNAL_ROOT, Dir), (SEGMENTS, Dir),
     (first_segment, File b)]"

section \<open>Its parts\<close>

definition ascii :: "string \<Rightarrow> bool" where
  "ascii s = list_all (\<lambda>c. code c < 128) s"

lemma ascii_utf8: "ascii s \<Longrightarrow> utf8_valid s"
  unfolding ascii_def by (induction s) simp_all

lemma ascii_simps:
  "ascii []" "ascii (c # s) \<longleftrightarrow> code c < 128 \<and> ascii s" "ascii (s @ t) \<longleftrightarrow> ascii s \<and> ascii t"
  by (simp_all add: ascii_def)

lemma ascii_esc: "code c < 128 \<Longrightarrow> ascii (esc_char c)"
  by (auto simp: esc_char_def ascii_simps hex_digit_def code_def of_char_of)

lemma ascii_quote: "ascii s \<Longrightarrow> ascii (quote_str s)"
  unfolding quote_str_def by (induction s) (auto simp: ascii_simps ascii_esc code_def)

lemma ascii_json:
  "ascii s \<Longrightarrow> ascii (dumps (JStr s))"
  "ascii k \<Longrightarrow> ascii s \<Longrightarrow> ascii (dumps (JObj [(k, JStr s)]))"
  "ascii k \<Longrightarrow> ascii j \<Longrightarrow> ascii s \<Longrightarrow> ascii t \<Longrightarrow> ascii (dumps (JObj [(k, JStr s), (j, JStr t)]))"
  "ascii (dumps v) \<Longrightarrow> ascii (canonical_json_bytes v)"
  by (simp_all add: ascii_simps ascii_quote member_str_def canonical_json_bytes_def newline_def code_def)

lemma segment_one: "segment_name 1 = ''00000001.jsonl''" "segment_index ''00000001.jsonl'' = Some 1"
  by code_simp+

lemma logged_paths:
  "MANIFEST_NAME \<noteq> JOURNAL_ROOT" "MANIFEST_NAME \<noteq> SEGMENTS" "MANIFEST_NAME \<noteq> first_segment"
  "JOURNAL_ROOT \<noteq> SEGMENTS" "JOURNAL_ROOT \<noteq> first_segment" "SEGMENTS \<noteq> first_segment"
  "JOURNAL_NAME \<noteq> MANIFEST_NAME" "JOURNAL_NAME \<noteq> JOURNAL_ROOT" "JOURNAL_NAME \<noteq> SEGMENTS"
  "JOURNAL_NAME \<noteq> first_segment" "JOURNAL_NAME \<noteq> []"
  by (simp_all add: MANIFEST_NAME_def JOURNAL_ROOT_def SEGMENTS_def first_segment_def JOURNAL_NAME_def)

lemma logged_get:
  "dget (logged_files b) MANIFEST_NAME = Some (File manifest_bytes)"
  "dget (logged_files b) JOURNAL_ROOT = Some Dir" "dget (logged_files b) SEGMENTS = Some Dir"
  "dget (logged_files b) first_segment = Some (File b)" "dget (logged_files b) JOURNAL_NAME = None"
  using logged_paths by (simp_all add: logged_files_def)

lemma logged_rewrite: "dset first_segment (File c) (logged_files b) = logged_files c"
  using logged_paths by (simp add: logged_files_def)

lemma logged_env_fields:
  "se_env logged_env = sample_env" "sha256_hex sample_env = (\<lambda>s. s)" "se_float logged_env = (\<lambda>s. s)"
  "se_run_manifest logged_env (JStr ''run'') = Some logged_run"
  "se_run_manifest_dump logged_env m = JStr ''run''"
  by (simp_all add: logged_env_def sample_env_def sample_store_env_def)

lemma logged_manifest: "read_manifest logged_env (logged_files b) = Inr (logged_run, manifest_bytes)"
proof -
  have "utf8_valid manifest_bytes"
    unfolding manifest_bytes_def by (intro ascii_utf8 ascii_json) (simp add: ascii_simps code_def)
  then have "strict_json_loads (\<lambda>s. s) manifest_bytes = Inr (JStr ''run'')"
    using loads_canonical [of "\<lambda>s. s" "JStr ''run''"] by (simp add: manifest_bytes_def)
  then show ?thesis
    by (simp add: read_manifest_def is_link_def read_bytes_def logged_get require_some_simps guard_simps
        logged_env_fields manifest_bytes_def logged_run_def sample_workflow caught_def rbind_simps sample_env_def)
qed

lemma logged_slots: "segment_slots (logged_files b) logged_run None = Inr [Inr first_segment]"
proof -
  have "children (logged_files b) SEGMENTS = [''00000001.jsonl'']"
    by (simp add: children_def logged_files_def first_segment_def MANIFEST_NAME_def JOURNAL_ROOT_def
        SEGMENTS_def segment_one [simplified])
  moreover have "SEGMENTS @ [''00000001.jsonl''] = first_segment"
    by (simp add: first_segment_def segment_one [simplified])
  ultimately show ?thesis
    by (simp add: segment_slots_def discover_segments_def journal_storage_def logged_run_def
        sample_run_manifest_def is_dir_def is_file_def read_bytes_def lexists_def logged_get guard_simps
        rbind_simps segment_one logged_paths)
qed

lemma logged_fields:
  "ev_event_type (logged n t role p) = t" "ev_payload (logged n t role p) = p"
  "ev_actor_role (logged n t role p) = Some role" "ev_run_id (logged n t role p) = ''run''"
  "ev_expected_revision (logged n t role p) = n" "ev_resulting_revision (logged n t role p) = n + 1"
  "ev_sequence (logged n t role p) = n + 1" "ev_event_id (logged n t role p) = ''event.'' @ int_str n"
  "ev_command_id (logged n t role p) = ''command.'' @ int_str n"
  "ev_event_sha256 (logged n t role p) = sealed n"
  "ev_prev_event_sha256 (logged n t role p) = (if n = 0 then ZERO_HASH else sealed (n - 1))"
  "ev_occurred_at (logged n t role p) = ''2026-06-01T00:00:00Z''"
  by (simp_all add: logged_def sample_event_def)

lemma logged_checks:
  "t \<notin> {Resume_accepted, Recovery_completed} \<Longrightarrow>
     actor_check PHASE4_WORKFLOW_ID (logged n t Parent_control_plane p) = Inr ()"
  "t \<notin> set EXECUTION_PROVENANCE_EVENT_TYPES \<Longrightarrow> adjacency_check E w s (logged n t r p) = Inr ()"
  "t \<notin> set RESEARCH_ARTIFACT_EVENT_TYPES \<Longrightarrow> validate_artifact_event_progress es (logged n t r p) = Inr ()"
  "t \<notin> set RESEARCH_LEARNING_EVENT_TYPES \<Longrightarrow> validate_learning_progress es (logged n t r p) = Inr ()"
  by (cases t; simp add: actor_check_def actor_of_def logged_fields event_category_def event_families
        actor_can_commit_def category_of_prefix_def raise_again_def)
    (simp_all add: adjacency_check_def logged_fields validate_artifact_event_progress_def
        validate_learning_progress_def)

lemma logged_reduced:
  "\<exists>rt. reduce_events sample_env PHASE4_WORKFLOW_ID [first_event] None Healthy = Inr rt"
  "\<exists>rt. reduce_events sample_env PHASE4_WORKFLOW_ID [first_event, second_event] None Healthy = Inr rt"
  by (rule accepted_from_parts; simp add: first_event_def second_event_def sample_eval logged_fields logged_checks
      prov_run_def prov_step_def prov_stage_step_def prov_branch_def prov_init_def)+

lemma logged_wire:
  "ev_actor_role e \<noteq> None \<Longrightarrow>
    event_wire logged_env e = [(''event_id'', JStr (ev_event_id e)), (''event_sha256'', JStr (ev_event_sha256 e))]"
  by (simp add: event_wire_def logged_env_def)

lemma logged_seal: "canonical_event_bytes (event_wire logged_env (logged n t role p)) = sealed n"
  by (simp add: logged_wire logged_fields canonical_event_bytes_def unsigned_def sealed_def)

lemma logged_library:
  assumes "e = first_event \<or> e = second_event"
  shows "json_ok (\<lambda>s. s) (JObj (event_wire logged_env e))" "utf8_valid (event_bytes logged_env e)"
    "utf8_valid (dumps (JObj (event_wire logged_env e)))"
    "se_event logged_env (norm (JObj (event_wire logged_env e))) = Some e"
proof -
  have k: "ascii ''event_id''" "ascii ''event_sha256''" by (simp_all add: ascii_simps code_def)
  have n: "ascii (''event.'' @ int_str 0)" "ascii (''event.'' @ int_str 1)"
    by (simp_all add: ascii_simps code_def int_str_def nat_str.simps [of 0] nat_str.simps [of "Suc 0"] digit_def)
  have "ascii (dumps (JObj (event_wire logged_env (logged i t r p))))" if "ascii (''event.'' @ int_str i)" for i t r p
    unfolding logged_wire [of "logged i t r p", simplified logged_fields, OF option.distinct(2)] sealed_def
    by (intro ascii_json k that)
  with n assms have "ascii (dumps (JObj (event_wire logged_env e)))"
    unfolding first_event_def second_event_def by blast
  then show "utf8_valid (event_bytes logged_env e)" "utf8_valid (dumps (JObj (event_wire logged_env e)))"
    unfolding event_bytes_def by (intro ascii_utf8 ascii_json; assumption)+
  show "json_ok (\<lambda>s. s) (JObj (event_wire logged_env e))"
    using assms by (auto simp: logged_wire first_event_def second_event_def logged_fields)
  show "se_event logged_env (norm (JObj (event_wire logged_env e))) = Some e"
  proof -
    have "norm (JObj (event_wire logged_env e)) = JObj (event_wire logged_env e)"
      using assms by (auto simp: logged_wire first_event_def second_event_def logged_fields)
    moreover have "se_event logged_env (JObj [(''event_id'', JStr i), x])
        = List.find (\<lambda>e. ev_event_id e = i) [first_event, second_event, third_event]" for i x by (simp add: logged_env_def)
    ultimately show ?thesis
      using assms by (auto simp: logged_wire first_event_def second_event_def logged_fields int_str_eq)
  qed
qed

end
