(* ===== verification/Journal_Prefix.thy ===== *)
theory Journal_Prefix
  imports Journal_Tip
begin

text \<open>
  Reading a prefix of the journal, and the bounds of what a replay reports about the segments.
\<close>

section \<open>Stopping at a revision\<close>

lemma replay_lines_grow:
  assumes "replay_lines S fs m mh stop v s offset es rest = Inr (s', b)"
  shows "\<exists>new. rl_events s' = rl_events s @ new"
proof -
  have "\<exists>new. rl_events (core s') = rl_events s @ new"
    by (rule replay_lines_invariant [OF assms]) (auto simp: core_sel accept_event_def)
  then show ?thesis by (simp add: core_sel)
qed

lemma replay_segments_grow:
  assumes "replay_segments S fs m mh stop i slots s = Inr (s', b)"
  shows "\<exists>new. rl_events s' = rl_events s @ new"
proof -
  have "\<exists>new. rl_events (core s') = rl_events s @ new"
    by (rule replay_segments_invariant [OF assms]) (auto simp: core_sel accept_event_def)
  then show ?thesis by (simp add: core_sel)
qed

definition counted :: "replay \<Rightarrow> bool" where
  "counted s = (rl_revision s = int (length (rl_events s)))"

lemma accept_counted:
  assumes "counted s" and "check_record S fs m mh s offset payload line = Inr (e, c)"
  shows "counted (accept_event (s\<lparr>rl_pending := None\<rparr>) e c)"
    "ev_resulting_revision e = rl_revision s + 1"
  using assms chain_checksD(6) [OF check_recordD(2) [OF assms(2)]] by (simp_all add: counted_def accept_event_def)

lemma counted_core: "core s' = core s \<Longrightarrow> counted s' = counted s \<and> rl_revision s' = rl_revision s"
  using core_sel(1,2) [of s] core_sel(1,2) [of s'] by (simp add: counted_def)

lemma replay_lines_counted:
  assumes "replay_lines S fs m mh stop v s offset es rest = Inr (s', b)" and "counted s"
  shows "counted s'"
proof -
  have "counted (core s')"
  proof (rule replay_lines_invariant [OF assms(1)])
    show "counted (core s)" using assms(2) by (simp add: counted_def core_sel)
  next
    fix s offset payload line e c
    assume "counted (core s)" "check_record S fs m mh s offset payload line = Inr (e, c)"
    then show "counted (core (accept_event (s\<lparr>rl_pending := None\<rparr>) e c))"
      using accept_counted(1) [of s] by (simp add: counted_def core_sel)
  qed
  then show ?thesis by (simp add: counted_def core_sel)
qed

text \<open>A loop with a cutoff stops there when the loop without one gets that far, and is that loop otherwise.\<close>

lemma replay_lines_stop:
  assumes "replay_lines S fs m mh None v s offset es rest = Inr (s', b)" and "counted s" and "rl_revision s < n"
  shows "if n \<le> rl_revision s'
    then \<exists>u. replay_lines S fs m mh (Some n) v s offset es rest = Inr (u, True)
         \<and> rl_events u = take (nat n) (rl_events s') \<and> rl_revision u = n
    else replay_lines S fs m mh (Some n) v s offset es rest = Inr (s', False)"
  using assms
proof (induction "length rest" arbitrary: s offset es rest rule: less_induct)
  case less
  from less.prems(1) show ?case
  proof (cases rule: replay_lines_cases)
    case complete
    then show ?thesis using less.prems(3) by (simp add: segment_fields replay_lines_done)
  next
    case (stuck x)
    then show ?thesis
      using counted_core [OF stuck(2)] less.prems(3) by (simp add: replay_lines_stuck rbind_simps)
  next
    case (refused payload x f)
    then show ?thesis using less.prems(3) by (simp add: segment_fields replay_lines_refused)
  next
    case (more payload e c)
    let ?s = "accept_event (s\<lparr>rl_pending := None\<rparr>) e c"
    note step = accept_counted [OF less.prems(2) more(3)]
    have rev: "rl_revision ?s = rl_revision s + 1" using step(2) by (simp add: accept_event_def)
    show ?thesis
    proof (cases "n = rl_revision s + 1")
      case True
      obtain new where new: "rl_events s' = rl_events ?s @ new" using replay_lines_grow [OF more(5)] by blast
      have "length (rl_events ?s) = nat n" using step(1) rev True by (simp add: counted_def)
      then have "rl_events ?s = take (nat n) (rl_events s')" by (simp add: new)
      moreover have "n \<le> rl_revision s'"
        using replay_lines_counted [OF more(5) step(1)] step(1) rev True new by (simp add: counted_def)
      ultimately show ?thesis
        using replay_lines_cut [OF more(1-3), of v es] True step(2) rev by (simp add: segment_fields)
    next
      case False
      then have "rl_revision ?s < n" using rev less.prems(3) by simp
      from less.hyps [OF shorter_rest [OF more(1)] more(5) step(1) this]
        replay_lines_next [OF more(1-3), of "Some n" v es] False step(2)
      show ?thesis by simp
    qed
  qed simp
qed

lemma replay_segments_stop:
  assumes "replay_segments S fs m mh None i slots s = Inr (s', b)" and "counted s" and "rl_revision s < n"
    and "n \<le> rl_revision s'"
  shows "\<exists>u. replay_segments S fs m mh (Some n) i slots s = Inr (u, True)
     \<and> rl_events u = take (nat n) (rl_events s') \<and> rl_revision u = n"
  using assms(1-3)
proof (induction slots arbitrary: i s)
  case Nil
  then show ?case using assms(4) by simp
next
  case (Cons slot slots)
  have goes: "replay_segments S fs m mh (Some n) i (slot # slots) s
      = rbind (replay_lines S fs m mh (Some n) (view i p bytes (slots \<noteq> [])) s 0 [] bytes) (\<lambda>(u, stopped).
          if stopped \<or> rl_health u = Recovery_blocked then Inr (u, stopped)
          else replay_segments S fs m mh (Some n) (Suc i) slots (after_segment (slots = []) u))"
    if "slot = Inr p" "read_bytes fs p = Some bytes" "bytes \<noteq> []" for p bytes
    using that by (simp add: rbind_simps require_some_simps Let_def)
  from Cons.prems(1) show ?case
  proof (cases rule: replay_segments_cases)
    case (vacant p)
    then show ?thesis using Cons.prems(3) assms(4) by (simp add: segment_fields)
  next
    case (last p bytes)
    from replay_lines_stop [OF last(4) Cons.prems(2,3)] assms(4) show ?thesis
      by (auto simp: goes [OF last(1-3)] rbind_simps simp del: replay_segments.simps)
  next
    case (through p bytes t)
    show ?thesis
    proof (cases "n \<le> rl_revision t")
      case True
      obtain new where new: "rl_events s' = rl_events t @ new"
        using replay_segments_grow [OF through(6)] by auto
      from replay_lines_counted [OF through(4) Cons.prems(2)] True
      have "nat n \<le> length (rl_events t)" by (simp add: counted_def)
      with replay_lines_stop [OF through(4) Cons.prems(2,3)] True new show ?thesis
        by (auto simp: goes [OF through(1-3)] rbind_simps simp del: replay_segments.simps)
    next
      case False
      have "counted (after_segment (slots = []) t)" "rl_revision (after_segment (slots = []) t) = rl_revision t"
        using counted_core [of "after_segment (slots = []) t" t] replay_lines_counted [OF through(4) Cons.prems(2)]
        by simp_all
      with Cons.IH [OF through(6)] False obtain u where
        "replay_segments S fs m mh (Some n) (Suc i) slots (after_segment (slots = []) t) = Inr (u, True)"
        "rl_events u = take (nat n) (rl_events s')" "rl_revision u = n" by auto
      with replay_lines_stop [OF through(4) Cons.prems(2,3)] False through(5) show ?thesis
        by (simp add: goes [OF through(1-3)] rbind_simps del: replay_segments.simps)
    qed
  qed
qed

text \<open>
  C23.  A prefix is the history up to its revision.  When a segmented journal replays at all, healthy,
  damaged or blocked, then for every revision it reached the bounded replay succeeds: it is healthy,
  holds exactly the first events of the full replay and ends at that revision, and the check of a
  fixed prefix accepts it with the digest of its last event.  So a prefix that was accepted is read
  the same whatever is written behind it.
\<close>

theorem prefix_replay_is_the_history:
  assumes "replay_unlocked S fs None = Inr st" and "ry_segmented st" and "1 \<le> n" and "n \<le> ry_revision st"
  shows "\<exists>st'. replay_unlocked S fs (Some n) = Inr st' \<and> ry_recovery_health st' = Healthy
    \<and> ry_events st' = take (nat n) (ry_events st) \<and> ry_revision st' = n
    \<and> replay_run_prefix S fs n (ev_event_sha256 (ry_events st ! (nat n - 1))) None = Inr st'"
proof -
  from assms(1) obtain m raw slots s b where r: "read_manifest S fs = Inr (m, raw)" "segment_slots fs m None = Inr slots"
    "replay_segments S fs m (hash S raw) None 1 slots initial_replay = Inr (s, b)" "st = concluded m (s, b)"
    unfolding replay_unlocked_Inr by fast
  have "mf_segmented m" using assms(2) r(4) by (simp add: concluded_fields)
  note slots = prefix_sees_segments [OF r(2) this, of n]
  have "counted initial_replay" "rl_revision initial_replay < n" "n \<le> rl_revision s"
    using assms(3,4) r(4) by (simp_all add: counted_def initial_replay_def concluded_fields)
  from replay_segments_stop [OF r(3) this] obtain u where
    u: "replay_segments S fs m (hash S raw) (Some n) 1 slots initial_replay = Inr (u, True)"
    "rl_events u = take (nat n) (rl_events s)" "rl_revision u = n" by blast
  let ?st = "concluded m (u, True)"
  have st: "replay_unlocked S fs (Some n) = Inr ?st"
    unfolding replay_unlocked_def by (simp only: r(1) slots u(1) rbind_simps split)
  have fields: "ry_recovery_health ?st = Healthy" "ry_events ?st = take (nat n) (ry_events st)" "ry_revision ?st = n"
    using u(2,3) r(4) by (simp_all add: concluded_fields)
  have "chain_ok S m u" by (rule replayed_chain [OF u(1)])
  then have len: "length (take (nat n) (rl_events s)) = nat n" and head: "rl_previous_hash u = head_of (take (nat n) (rl_events s))"
    using u(2,3) by (auto simp: chain_ok_def)
  then have "ry_last_event_sha256 ?st = ev_event_sha256 (ry_events st ! (nat n - 1))"
    using assms(3) r(4) by (auto simp: concluded_fields head_of_def last_conv_nth)
  then have "replay_run_prefix S fs n (ev_event_sha256 (ry_events st ! (nat n - 1))) None = Inr ?st"
    using st fields assms(3) r(1) by (simp add: replay_run_prefix_def guard_simps rbind_simps)
  with st fields show ?thesis by blast
qed

section \<open>The bounds of a scan\<close>

definition in_bounds :: "store_env \<Rightarrow> segment_view \<Rightarrow> segment_scan \<Rightarrow> bool" where
  "in_bounds S v c \<longleftrightarrow> sg_index c = sv_index v \<and> sg_path c = sv_path v
   \<and> sg_accepted_byte_end c = sum_list (map (length \<circ> event_bytes S) (sg_events c))
   \<and> sg_accepted_byte_end c \<le> sg_byte_count c \<and> sg_byte_count c \<le> length (sv_bytes v)
   \<and> (case sg_fault_class c of
        None \<Rightarrow> sg_fault_offset c = None \<and> sg_raw_tail c = [] \<and> sg_accepted_byte_end c = sg_byte_count c
      | Some f \<Rightarrow> sg_fault_offset c = Some (sg_accepted_byte_end c) \<and> sg_byte_count c = length (sv_bytes v)
          \<and> sg_accepted_byte_end c + length (sg_raw_tail c) = sg_byte_count c
          \<and> (sg_raw_tail c = [] \<longleftrightarrow> f = Empty_segment))"

lemma in_bounds_fault:
  assumes "offset < length (sv_bytes v)" and "offset = sum_list (map (length \<circ> event_bytes S) es)" and "f \<noteq> Empty_segment"
  shows "in_bounds S v (scan_of S v offset es (Some f))"
  using assms by (simp add: in_bounds_def scan_of_def)

lemma damaged_line_fault:
  "damaged_line S m s v offset es line x = Inr s' \<Longrightarrow>
    \<exists>f. f \<noteq> Empty_segment \<and> rl_segments s' = rl_segments s @ [scan_of S v offset es (Some f)]"
  by (auto simp: damaged_line_def Let_def guard_simps segment_fields split: if_splits)

lemma replay_lines_bounds:
  assumes "replay_lines S fs m mh stop v s offset es rest = Inr (s', b)"
    and "offset + length rest = length (sv_bytes v)" and "offset = sum_list (map (length \<circ> event_bytes S) es)"
  shows "\<exists>c. rl_segments s' = rl_segments s @ [c] \<and> in_bounds S v c"
  using assms
proof (induction "length rest" arbitrary: s offset es rest rule: less_induct)
  case less
  have line: "length (line_of rest) + length (drop (length (line_of rest)) rest) = length rest"
    using line_of_prefix [of rest] by (metis length_append)
  have fault: "in_bounds S v (scan_of S v offset es (Some f))" if "rest \<noteq> []" "f \<noteq> Empty_segment" for f
    by (rule in_bounds_fault) (use less.prems(2,3) that in \<open>auto simp flip: length_greater_0_conv\<close>)
  from less.prems(1) show ?case
  proof (cases rule: replay_lines_cases)
    case complete
    then show ?thesis using less.prems(2,3) by (simp add: segment_fields in_bounds_def scan_of_def)
  next
    case (stuck x)
    from damaged_line_fault [OF stuck(5)] fault [OF stuck(1)] show ?thesis by blast
  next
    case (refused payload x f)
    have "f \<noteq> Empty_segment" using refused(6) by (auto simp: blocking_fault_def split: py_error.splits)
    with refused fault show ?thesis by (simp add: segment_fields)
  next
    case (cutoff payload e c)
    then show ?thesis
      using line less.prems(2,3) accepted_line [OF cutoff(4)]
      by (simp add: segment_fields accept_event_def in_bounds_def stopped_scan_def scan_of_def)
  next
    case (more payload e c)
    from less.hyps [OF shorter_rest [OF more(1)] more(5)] line less.prems(2,3) accepted_line [OF more(3)]
    show ?thesis by (simp add: accept_event_def)
  qed
qed

text \<open>The scans of a replay, with the number of the first one.\<close>

definition scans_in_bounds :: "store_env \<Rightarrow> fs \<Rightarrow> nat \<Rightarrow> segment_scan list \<Rightarrow> bool" where
  "scans_in_bounds S fs i cs = (\<forall>k < length cs. \<exists>b following. read_bytes fs (sg_path (cs ! k)) = Some b
     \<and> in_bounds S (view (i + k) (sg_path (cs ! k)) b following) (cs ! k))"

lemma scans_in_bounds_Cons:
  "scans_in_bounds S fs i (c # cs) \<longleftrightarrow> (\<exists>b following. read_bytes fs (sg_path c) = Some b
     \<and> in_bounds S (view i (sg_path c) b following) c) \<and> scans_in_bounds S fs (Suc i) cs"
  by (simp add: scans_in_bounds_def All_less_Suc2)

lemma replay_segments_bounds:
  assumes "replay_segments S fs m mh stop i slots s = Inr (s', b)"
  shows "\<exists>cs. rl_segments s' = rl_segments s @ cs \<and> scans_in_bounds S fs i cs"
  using assms
proof (induction slots arbitrary: i s)
  case Nil
  then show ?case by (intro exI [of _ "[]"]) (simp add: scans_in_bounds_def)
next
  case (Cons slot slots)
  have one: "\<exists>c. rl_segments t = rl_segments s @ [c] \<and> scans_in_bounds S fs i [c]"
    if r: "replay_lines S fs m mh stop (view i p bytes (slots \<noteq> [])) s 0 [] bytes = Inr (t, d)"
      and p: "read_bytes fs p = Some bytes" for t d p bytes
  proof -
    from replay_lines_bounds [OF r] obtain c where
      "rl_segments t = rl_segments s @ [c]" "in_bounds S (view i p bytes (slots \<noteq> [])) c" by auto
    with p show ?thesis by (auto simp: scans_in_bounds_def in_bounds_def)
  qed
  from Cons.prems show ?case
  proof (cases rule: replay_segments_cases)
    case (vacant p)
    then show ?thesis
      by (intro exI [of _ "[scan_of S (view i p [] (slots \<noteq> [])) 0 [] (Some Empty_segment)]"])
        (simp add: segment_fields scans_in_bounds_def in_bounds_def scan_of_def)
  next
    case (last p bytes)
    from one [OF last(4,2)] show ?thesis by blast
  next
    case (through p bytes t)
    from one [OF through(4,2)] obtain c where "rl_segments t = rl_segments s @ [c]" "scans_in_bounds S fs i [c]" by blast
    moreover from Cons.IH [OF through(6)] obtain cs where
      "rl_segments s' = rl_segments t @ cs" "scans_in_bounds S fs (Suc i) cs" by auto
    ultimately show ?thesis by (intro exI [of _ "c # cs"]) (simp add: scans_in_bounds_Cons)
  qed
qed

text \<open>
  C40.  What a replay reports about a segment is in bounds.  The scans are numbered from one; the
  accepted end of each is the total length of its events and no more than the bytes it was read
  from, which are no more than the file has; without a fault the two are equal and nothing is left
  over; with a fault the whole file was taken, the fault starts exactly at the accepted end, and the
  left-over bytes are what lies between it and the end of the file, none only if the file is empty.
\<close>

theorem reported_offsets_are_in_bounds:
  assumes "replay_unlocked S fs stop = Inr st" and "k < length (ry_segments st)" and "c = ry_segments st ! k"
  shows "sg_index c = k + 1 \<and> sg_accepted_byte_end c = sum_list (map (length \<circ> event_bytes S) (sg_events c))
    \<and> (\<exists>b. read_bytes fs (sg_path c) = Some b
       \<and> sg_accepted_byte_end c \<le> sg_byte_count c \<and> sg_byte_count c \<le> length b
       \<and> (sg_fault_class c = None \<longrightarrow> sg_fault_offset c = None \<and> sg_raw_tail c = []
            \<and> sg_accepted_byte_end c = sg_byte_count c)
       \<and> (sg_fault_class c \<noteq> None \<longrightarrow> sg_fault_offset c = Some (sg_accepted_byte_end c) \<and> sg_byte_count c = length b
            \<and> sg_accepted_byte_end c + length (sg_raw_tail c) = length b
            \<and> (sg_raw_tail c = [] \<longleftrightarrow> sg_fault_class c = Some Empty_segment)))"
proof -
  obtain m raw slots s b where
    "replay_segments S fs m (hash S raw) stop 1 slots initial_replay = Inr (s, b)" "ry_segments st = rl_segments s"
    using assms(1) by (rule replay_unlockedE)
  with replay_segments_bounds obtain cs where "ry_segments st = cs" "scans_in_bounds S fs 1 cs"
    by (fastforce simp: initial_replay_def)
  with assms(2,3) obtain d following where "read_bytes fs (sg_path c) = Some d"
    "in_bounds S (view (1 + k) (sg_path c) d following) c" unfolding scans_in_bounds_def by blast
  then show ?thesis by (cases "sg_fault_class c") (auto simp: in_bounds_def)
qed

end
