(* ===== verification/Journal_Witnesses.thy ===== *)
theory Journal_Witnesses
  imports Journal_Samples Journal_Prefix
begin

text \<open>The properties of journals applied to the sample run.\<close>

abbreviation logged_journal :: fs where
  "logged_journal \<equiv> logged_files (event_bytes logged_env first_event)"

lemma logged_first_check:
  assumes "reduce_events sample_env PHASE4_WORKFLOW_ID [first_event] None Healthy = Inr rt"
  shows "check_record logged_env fs logged_run manifest_bytes initial_replay 0
    (norm (JObj (event_wire logged_env first_event))) (event_bytes logged_env first_event) = Inr (first_event, rt)"
proof -
  have "chain_checks logged_env logged_run manifest_bytes initial_replay (event_bytes logged_env first_event) first_event
      = Inr ()"
    using logged_seal [of 0]
    by (simp add: chain_checks_def first_event_def logged_fields initial_replay_def guard_simps Let_def
        logged_env_fields logged_run_def sample_run_manifest_def as_run_initialized_def require_some_simps)
  moreover have "workflow_of logged_run = PHASE4_WORKFLOW_ID"
    by (simp add: workflow_of_def logged_run_def falsy_def PHASE4_WORKFLOW_ID_def)
  moreover have "ev_event_type first_event = Run_initialized" by (simp add: first_event_def logged_fields)
  ultimately show ?thesis
    using assms logged_library(4) [of first_event]
    by (simp add: check_record_Inr validate_event_Inr file_checks_def MANIFEST_EVENT_TYPES_def
        SEMANTIC_EVENT_TYPES_def runtime_checks_def initial_replay_def logged_env_fields rbind_simps raise_again_def)
qed

lemma logged_replay:
  obtains st where "replay_unlocked logged_env logged_journal None = Inr st" "ry_events st = [first_event]"
    "ry_segmented st" "ry_recovery_health st = Healthy" "sg_path (last (ry_segments st)) = first_segment"
    "ry_run_id st = ''run''" "ry_revision st = 1" "ry_event_count st = 1" "ry_last_event_sha256 st = sealed 0"
    "ry_event_ids st = {''event.'' @ int_str 0}" "ry_command_ids st = {''command.'' @ int_str 0}"
    "ry_workflow_definition_id st = PHASE4_WORKFLOW_ID" "length (ry_segments st) = 1"
proof -
  let ?b = "event_bytes logged_env first_event"
  obtain rt where rt: "reduce_events sample_env PHASE4_WORKFLOW_ID [first_event] None Healthy = Inr rt"
    using logged_reduced(1) by blast
  note line = event_line [of logged_env first_event, unfolded logged_env_fields,
      OF logged_library(1,2) [of first_event, OF disjI1 [OF refl]]]
  let ?v = "view 1 first_segment ?b False"
  let ?t = "accept_event (initial_replay\<lparr>rl_pending := None\<rparr>) first_event rt"
  let ?s = "add_scan (scan_of logged_env ?v (0 + length ?b) ([] @ [first_event]) None) ?t"
  have "replay_lines logged_env logged_journal logged_run manifest_bytes None ?v initial_replay 0 [] ?b = Inr (?s, False)"
    using replay_lines_next [of ?b logged_env _ logged_journal logged_run manifest_bytes initial_replay 0 first_event rt
        None ?v "[]"] line logged_first_check [OF rt, of logged_journal]
    by (simp add: replay_lines_done logged_env_fields)
  then have "replay_segments logged_env logged_journal logged_run manifest_bytes None 1 [Inr first_segment] initial_replay
      = Inr (?s, False)"
    using line(2) by (simp add: read_bytes_def logged_get require_some_simps Let_def rbind_simps segment_fields
        accept_event_def initial_replay_def)
  then have "replay_unlocked logged_env logged_journal None = Inr (concluded logged_run (?s, False))"
    by (simp add: replay_unlocked_def logged_manifest logged_slots rbind_simps logged_env_fields
        del: One_nat_def replay_segments.simps)
  then show ?thesis
    by (rule that) (simp_all add: concluded_fields segment_fields accept_event_def initial_replay_def scan_of_def
        first_event_def logged_fields logged_run_def sample_run_manifest_def workflow_of_def falsy_def
        PHASE4_WORKFLOW_ID_def)
qed

theorem replayed_journal_is_one_chain_witness:
  "\<exists>st. replay_unlocked logged_env logged_journal None = Inr st \<and> ry_revision st = 1
     \<and> ry_last_event_sha256 st = head_of [first_event]"
proof -
  obtain st where st: "replay_unlocked logged_env logged_journal None = Inr st" "ry_events st = [first_event]"
    by (rule logged_replay)
  from replayed_journal_is_one_chain [OF st(1)] st show ?thesis by auto
qed

theorem journal_head_pins_its_history_witness:
  "\<exists>st. replay_unlocked logged_env logged_journal None = Inr st \<and> ry_events st = [first_event]
     \<and> (\<exists>m raw. read_manifest logged_env logged_journal = Inr (m, raw))"
proof -
  obtain st where st: "replay_unlocked logged_env logged_journal None = Inr st" "ry_events st = [first_event]"
    by (rule logged_replay)
  have "inj_on (hash logged_env) A" for A by (simp add: logged_env_fields inj_on_def)
  from journal_head_pins_its_history [OF st(1) st(1) _ _ refl this] st show ?thesis by auto
qed

lemma logged_blind: "blind logged_env p" "\<forall>x \<in> set [first_event]. \<not> binds_path p x"
  by (simp_all add: blind_def logged_env_def sample_store_env_def binds_path_def first_event_def logged_fields
      as_artifact_bound_def)

lemma second_extends:
  assumes "ry_run_id st = ''run''" "ry_revision st = 1" "ry_event_count st = 1" "ry_last_event_sha256 st = sealed 0"
  shows "extends_tip st second_event" "extends_tip st (second_event\<lparr>ev_event_sha256 := d\<rparr>)"
  using assms by (simp_all add: extends_tip_def second_event_def logged_fields)

lemma second_admissible:
  assumes "ry_events st = [first_event]" "ry_event_ids st = {''event.'' @ int_str 0}"
    "ry_command_ids st = {''command.'' @ int_str 0}"
  obtains rt where "\<forall>fs. file_checks logged_env fs logged_run (ry_events st) second_event = Inr ()"
    "\<forall>fs. runtime_checks logged_env fs logged_run (tip logged_env st) second_event = Inr rt"
    "ev_event_id second_event \<notin> ry_event_ids st" "ev_command_id second_event \<notin> ry_command_ids st"
    "ev_event_sha256 second_event = hash logged_env (canonical_event_bytes (event_wire logged_env second_event))"
    "ev_event_type second_event \<noteq> Recovery_completed"
proof -
  obtain rt where rt: "reduce_events sample_env PHASE4_WORKFLOW_ID [first_event, second_event] None Healthy = Inr rt"
    using logged_reduced(2) by blast
  have t: "ev_event_type second_event = Lifecycle_transitioned" by (simp add: second_event_def logged_fields move_def)
  have "file_checks logged_env fs logged_run (ry_events st) second_event = Inr ()"
    "runtime_checks logged_env fs logged_run (tip logged_env st) second_event = Inr rt" for fs
    using rt assms(1) by (simp_all add: file_checks_def runtime_checks_def t MANIFEST_EVENT_TYPES_def
        SEMANTIC_EVENT_TYPES_def raise_again_def tip_def logged_env_fields rbind_simps workflow_of_def
        logged_run_def falsy_def PHASE4_WORKFLOW_ID_def)
  moreover have "ev_event_id second_event \<notin> ry_event_ids st" "ev_command_id second_event \<notin> ry_command_ids st"
    using assms(2,3) by (simp_all add: second_event_def logged_fields int_str_eq)
  moreover have "ev_event_sha256 second_event = hash logged_env (canonical_event_bytes (event_wire logged_env second_event))"
    using logged_seal [of 1] by (simp add: second_event_def logged_fields logged_env_fields)
  ultimately show ?thesis using that t by simp
qed

lemma logged_bytes: "read_bytes logged_journal first_segment = Some (event_bytes logged_env first_event)"
  by (simp add: read_bytes_def logged_get)

theorem append_adds_exactly_the_event_witness:
  "\<exists>st fs' st'. replay_unlocked logged_env logged_journal None = Inr st
     \<and> append_runtime_event_unlocked logged_env logged_journal st second_event = Inr (fs', st')
     \<and> ry_events st' = [first_event, second_event] \<and> ry_recovery_health st' = Healthy"
proof -
  obtain st where st: "replay_unlocked logged_env logged_journal None = Inr st" "ry_events st = [first_event]"
    "ry_segmented st" "ry_recovery_health st = Healthy" "sg_path (last (ry_segments st)) = first_segment"
    "ry_run_id st = ''run''" "ry_revision st = 1" "ry_event_count st = 1" "ry_last_event_sha256 st = sealed 0"
    "ry_event_ids st = {''event.'' @ int_str 0}" "ry_command_ids st = {''command.'' @ int_str 0}"
    by (rule logged_replay)
  obtain rt where e: "\<forall>fs. file_checks logged_env fs logged_run (ry_events st) second_event = Inr ()"
    "\<forall>fs. runtime_checks logged_env fs logged_run (tip logged_env st) second_event = Inr rt"
    "ev_event_id second_event \<notin> ry_event_ids st" "ev_command_id second_event \<notin> ry_command_ids st"
    "ev_event_sha256 second_event = hash logged_env (canonical_event_bytes (event_wire logged_env second_event))"
    "ev_event_type second_event \<noteq> Recovery_completed" by (rule second_admissible [OF st(2,10,11)])
  from append_adds_exactly_the_event [OF st(1,3,4) st(5) [symmetric] logged_blind(1) _ logged_manifest logged_bytes
      refl _ _ _ second_extends(1) [OF st(6-9)] e(6,5,3,4) e(1,2) [rule_format], unfolded logged_env_fields, OF _
      logged_library(1,2,4) [of second_event]] logged_blind(2) st
  show ?thesis by fastforce
qed

text \<open>The second event with a digest that is not its own is refused when it is read back.\<close>

lemma forged_refused:
  "validate_event logged_env fs m mh s
     (norm (JObj (event_wire logged_env (second_event\<lparr>ev_event_sha256 := ''forged''\<rparr>))))
     (event_bytes logged_env (second_event\<lparr>ev_event_sha256 := ''forged''\<rparr>))
   = Inl (JournalError ''journal event bytes are not canonical'')"
  "json_ok (\<lambda>s. s) (JObj (event_wire logged_env (second_event\<lparr>ev_event_sha256 := ''forged''\<rparr>)))"
  "utf8_valid (event_bytes logged_env (second_event\<lparr>ev_event_sha256 := ''forged''\<rparr>))"
proof -
  let ?e = "second_event\<lparr>ev_event_sha256 := ''forged''\<rparr>" and ?i = "''event.'' @ int_str 1"
  let ?v = "JObj [(''event_id'', JStr ?i), (''event_sha256'', JStr ''forged'')]"
  have w: "JObj (event_wire logged_env ?e) = ?v"
    by (simp add: logged_wire second_event_def logged_fields)
  have v: "JObj (event_wire logged_env second_event) = JObj [(''event_id'', JStr ?i), (''event_sha256'', JStr (sealed 1))]"
    by (simp add: logged_wire second_event_def logged_fields)
  have "se_event logged_env (norm ?v) = Some second_event"
    by (simp add: logged_env_def first_event_def second_event_def logged_fields int_str_eq)
  moreover have "norm ?v \<noteq> norm (JObj (event_wire logged_env second_event))"
  proof -
    have "sealed 1 = CHR ''{'' # tl (sealed 1)" by (simp add: sealed_def canonical_json_bytes_def)
    then have "sealed 1 \<noteq> ''forged''" by auto
    then show ?thesis unfolding v by simp
  qed
  then have "event_bytes logged_env second_event \<noteq> event_bytes logged_env ?e"
    using canonical_bytes_iff [of id ?v "JObj (event_wire logged_env second_event)"] logged_library(1) [of second_event] v
    by (simp only: event_bytes_def w) (simp del: norm.simps)
  ultimately show "validate_event logged_env fs m mh s (norm (JObj (event_wire logged_env ?e)))
      (event_bytes logged_env ?e) = Inl (JournalError ''journal event bytes are not canonical'')"
    unfolding w validate_event_def chain_checks_def
    by (simp add: require_some_simps Let_def guard_simps rbind_simps del: norm.simps)
  show "json_ok (\<lambda>s. s) (JObj (event_wire logged_env ?e))" unfolding w by simp
  have "ascii ?i" by (simp add: ascii_simps code_def int_str_def nat_str.simps [of "Suc 0"] digit_def)
  then show "utf8_valid (event_bytes logged_env ?e)"
    unfolding event_bytes_def w by (intro ascii_utf8 ascii_json) (simp_all add: ascii_simps code_def)
qed

theorem refused_append_blocks_the_journal_witness:
  "\<exists>st fs' st'. replay_unlocked logged_env logged_journal None = Inr st
     \<and> append_runtime_event_unlocked logged_env logged_journal st (second_event\<lparr>ev_event_sha256 := ''forged''\<rparr>)
         = Inr (fs', st')
     \<and> ry_recovery_health st' = Recovery_blocked \<and> ry_events st' = [first_event]"
proof -
  obtain st where st: "replay_unlocked logged_env logged_journal None = Inr st" "ry_events st = [first_event]"
    "ry_segmented st" "ry_recovery_health st = Healthy" "sg_path (last (ry_segments st)) = first_segment"
    "ry_run_id st = ''run''" "ry_revision st = 1" "ry_event_count st = 1" "ry_last_event_sha256 st = sealed 0"
    by (rule logged_replay)
  from refused_append_blocks_the_journal [OF st(1,3,4) st(5) [symmetric] logged_blind(1) _ logged_manifest logged_bytes refl _
      forged_refused(3) second_extends(2) [OF st(6-9)] forged_refused(1), of Event_integrity] forged_refused(2)
      logged_blind(2) st(1,2)
  show ?thesis by (fastforce simp: logged_env_fields blocking_fault_def)
qed

theorem torn_append_is_classified_witness:
  "\<exists>st st' after. replay_unlocked logged_env logged_journal None = Inr st
     \<and> replay_unlocked logged_env (logged_files (event_bytes logged_env first_event
            @ take 1 (event_bytes logged_env second_event))) None = Inr st'
     \<and> ry_recovery_health st' = Recoverable_tail \<and> ry_events st' = [first_event]
     \<and> ry_segments st' = [after] \<and> sg_path after = first_segment"
proof -
  obtain st where st: "replay_unlocked logged_env logged_journal None = Inr st" "ry_events st = [first_event]"
    "ry_segmented st" "ry_recovery_health st = Healthy" "sg_path (last (ry_segments st)) = first_segment"
    "length (ry_segments st) = 1"
    by (rule logged_replay)
  have n: "1 < length (event_bytes logged_env second_event)"
    by (simp add: event_bytes_dumps logged_wire second_event_def logged_fields)
  have long: "Suc 1 < length (event_bytes logged_env second_event)"
    by (simp add: event_bytes_dumps logged_wire second_event_def logged_fields member_str_def quote_str_def)
  have "butlast (ry_segments st) = []" using st(6) by (cases "ry_segments st") auto
  with torn_append_is_classified [OF st(1,3,4) st(5) [symmetric] logged_blind(1) _ logged_manifest logged_bytes refl _
      logged_library(3) n] logged_library(1) [of second_event] logged_blind(2) st(1,2) long
  show ?thesis by (fastforce simp: logged_env_fields logged_rewrite)
qed

theorem search_for_segments_ends_witness:
  "(\<exists>n. n \<le> 4 \<and> \<not> lexists logged_journal (SEGMENTS @ [segment_name (Suc n)])
      \<and> prefix_slots logged_journal 9 1 = prefix_slots logged_journal (length logged_journal) 1
      \<and> length (prefix_slots logged_journal 9 1) = n)
   \<and> lexists logged_journal (SEGMENTS @ [segment_name 1])"
proof -
  have len: "length logged_journal = 4" by (simp add: logged_files_def)
  have here: "lexists logged_journal (SEGMENTS @ [segment_name 1])"
    using logged_get(4) by (simp add: lexists_def first_segment_def)
  obtain n where n: "n \<le> length logged_journal" "\<not> lexists logged_journal (SEGMENTS @ [segment_name (Suc n)])"
    "\<forall>fuel \<ge> n. prefix_slots logged_journal fuel 1 = prefix_slots logged_journal (length logged_journal) 1
       \<and> length (prefix_slots logged_journal fuel 1) = n"
    using search_for_segments_ends [of logged_journal] by blast
  have "n \<le> 9" using n(1) len by simp
  with n(3) have "prefix_slots logged_journal 9 1 = prefix_slots logged_journal (length logged_journal) 1
      \<and> length (prefix_slots logged_journal 9 1) = n" by blast
  with n(1,2) here len show ?thesis by metis
qed

theorem prefix_replay_is_the_history_witness:
  "\<exists>st st'. replay_unlocked logged_env logged_journal None = Inr st
     \<and> replay_unlocked logged_env logged_journal (Some 1) = Inr st' \<and> ry_events st' = [first_event]"
proof -
  obtain st where st: "replay_unlocked logged_env logged_journal None = Inr st" "ry_events st = [first_event]"
    "ry_segmented st" "ry_revision st = 1" by (rule logged_replay)
  have "(1::int) \<le> 1" "1 \<le> ry_revision st" using st(4) by simp_all
  from prefix_replay_is_the_history [OF st(1,3) this] st(1,2) show ?thesis by auto
qed

theorem reported_offsets_are_in_bounds_witness:
  "\<exists>st. replay_unlocked logged_env logged_journal None = Inr st \<and> sg_index (ry_segments st ! 0) = 1
     \<and> sg_accepted_byte_end (ry_segments st ! 0) \<le> sg_byte_count (ry_segments st ! 0)"
proof -
  obtain st where st: "replay_unlocked logged_env logged_journal None = Inr st" "length (ry_segments st) = 1"
    by (rule logged_replay)
  have "0 < length (ry_segments st)" using st(2) by simp
  from reported_offsets_are_in_bounds [OF st(1) this refl] st(1) show ?thesis by auto
qed

end
