(* ===== verification/Reducer_Types.thy ===== *)
theory Reducer_Types
  imports Reducer_Outcome
begin

text \<open>
  Type safety of the reducer.  Its branches narrow the payload of an event to the class that the
  event type stands for; on events that passed their own validator no narrowing fails, so of all the
  exceptions of Python only the documented ones leave \<open>reduce_events\<close>.
\<close>

section \<open>What may be raised\<close>

definition raises_only :: "('e \<Rightarrow> bool) \<Rightarrow> ('e, 'a) result \<Rightarrow> bool" where
  "raises_only P r = (\<forall>x. r = Inl x \<longrightarrow> P x)"

named_theorems raise_intros \<open>what the guarded steps of a function may raise\<close>

lemma raises_onlyD: "raises_only P r \<Longrightarrow> r = Inl x \<Longrightarrow> P x"
  by (simp add: raises_only_def)

lemma raises_Inr [raise_intros]: "raises_only P (Inr v)"
  by (simp add: raises_only_def)

lemma raises_Inl [raise_intros]: "P x \<Longrightarrow> raises_only P (Inl x)"
  by (simp add: raises_only_def)

lemma raises_guard [raise_intros]:
  "(b \<Longrightarrow> P x) \<Longrightarrow> (\<not> b \<Longrightarrow> raises_only P k) \<Longrightarrow> raises_only P (guard b x k)"
  by (cases b) (simp_all add: raises_only_def)

lemma raises_rbind [raise_intros]:
  "raises_only P r \<Longrightarrow> (\<And>a. r = Inr a \<Longrightarrow> raises_only P (f a)) \<Longrightarrow> raises_only P (rbind r f)"
  by (cases r) (simp_all add: raises_only_def)

lemma raises_require [raise_intros]:
  "(m = None \<Longrightarrow> P x) \<Longrightarrow> (\<And>a. m = Some a \<Longrightarrow> raises_only P (f a)) \<Longrightarrow> raises_only P (require_some m x f)"
  by (cases m) (simp_all add: raises_only_def)

lemma raises_narrowed [raise_intros]:
  "m \<noteq> None \<Longrightarrow> (\<And>a. m = Some a \<Longrightarrow> raises_only P (f a)) \<Longrightarrow> raises_only P (narrowed m f)"
  by (cases m) (simp_all add: raises_only_def narrowed_def)

lemma raises_again:
  "raises_only Q r \<Longrightarrow> (\<And>x. Q x \<Longrightarrow> P (f x)) \<Longrightarrow> raises_only P (raise_again f r)"
  by (cases r) (simp_all add: raises_only_def raise_again_def)

lemma raises_weaken: "raises_only P r \<Longrightarrow> (\<And>x. P x \<Longrightarrow> Q x) \<Longrightarrow> raises_only Q r"
  by (simp add: raises_only_def)

lemma raises_if [raise_intros]:
  "(b \<Longrightarrow> raises_only P r) \<Longrightarrow> (\<not> b \<Longrightarrow> raises_only P k) \<Longrightarrow> raises_only P (if b then r else k)"
  by simp

lemma raises_option [raise_intros]:
  "(m = None \<Longrightarrow> raises_only P r) \<Longrightarrow> (\<And>a. m = Some a \<Longrightarrow> raises_only P (f a))
    \<Longrightarrow> raises_only P (case m of None \<Rightarrow> r | Some a \<Rightarrow> f a)"
  by (cases m) simp_all

lemma raises_prod [raise_intros]:
  "(\<And>a b. p = (a, b) \<Longrightarrow> raises_only P (f a b)) \<Longrightarrow> raises_only P (case p of (a, b) \<Rightarrow> f a b)"
  by (cases p) simp

lemma raises_fold_invariant:
  assumes "I s" and "\<And>s x. I s \<Longrightarrow> x \<in> set xs \<Longrightarrow> raises_only P (f s x)"
    and "\<And>s x s'. I s \<Longrightarrow> x \<in> set xs \<Longrightarrow> f s x = Inr s' \<Longrightarrow> I s'"
  shows "raises_only P (fold_result f s xs)"
  using assms
proof (induction xs arbitrary: s)
  case (Cons x xs)
  show ?case
  proof (cases "f s x")
    case (Inl y)
    with Cons.prems(1) Cons.prems(2) [of s x] show ?thesis by (simp add: raises_only_def)
  next
    case (Inr s')
    with Cons.prems(1) have "I s'" using Cons.prems(3) [of s x s'] by simp
    then have "raises_only P (fold_result f s' xs)"
    proof (rule Cons.IH)
      show "raises_only P (f u y)" if "I u" "y \<in> set xs" for u y using Cons.prems(2) that by simp
      show "I v" if "I u" "y \<in> set xs" "f u y = Inr v" for u y v using Cons.prems(3) [of u y v] that by simp
    qed
    with Inr show ?thesis by simp
  qed
qed (simp add: raises_only_def)

lemma raises_fold: "(\<And>s x. x \<in> set xs \<Longrightarrow> raises_only P (f s x)) \<Longrightarrow> raises_only P (fold_result f s xs)"
  by (rule raises_fold_invariant [where I = "\<lambda>_. True"]) simp_all

text \<open>
  The exceptions of \<open>reduce_events\<close>.  Reading the attribute of an assignment that its class does not
  have is the one \<open>AttributeError\<close>.
\<close>

definition reducer_exception :: "py_error \<Rightarrow> bool" where
  "reducer_exception x =
    (case x of ReducerError _ \<Rightarrow> True | WorkflowDefinitionError _ \<Rightarrow> True | PyValueError _ \<Rightarrow> True
     | PyKeyError _ \<Rightarrow> True | PyAttributeError m \<Rightarrow> m = ''independence_eligible'' | _ \<Rightarrow> False)"

definition projection_exception :: "py_error \<Rightarrow> bool" where
  "projection_exception x =
    (case x of ExecutionProvenanceError _ \<Rightarrow> True | PyKeyError _ \<Rightarrow> True | _ \<Rightarrow> False)"

lemma exception_simps [simp]:
  "reducer_exception (ReducerError m)" "reducer_exception (WorkflowDefinitionError m)"
  "reducer_exception (PyValueError m)" "reducer_exception (PyKeyError m)"
  "reducer_exception (PyAttributeError m) \<longleftrightarrow> m = ''independence_eligible''"
  "projection_exception (ExecutionProvenanceError m)" "projection_exception (PyKeyError m)"
  by (simp_all add: reducer_exception_def projection_exception_def)

lemma exceptions_passed_on:
  "reducer_exception x \<Longrightarrow> reducer_exception (from_workflow pre x)"
  "reducer_exception x \<Longrightarrow> reducer_exception (from_value_error x)"
  "projection_exception x \<Longrightarrow> reducer_exception (from_provenance x)"
  "reducer_exception x \<Longrightarrow> reducer_exception (from_provenance x)"
  by (cases x; simp add: reducer_exception_def projection_exception_def)+

section \<open>Typed events\<close>

definition typed :: "canonical_event \<Rightarrow> bool" where
  "typed e = payload_matches (ev_event_type e) (ev_payload e)"

lemma event_valid_typed: "event_valid E e \<Longrightarrow> typed e"
  by (auto simp: event_valid_def is_ok_iff valid_variant_and_revision_def Let_def guard_simps typed_def)

text \<open>The class an event type stands for; two types accept a subclass.\<close>

lemma typed_narrows:
  assumes "payload_matches t p"
  shows "t = Run_initialized \<Longrightarrow> as_run_initialized p \<noteq> None"
    "t = Lifecycle_transitioned \<Longrightarrow> as_lifecycle_transitioned p \<noteq> None"
    "t = Human_decision_requested \<Longrightarrow> as_human_decision_requested p \<noteq> None"
    "t = Human_decision_resolved \<Longrightarrow> as_human_decision_resolved p \<noteq> None"
    "t = Attempt_started \<Longrightarrow> as_attempt_started p \<noteq> None"
    "t = Attempt_closed \<Longrightarrow> as_attempt_closed p \<noteq> None"
    "t = Artifact_accepted \<Longrightarrow> as_artifact_accepted p \<noteq> None"
    "t = Research_artifact_accepted \<Longrightarrow> as_artifact_accepted p \<noteq> None"
    "t = Passport_accepted \<Longrightarrow> as_passport_accepted p \<noteq> None"
    "t = Resume_accepted \<Longrightarrow> as_resume_accepted p \<noteq> None"
    "t = Recovery_completed \<Longrightarrow> as_recovery_completed p \<noteq> None"
    "t = Execution_mode_selected \<Longrightarrow> as_mode_selected p \<noteq> None"
    "t = Assignment_prepared \<Longrightarrow> as_assignment_prepared p \<noteq> None"
    "t = Assignment_superseded \<Longrightarrow> as_assignment_prepared p \<noteq> None"
    "t = Attempt_prepared \<Longrightarrow> as_attempt_prepared p \<noteq> None"
    "t = Attempt_lifecycle \<Longrightarrow> as_attempt_lifecycle p \<noteq> None"
    "t = Proposal_accepted \<Longrightarrow> as_proposal_accepted p \<noteq> None"
    "t = Proposal_rejected \<Longrightarrow> as_proposal_rejected p \<noteq> None"
    "t = Host_identity_accepted \<Longrightarrow> as_host_identity p \<noteq> None"
    "t = Panel_prepared \<Longrightarrow> as_panel_prepared p \<noteq> None"
    "t = Review_report_accepted \<Longrightarrow> as_review_report p \<noteq> None"
    "t = Review_synthesis_accepted \<Longrightarrow> as_review_synthesis p \<noteq> None"
    "t = Hook_observed \<Longrightarrow> as_hook_observed p \<noteq> None"
    "t = Gate_evaluated \<Longrightarrow> as_gate_evaluated p \<noteq> None"
    "t = Human_authority_accepted \<Longrightarrow> as_human_authority p \<noteq> None"
    "t = Human_decision_recorded \<Longrightarrow> as_human_decision_recorded p \<noteq> None"
    "t = Claim_attestation_anchored \<Longrightarrow> as_claim_anchored p \<noteq> None"
    "t = Experiment_provenance_accepted \<Longrightarrow> as_experiment_provenance p \<noteq> None"
    "t = Experiment_contract_accepted \<Longrightarrow> as_experiment_contract p \<noteq> None"
    "t = Ep_context_accepted \<Longrightarrow> as_context p \<noteq> None"
    "t = Ep_dataset_metadata_accepted \<Longrightarrow> as_dataset_metadata p \<noteq> None"
    "t = Ep_action_started \<Longrightarrow> as_action_started p \<noteq> None"
    "t = Ep_action_finished \<Longrightarrow> as_action_finished p \<noteq> None"
    "t = Ep_artifact_bound \<Longrightarrow> as_artifact_bound p \<noteq> None"
    "t \<in> set RESEARCH_LEARNING_EVENT_TYPES \<Longrightarrow> learning_of p \<noteq> None"
    "t \<in> set RESEARCH_ARTIFACT_EVENT_TYPES \<Longrightarrow> artifact_id_of p \<noteq> None"
    "t \<in> set artifact_stages \<Longrightarrow> frozen_identity_of p \<noteq> None"
    "t = Research_artifact_superseded \<Longrightarrow> \<exists>s. p = P_research_artifact_superseded s"
  using assms
  by (cases p; auto simp: payload_matches_def as_defs event_families learning_of_def artifact_id_of_def
      frozen_identity_of_def artifact_stages_def)+

lemmas typed_as = typed_narrows [of "ev_event_type e" "ev_payload e" for e :: canonical_event, folded typed_def]

section \<open>The projection of execution facts\<close>

lemma projection_checks_raise [raise_intros]:
  "raises_only projection_exception (prov_context s e c)"
  "raises_only projection_exception (prov_metadata s e m)"
  "raises_only projection_exception (tool_action_check s c a)"
  "raises_only projection_exception (workflow_action_check s)"
  "raises_only projection_exception (prov_action_finished s e f)"
  "raises_only projection_exception (binding_action_check s b)"
  "raises_only projection_exception (action_gaps es s x)"
  unfolding prov_context_def prov_metadata_def tool_action_check_def workflow_action_check_def
    prov_action_finished_def binding_action_check_def action_gaps_def Let_def
  by (intro raise_intros; simp)+

lemma action_started_raises [raise_intros]: "raises_only projection_exception (prov_action_started s e a)"
  unfolding prov_action_started_def by (intro raise_intros; simp)

lemma source_check_raises [raise_intros]:
  assumes "typed src"
  shows "raises_only projection_exception (binding_source_check s b src)"
proof -
  note assms [unfolded typed_def]
  then have "raises_only projection_exception (run_input_source_check b src)"
    "raises_only projection_exception (proposal_source_check b src)"
    "raises_only projection_exception (artifact_source_check s b src)"
    unfolding run_input_source_check_def proposal_source_check_def artifact_source_check_def
    by (intro raise_intros; use typed_narrows in fastforce)+
  then show ?thesis by (simp add: binding_source_check_def split: source_kind.split)
qed

definition events_typed :: "prov_state \<Rightarrow> bool" where
  "events_typed s = (\<forall>i e. dget (pv_event_by_id s) i = Some e \<longrightarrow> typed e)"

lemma bound_raises [raise_intros]:
  assumes "events_typed s"
  shows "raises_only projection_exception (prov_artifact_bound s e b)"
  unfolding prov_artifact_bound_def
  using assms by (intro raise_intros; simp add: events_typed_def)

lemma branch_raises [raise_intros]:
  assumes "typed e" and "events_typed s"
  shows "raises_only projection_exception (prov_branch s e)"
  unfolding prov_branch_def Let_def
  by (intro raise_intros; use assms in \<open>auto simp: typed_def dest: typed_narrows\<close>)

lemma branch_keeps_events:
  assumes "prov_branch s e = Inr s'"
  shows "pv_event_by_id s' = pv_event_by_id s"
proof -
  have "pv_event_by_id s' = pv_event_by_id s" if "prov_action_started s e q = Inr s'" for q
    using that by (cases "pv_context s") (auto simp: prov_action_started_def guard_simps)
  moreover have "pv_event_by_id s' = pv_event_by_id s" if "prov_action_finished s e q = Inr s'" for q
    using that by (cases "dget (pv_actions s) (fin_action_id q)") (auto simp: prov_action_finished_def guard_simps)
  moreover have "pv_event_by_id s' = pv_event_by_id s" if "prov_artifact_bound s e q = Inr s'" for q
    using that by (auto simp: prov_artifact_bound_def guard_simps)
  moreover have "pv_event_by_id s' = pv_event_by_id s" if "prov_context s e q = Inr s'" for q
    using that by (auto simp: prov_context_def guard_simps)
  moreover have "pv_event_by_id s' = pv_event_by_id s" if "prov_metadata s e q = Inr s'" for q
    using that by (auto simp: prov_metadata_def guard_simps)
  ultimately show ?thesis
    using prov_branch_cases [OF assms] by (auto simp: prov_assignment_def prov_attempt_def prov_intent_def)
qed

lemma step_keeps_typed:
  assumes "events_typed s" and "typed e" and "prov_step r s e = Inr s'"
  shows "events_typed s'"
  using assms(3)
proof (rule prov_stepE)
  fix s1 s2 assume s1: "prov_stage_step s e = Inr s1" and s2: "prov_branch s1 e = Inr s2"
    and s': "s' = s2\<lparr>pv_event_by_id := dset (ev_event_id e) e (pv_event_by_id s2)\<rparr>"
  have "pv_event_by_id s1 = pv_event_by_id s"
    using s1 by (auto simp: prov_stage_step_def guard_simps split: if_splits)
  with branch_keeps_events [OF s2] s' assms(1,2) show ?thesis by (simp add: events_typed_def dict_simps)
qed

lemma projection_raises:
  assumes "\<forall>e \<in> set es. typed e"
  shows "raises_only projection_exception (project_execution_provenance es)"
proof -
  have stage: "raises_only projection_exception (prov_stage_step s e)" if "typed e" for s e
    unfolding prov_stage_step_def using that
    by (intro raise_intros) (auto simp: typed_def dest: typed_narrows)
  have step: "raises_only projection_exception (prov_step r s e)" if "typed e" "events_typed s" for r s e
    unfolding prov_step_def
  proof (intro raise_intros stage that)
    fix s1 assume "prov_stage_step s e = Inr s1"
    then have "pv_event_by_id s1 = pv_event_by_id s"
      by (auto simp: prov_stage_step_def guard_simps split: if_splits)
    with that(2) show "events_typed s1" by (simp add: events_typed_def)
  qed simp_all
  have "raises_only projection_exception (prov_run r prov_init es)" for r
    unfolding prov_run_def
  proof (rule raises_fold_invariant [where I = events_typed])
    show "events_typed prov_init" by (simp add: events_typed_def prov_init_def)
  qed (use assms step step_keeps_typed in blast)+
  moreover have "raises_only projection_exception
      (fold_result (\<lambda>gs a. rbind (action_gaps es s a) (\<lambda>g. Inr (gs @ g))) [] xs)" for s xs
    by (rule raises_fold) (intro raise_intros)
  ultimately show ?thesis
    unfolding project_execution_provenance_def by (intro raise_intros; simp)
qed

section \<open>The branches of the reducer\<close>

lemma raises_helpers [raise_intros]:
  "raises_only reducer_exception (set_blocker c i d)"
  "raises_only reducer_exception (parse_utc_or_raise t)"
  "raises_only reducer_exception (as_reducer_error u)"
  "raises_only reducer_exception (require_workflow h w)"
  by (auto simp: raises_only_def set_blocker_def guard_simps parse_utc_or_raise_def as_reducer_error_def
      require_workflow_def split: option.splits sum.splits)

lemma raises_lookups [raise_intros]:
  "raises_only reducer_exception (require_transition h w stage tid)"
  "raises_only reducer_exception (legal_transitions h w stage)"
  "raises_only reducer_exception (event_category t)"
  "raises_only reducer_exception (expired occurred_at fresh_until)"
  "raises_only reducer_exception (retry_check s aid d)"
  unfolding require_transition_def legal_transitions_def event_category_def expired_def retry_check_def
  by (intro raise_intros; simp)+

lemma raises_transition_again [raise_intros]:
  "raises_only reducer_exception (raise_again (from_workflow pre) (require_transition h w stage tid))"
  "raises_only reducer_exception (raise_again (from_workflow pre) (event_category t))"
  by (rule raises_again [where Q = reducer_exception], intro raise_intros, erule exceptions_passed_on)+

lemma raises_known [raise_intros]:
  "(\<And>a. raises_only reducer_exception (k a)) \<Longrightarrow>
     raises_only reducer_exception (known_assignment s aid digest unknown stale k)"
  "(\<And>m. raises_only reducer_exception (k' m)) \<Longrightarrow> raises_only reducer_exception (ready_panel E s h message k')"
  unfolding known_assignment_def ready_panel_def by (intro raise_intros; simp)+

lemma raises_seats [raise_intros]: "raises_only reducer_exception (check_seats s xs)"
  by (induction xs) (simp_all only: check_seats.simps, (intro raise_intros; simp)+)

lemma raises_sources [raise_intros]: "raises_only reducer_exception (check_sources m xs)"
  by (induction m xs rule: check_sources.induct)
    (simp_all only: check_sources.simps, (intro raise_intros; simp)+)

lemma raises_own_steps [raise_intros]:
  "raises_only reducer_exception (step_lifecycle E w s e p1)"
  "raises_only reducer_exception (step_decision_requested s e p2)"
  "raises_only reducer_exception (step_decision_resolved s p3)"
  "raises_only reducer_exception (step_attempt_started s p4)"
  "raises_only reducer_exception (step_attempt_closed s p5)"
  "raises_only reducer_exception (step_artifact_accepted s p6)"
  "raises_only reducer_exception (step_passport E w s p7)"
  "raises_only reducer_exception (step_resume s e p8)"
  "raises_only reducer_exception (step_recovery s p9)"
  unfolding step_lifecycle_def completion_check_def step_decision_requested_def step_decision_resolved_def
    step_attempt_started_def step_attempt_closed_def step_artifact_accepted_def step_passport_def
    checkpoint_coherent_def previous_transition_def step_resume_def step_recovery_def Let_def
  by ((intro raise_intros; simp) | (cases "pp_checkpoint_kind p7"; simp; intro raise_intros; simp))+

lemma raises_work_steps [raise_intros]:
  "raises_only reducer_exception (step_mode_selected s e p1)"
  "raises_only reducer_exception (step_assignment s p2)"
  "raises_only reducer_exception (step_attempt_prepared s e p3)"
  "raises_only reducer_exception (step_attempt_lifecycle s e p4)"
  "raises_only reducer_exception (step_proposal_accepted s e p5)"
  "raises_only reducer_exception (step_proposal_rejected s e p6)"
  unfolding step_mode_selected_def step_assignment_def supersede_def step_attempt_prepared_def
    step_attempt_lifecycle_def step_proposal_accepted_def step_proposal_rejected_def Let_def
  by (intro raise_intros; simp)+

lemma raises_evidence_steps [raise_intros]:
  "raises_only reducer_exception (step_host_identity s e p1)"
  "raises_only reducer_exception (step_experiment s h m)"
  "raises_only reducer_exception (step_panel_prepared s e p3)"
  "raises_only reducer_exception (step_review_report E s p4)"
  "raises_only reducer_exception (step_review_synthesis E s e p5)"
  "raises_only reducer_exception (step_hook_observed s p6)"
  "raises_only reducer_exception (step_gate_evaluated s e p7)"
  "raises_only reducer_exception (step_human_authority s e p8)"
  unfolding step_host_identity_def step_experiment_def step_panel_prepared_def step_review_report_def
    step_review_synthesis_def step_hook_observed_def step_gate_evaluated_def step_human_authority_def Let_def
  by (intro raise_intros; simp)+

lemma raises_decision [raise_intros]: "raises_only reducer_exception (step_human_decision s e p)"
proof -
  have "raises_only reducer_exception (decision_blockers s e d)" for d
    unfolding decision_blockers_def Let_def
    by (cases "hd_blocker_action d"; simp only: blocker_action.case; intro raise_intros; simp)
  then show ?thesis unfolding step_human_decision_def Let_def by (intro raise_intros; simp)
qed

section \<open>The rules over the history\<close>

text \<open>All earlier events are typed, and the first of them initialised the run.\<close>

definition typed_history :: "canonical_event list \<Rightarrow> bool" where
  "typed_history es =
    ((\<forall>e \<in> set es. typed e) \<and> (es \<noteq> [] \<longrightarrow> ev_event_type (hd es) = Run_initialized))"

lemma typed_filter: "typed_history es \<Longrightarrow> e \<in> set (filter P es) \<Longrightarrow> typed e"
  by (auto simp: typed_history_def)

lemma raises_adjacency [raise_intros]:
  assumes "typed_history (rd_prior s)"
  shows "raises_only reducer_exception (adjacency_check E w s e)"
proof -
  have "as_lifecycle_transitioned (ev_payload prev) \<noteq> None"
    if "previous_event s = Some prev" "ev_event_type prev = Lifecycle_transitioned" for prev
    using that assms typed_as(2) by (auto simp: previous_event_def typed_history_def split: if_splits)
  then show ?thesis unfolding adjacency_check_def by (intro raise_intros; simp)
qed

lemma raises_artifact_progress [raise_intros]:
  assumes "typed_history es" and "typed e"
  shows "raises_only reducer_exception (raise_again from_value_error (validate_artifact_event_progress es e))"
proof -
  have first: "frozen_identity_of (ev_payload x) \<noteq> None"
    if "map ev_event_type (x # xs) = take n artifact_stages" "typed x" for x xs n
  proof -
    have "ev_event_type x \<in> set artifact_stages"
      using that(1) by (metis in_set_takeD list.set_intros(1) list.simps(9))
    with that(2) show ?thesis by (rule typed_as(37))
  qed
  have "raises_only reducer_exception (stage_progress es (artifact_events es a) e a identity)" for a identity
    unfolding stage_progress_def Let_def
  proof (intro raise_intros; (simp; fail)?)
    show "raises_only reducer_exception
        (case artifact_events es a of [] \<Rightarrow> Inr ()
         | first # _ \<Rightarrow> require_some (frozen_identity_of (ev_payload first)) (PyAttributeError ''ir_sha256'') (\<lambda>frozen.
             guard (frozen \<noteq> identity) (PyValueError ''research artifact frozen identity changed'')
            (guard ((if ev_event_type e = Research_artifact_accepted then artifact_sha256_of (ev_payload e)
                  else receipt_sha256_of (ev_payload e)) \<noteq> receipt_sha256_of (ev_payload first))
               (PyValueError ''research artifact qualification receipt changed'') (Inr ()))))"
      if "\<not> map ev_event_type (artifact_events es a)
          \<noteq> take (index_of (ev_event_type e) artifact_stages) artifact_stages"
    proof (cases "artifact_events es a")
      case (Cons x xs)
      then have "typed x" using typed_filter [OF assms(1)] unfolding artifact_events_def by (metis list.set_intros(1))
      moreover have "frozen_identity_of (ev_payload x) \<noteq> None"
        using first [of x xs] that Cons \<open>typed x\<close> by simp
      ultimately show ?thesis unfolding Cons list.case by (intro raise_intros; simp)
    qed (simp add: raises_Inr)
  qed
  moreover have "raises_only reducer_exception (supersession_progress es prior x)" for prior x
    unfolding supersession_progress_def by (intro raise_intros; simp)
  moreover note narrow = typed_narrows [OF assms(2) [unfolded typed_def]]
  moreover have "ev_event_type e = Research_artifact_superseded"
    if "ev_event_type e \<in> set RESEARCH_ARTIFACT_EVENT_TYPES" "ev_event_type e \<notin> set artifact_stages"
    using that by (auto simp: RESEARCH_ARTIFACT_EVENT_TYPES_def artifact_stages_def)
  ultimately have "raises_only reducer_exception (validate_artifact_event_progress es e)"
    unfolding validate_artifact_event_progress_def Let_def
    by (intro raise_intros) (auto intro: raise_intros)
  then show ?thesis by (rule raises_again) (rule exceptions_passed_on)
qed

lemma raises_learning_progress [raise_intros]:
  assumes "typed_history es" and "typed e"
  shows "raises_only reducer_exception (raise_again from_value_error (validate_learning_progress es e))"
proof -
  have learning: "learning_of (ev_payload x) \<noteq> None"
    if "typed x" "ev_event_type x \<in> set RESEARCH_LEARNING_EVENT_TYPES" for x
    using that by (rule typed_as(35))
  then have "\<not> list_ex (\<lambda>x. learning_of (ev_payload x) = None) (learning_events es)"
    using assms(1) by (auto simp: learning_events_def list_ex_iff typed_history_def)
  moreover have "learning_of (ev_payload (last (learning_history es r))) \<noteq> None"
    if "learning_history es r \<noteq> []" for r
  proof -
    have "last (learning_history es r) \<in> set (learning_history es r)" using that by simp
    with learning typed_filter [OF assms(1)] show ?thesis unfolding learning_history_def by fastforce
  qed
  moreover have "raises_only reducer_exception (learning_lifecycle x old p)"
    "raises_only reducer_exception (learning_provenance es p)" for x old p
    unfolding learning_lifecycle_def learning_provenance_def Let_def by (intro raise_intros; simp)+
  ultimately have "raises_only reducer_exception (validate_learning_progress es e)"
    unfolding validate_learning_progress_def Let_def using learning [OF assms(2)]
    by (intro raise_intros; simp)
  then show ?thesis by (rule raises_again) (rule exceptions_passed_on)
qed

lemma raises_claim [raise_intros]:
  assumes "typed_history (rd_prior s)"
  shows "raises_only reducer_exception (step_claim_anchored s e p)"
proof -
  have init: "as_run_initialized (ev_payload (hd (rd_prior s))) \<noteq> None" if "x \<in> set (rd_prior s)" for x
  proof -
    have "rd_prior s \<noteq> []" using that by auto
    then have "typed (hd (rd_prior s))" "ev_event_type (hd (rd_prior s)) = Run_initialized"
      using assms by (auto simp: typed_history_def)
    then show ?thesis by (rule typed_as(1))
  qed
  have authority: "as_human_authority (ev_payload x) \<noteq> None"
    if "x \<in> set (rd_prior s)" "ev_event_type x = Human_authority_accepted" for x
    using that assms typed_as(25) by (auto simp: typed_history_def)
  have "raises_only reducer_exception (validate_claim_authority_envelope st att t)" for st att t
    unfolding validate_claim_authority_envelope_def Let_def by (intro raise_intros; simp)
  then have "raises_only reducer_exception (validate_claim_anchor_authority (rd_prior s) states e p)" for states
    unfolding validate_claim_anchor_authority_def Let_def
    by (intro raise_intros; use init authority find_SomeD in \<open>fastforce\<close>)
  then show ?thesis unfolding step_claim_anchored_def by (intro raise_intros; simp)
qed

section \<open>The reducer\<close>

lemma raises_dispatch:
  assumes "typed_history (rd_prior s)" and "typed e"
  shows "raises_only reducer_exception (dispatch E w s e)"
proof -
  note narrow = typed_narrows [OF assms(2) [unfolded typed_def]]
  show ?thesis
    by (cases "ev_event_type e"; simp only: dispatch_def Let_def event_type.case; intro raise_intros assms;
        simp add: narrow)
qed

lemma raises_actor [raise_intros]: "raises_only reducer_exception (actor_check w e)"
  unfolding actor_check_def by (intro raise_intros; simp)

lemma raises_step:
  assumes "typed_history (rd_prior s)" and "typed e"
  shows "raises_only reducer_exception (reduce_step E w r s e)"
  unfolding reduce_step_def by (intro raise_intros raises_dispatch assms; simp)

lemma raises_loop:
  assumes "typed_history es"
  shows "raises_only reducer_exception (reduce_loop E w r initial_state es)"
  using assms
proof (induction es rule: rev_induct)
  case (snoc e es)
  then have es: "typed_history es" "typed e" by (auto simp: typed_history_def hd_append split: if_splits)
  show ?case
  proof (cases "reduce_loop E w r initial_state es")
    case (Inl x)
    with snoc.IH [OF es(1)] show ?thesis by (simp add: rd.run_snoc raises_only_def)
  next
    case (Inr u)
    with raises_step [of u e E w r] loop_prior_init [OF Inr] es show ?thesis by (simp add: rd.run_snoc)
  qed
qed (simp add: rd.run_Nil raises_Inr)

lemma raises_finish: "raises_only reducer_exception (finish_state E w r now h s)"
proof -
  have "raises_only reducer_exception (expired_now now f)" for f
    unfolding expired_now_def by (intro raise_intros; simp)
  moreover have "raises_only reducer_exception (next_transitions E w stage h b)" for stage b
    unfolding next_transitions_def by (cases h; simp only: recovery_health.case; intro raise_intros)
  ultimately show ?thesis unfolding finish_state_def Let_def by (intro raise_intros)
qed

text \<open>
  C21.  Type safety of the reducer.  Whatever sequence of events is reduced, of any length and in any
  order, as long as every event passed its own validator: when the reducer does not return a state, it
  raises one of its documented exceptions (a reducer or workflow error, a value that does not parse,
  an identifier that is not there) or the missing attribute of a non-formal assignment.  No payload is
  ever of another class than the branch expects, so no assertion and no attribute of a payload fails,
  and an error of the projection of execution facts is always turned into a reducer error.
\<close>

theorem reducer_raises_only_documented_errors:
  assumes "\<forall>e \<in> set es. event_valid E e" and "reduce_events E w es now h = Inl x"
  shows "(\<exists>m. x = ReducerError m) \<or> (\<exists>m. x = WorkflowDefinitionError m) \<or> (\<exists>m. x = PyValueError m)
    \<or> (\<exists>i. x = PyKeyError i) \<or> x = PyAttributeError ''independence_eligible''"
proof -
  have typed: "\<forall>e \<in> set es. typed e" using assms(1) event_valid_typed by blast
  have "raises_only reducer_exception (reduce_events E w es now h)"
    unfolding reduce_events_def
  proof (intro raise_intros raises_finish)
    have checked: "raises_only reducer_exception (context_check E w y)" for y
      unfolding context_check_def by (intro raise_intros; simp)
    let ?Q = "\<lambda>x. reducer_exception x \<or> projection_exception x"
    have "raises_only ?Q (rbind (project_execution_provenance es) (context_check E w))"
      by (rule raises_rbind; rule raises_weaken, rule projection_raises [OF typed] checked, simp)
    then show "raises_only reducer_exception (raise_again from_provenance
        (rbind (project_execution_provenance es) (context_check E w)))"
      by (rule raises_again) (use exceptions_passed_on(3,4) in blast)
  next
    fix u assume "raise_again from_provenance (rbind (project_execution_provenance es) (context_check E w)) = Inr u"
    then have "es \<noteq> []" "ev_event_type (hd es) = Run_initialized"
      by (auto simp: project_execution_provenance_def guard_simps)
    with typed have "typed_history es" by (simp add: typed_history_def)
    then show "raises_only reducer_exception (reduce_loop E w (ev_run_id (hd es)) initial_state es)"
      by (rule raises_loop)
  qed simp_all
  with assms(2) have "reducer_exception x" by (rule raises_onlyD [rotated])
  then show ?thesis by (cases x) (auto simp: reducer_exception_def)
qed

text \<open>A resolution of a decision that nobody has asked for: valid by itself, refused in its place.\<close>

definition unasked :: "canonical_event list" where
  "unasked = [sample_event 0 Run_initialized Parent_control_plane
       (P_run_initialized \<lparr> ri_manifest_sha256 = ''m'' \<rparr>),
     sample_event 1 Human_decision_resolved Parent_control_plane
       (P_human_decision_resolved \<lparr> hv_decision_id = ''d'', hv_choice = ''yes'', hv_rationale = None \<rparr>)]"

theorem reducer_raises_only_documented_errors_witness:
  "list_all (event_valid sample_env) unasked
   \<and> (\<exists>x. reduce_events sample_env PHASE4_WORKFLOW_ID unasked None Healthy = Inl x \<and> x \<noteq> PyAssertionError)"
proof -
  have valid: "\<forall>e \<in> set unasked. event_valid sample_env e"
    by (simp add: unasked_def event_valid_def valid_variant_and_revision_def Let_def sample_event_def
        event_families event_schema_version_def payload_matches_def)
  have loop: "reduce_loop sample_env PHASE4_WORKFLOW_ID ''run'' initial_state unasked
      = Inl (ReducerError ''decision resolution is not allowed'')"
    by (simp add: sample_eval unasked_def)
  have "\<exists>x. reduce_events sample_env PHASE4_WORKFLOW_ID unasked None Healthy = Inl x"
  proof (cases "reduce_events sample_env PHASE4_WORKFLOW_ID unasked None Healthy")
    case (Inr rt)
    then show ?thesis
    proof (rule reduce_eventsE)
      fix s assume "reduce_loop sample_env PHASE4_WORKFLOW_ID (ev_run_id (hd unasked)) initial_state unasked = Inr s"
      then show ?thesis using loop by (simp add: unasked_def sample_event_fields)
    qed
  qed simp
  then obtain x where x: "reduce_events sample_env PHASE4_WORKFLOW_ID unasked None Healthy = Inl x" ..
  have "x \<noteq> PyAssertionError" using reducer_raises_only_documented_errors [OF valid x] by auto
  with x valid show ?thesis by (auto simp: list_all_iff)
qed

end
