(* ===== verification/Initialization.thy ===== *)
theory Initialization
  imports Journal
begin

text \<open>
  The transaction a run may be initialised with (\<^verbatim>\<open>kernel/ledger/journal.py\<close>): its two records
  beside the journal, their validation against the history, and the seal that the next writer of the
  run puts on a transaction whose initialisation was interrupted after its first event.  Every writer
  goes through \<open>locked_replay\<close>.
\<close>

definition INITIALIZATION_PREPARED :: path where
  "INITIALIZATION_PREPARED = [''.initialization-prepared.json'']"

definition INITIALIZATION_COMMITTED :: path where
  "INITIALIZATION_COMMITTED = [''.initialization-committed.json'']"

definition INITIALIZATION_STAGING :: path where
  "INITIALIZATION_STAGING = [''.initialization-staging'']"

section \<open>Reading a record\<close>

definition lower_hex :: "char \<Rightarrow> bool" where
  "lower_hex c = (is_digit c \<or> 97 \<le> code c \<and> code c \<le> 102)"

definition hex_digest :: "string \<Rightarrow> bool" where
  "hex_digest s = (length s = 64 \<and> list_all lower_hex s)"

record initialization_record =
  inr_run_id :: ident
  inr_request_sha256 :: sha256
  inr_manifest_sha256 :: sha256
  inr_initial_event_sha256 :: sha256

definition initialization_record_of :: "json \<Rightarrow> initialization_record option" where
  "initialization_record_of v =
    (case v of
       JObj d \<Rightarrow>
         if dkeys d = {''schema_version'', ''run_id'', ''request_sha256'', ''manifest_sha256'',
              ''initial_event_sha256''}
            \<and> dget d ''schema_version'' = Some (JStr ''arw.initialization-transaction.v1'')
         then (case (dget d ''run_id'', dget d ''request_sha256'', dget d ''manifest_sha256'',
                     dget d ''initial_event_sha256'') of
                 (Some (JStr i), Some (JStr q), Some (JStr m), Some (JStr e)) \<Rightarrow>
                   if list_all hex_digest [q, m, e]
                   then Some \<lparr> inr_run_id = i, inr_request_sha256 = q, inr_manifest_sha256 = m,
                               inr_initial_event_sha256 = e \<rparr>
                   else None
               | _ \<Rightarrow> None)
         else None
     | _ \<Rightarrow> None)"

definition read_initialization_record ::
  "store_env \<Rightarrow> fs \<Rightarrow> path \<Rightarrow> (py_error, initialization_record \<times> string) result" where
  "read_initialization_record S fs p =
     require_some (read_bytes fs p) (JournalError ''initialization transaction is unsafe'') (\<lambda>raw.
     guard (2048 < length raw) (JournalError ''initialization transaction exceeds its budget'')
    (case strict_json_loads (se_float S) raw of
       Inl _ \<Rightarrow> Inl (JournalError ''initialization transaction is malformed'')
     | Inr v \<Rightarrow>
         require_some (initialization_record_of v)
           (JournalError ''initialization transaction is malformed'') (\<lambda>r.
         guard (canonical_json_bytes v \<noteq> raw)
           (JournalError ''initialization transaction is malformed'') (Inr (r, raw)))))"

section \<open>Publishing a record\<close>

text \<open>
  \<open>INITIALIZATION_FRAGMENT_PATTERN\<close>: what a killed writer may leave in the staging directory.
\<close>

definition fragment_name :: "string \<Rightarrow> bool" where
  "fragment_name s =
     list_ex (\<lambda>stem. let digest = take 32 (drop (length stem) s) in
         length digest = 32 \<and> list_all lower_hex digest \<and> s = stem @ digest @ ''.tmp'')
       [''.initialization-prepared.json.'', ''.initialization-committed.json.'']"

definition initialization_staging :: "bool \<Rightarrow> fs \<Rightarrow> (py_error, fs) result" where
  "initialization_staging create fs =
    (let d = INITIALIZATION_STAGING in
     guard (is_link fs d) (JournalError ''initialization staging path is unsafe'')
    (if \<not> lexists fs d \<and> \<not> create then Inr fs
     else let fs = (if lexists fs d then fs else dset d Dir fs) in
       guard (\<not> is_dir fs d) (JournalError ''initialization staging path is unsafe'')
      (guard (list_ex (\<lambda>n. \<not> is_file fs (d @ [n]) \<or> \<not> fragment_name n) (children fs d))
         (JournalError ''initialization staging contains unsafe material'') (Inr fs))))"

text \<open>
  The record is written to a fresh name in the staging directory and linked to its place, which is
  free at every call; the name in the staging directory is removed again.
\<close>

definition publish_initialization_record :: "fs \<Rightarrow> path \<Rightarrow> string \<Rightarrow> (py_error, fs) result" where
  "publish_initialization_record fs p value =
     rbind (initialization_staging True fs) (\<lambda>fs. Inr (dset p (File value) fs))"

section \<open>The seal\<close>

definition validate_initialization_transaction ::
  "store_env \<Rightarrow> fs \<Rightarrow> replay_state \<Rightarrow> (py_error, string option) result" where
  "validate_initialization_transaction S fs st =
    (if \<not> lexists fs INITIALIZATION_PREPARED then
       guard (lexists fs INITIALIZATION_COMMITTED)
         (JournalError ''initialization completion has no prepared transaction'') (Inr None)
     else
       rbind (read_initialization_record S fs INITIALIZATION_PREPARED) (\<lambda>(r, raw).
       guard (ry_run_id st \<noteq> inr_run_id r \<or> ry_events st = []
            \<or> ev_event_sha256 (hd (ry_events st)) \<noteq> inr_initial_event_sha256 r
            \<or> map_option (hash S) (read_bytes fs MANIFEST_NAME) \<noteq> Some (inr_manifest_sha256 r))
         (JournalError ''initialization transaction differs from canonical history'')
      (if \<not> lexists fs INITIALIZATION_COMMITTED then Inr (Some raw)
       else rbind (read_initialization_record S fs INITIALIZATION_COMMITTED) (\<lambda>(_, raw').
         guard (raw' \<noteq> raw) (JournalError ''initialization completion differs from prepared transaction'')
           (Inr (Some raw))))))"

definition seal_initialization :: "store_env \<Rightarrow> fs \<Rightarrow> replay_state \<Rightarrow> (py_error, fs) result" where
  "seal_initialization S fs st =
     rbind (validate_initialization_transaction S fs st) (\<lambda>raw.
     case raw of
       None \<Rightarrow> Inr fs
     | Some b \<Rightarrow>
         if lexists fs INITIALIZATION_COMMITTED then Inr fs
         else publish_initialization_record fs INITIALIZATION_COMMITTED b)"

definition locked_replay :: "store_env \<Rightarrow> fs \<Rightarrow> (py_error, fs \<times> replay_state) result" where
  "locked_replay S fs =
     rbind (replay_unlocked S fs None) (\<lambda>st.
     rbind (seal_initialization S fs st) (\<lambda>fs'. Inr (fs', st)))"

end
