(* ===== verification/Runtime.thy ===== *)
theory Runtime
  imports Initialization Journal_Write
begin

text \<open>
  The command service of a run (\<^verbatim>\<open>kernel/execution/runtime.py\<close>), the only writer of its journal: the
  transaction \<open>_execute\<close> every command goes through, the commands themselves, and the recovery of a
  damaged journal.  A command runs under the writer lock from its replay to its return; it returns the
  files as they are then, also when it raises.
\<close>

section \<open>Outcomes\<close>

record rejection =
  rj_code :: ident
  rj_message :: string
  rj_run_id :: ident
  rj_accepted_revision :: int
  rj_ledger_head_sha256 :: sha256
  rj_current_passport_sha256 :: "sha256 option"
  rj_legal_next_transitions :: "ident list"
  rj_recovery_health :: recovery_health

record command_outcome =
  co_accepted :: bool
  co_state :: runtime_state
  co_event :: "canonical_event option"
  co_rejection :: "rejection option"

definition accepted_or_rejected :: "command_outcome \<Rightarrow> (string, command_outcome) result" where
  "accepted_or_rejected c =
     guard (co_accepted c \<and> (co_event c = None \<or> co_rejection c \<noteq> None))
       ''accepted outcomes require only an event''
    (guard (\<not> co_accepted c \<and> (co_event c \<noteq> None \<or> co_rejection c = None))
       ''rejected outcomes require only a rejection'' (Inr c))"

definition rejection_of :: "runtime_state \<Rightarrow> ident \<Rightarrow> string \<Rightarrow> command_outcome" where
  "rejection_of state c message =
     \<lparr> co_accepted = False, co_state = state, co_event = None,
       co_rejection = Some
         \<lparr> rj_code = c, rj_message = message, rj_run_id = rt_run_id state,
           rj_accepted_revision = rd_revision (rt_locals state),
           rj_ledger_head_sha256 = rd_head (rt_locals state),
           rj_current_passport_sha256 = rd_current_passport (rt_locals state),
           rj_legal_next_transitions = rt_legal_next_transitions state,
           rj_recovery_health = rt_recovery_health state \<rparr> \<rparr>"

definition acceptance_of :: "runtime_state \<Rightarrow> canonical_event \<Rightarrow> command_outcome" where
  "acceptance_of state e =
     \<lparr> co_accepted = True, co_state = state, co_event = Some e, co_rejection = None \<rparr>"

text \<open>
  \<open>accepted_state != reduced\<close> compares the fields of \<open>RuntimeState\<close>; the other locals of the reducer's
  loop are not among them.
\<close>

definition same_state :: "runtime_state \<Rightarrow> runtime_state \<Rightarrow> bool" where
  "same_state a b =
    (a\<lparr>rt_locals := initial_state\<rparr> = b\<lparr>rt_locals := initial_state\<rparr>
   \<and> (let s = rt_locals a; t = rt_locals b in
        rd_stage s = rd_stage t \<and> rd_revision s = rd_revision t \<and> rd_head s = rd_head t
      \<and> rd_current_passport s = rd_current_passport t \<and> rd_artifacts s = rd_artifacts t
      \<and> rd_passports s = rd_passports t \<and> rd_consumed_passports s = rd_consumed_passports t
      \<and> rd_execution_mode s = rd_execution_mode t
      \<and> rd_execution_provenance s = rd_execution_provenance t
      \<and> rd_role_catalog_sha256 s = rd_role_catalog_sha256 t \<and> rd_policy_sha256 s = rd_policy_sha256 t
      \<and> rd_dag_sha256 s = rd_dag_sha256 t \<and> rd_assignment_history s = rd_assignment_history t
      \<and> rd_attempt_history s = rd_attempt_history t \<and> rd_panel_reports s = rd_panel_reports t
      \<and> rd_panel_syntheses s = rd_panel_syntheses t \<and> rd_panel_manifests s = rd_panel_manifests t
      \<and> rd_host_identities s = rd_host_identities t \<and> rd_human_authorities s = rd_human_authorities t
      \<and> rd_blocker_releases s = rd_blocker_releases t
      \<and> rd_canonical_event_sha256 s = rd_canonical_event_sha256 t
      \<and> rd_hook_observations s = rd_hook_observations t \<and> rd_human_decisions s = rd_human_decisions t))"

section \<open>The transaction\<close>

text \<open>
  What a command brings to the transaction.  Its check sees the state before the event and may publish
  a manifest; what its closures share (\<open>digest_holder\<close>, \<open>transition_holder\<close>) is the value it passes on.
\<close>

datatype 'h verdict = Refuse ident string | Pass 'h

record 'h command =
  cmd_type :: event_type
  cmd_check :: "fs \<Rightarrow> runtime_state \<Rightarrow> replay_state \<Rightarrow> (py_error, fs \<times> 'h verdict) result"
  cmd_payload :: "'h \<Rightarrow> runtime_state \<Rightarrow> replay_state \<Rightarrow> (py_error, payload) result"
  cmd_rollback :: "'h \<Rightarrow> fs \<Rightarrow> fs"
  cmd_after :: "'h \<Rightarrow> runtime_state \<Rightarrow> canonical_event \<Rightarrow> fs \<Rightarrow> fs"

type_synonym 'a step = "(py_error, 'a) result \<times> fs"

definition on_files :: "fs \<Rightarrow> (py_error, 'a) result \<Rightarrow> ('a \<Rightarrow> 'b step) \<Rightarrow> 'b step" where
  "on_files fs r k = (case r of Inl x \<Rightarrow> (Inl x, fs) | Inr a \<Rightarrow> k a)"

definition reject :: "fs \<Rightarrow> runtime_state \<Rightarrow> ident \<Rightarrow> string \<Rightarrow> command_outcome step" where
  "reject fs state c message = (Inr (rejection_of state c message), fs)"

definition message_or :: "string option \<Rightarrow> string \<Rightarrow> string" where
  "message_or m d = (if falsy m then d else the m)"

text \<open>The checks before the command's own, in their order; the answer is the rejection.\<close>

definition admission ::
  "store_env \<Rightarrow> fs \<Rightarrow> event_type \<Rightarrow> 'a command_request_scheme \<Rightarrow> replay_state \<Rightarrow> runtime_state
    \<Rightarrow> (py_error, (ident \<times> string) option) result" where
  "admission S fs t q st state =
    (if cr_run_id q \<noteq> ry_run_id st then Inr (Some (''run-id-mismatch'', ''request run identity differs''))
     else if \<not> ry_segmented st then
       Inr (Some (''legacy-run-read-only'', ''Phase 2 mutation requires a segmented journal''))
     else if ry_recovery_health st \<noteq> Healthy then
       Inr (Some (if ry_recovery_health st = Recoverable_tail then ''recovery-required'' else ''recovery-blocked'',
         message_or (ry_recovery_message st) ''journal recovery health is not healthy''))
     else rbind (validate_accepted_events S fs [] (ry_events st)) (\<lambda>_.
       if cr_event_id q \<in> ry_event_ids st then
         Inr (Some (''duplicate-event-id'', ''event ID was already accepted''))
       else if cr_command_id q \<in> ry_command_ids st then
         Inr (Some (''duplicate-command-id'', ''command ID was already accepted''))
       else if cr_expected_revision q \<noteq> ry_revision st then
         Inr (Some (''stale-revision'', ''expected revision '' @ int_str (cr_expected_revision q)
           @ '', accepted '' @ int_str (ry_revision st)))
       else rbind (event_category t) (\<lambda>category.
         if \<not> actor_can_commit (cr_actor_role q) category then
           Inr (Some (''unauthorized-actor'', ''actor role '' @ py_repr (role_name (cr_actor_role q))
             @ '' cannot commit '' @ category_name category))
         else if category = Cat_lifecycle \<and> list_ex (\<lambda>b. bl_code b = ''evidence-expired'') (rt_blockers state) then
           Inr (Some (''evidence-expired'', ''expired Passport evidence blocks transitions''))
         else Inr None)))"

text \<open>
  Appending with the files in both cases: an event that was written and then refused by the replay
  stays in the segment.
\<close>

definition append_event :: "store_env \<Rightarrow> fs \<Rightarrow> replay_state \<Rightarrow> canonical_event \<Rightarrow> replay_state step" where
  "append_event S fs st e =
    (case append_runtime_event_unlocked S fs st e of
       Inr (fs', st') \<Rightarrow> (Inr st', fs')
     | Inl x \<Rightarrow> (Inl x,
         if ry_segments st \<noteq> [] \<and> ry_segmented st \<and> ry_recovery_health st = Healthy \<and> extends_tip st e
         then (case append_bytes fs (sg_path (last (ry_segments st))) (event_bytes S e) of
                 Inr fs' \<Rightarrow> fs' | Inl _ \<Rightarrow> fs)
         else fs))"

text \<open>From the candidate event to the outcome; \<open>h\<close> is what the command's check passed on.\<close>

definition commit ::
  "store_env \<Rightarrow> fs \<Rightarrow> 'h command \<Rightarrow> 'h \<Rightarrow> clock option \<Rightarrow> replay_state \<Rightarrow> canonical_event
    \<Rightarrow> runtime_state \<Rightarrow> command_outcome step" where
  "commit S fs c h now st e reduced =
    (case append_event S fs st e of
       (Inl x, fs') \<Rightarrow> (Inl x, case x of JournalError _ \<Rightarrow> cmd_rollback c h fs' | _ \<Rightarrow> fs')
     | (Inr st', fs') \<Rightarrow>
         on_files fs' (reduce_events (se_env S) (ry_workflow_definition_id st') (ry_events st') now Healthy)
          (\<lambda>accepted.
         if \<not> same_state accepted reduced
         then (Inl (JournalError ''post-append reducer state differs from validated candidate''), fs')
         else (Inr (acceptance_of accepted e), cmd_after c h accepted e fs')))"

definition execute ::
  "store_env \<Rightarrow> fs \<Rightarrow> 'a command_request_scheme \<Rightarrow> 'h command \<Rightarrow> command_outcome step" where
  "execute S fs q c =
     on_files fs (parse_utc_or_raise (cr_occurred_at q)) (\<lambda>instant.
     on_files fs (locked_replay S fs) (\<lambda>(fs, st).
     let now = Some (instant, 0) in
     on_files fs (reduce_events (se_env S) (ry_workflow_definition_id st) (ry_events st) now
         (ry_recovery_health st)) (\<lambda>state.
     on_files fs (admission S fs (cmd_type c) q st state) (\<lambda>refusal.
     case refusal of Some (reason, message) \<Rightarrow> reject fs state reason message | None \<Rightarrow>
     on_files fs (cmd_check c fs state st) (\<lambda>(fs, verdict).
     case verdict of Refuse reason message \<Rightarrow> reject fs state reason message | Pass h \<Rightarrow>
     on_files fs (cmd_payload c h state st) (\<lambda>payload.
     on_files fs (build_runtime_event S st (cmd_type c) q payload) (\<lambda>candidate.
     case reduce_events (se_env S) (ry_workflow_definition_id st) (ry_events st @ [candidate]) now Healthy of
       Inr reduced \<Rightarrow> commit S fs c h now st candidate reduced
     | Inl (ReducerError m) \<Rightarrow> reject (cmd_rollback c h fs) state ''invalid-command'' m
     | Inl (WorkflowDefinitionError m) \<Rightarrow> reject (cmd_rollback c h fs) state ''invalid-command'' m
     | Inl x \<Rightarrow> (Inl x, fs))))))))"

text \<open>A command that leaves the files alone: it checks, and passes a value on.\<close>

definition plain_command ::
  "event_type \<Rightarrow> (fs \<Rightarrow> runtime_state \<Rightarrow> replay_state \<Rightarrow> (py_error, 'h verdict) result)
    \<Rightarrow> ('h \<Rightarrow> runtime_state \<Rightarrow> replay_state \<Rightarrow> payload) \<Rightarrow> env \<Rightarrow> 'h command" where
  "plain_command t check payload E =
     \<lparr> cmd_type = t,
       cmd_check = (\<lambda>fs state st. rbind (check fs state st) (\<lambda>v. Inr (fs, v))),
       cmd_payload = (\<lambda>h state st. let p = payload h state st in
         case payload_valid E p of Inl m \<Rightarrow> Inl (PyValueError m) | Inr _ \<Rightarrow> Inr p),
       cmd_rollback = (\<lambda>_ fs. fs), cmd_after = (\<lambda>_ _ _ fs. fs) \<rparr>"

end
