(* ===== verification/Commands.thy ===== *)
theory Commands
  imports Runtime
begin

text \<open>
  The commands of the service (\<^verbatim>\<open>RuntimeCommandService\<close>): each is the transaction of \<open>Runtime\<close> with
  the command's own check and payload.  Accepting an artifact, whose check reads the writing,
  submission and narrative services, is not among them.
\<close>

section \<open>Reading\<close>

definition read_state :: "store_env \<Rightarrow> fs \<Rightarrow> clock option \<Rightarrow> (py_error, runtime_state) result" where
  "read_state S fs now =
     rbind (replay_unlocked S fs None) (\<lambda>st.
     rbind (validate_accepted_events S fs [] (ry_events st)) (\<lambda>_.
     reduce_events (se_env S) (ry_workflow_definition_id st) (ry_events st) now (ry_recovery_health st)))"

definition read_execution_provenance ::
  "store_env \<Rightarrow> fs \<Rightarrow> (py_error, execution_provenance_state) result" where
  "read_execution_provenance S fs =
     rbind (replay_unlocked S fs None) (\<lambda>st.
     guard (ry_recovery_health st \<noteq> Healthy)
       (JournalError (message_or (ry_recovery_message st) ''execution provenance replay is blocked''))
    (rbind (reduce_events (se_env S) (ry_workflow_definition_id st) (ry_events st) None Healthy) (\<lambda>_.
     project_execution_provenance (ry_events st))))"

section \<open>Transitions, decisions and attempts\<close>

record transition_request = command_request +
  trq_transition_id :: ident
  trq_from_stage :: ident

definition transition_check ::
  "store_env \<Rightarrow> transition_request \<Rightarrow> (runtime_state \<Rightarrow> replay_state \<Rightarrow> (ident \<times> string) option)
    \<Rightarrow> runtime_state \<Rightarrow> replay_state \<Rightarrow> transition_definition verdict" where
  "transition_check S q additional state st =
    (if rt_blockers state \<noteq> [] then
       Refuse ''runtime-blocked'' ''accepted blockers prevent lifecycle transitions''
     else if trq_from_stage q \<noteq> rd_stage (rt_locals state) then
       Refuse ''stale-stage'' ''request from-stage differs from accepted stage''
     else case require_transition (hash S) (rt_workflow_definition_id state) (rd_stage (rt_locals state))
            (trq_transition_id q) of
         Inl x \<Rightarrow> Refuse ''invalid-transition'' (error_text x)
       | Inr t \<Rightarrow> (case additional state st of
             Some (reason, m) \<Rightarrow> Refuse reason m | None \<Rightarrow> Pass t))"

definition execute_transition ::
  "store_env \<Rightarrow> fs \<Rightarrow> transition_request \<Rightarrow> (runtime_state \<Rightarrow> replay_state \<Rightarrow> (ident \<times> string) option)
    \<Rightarrow> command_outcome step" where
  "execute_transition S fs q additional = execute S fs q
    (plain_command Lifecycle_transitioned
      (\<lambda>_ state st. Inr (transition_check S q additional state st))
      (\<lambda>t state _. P_lifecycle_transitioned
         \<lparr> lt_transition_id = td_transition_id t, lt_from_stage = rd_stage (rt_locals state),
           lt_to_stage = td_to_stage t \<rparr>) (se_env S))"

record decision_request = command_request +
  drq_decision_id :: ident
  drq_blocker_code :: ident
  drq_allowed_choices :: "ident list"
  drq_rationale_required :: bool
  drq_source_event_ids :: "ident list"
  drq_unlock_transitions :: "ident list"

definition request_decision :: "store_env \<Rightarrow> fs \<Rightarrow> decision_request \<Rightarrow> command_outcome step" where
  "request_decision S fs q = execute S fs q
    (plain_command Human_decision_requested
      (\<lambda>_ state _. Inr
        (if list_ex (\<lambda>d. pds_decision_id d = drq_decision_id q) (rt_pending_human_decisions state)
         then Refuse ''duplicate-decision'' ''decision ID is already pending''
         else if \<not> set (drq_unlock_transitions q) \<subseteq> set (rt_legal_next_transitions state)
         then Refuse ''invalid-decision-transition'' ''decision names a non-legal transition''
         else Pass ()))
      (\<lambda>_ state _. P_human_decision_requested
        \<lparr> hq_decision_id = drq_decision_id q, hq_blocker_code = drq_blocker_code q,
          hq_starting_revision = rd_revision (rt_locals state), hq_allowed_choices = drq_allowed_choices q,
          hq_rationale_required = drq_rationale_required q, hq_source_event_ids = drq_source_event_ids q,
          hq_unlock_transitions = drq_unlock_transitions q \<rparr>) (se_env S))"

record resolve_request = command_request +
  rrq_decision_id :: ident
  rrq_choice :: ident
  rrq_rationale :: "string option"

definition resolution_check :: "resolve_request \<Rightarrow> runtime_state \<Rightarrow> unit verdict" where
  "resolution_check q state =
    (case List.find (\<lambda>d. pds_decision_id d = rrq_decision_id q) (rt_pending_human_decisions state) of
       None \<Rightarrow> Refuse ''unknown-decision'' ''decision ID is not pending''
     | Some d \<Rightarrow>
         if rrq_choice q \<notin> set (pds_allowed_choices d)
         then Refuse ''invalid-decision-choice'' ''choice is not allowed''
         else if pds_rationale_required d \<and> falsy (rrq_rationale q)
         then Refuse ''decision-rationale-required'' ''decision requires a rationale''
         else Pass ())"

definition resolve_decision :: "store_env \<Rightarrow> fs \<Rightarrow> resolve_request \<Rightarrow> command_outcome step" where
  "resolve_decision S fs q = execute S fs q
    (plain_command Human_decision_resolved (\<lambda>_ state _. Inr (resolution_check q state))
      (\<lambda>_ _ _. P_human_decision_resolved
        \<lparr> hv_decision_id = rrq_decision_id q, hv_choice = rrq_choice q,
          hv_rationale = rrq_rationale q \<rparr>) (se_env S))"

record attempt_request = command_request +
  arq_attempt_id :: ident
  arq_base_revision :: int
  arq_consumed_sha256 :: "sha256 list"

definition start_attempt :: "store_env \<Rightarrow> fs \<Rightarrow> attempt_request \<Rightarrow> command_outcome step" where
  "start_attempt S fs q = execute S fs q
    (plain_command Attempt_started
      (\<lambda>_ state _. Inr
        (if arq_base_revision q \<noteq> rd_revision (rt_locals state)
         then Refuse ''stale-attempt-base'' ''attempt base revision is not current''
         else if list_ex (\<lambda>a. aat_attempt_id a = arq_attempt_id q) (rt_active_attempts state)
         then Refuse ''duplicate-attempt'' ''attempt ID is already active''
         else if \<not> set (arq_consumed_sha256 q) \<subseteq> known_hashes state
         then Refuse ''stale-consumed-input'' ''attempt consumes an unknown or stale hash''
         else Pass ()))
      (\<lambda>_ _ _. P_attempt_started
        \<lparr> ats_attempt_id = arq_attempt_id q, ats_base_revision = arq_base_revision q,
          ats_consumed_sha256 = arq_consumed_sha256 q \<rparr>) (se_env S))"

record close_request = command_request +
  clq_attempt_id :: ident
  clq_outcome :: close_outcome
  clq_proposal_sha256 :: "sha256 option"

definition close_attempt :: "store_env \<Rightarrow> fs \<Rightarrow> close_request \<Rightarrow> command_outcome step" where
  "close_attempt S fs q = execute S fs q
    (plain_command Attempt_closed
      (\<lambda>_ state _. Inr
        (if \<not> list_ex (\<lambda>a. aat_attempt_id a = clq_attempt_id q) (rt_active_attempts state)
         then Refuse ''unknown-attempt'' ''attempt ID is not active'' else Pass ()))
      (\<lambda>_ _ _. P_attempt_closed
        \<lparr> atc_attempt_id = clq_attempt_id q, atc_outcome = clq_outcome q,
          atc_proposal_sha256 = clq_proposal_sha256 q \<rparr>) (se_env S))"

section \<open>Events authored elsewhere\<close>

definition append_phase4_event ::
  "store_env \<Rightarrow> fs \<Rightarrow> 'a command_request_scheme \<Rightarrow> event_type \<Rightarrow> payload
    \<Rightarrow> (runtime_state \<Rightarrow> replay_state \<Rightarrow> (ident \<times> string) option) \<Rightarrow> command_outcome step" where
  "append_phase4_event S fs q t p prevalidate =
     on_files fs (guard (t \<notin> set PHASE4_EVENT_TYPES)
         (PyValueError (''not a registered Phase 4 event: '' @ event_name t))
       (guard (\<not> payload_matches t p) (PyTypeError (event_name t @ '' requires another payload type'')) (Inr ())))
      (\<lambda>_. execute S fs q (plain_command t
        (\<lambda>_ state st. Inr (case prevalidate state st of Some (reason, m) \<Rightarrow> Refuse reason m | None \<Rightarrow> Pass ()))
        (\<lambda>_ _ _. p) (se_env S)))"

definition append_experiment_provenance ::
  "store_env \<Rightarrow> fs \<Rightarrow> 'a command_request_scheme \<Rightarrow> ident \<Rightarrow> ident \<Rightarrow> sha256 \<Rightarrow> command_outcome step" where
  "append_experiment_provenance S fs q provenance_id experiment_id provenance_sha256 =
     append_phase4_event S fs q Experiment_provenance_accepted
       (P_experiment_provenance \<lparr> epa_provenance_id = provenance_id, epa_experiment_id = experiment_id,
          epa_provenance_sha256 = provenance_sha256 \<rparr>) (\<lambda>_ _. None)"

text \<open>\<open>succession\<close> stands for \<open>validate_contract_succession\<close> on the given contract.\<close>

definition append_experiment_contract ::
  "store_env \<Rightarrow> fs \<Rightarrow> 'a command_request_scheme \<Rightarrow> experiment_contract_accepted
    \<Rightarrow> (canonical_event list \<Rightarrow> (ident \<times> string) option) \<Rightarrow> command_outcome step" where
  "append_experiment_contract S fs q c succession =
     append_phase4_event S fs q Experiment_contract_accepted (P_experiment_contract c)
       (\<lambda>_ st. succession (ry_events st))"

text \<open>
  \<open>_append_execution_provenance\<close>: the payload is validated before the lock is taken.
\<close>

definition append_execution_provenance ::
  "store_env \<Rightarrow> fs \<Rightarrow> 'a command_request_scheme \<Rightarrow> event_type \<Rightarrow> payload
    \<Rightarrow> (fs \<Rightarrow> runtime_state \<Rightarrow> replay_state \<Rightarrow> unit verdict) \<Rightarrow> command_outcome step" where
  "append_execution_provenance S fs q t p prevalidate =
     on_files fs (case payload_valid (se_env S) p of Inl m \<Rightarrow> Inl (PyValueError m) | Inr _ \<Rightarrow> Inr ())
      (\<lambda>_. execute S fs q (plain_command t (\<lambda>fs state st. Inr (prevalidate fs state st))
        (\<lambda>_ _ _. p) (se_env S)))"

definition accept_execution_context ::
  "store_env \<Rightarrow> fs \<Rightarrow> command_request \<Rightarrow> execution_context_accepted \<Rightarrow> command_outcome step" where
  "accept_execution_context S fs q p =
     append_execution_provenance S fs q Ep_context_accepted (P_context p) (\<lambda>_ _ _. Pass ())"

definition accept_dataset_metadata ::
  "store_env \<Rightarrow> fs \<Rightarrow> command_request \<Rightarrow> dataset_metadata_accepted \<Rightarrow> command_outcome step" where
  "accept_dataset_metadata S fs q p =
     append_execution_provenance S fs q Ep_dataset_metadata_accepted (P_dataset_metadata p) (\<lambda>_ _ _. Pass ())"

definition start_execution_action ::
  "store_env \<Rightarrow> fs \<Rightarrow> command_request \<Rightarrow> execution_action_started \<Rightarrow> command_outcome step" where
  "start_execution_action S fs q p =
     append_execution_provenance S fs q Ep_action_started (P_action_started p) (\<lambda>_ _ _. Pass ())"

definition finish_execution_action ::
  "store_env \<Rightarrow> fs \<Rightarrow> command_request \<Rightarrow> execution_action_finished \<Rightarrow> command_outcome step" where
  "finish_execution_action S fs q p =
     append_execution_provenance S fs q Ep_action_finished (P_action_finished p) (\<lambda>_ _ _. Pass ())"

text \<open>
  The check of \<open>bind_execution_artifact\<close>: where the content must lie and whether it does.  The
  manifest on disk is the one the replay under the same lock has read.
\<close>

definition binding_source ::
  "store_env \<Rightarrow> fs \<Rightarrow> command_request \<Rightarrow> execution_artifact_bound \<Rightarrow> canonical_event
    \<Rightarrow> (string, string) result" where
  "binding_source S fs q b source =
    (case bd_source_kind b of
       Src_run_input \<Rightarrow>
         (case read_manifest S fs of
            Inl x \<Rightarrow> Inl (error_text x)
          | Inr (m, _) \<Rightarrow>
              guard (mf_run_id m \<noteq> cr_run_id q \<or> ev_event_type source \<noteq> Run_initialized
                  \<or> imi_path (mf_immutable_input m) \<noteq> bd_relative_path b
                  \<or> imi_sha256 (mf_immutable_input m) \<noteq> bd_content_sha256 b
                  \<or> map_option ri_manifest_sha256 (as_run_initialized (ev_payload source))
                      \<noteq> bd_source_manifest_sha256 b)
                ''run input differs from immutable manifest'' (Inr (bd_relative_path b)))
     | Src_proposal \<Rightarrow>
         guard (ev_event_type source \<noteq> Proposal_accepted) ''proposal was not accepted''
           (Inr (attempt_result_path (bd_attempt_id b) (bd_relative_path b)))
     | Src_artifact \<Rightarrow>
         guard (ev_event_type source \<noteq> Artifact_accepted) ''artifact was not accepted''
        (require_some (bd_source_manifest_sha256 b) ''manifest path is missing or unsafe'' (\<lambda>d.
         rbind (load_artifact_manifest S fs d) (\<lambda>a.
         guard (am_run_id a \<noteq> cr_run_id q \<or> am_content_path a \<noteq> bd_relative_path b
              \<or> am_content_sha256 a \<noteq> bd_content_sha256 b)
           ''artifact differs from accepted manifest'' (Inr (bd_relative_path b))))))"

definition binding_check ::
  "store_env \<Rightarrow> command_request \<Rightarrow> execution_artifact_bound \<Rightarrow> fs \<Rightarrow> replay_state \<Rightarrow> (string, unit) result" where
  "binding_check S q b fs st =
    (case List.find (\<lambda>e. ev_event_id e = bd_source_event_id b) (ry_events st) of
       None \<Rightarrow> Inl ''source event is missing or stale''
     | Some source \<Rightarrow>
         guard (ev_event_sha256 source \<noteq> bd_source_event_sha256 b) ''source event is missing or stale''
        (rbind (binding_source S fs q b source) (\<lambda>relative.
         rbind (validate_content_file S fs relative (bd_content_sha256 b) (Some (bd_byte_count b))) (\<lambda>raw.
         guard (int (length raw) \<noteq> bd_byte_count b)
           ''artifact byte count differs from accepted source'' (Inr ())))))"

definition bind_execution_artifact ::
  "store_env \<Rightarrow> fs \<Rightarrow> command_request \<Rightarrow> execution_artifact_bound \<Rightarrow> command_outcome step" where
  "bind_execution_artifact S fs q b =
     append_execution_provenance S fs q Ep_artifact_bound (P_artifact_bound b)
       (\<lambda>fs _ st. case binding_check S q b fs st of Inl m \<Rightarrow> Refuse ''invalid-binding'' m | Inr _ \<Rightarrow> Pass ())"

section \<open>Checkpoints\<close>

record checkpoint_request = command_request +
  ckq_checkpoint_kind :: checkpoint_kind
  ckq_fresh_until :: "timestamp option"

definition coherent_boundary ::
  "store_env \<Rightarrow> checkpoint_kind \<Rightarrow> runtime_state \<Rightarrow> canonical_event list \<Rightarrow> (py_error, bool) result" where
  "coherent_boundary S kind state es =
    (case kind of
       Ck_explicit \<Rightarrow> Inr True
     | Ck_stage_handoff \<Rightarrow>
         (if es = [] \<or> ev_event_type (last es) \<noteq> Lifecycle_transitioned then Inr False
          else case as_lifecycle_transitioned (ev_payload (last es)) of
            None \<Rightarrow> Inr False
          | Some p \<Rightarrow>
              rbind (require_transition (hash S) (rt_workflow_definition_id state) (lt_from_stage p)
                      (lt_transition_id p)) (\<lambda>t. Inr (td_coherent_checkpoint t)))
     | Ck_human_decision \<Rightarrow> Inr (es \<noteq> [] \<and> ev_event_type (last es) = Human_decision_resolved)
     | Ck_recovery \<Rightarrow> Inr (es \<noteq> [] \<and> ev_event_type (last es) = Recovery_completed
         \<and> as_recovery_completed (ev_payload (last es)) \<noteq> None))"

definition passport_of ::
  "checkpoint_request \<Rightarrow> runtime_state \<Rightarrow> workflow_definition \<Rightarrow> material_passport" where
  "passport_of q state w = (let s = rt_locals state in
     \<lparr> mp_schema_version = ''1.0.0'', mp_run_id = rt_run_id state,
       mp_workflow_definition_id = rt_workflow_definition_id state,
       mp_workflow_definition_sha256 = wf_sha256 w, mp_based_on_revision = rd_revision s,
       mp_ledger_head_sha256 = rd_head s, mp_stage = rd_stage s,
       mp_checkpoint_kind = ckq_checkpoint_kind q, mp_parent_passport_sha256 = rd_current_passport s,
       mp_supersedes_passport_sha256 = rd_current_passport s,
       mp_accepted_artifact_manifest_sha256 = rd_artifacts s,
       mp_pending_human_decisions = map decision_snapshot (rt_pending_human_decisions state),
       mp_active_attempts = map attempt_snapshot (rt_active_attempts state),
       mp_fresh_until = ckq_fresh_until q, mp_created_at = cr_occurred_at q,
       mp_created_by = cr_actor_id q \<rparr>)"

text \<open>\<open>_discard_orphan\<close>; what is not a file is left, with a warning.\<close>

definition discard_orphan :: "path \<Rightarrow> sha256 \<Rightarrow> fs \<Rightarrow> fs" where
  "discard_orphan store digest fs =
    (let p = store @ [json_name digest] in if is_dir fs p then fs else dpop p fs)"

text \<open>
  The Passport is installed during the check; the digest is what the check passes on.  The pointer
  is written after the event and may fail without the command failing.
\<close>

definition checkpoint_command :: "store_env \<Rightarrow> checkpoint_request \<Rightarrow> sha256 command" where
  "checkpoint_command S q =
     \<lparr> cmd_type = Passport_accepted,
       cmd_check = (\<lambda>fs state st.
         rbind (coherent_boundary S (ckq_checkpoint_kind q) state (ry_events st)) (\<lambda>coherent.
         if \<not> coherent then
           Inr (fs, Refuse ''incoherent-checkpoint'' ''checkpoint kind does not match the boundary'')
         else rbind (require_workflow (hash S) (rt_workflow_definition_id state)) (\<lambda>w.
           case install_material_passport S fs (passport_of q state w) of
             Inl m \<Rightarrow> Inr (fs, Refuse ''passport-manifest-invalid'' m)
           | Inr (fs', digest) \<Rightarrow> Inr (fs', Pass digest)))),
       cmd_payload = (\<lambda>digest state _. let s = rt_locals state in Inr (P_passport_accepted
         \<lparr> pp_passport_sha256 = digest, pp_parent_passport_sha256 = rd_current_passport s,
           pp_supersedes_passport_sha256 = rd_current_passport s,
           pp_checkpoint_kind = ckq_checkpoint_kind q, pp_based_on_revision = rd_revision s,
           pp_stage = rd_stage s, pp_fresh_until = ckq_fresh_until q \<rparr>)),
       cmd_rollback = discard_orphan PASSPORT_STORE,
       cmd_after = (\<lambda>digest state e fs.
         case write_passport_pointer fs
           \<lparr> ptr_run_id = rt_run_id state, ptr_passport_sha256 = digest,
             ptr_accepted_revision = rd_revision (rt_locals state),
             ptr_ledger_head_sha256 = rd_head (rt_locals state) \<rparr> of
           Inr fs' \<Rightarrow> fs' | Inl _ \<Rightarrow> fs) \<rparr>"

definition create_checkpoint :: "store_env \<Rightarrow> fs \<Rightarrow> checkpoint_request \<Rightarrow> command_outcome step" where
  "create_checkpoint S fs q = execute S fs q (checkpoint_command S q)"

record resume_request = command_request +
  rsq_passport_sha256 :: sha256
  rsq_narrative_sha256 :: "sha256 option"

definition resume_check :: "store_env \<Rightarrow> resume_request \<Rightarrow> fs \<Rightarrow> runtime_state \<Rightarrow> unit verdict" where
  "resume_check S q fs state =
    (let s = rt_locals state; d = rsq_passport_sha256 q in
     if rd_current_passport s \<noteq> Some d then Refuse ''stale-passport'' ''resume Passport is not current''
     else if d \<in> set (rd_consumed_passports s)
     then Refuse ''passport-consumed'' ''resume Passport was already consumed''
     else if list_ex (\<lambda>b. bl_code b = ''evidence-expired'') (rt_blockers state)
     then Refuse ''evidence-expired'' ''Passport evidence is expired''
     else case load_material_passport S fs d of
         Inl m \<Rightarrow> Refuse ''passport-invalid'' m
       | Inr p \<Rightarrow>
           if mp_run_id p \<noteq> rt_run_id state \<or> mp_stage p \<noteq> rd_stage s
           then Refuse ''passport-invalid'' ''Passport does not match accepted run state'' else Pass ())"

text \<open>\<open>narrative\<close> stands for \<open>guard_run\<close>: whether the run is bound to a narrative.\<close>

definition resume ::
  "store_env \<Rightarrow> fs \<Rightarrow> resume_request \<Rightarrow> (sha256 option \<Rightarrow> (py_error, bool) result) \<Rightarrow> command_outcome step" where
  "resume S fs q narrative =
     on_files fs (rbind (narrative (rsq_narrative_sha256 q)) (\<lambda>bound.
         guard (bound \<and> rsq_narrative_sha256 q = None)
           (PyValueError ''paper resume request must echo current narrative SHA-256'') (Inr ())))
      (\<lambda>_. execute S fs q (plain_command Resume_accepted
        (\<lambda>fs state _. Inr (resume_check S q fs state))
        (\<lambda>_ _ _. P_resume_accepted \<lparr> rp_passport_sha256 = rsq_passport_sha256 q \<rparr>) (se_env S)))"

definition rebuild_passport_pointer :: "store_env \<Rightarrow> fs \<Rightarrow> passport_pointer step" where
  "rebuild_passport_pointer S fs =
     on_files fs (locked_replay S fs) (\<lambda>(fs, st).
     on_files fs (validate_accepted_events S fs [] (ry_events st)) (\<lambda>_.
     on_files fs (reduce_events (se_env S) (ry_workflow_definition_id st) (ry_events st) None Healthy) (\<lambda>state.
     case rd_current_passport (rt_locals state) of
       None \<Rightarrow> (Inl (JournalError ''run has no accepted Passport''), fs)
     | Some d \<Rightarrow>
         (case List.find (\<lambda>e. ev_event_type e = Passport_accepted
                 \<and> map_option pp_passport_sha256 (as_passport_accepted (ev_payload e)) = Some d)
               (rev (ry_events st)) of
            None \<Rightarrow> (Inl PyStopIteration, fs)
          | Some e \<Rightarrow>
              (let pointer = \<lparr> ptr_run_id = rt_run_id state, ptr_passport_sha256 = d,
                 ptr_accepted_revision = ev_resulting_revision e,
                 ptr_ledger_head_sha256 = ev_event_sha256 e \<rparr> in
               case write_passport_pointer fs pointer of
                 Inl m \<Rightarrow> (Inl (PyOSError m), fs) | Inr fs' \<Rightarrow> (Inr pointer, fs'))))))"

section \<open>Recovery\<close>

definition same_recovery :: "recovery_request \<Rightarrow> canonical_event \<Rightarrow> bool" where
  "same_recovery q e =
    (ev_event_id e = cr_event_id q \<or> ev_command_id e = cr_command_id q
   \<or> ev_event_type e = Recovery_completed
     \<and> map_option rv_recovery_id (as_recovery_completed (ev_payload e)) = Some (rcq_recovery_id q))"

definition exact_recovery ::
  "recovery_request \<Rightarrow> canonical_event \<Rightarrow> recovery_completed \<Rightarrow> recovery_receipt \<Rightarrow> bool" where
  "exact_recovery q e p r =
    (ev_event_id e = cr_event_id q \<and> ev_command_id e = cr_command_id q \<and> ev_run_id e = cr_run_id q
   \<and> ev_expected_revision e = cr_expected_revision q
   \<and> ev_prev_event_sha256 e = rcq_expected_head_sha256 q
   \<and> ev_occurred_at e = cr_occurred_at q \<and> ev_actor_id e = cr_actor_id q
   \<and> ev_actor_role e = Some (cr_actor_role q)
   \<and> rv_recovery_id p = rcq_recovery_id q
   \<and> rv_original_segment_sha256 p = rcq_original_segment_sha256 q
   \<and> rv_reason_code p = rcq_reason_code q \<and> rcp_reason_text r = rcq_reason_text q)"

text \<open>A recovery that is repeated: the same event is returned again, anything else is a conflict.\<close>

definition repeated_recovery ::
  "store_env \<Rightarrow> fs \<Rightarrow> recovery_request \<Rightarrow> replay_state \<Rightarrow> runtime_state \<Rightarrow> canonical_event
    \<Rightarrow> command_outcome" where
  "repeated_recovery S fs q st state e =
    (let conflict = rejection_of state ''conflicting-recovery''
           ''recovery identity already exists with different evidence'' in
     case (if ev_event_type e = Recovery_completed then as_recovery_completed (ev_payload e) else None) of
       None \<Rightarrow> conflict
     | Some p \<Rightarrow>
         (case load_recovery_receipt S fs (rcq_recovery_id q) of
            Inl m \<Rightarrow> rejection_of state ''recovery-blocked'' m
          | Inr r \<Rightarrow>
              if exact_recovery q e p r \<and> ry_recovery_health st = Healthy
              then acceptance_of state e else conflict))"

definition recovery_admission ::
  "recovery_request \<Rightarrow> replay_state \<Rightarrow> (ident \<times> string) option" where
  "recovery_admission q st =
    (if cr_run_id q \<noteq> ry_run_id st then Some (''run-id-mismatch'', ''request run identity differs'')
     else if \<not> ry_segmented st then
       Some (''legacy-run-read-only'', ''recovery requires a segmented journal'')
     else if \<not> actor_can_commit (cr_actor_role q) Cat_recovery then
       Some (''unauthorized-actor'', ''only an operator can commit recovery'')
     else if ry_recovery_health st = Recovery_blocked then
       Some (''recovery-blocked'',
         message_or (ry_recovery_message st) ''journal corruption is not recoverable'')
     else if ry_recovery_health st \<noteq> Recoverable_tail then
       Some (''recovery-not-required'', ''journal has no recoverable terminal tail'')
     else if cr_expected_revision q \<noteq> ry_revision st then
       Some (''stale-revision'', ''expected revision '' @ int_str (cr_expected_revision q)
         @ '', accepted '' @ int_str (ry_revision st))
     else if rcq_expected_head_sha256 q \<noteq> ry_last_event_sha256 st then
       Some (''stale-ledger-head'', ''request head differs from the trustworthy prefix'')
     else if rcq_original_segment_sha256 q \<noteq> sg_sha256 (last (ry_segments st)) then
       Some (''stale-segment'', ''request segment digest differs from the classified damaged segment'')
     else None)"

definition recovery_payload :: "recovery_request \<Rightarrow> replay_state \<Rightarrow> prepared_recovery \<Rightarrow> recovery_completed option" where
  "recovery_payload q st p =
    (let d = last (ry_segments st) in
     case (sg_fault_offset d, sg_fault_class d) of
       (Some offset, Some (Tail_fault f)) \<Rightarrow> Some
         \<lparr> rv_recovery_id = rcq_recovery_id q, rv_prior_valid_revision = ry_revision st,
           rv_prior_valid_head_sha256 = ry_last_event_sha256 st, rv_original_segment_sha256 = sg_sha256 d,
           rv_original_segment_byte_count = int (sg_byte_count d),
           rv_quarantine_sha256 = prv_raw_sha256 p,
           rv_quarantine_receipt_sha256 = prv_receipt_sha256 p, rv_fault_offset = int offset,
           rv_fault_class = f, rv_reason_code = rcq_reason_code q \<rparr>
     | _ \<Rightarrow> None)"

text \<open>Publication with the files in both cases.\<close>

definition publish_event :: "store_env \<Rightarrow> fs \<Rightarrow> replay_state \<Rightarrow> canonical_event \<Rightarrow> replay_state step" where
  "publish_event S fs st e =
    (case publish_recovery_event_unlocked S fs st e of
       Inr (fs', st') \<Rightarrow> (Inr st', fs')
     | Inl x \<Rightarrow> (Inl x,
         if ry_segmented st \<and> ry_segments st \<noteq> [] \<and> ry_recovery_health st = Recoverable_tail
            \<and> ev_event_type e = Recovery_completed \<and> extends_tip st e
         then (case publish_recovery_segment S fs (sg_index (last (ry_segments st)) + 1) e of
                 Inr fs' \<Rightarrow> fs' | Inl _ \<Rightarrow> fs)
         else fs))"

text \<open>\<open>except (JournalError, RecoveryError, ReducerError)\<close>\<close>

definition recovery_failed :: "fs \<Rightarrow> runtime_state \<Rightarrow> py_error \<Rightarrow> command_outcome step" where
  "recovery_failed fs state x =
    (case x of JournalError m \<Rightarrow> reject fs state ''recovery-failed'' m
     | RecoveryError m \<Rightarrow> reject fs state ''recovery-failed'' m
     | ReducerError m \<Rightarrow> reject fs state ''recovery-failed'' m
     | _ \<Rightarrow> (Inl x, fs))"

definition perform_recovery ::
  "store_env \<Rightarrow> fs \<Rightarrow> recovery_request \<Rightarrow> replay_state \<Rightarrow> runtime_state \<Rightarrow> command_outcome step" where
  "perform_recovery S fs q st state =
    (case prepare_recovery_evidence S fs q (ry_run_id st) (ry_revision st) (ry_last_event_sha256 st)
        (ry_segments st) of
       Inl m \<Rightarrow> recovery_failed fs state (RecoveryError m)
     | Inr (fs, prepared) \<Rightarrow>
     (case require_some (recovery_payload q st prepared) (PyValueError ''Input should be a valid integer'')
         (\<lambda>p. build_runtime_event S st Recovery_completed q (P_recovery_completed p)) of
       Inl x \<Rightarrow> recovery_failed fs state x
     | Inr e \<Rightarrow>
     (case reduce_events (se_env S) (ry_workflow_definition_id st) (ry_events st @ [e]) None Healthy of
       Inl x \<Rightarrow> recovery_failed fs state x
     | Inr reduced \<Rightarrow>
     (case publish_event S fs st e of
       (Inl x, fs') \<Rightarrow> recovery_failed fs' state x
     | (Inr st', fs') \<Rightarrow>
         on_files fs' (reduce_events (se_env S) (ry_workflow_definition_id st') (ry_events st') None
             (ry_recovery_health st')) (\<lambda>accepted.
         if \<not> same_state accepted reduced
         then (Inl (JournalError ''post-recovery state differs from validated candidate''), fs')
         else (Inr (acceptance_of accepted e), fs'))))))"

definition recover :: "store_env \<Rightarrow> fs \<Rightarrow> recovery_request \<Rightarrow> command_outcome step" where
  "recover S fs q =
     on_files fs (locked_replay S fs) (\<lambda>(fs, st).
     on_files fs (reduce_events (se_env S) (ry_workflow_definition_id st) (ry_events st) None
         (ry_recovery_health st)) (\<lambda>state.
     let existing = filter (same_recovery q) (ry_events st) in
     if existing \<noteq> [] then (Inr (repeated_recovery S fs q st state (last existing)), fs)
     else case recovery_admission q st of
       Some (reason, message) \<Rightarrow> reject fs state reason message
     | None \<Rightarrow> perform_recovery S fs q st state))"

end
