(* ===== verification/Runtime_Commit.thy ===== *)
theory Runtime_Commit
  imports Commands Journal_Samples
begin

text \<open>
  What the transaction of a command guarantees: an accepted command has passed every check and adds
  exactly one event, a command is never accepted twice, and a rejected command changes no file that
  an accepted event refers to.
\<close>

section \<open>Steps\<close>

lemma on_files_Inr: "on_files fs r k = (Inr v, fs') \<longleftrightarrow> (\<exists>a. r = Inr a \<and> k a = (Inr v, fs'))"
  by (simp add: on_files_def split: sum.split)

lemma on_files_simps [simp]: "on_files fs (Inl x) k = (Inl x, fs)" "on_files fs (Inr a) k = k a"
  by (simp_all add: on_files_def)

lemma outcome_simps [simp]:
  "\<not> co_accepted (rejection_of state c m)" "co_accepted (acceptance_of state e)"
  "co_state (acceptance_of state e) = state" "co_event (acceptance_of state e) = Some e"
  "acceptance_of state e = acceptance_of state' e' \<longleftrightarrow> state = state' \<and> e = e'"
  by (simp_all add: rejection_of_def acceptance_of_def)

lemma commit_accepted:
  assumes "commit S fs c h now st e reduced = (Inr oc, fs')"
  obtains st' fs2 accepted where "append_runtime_event_unlocked S fs st e = Inr (fs2, st')"
    "reduce_events (se_env S) (ry_workflow_definition_id st') (ry_events st') now Healthy = Inr accepted"
    "same_state accepted reduced" "oc = acceptance_of accepted e" "fs' = cmd_after c h accepted e fs2"
proof (cases "append_runtime_event_unlocked S fs st e")
  case (Inl x)
  with assms show ?thesis by (simp add: commit_def append_event_def)
next
  case (Inr r)
  obtain fs2 st' where r: "r = (fs2, st')" by fastforce
  from assms Inr r obtain accepted where
    a: "reduce_events (se_env S) (ry_workflow_definition_id st') (ry_events st') now Healthy = Inr accepted"
    and "(if \<not> same_state accepted reduced
         then (Inl (JournalError ''post-append reducer state differs from validated candidate''), fs2)
         else (Inr (acceptance_of accepted e), cmd_after c h accepted e fs2)) = (Inr oc, fs')"
    by (auto simp: commit_def append_event_def on_files_Inr)
  then have "same_state accepted reduced" "oc = acceptance_of accepted e" "fs' = cmd_after c h accepted e fs2"
    by (auto split: if_splits)
  with that Inr r a show ?thesis by blast
qed

lemma admission_None:
  assumes "admission S fs t q st state = Inr None"
  obtains category where "cr_run_id q = ry_run_id st" "ry_segmented st" "ry_recovery_health st = Healthy"
    "validate_accepted_events S fs [] (ry_events st) = Inr ()"
    "cr_event_id q \<notin> ry_event_ids st" "cr_command_id q \<notin> ry_command_ids st"
    "cr_expected_revision q = ry_revision st" "event_category t = Inr category"
    "actor_can_commit (cr_actor_role q) category"
  using assms by (auto simp: admission_def guard_simps split: if_splits)

text \<open>The path of an accepted command through the transaction.\<close>

lemma execute_accepted:
  assumes "execute S fs q c = (Inr oc, fs')" and "co_accepted oc"
  obtains i fs0 st state fs1 h p e reduced st' fs2 accepted where
    "parse_utc_or_raise (cr_occurred_at q) = Inr i" "locked_replay S fs = Inr (fs0, st)"
    "admission S fs0 (cmd_type c) q st state = Inr None"
    "cmd_check c fs0 state st = Inr (fs1, Pass h)" "cmd_payload c h state st = Inr p"
    "build_runtime_event S st (cmd_type c) q p = Inr e"
    "reduce_events (se_env S) (ry_workflow_definition_id st) (ry_events st @ [e]) (Some (i, 0)) Healthy = Inr reduced"
    "append_runtime_event_unlocked S fs1 st e = Inr (fs2, st')"
    "reduce_events (se_env S) (ry_workflow_definition_id st') (ry_events st') (Some (i, 0)) Healthy = Inr accepted"
    "same_state accepted reduced" "oc = acceptance_of accepted e" "fs' = cmd_after c h accepted e fs2"
proof -
  from assms(1) obtain i fs0 st state refusal where r: "parse_utc_or_raise (cr_occurred_at q) = Inr i"
    "locked_replay S fs = Inr (fs0, st)" "admission S fs0 (cmd_type c) q st state = Inr refusal"
    and k: "(case refusal of Some (reason, message) \<Rightarrow> reject fs0 state reason message | None \<Rightarrow>
      on_files fs0 (cmd_check c fs0 state st) (\<lambda>(fs, verdict).
      case verdict of Refuse reason message \<Rightarrow> reject fs state reason message | Pass h \<Rightarrow>
      on_files fs (cmd_payload c h state st) (\<lambda>payload.
      on_files fs (build_runtime_event S st (cmd_type c) q payload) (\<lambda>candidate.
      case reduce_events (se_env S) (ry_workflow_definition_id st) (ry_events st @ [candidate]) (Some (i, 0)) Healthy of
        Inr reduced \<Rightarrow> commit S fs c h (Some (i, 0)) st candidate reduced
      | Inl (ReducerError m) \<Rightarrow> reject (cmd_rollback c h fs) state ''invalid-command'' m
      | Inl (WorkflowDefinitionError m) \<Rightarrow> reject (cmd_rollback c h fs) state ''invalid-command'' m
      | Inl x \<Rightarrow> (Inl x, fs))))) = (Inr oc, fs')"
    unfolding execute_def on_files_Inr Let_def by (auto simp: on_files_Inr)
  have none: "refusal = None" using k assms(2) by (auto simp: reject_def split: option.splits)
  from k [unfolded none option.case on_files_Inr] obtain fs1 v where
    check: "cmd_check c fs0 state st = Inr (fs1, v)" and k: "(case v of Refuse reason message \<Rightarrow> reject fs1 state reason message | Pass h \<Rightarrow>
      on_files fs1 (cmd_payload c h state st) (\<lambda>payload.
      on_files fs1 (build_runtime_event S st (cmd_type c) q payload) (\<lambda>candidate.
      case reduce_events (se_env S) (ry_workflow_definition_id st) (ry_events st @ [candidate]) (Some (i, 0)) Healthy of
        Inr reduced \<Rightarrow> commit S fs1 c h (Some (i, 0)) st candidate reduced
      | Inl (ReducerError m) \<Rightarrow> reject (cmd_rollback c h fs1) state ''invalid-command'' m
      | Inl (WorkflowDefinitionError m) \<Rightarrow> reject (cmd_rollback c h fs1) state ''invalid-command'' m
      | Inl x \<Rightarrow> (Inl x, fs1)))) = (Inr oc, fs')" by auto
  obtain h where v: "v = Pass h" using k assms(2) by (cases v) (auto simp: reject_def)
  from k [unfolded v verdict.case on_files_Inr] obtain p e where p: "cmd_payload c h state st = Inr p"
    "build_runtime_event S st (cmd_type c) q p = Inr e"
    and k: "(case reduce_events (se_env S) (ry_workflow_definition_id st) (ry_events st @ [e]) (Some (i, 0)) Healthy of
        Inr reduced \<Rightarrow> commit S fs1 c h (Some (i, 0)) st e reduced
      | Inl (ReducerError m) \<Rightarrow> reject (cmd_rollback c h fs1) state ''invalid-command'' m
      | Inl (WorkflowDefinitionError m) \<Rightarrow> reject (cmd_rollback c h fs1) state ''invalid-command'' m
      | Inl x \<Rightarrow> (Inl x, fs1)) = (Inr oc, fs')" by blast
  obtain reduced where red: "reduce_events (se_env S) (ry_workflow_definition_id st) (ry_events st @ [e]) (Some (i, 0)) Healthy = Inr reduced"
    using k assms(2) by (auto simp: reject_def split: sum.splits py_error.splits)
  with k have "commit S fs1 c h (Some (i, 0)) st e reduced = (Inr oc, fs')" by simp
  from this show ?thesis
    by (rule commit_accepted) (rule that [OF r(1,2) r(3) [unfolded none] check [unfolded v] p red])
qed

lemma plain_fields [simp]:
  "cmd_type (plain_command t check payload E) = t"
  "cmd_after (plain_command t check payload E) h state e fs = fs"
  "cmd_rollback (plain_command t check payload E) h fs = fs"
  by (simp_all add: plain_command_def)

lemma plain_check: "cmd_check (plain_command t check payload E) fs state st = Inr (fs', v) \<Longrightarrow> fs' = fs"
  by (auto simp: plain_command_def guard_simps)

section \<open>The event that is committed\<close>

lemma reduced_digests:
  assumes "reduce_events E w es now h = Inr rt"
  shows "rd_canonical_event_sha256 (rt_locals rt) = map ev_event_sha256 es"
  using assms
proof (rule reduce_eventsE)
  fix s assume "reduce_loop E w (ev_run_id (hd es)) initial_state es = Inr s" "rt_locals rt = s" "rd_prior s = es"
  then show ?thesis using loop_ledger_ok [of E w "ev_run_id (hd es)" es s] by (simp add: ledger_ok_def)
qed

lemma same_state_history:
  assumes "reduce_events E w es now h = Inr rt" "reduce_events E' w' es' now' h' = Inr rt'" "same_state rt rt'"
  shows "map ev_event_sha256 es = map ev_event_sha256 es'"
  using assms by (simp add: same_state_def Let_def reduced_digests)

lemma replayed_identities:
  assumes "replay_unlocked S fs stop = Inr st"
  shows "ry_event_ids st = ev_event_id ` set (ry_events st)" "ry_command_ids st = ev_command_id ` set (ry_events st)"
  using assms by (auto elim!: replay_unlockedE dest!: replayed_chain simp: chain_ok_def)

text \<open>
  Appending to a healthy journal either leaves the history as it is or extends it by the event, and
  then the journal is healthy.
\<close>

lemma append_outcome:
  assumes st: "replay_unlocked S fs None = Inr st" "ry_segmented st" "ry_recovery_health st = Healthy"
    and p: "p = sg_path (last (ry_segments st))" "blind S p" "\<forall>x \<in> set (ry_events st). \<not> binds_path p x"
    and files: "read_manifest S fs = Inr (m, raw)" "read_bytes fs p = Some b"
    and library: "json_ok (se_float S) (JObj (event_wire S e))" "utf8_valid (event_bytes S e)"
      "se_event S (norm (JObj (event_wire S e))) = Some e"
    and app: "append_runtime_event_unlocked S fs st e = Inr (fs', st')"
  shows "fs' = dset p (File (b @ event_bytes S e)) fs" "replay_unlocked S fs' None = Inr st'"
    "ry_workflow_definition_id st' = ry_workflow_definition_id st \<and> ry_run_id st' = ry_run_id st"
    "ry_events st' = ry_events st \<or> ry_events st' = ry_events st @ [e] \<and> ry_recovery_health st' = Healthy"
proof -
  let ?x = "event_bytes S e"
  from app show fs': "fs' = dset p (File (b @ ?x)) fs" and re: "replay_unlocked S fs' None = Inr st'"
    using files p(1) by (auto simp: append_runtime_event_unlocked_def guard_simps append_bytes_def)
  from written_replay [OF st p files] obtain t new k where w: "rl_pending t = None" "rl_health t = Healthy"
    "rl_events t \<noteq> []" "ry_events st = rl_events t"
    and eq: "st = replayed m (add_scan (scan_of S (view k p b False) (length b) new None) t)"
    and go: "\<And>x fs'. fs' = dset p (File (b @ x)) fs \<Longrightarrow> replay_unlocked S fs' None
       = rbind (ends_replay (replay_lines S fs' m (hash S raw) None (view k p (b @ x) False) t (length b) new x))
           (\<lambda>r. Inr (concluded m r))" by metis
  note line = event_line [OF library(1,2)]
  have load: "strict_json_loads (se_float S) (line_of ?x) = Inr (norm (JObj (event_wire S e)))" using line by simp
  let ?c = "check_record S fs' m (hash S raw) t (length b) (norm (JObj (event_wire S e))) ?x"
  have "\<exists>r. ends_replay (replay_lines S fs' m (hash S raw) None (view k p (b @ ?x) False) t (length b) new ?x) = Inr r
    \<and> st' = concluded m r \<and> (rl_events (fst r) = rl_events t
      \<or> rl_events (fst r) = rl_events t @ [e] \<and> rl_health (fst r) = Healthy \<and> rl_pending (fst r) = None)"
  proof (cases ?c)
    case (Inl x)
    have "?thesis" if "blocking_fault x = Some f" for f
      using re [unfolded go [OF fs']] that replay_lines_refused [OF line(2) load _ w(3)] Inl line(1)
      by (simp add: ends_replay_def segment_fields)
    moreover have False if "blocking_fault x = None"
      using re [unfolded go [OF fs']] that replay_lines_refused [OF line(2) load _ w(3)] Inl line(1)
      by (simp add: ends_replay_def)
    ultimately show ?thesis by blast
  next
    case (Inr r)
    obtain e' c where r: "r = (e', c)" by fastforce
    have "e' = e" using Inr r library(3) by (simp add: check_at_tip [OF w(1)] guard_simps validate_event_Inr)
    with Inr r have "replay_lines S fs' m (hash S raw) None (view k p (b @ ?x) False) t (length b) new ?x
        = Inr (add_scan (scan_of S (view k p (b @ ?x) False) (length b + length ?x) (new @ [e]) None)
            (accept_event (t\<lparr>rl_pending := None\<rparr>) e c), False)"
      using replay_lines_next [OF line(2) load] line(1) by (simp add: replay_lines_done)
    then show ?thesis using re [unfolded go [OF fs']] w(2)
      by (simp add: ends_replay_def segment_fields accept_event_def)
  qed
  then obtain r where r: "st' = concluded m r" "rl_events (fst r) = rl_events t
      \<or> rl_events (fst r) = rl_events t @ [e] \<and> rl_health (fst r) = Healthy \<and> rl_pending (fst r) = None" by blast
  then show "ry_events st' = ry_events st \<or> ry_events st' = ry_events st @ [e] \<and> ry_recovery_health st' = Healthy"
    using w(4) by (cases r) (auto simp: concluded_fields)
  show "ry_workflow_definition_id st' = ry_workflow_definition_id st \<and> ry_run_id st' = ry_run_id st"
    using r(1) by (cases r) (simp add: concluded_fields eq replayed_def)
qed

section \<open>A command is not accepted twice\<close>

lemma segment_files:
  assumes "butlast p = SEGMENTS"
  shows "p \<noteq> INITIALIZATION_PREPARED" "p \<noteq> INITIALIZATION_COMMITTED" "p \<noteq> MANIFEST_NAME"
  using assms by (auto simp: INITIALIZATION_PREPARED_def INITIALIZATION_COMMITTED_def MANIFEST_NAME_def SEGMENTS_def)

lemma active_segment:
  assumes "replay_unlocked S fs None = Inr st" "ry_segmented st" "ry_recovery_health st = Healthy"
  shows "butlast (sg_path (last (ry_segments st))) = SEGMENTS" "ry_events st \<noteq> []"
proof -
  from assms(1) obtain m raw slots s b where r: "segment_slots fs m None = Inr slots"
    "replay_segments S fs m (hash S raw) None 1 slots initial_replay = Inr (s, b)"
    and st: "ry_events st = rl_events s" "ry_segments st = rl_segments s" "ry_segmented st = mf_segmented m"
    "ry_recovery_health st = (if b then Healthy
       else if rl_pending s \<noteq> None \<and> rl_health s = Healthy then Recovery_blocked else rl_health s)"
    by (rule replay_unlockedE)
  have m: "mf_segmented m" and s: "rl_health s \<noteq> Recovery_blocked"
    using st assms(2,3) segments_not_stopped [OF r(2)] by (auto split: if_splits)
  from discovered [OF r(1) m] obtain ps q where q: "slots = map Inr (ps @ [q])" "butlast q = SEGMENTS" by metis
  show "butlast (sg_path (last (ry_segments st))) = SEGMENTS"
    using last_segment_path [OF r(2) [unfolded q(1)] s] q(2) st(2) by simp
  show "ry_events st \<noteq> []" using replay_segments_nonempty [OF r(2)] q(1) st(1) by simp
qed

text \<open>A sealed transaction stays sealed when the journal grows.\<close>

lemma seal_stays:
  assumes "seal_initialization S fs st = Inr fs" and "fs' = dset p (File b) fs" and "butlast p = SEGMENTS"
    and "ry_events st' = ry_events st @ es" and "ry_events st \<noteq> []" and "ry_run_id st' = ry_run_id st"
  shows "seal_initialization S fs' st' = Inr fs'"
proof -
  note path = segment_files [OF assms(3)]
  have get: "dget fs' INITIALIZATION_PREPARED = dget fs INITIALIZATION_PREPARED"
    "dget fs' INITIALIZATION_COMMITTED = dget fs INITIALIZATION_COMMITTED"
    "dget fs' MANIFEST_NAME = dget fs MANIFEST_NAME" using path assms(2) by simp_all
  have rec: "read_initialization_record S fs' INITIALIZATION_PREPARED = read_initialization_record S fs INITIALIZATION_PREPARED"
    "read_initialization_record S fs' INITIALIZATION_COMMITTED = read_initialization_record S fs INITIALIZATION_COMMITTED"
    using get by (simp_all add: read_initialization_record_def read_bytes_def)
  have same: "lexists fs' INITIALIZATION_PREPARED = lexists fs INITIALIZATION_PREPARED"
    "lexists fs' INITIALIZATION_COMMITTED = lexists fs INITIALIZATION_COMMITTED"
    "read_bytes fs' MANIFEST_NAME = read_bytes fs MANIFEST_NAME"
    using get by (simp_all add: lexists_def read_bytes_def)
  have hist: "hd (ry_events st') = hd (ry_events st)" "ry_events st' = [] \<longleftrightarrow> ry_events st = []"
    using assms(4,5) by simp_all
  have v: "validate_initialization_transaction S fs' st' = validate_initialization_transaction S fs st"
    unfolding validate_initialization_transaction_def same rec hist assms(6) ..
  obtain w where w: "validate_initialization_transaction S fs st = Inr w"
    using assms(1) by (auto simp: seal_initialization_def guard_simps)
  show ?thesis
  proof (cases "w = None \<or> lexists fs INITIALIZATION_COMMITTED")
    case True
    then show ?thesis using v w get by (auto simp: seal_initialization_def lexists_def split: option.split)
  next
    case False
    then obtain y where y: "w = Some y" by auto
    from assms(1) False w y have "publish_initialization_record fs INITIALIZATION_COMMITTED y = Inr fs"
      by (simp add: seal_initialization_def)
    then obtain g where "fs = dset INITIALIZATION_COMMITTED (File y) g"
      by (auto simp: publish_initialization_record_def guard_simps)
    then have "dget fs INITIALIZATION_COMMITTED = Some (File y)" by simp
    with False show ?thesis by (simp add: lexists_def)
  qed
qed

definition no_effect :: "fs \<Rightarrow> command_outcome step \<Rightarrow> bool" where
  "no_effect fs r = (snd r = fs \<and> (\<forall>oc. fst r = Inr oc \<longrightarrow> \<not> co_accepted oc))"

lemma no_effect_step: "(\<And>a. r = Inr a \<Longrightarrow> no_effect fs (k a)) \<Longrightarrow> no_effect fs (on_files fs r k)"
  by (cases r) (simp_all add: no_effect_def)

lemma no_effect_reject: "no_effect fs (reject fs state reason m)"
  by (simp add: no_effect_def reject_def)

lemma known_command_not_accepted:
  assumes "replay_unlocked S fs None = Inr st" and "seal_initialization S fs st = Inr fs"
    and "cr_event_id q \<in> ry_event_ids st \<or> cr_command_id q \<in> ry_command_ids st"
  shows "no_effect fs (execute S fs q c)"
proof -
  have lock: "locked_replay S fs = Inr (fs, st)" using assms(1,2) by (simp add: locked_replay_def)
  have adm: "\<exists>reason m. refusal = Some (reason, m)" if "admission S fs t q st state = Inr refusal" for t state refusal
    using assms(3) that by (cases refusal) (auto simp: admission_def guard_simps split: if_splits)
  show ?thesis
    unfolding execute_def lock on_files_simps prod.case Let_def
    by (intro no_effect_step) (drule adm, elim exE, simp only: option.case prod.case no_effect_reject)
qed


end
