(* ===== verification/Runtime_Rollback.thy ===== *)
theory Runtime_Rollback
  imports Runtime_Commit
begin

text \<open>
  Rejections and the files: a command that only checks leaves everything as it is, and the roll-back
  of a checkpoint removes no Passport that an accepted event refers to.
\<close>

section \<open>Accepted Passports\<close>

lemma accepted_event_validated:
  assumes "validate_accepted_events S fs cs es = Inr ()" and "e \<in> set es"
    and "ev_event_type e \<noteq> Experiment_contract_accepted"
  shows "validate_accepted_event S fs e = Inr ()"
  using assms by (induction S fs cs es rule: validate_accepted_events.induct) (auto simp: guard_simps)

lemma accepted_passport_loads:
  assumes "validate_accepted_event S fs e = Inr ()" and "ev_event_type e = Passport_accepted"
    and "as_passport_accepted (ev_payload e) = Some y"
  obtains m where "load_material_passport S fs (pp_passport_sha256 y) = Inr m"
    "mp_based_on_revision m = pp_based_on_revision y"
  using assms by (auto simp: validate_accepted_event_def guard_simps passport_matches_event_def)

text \<open>A Passport is based on the revision before its event.\<close>

lemma accepted_passport_revision:
  assumes "reduce_events E w es now h = Inr rt" and "e \<in> set es" and "ev_event_type e = Passport_accepted"
    and "as_passport_accepted (ev_payload e) = Some y"
  shows "pp_based_on_revision y < rd_revision (rt_locals rt)"
  using assms(1)
proof (rule reduce_eventsE)
  let ?r = "ev_run_id (hd es)"
  fix s assume loop: "reduce_loop E w ?r initial_state es = Inr s" and s: "rt_locals rt = s" "rd_prior s = es"
  obtain xs zs where es: "es = xs @ e # zs" using assms(2) by (auto dest: split_list)
  from rd.run_split_at [OF loop [unfolded es]] obtain u v where
    u: "reduce_loop E w (ev_run_id (hd (xs @ e # zs))) initial_state xs = Inr u"
    and v: "reduce_step E w (ev_run_id (hd (xs @ e # zs))) u e = Inr v" by blast
  from v obtain t where "dispatch E w u e = Inr t" by (rule reduce_stepE)
  then have "step_passport E w u y = Inr t" using assms(3,4) by (simp add: dispatch_def narrowed_def)
  then have "pp_based_on_revision y = rd_revision u" by (auto simp: step_passport_def guard_simps)
  moreover have "rd_revision u = int (length xs)"
    using loop_ledger_ok [OF u] loop_prior_init [OF u] by (simp add: ledger_ok_def Let_def)
  moreover have "rd_revision s = int (length es)"
    using loop_ledger_ok [OF loop] s(2) by (simp add: ledger_ok_def Let_def)
  ultimately show ?thesis using s(1) es by simp
qed

section \<open>The roll-back\<close>

lemma publish_reads:
  assumes "publish store fs k v = Inr fs'" and "p \<noteq> store @ [json_name k]"
  shows "read_bytes fs' p = read_bytes fs p"
  using assms(1)
proof (cases rule: publish_cases)
  case (1 t)
  with assms(2) ensure_directory_reads [OF 1(1), of p] show ?thesis by (auto simp: read_bytes_dset)
qed

lemma publish_present:
  assumes "publish store fs k v = Inr fs'" and "content store fs k = Some w"
  shows "w = v"
  using assms(1)
proof (cases rule: publish_cases)
  case (1 t)
  have "read_bytes t (store @ [json_name k]) = Some w"
    using assms(2) ensure_directory_reads [OF 1(1), of "store @ [json_name k]"] by (simp add: content_def)
  then show ?thesis using 1(3) by (auto simp: lexists_def read_bytes_iff)
qed

lemma discard_reads: "p \<noteq> store @ [json_name k] \<Longrightarrow> read_bytes (discard_orphan store k fs) p = read_bytes fs p"
  by (simp add: discard_orphan_def Let_def read_bytes_def dict_simps)

lemma passport_based: "mp_based_on_revision (passport_of q state w) = rd_revision (rt_locals state)"
  by (simp add: passport_of_def Let_def)

lemma load_same_content: "content store fs d = content store fs' d \<Longrightarrow> load S store parse dump fs d = load S store parse dump fs' d"
  by (simp add: load_def)

lemma checkpoint_check:
  assumes "cmd_check (checkpoint_command S q) fs state st = Inr (f, v)"
  shows "case v of Refuse _ _ \<Rightarrow> f = fs
    | Pass d \<Rightarrow> \<exists>w. install_material_passport S fs (passport_of q state w) = Inr (f, d)"
proof -
  from assms obtain b where b: "(if \<not> b then
      Inr (fs, Refuse ''incoherent-checkpoint'' ''checkpoint kind does not match the boundary'')
    else rbind (require_workflow (hash S) (rt_workflow_definition_id state)) (\<lambda>w.
      case install_material_passport S fs (passport_of q state w) of
        Inl m \<Rightarrow> Inr (fs, Refuse ''passport-manifest-invalid'' m)
      | Inr (fs', digest) \<Rightarrow> Inr (fs', Pass digest))) = Inr (f, v)"
    by (auto simp: checkpoint_command_def guard_simps)
  show ?thesis
  proof (cases b)
    case True
    with b obtain w where w: "(case install_material_passport S fs (passport_of q state w) of
        Inl m \<Rightarrow> Inr (fs, Refuse ''passport-manifest-invalid'' m)
      | Inr (fs', digest) \<Rightarrow> Inr (fs', Pass digest)) = (Inr (f, v) :: (py_error, fs \<times> sha256 verdict) result)"
      by (auto simp: guard_simps)
    show ?thesis
    proof (cases "install_material_passport S fs (passport_of q state w)")
      case (Inr r)
      then show ?thesis using w by (cases r) auto
    qed (use w in auto)
  qed (use b in auto)
qed

text \<open>The ways a checkpoint is rejected.\<close>

lemma checkpoint_rejected:
  assumes st: "replay_unlocked S fs None = Inr st" "seal_initialization S fs st = Inr fs"
    and run: "create_checkpoint S fs q = (Inr oc, fs')" "\<not> co_accepted oc"
  shows "fs' = fs \<or> (\<exists>i state w fs1 digest.
      validate_accepted_events S fs [] (ry_events st) = Inr ()
    \<and> reduce_events (se_env S) (ry_workflow_definition_id st) (ry_events st) (Some (i, 0)) Healthy = Inr state
    \<and> install_material_passport S fs (passport_of q state w) = Inr (fs1, digest)
    \<and> fs' = discard_orphan PASSPORT_STORE digest fs1)"
proof -
  have lock: "locked_replay S fs = Inr (fs, st)" using st by (simp add: locked_replay_def)
  have no_reject: "commit S f c h now s e r \<noteq> (Inr oc, fs')" for f and c :: "sha256 command" and h now s e r
    using run(2) by (auto elim!: commit_accepted)
  from run(1) obtain i state refusal where
    state: "reduce_events (se_env S) (ry_workflow_definition_id st) (ry_events st) (Some (i, 0)) (ry_recovery_health st) = Inr state"
    and adm: "admission S fs Passport_accepted q st state = Inr refusal"
    and k: "(case refusal of Some (reason, message) \<Rightarrow> reject fs state reason message | None \<Rightarrow>
      on_files fs (cmd_check (checkpoint_command S q) fs state st) (\<lambda>(fs, verdict).
      case verdict of Refuse reason message \<Rightarrow> reject fs state reason message | Pass h \<Rightarrow>
      on_files fs (cmd_payload (checkpoint_command S q) h state st) (\<lambda>payload.
      on_files fs (build_runtime_event S st Passport_accepted q payload) (\<lambda>candidate.
      case reduce_events (se_env S) (ry_workflow_definition_id st) (ry_events st @ [candidate]) (Some (i, 0)) Healthy of
        Inr reduced \<Rightarrow> commit S fs (checkpoint_command S q) h (Some (i, 0)) st candidate reduced
      | Inl (ReducerError m) \<Rightarrow> reject (cmd_rollback (checkpoint_command S q) h fs) state ''invalid-command'' m
      | Inl (WorkflowDefinitionError m) \<Rightarrow> reject (cmd_rollback (checkpoint_command S q) h fs) state ''invalid-command'' m
      | Inl x \<Rightarrow> (Inl x, fs))))) = (Inr oc, fs')"
    unfolding create_checkpoint_def execute_def on_files_Inr Let_def lock
    by (auto simp: on_files_Inr checkpoint_command_def [of S q, THEN arg_cong [where f = cmd_type]])
  show ?thesis
  proof (cases refusal)
    case (Some r)
    then show ?thesis using k by (cases r) (simp add: reject_def)
  next
    case None
    from k [unfolded None option.case on_files_Inr] obtain f v where
      check: "cmd_check (checkpoint_command S q) fs state st = Inr (f, v)"
      and k: "(case v of Refuse reason message \<Rightarrow> reject f state reason message | Pass h \<Rightarrow>
      on_files f (cmd_payload (checkpoint_command S q) h state st) (\<lambda>payload.
      on_files f (build_runtime_event S st Passport_accepted q payload) (\<lambda>candidate.
      case reduce_events (se_env S) (ry_workflow_definition_id st) (ry_events st @ [candidate]) (Some (i, 0)) Healthy of
        Inr reduced \<Rightarrow> commit S f (checkpoint_command S q) h (Some (i, 0)) st candidate reduced
      | Inl (ReducerError m) \<Rightarrow> reject (cmd_rollback (checkpoint_command S q) h f) state ''invalid-command'' m
      | Inl (WorkflowDefinitionError m) \<Rightarrow> reject (cmd_rollback (checkpoint_command S q) h f) state ''invalid-command'' m
      | Inl x \<Rightarrow> (Inl x, f)))) = (Inr oc, fs')" by auto
    show ?thesis
    proof (cases v)
      case (Refuse r m)
      then have "f = fs" using checkpoint_check [OF check] by simp
      with k Refuse show ?thesis by (simp add: reject_def)
    next
      case (Pass d)
      then obtain w where "install_material_passport S fs (passport_of q state w) = Inr (f, d)"
        using checkpoint_check [OF check] by auto
      moreover have "fs' = discard_orphan PASSPORT_STORE d f"
      proof -
        from k [unfolded Pass verdict.case on_files_Inr] obtain e where
          k: "(case reduce_events (se_env S) (ry_workflow_definition_id st) (ry_events st @ [e]) (Some (i, 0)) Healthy of
            Inr reduced \<Rightarrow> commit S f (checkpoint_command S q) d (Some (i, 0)) st e reduced
          | Inl (ReducerError m) \<Rightarrow> reject (cmd_rollback (checkpoint_command S q) d f) state ''invalid-command'' m
          | Inl (WorkflowDefinitionError m) \<Rightarrow> reject (cmd_rollback (checkpoint_command S q) d f) state ''invalid-command'' m
          | Inl x \<Rightarrow> (Inl x, f)) = (Inr oc, fs')" by blast
        show ?thesis
        proof (cases "reduce_events (se_env S) (ry_workflow_definition_id st) (ry_events st @ [e]) (Some (i, 0)) Healthy")
          case (Inl x)
          then show ?thesis using k by (cases x) (simp_all add: reject_def checkpoint_command_def)
        qed (use k no_reject in simp)
      qed
      moreover from adm [unfolded None] have "ry_recovery_health st = Healthy"
        "validate_accepted_events S fs [] (ry_events st) = Inr ()" by (auto elim: admission_None)
      ultimately show ?thesis using state by metis
    qed
  qed
qed

text \<open>
  C9.  Rolling back a checkpoint removes no accepted evidence.  A checkpoint installs its Passport
  before the event that accepts it, and removes the file again when the event is refused.  Whenever a
  checkpoint is rejected, every Passport that an event of the journal has accepted loads exactly as
  before, and no file outside the Passport store has changed.  That the removed file is never one an
  accepted event names, as the comment of \<open>_discard_orphan\<close> says, rests on the reducer: an accepted
  Passport is based on an earlier revision than the one being installed, and a dump determines the
  revision it is based on.
\<close>

theorem rejected_checkpoint_keeps_accepted_passports:
  assumes st: "replay_unlocked S fs None = Inr st" "seal_initialization S fs st = Inr fs"
    and run: "create_checkpoint S fs q = (Inr oc, fs')" "\<not> co_accepted oc"
    and library: "\<forall>m. json_ok (se_float S) (se_passport_dump S m)"
      "\<forall>m m'. norm (se_passport_dump S m) = norm (se_passport_dump S m')
         \<longrightarrow> mp_based_on_revision m = mp_based_on_revision m'"
  shows "(\<forall>e y. e \<in> set (ry_events st) \<longrightarrow> ev_event_type e = Passport_accepted
      \<longrightarrow> as_passport_accepted (ev_payload e) = Some y
      \<longrightarrow> load_material_passport S fs' (pp_passport_sha256 y) = load_material_passport S fs (pp_passport_sha256 y))
    \<and> (\<forall>p. butlast p \<noteq> PASSPORT_STORE \<longrightarrow> read_bytes fs' p = read_bytes fs p)"
  using checkpoint_rejected [OF st run]
proof (elim disjE exE conjE)
  fix i state w fs1 d
  let ?m = "passport_of q state w"
  assume valid: "validate_accepted_events S fs [] (ry_events st) = Inr ()"
    and state: "reduce_events (se_env S) (ry_workflow_definition_id st) (ry_events st) (Some (i, 0)) Healthy = Inr state"
    and inst: "install_material_passport S fs ?m = Inr (fs1, d)"
    and fs': "fs' = discard_orphan PASSPORT_STORE d fs1"
  have pub: "publish PASSPORT_STORE fs d (canonical_json_bytes (se_passport_dump S ?m)) = Inr fs1"
    using inst by (auto simp: install_def Let_def guard_simps)
  have reads: "read_bytes fs' p = read_bytes fs p" if "p \<noteq> PASSPORT_STORE @ [json_name d]" for p
    using discard_reads [OF that] publish_reads [OF pub that] fs' by simp
  have "pp_passport_sha256 y \<noteq> d" if e: "e \<in> set (ry_events st)" "ev_event_type e = Passport_accepted"
    "as_passport_accepted (ev_payload e) = Some y" for e y
  proof
    assume d: "pp_passport_sha256 y = d"
    have "validate_accepted_event S fs e = Inr ()"
      using accepted_event_validated [OF valid e(1)] e(2) by simp
    from accepted_passport_loads [OF this e(2,3)] obtain m where m: "load_material_passport S fs d = Inr m"
      "mp_based_on_revision m = pp_based_on_revision y" unfolding d .
    have "content PASSPORT_STORE fs d = Some (canonical_json_bytes (se_passport_dump S m))"
      using load_exact [OF m(1)] by simp
    from publish_present [OF pub this] have "norm (se_passport_dump S m) = norm (se_passport_dump S ?m)"
      by (simp add: canonical_bytes_iff [OF library(1) [rule_format] library(1) [rule_format]])
    then have "mp_based_on_revision m = rd_revision (rt_locals state)"
      using library(2) [rule_format, of m ?m] by (simp add: passport_based)
    with m(2) accepted_passport_revision [OF state e] show False by simp
  qed
  then have "content PASSPORT_STORE fs' (pp_passport_sha256 y) = content PASSPORT_STORE fs (pp_passport_sha256 y)"
    if "e \<in> set (ry_events st)" "ev_event_type e = Passport_accepted"
    "as_passport_accepted (ev_payload e) = Some y" for e y
    using that reads by (simp add: content_def)
  then have "load_material_passport S fs' (pp_passport_sha256 y) = load_material_passport S fs (pp_passport_sha256 y)"
    if "e \<in> set (ry_events st)" "ev_event_type e = Passport_accepted"
    "as_passport_accepted (ev_payload e) = Some y" for e y
    using that by (intro load_same_content) blast
  moreover have "read_bytes fs' p = read_bytes fs p" if "butlast p \<noteq> PASSPORT_STORE" for p
    using that by (intro reads) auto
  ultimately show ?thesis by blast
qed simp

end
