(* ===== verification/Floats.thy ===== *)
theory Floats
  imports Complex_Main
begin

text \<open>
  Python floats as the kernel uses them: durations that are only compared.  A float that is not finite
  fails the same checks whichever it is.
\<close>

datatype py_float = Finite rat | Not_finite

fun up_to :: "py_float \<Rightarrow> rat \<Rightarrow> bool" where
  "up_to (Finite x) b = (x \<le> b)"
| "up_to Not_finite b = True"

fun below :: "py_float \<Rightarrow> rat \<Rightarrow> bool" where
  "below (Finite x) b = (x < b)"
| "below Not_finite b = True"

fun in_range :: "rat \<Rightarrow> py_float \<Rightarrow> rat \<Rightarrow> bool" where
  "in_range a (Finite x) b = (a \<le> x \<and> x \<le> b)"
| "in_range a Not_finite b = False"

end
