(* ===== verification/Research_Figures.thy ===== *)
theory Research_Figures
  imports Runtime Paths Floats
begin

text \<open>
  Research figures (\<^verbatim>\<open>kernel/state/research_artifact.py\<close>) and their qualification
  (\<^verbatim>\<open>kernel/ledger/research_records.py\<close>), the second writer of the journal: a figure that passes is
  committed as four or five events, and an interrupted qualification is taken up where it stopped.
  The compiler that prepares a figure is an argument.
\<close>

section \<open>The figure\<close>

record research_binding =
  rb_binding_id :: ident
  rb_artifact_id :: ident
  rb_sha256 :: sha256
  rb_ledger_event_id :: ident
  rb_ledger_event_sha256 :: sha256
  rb_json_pointer :: string

datatype figure_node_kind =
  Fk_claim | Fk_evidence | Fk_method | Fk_experiment | Fk_result | Fk_artifact | Fk_activity | Fk_agent

datatype figure_relation =
  Fr_supports | Fr_uses | Fr_produces | Fr_precedes | Fr_derived_from | Fr_associated_with | Fr_causes

datatype annotation_role = Ar_caption | Ar_manuscript_reference | Ar_citation | Ar_note

record figure_node =
  fn_id :: ident
  fn_kind :: figure_node_kind
  fn_label :: string
  fn_binding_id :: ident
  fn_confidence :: int

record figure_edge =
  fe_id :: ident
  fe_source :: ident
  fe_target :: ident
  fe_relation :: figure_relation
  fe_label :: string
  fe_binding_id :: ident

record figure_group =
  fg_id :: ident
  fg_label :: string
  fg_members :: "ident list"

record figure_annotation =
  fa_id :: ident
  fa_role :: annotation_role
  fa_text :: string
  fa_binding_id :: ident

datatype figure_theme = Theme_blue | Theme_monochrome

record renderer_identity =
  rnd_name :: string
  rnd_version :: string
  rnd_identity_digest :: sha256
  rnd_normalization_policy :: string

datatype applicability = Apply_REQUIRED | Apply_OPTIONAL | Apply_NOT_APPLICABLE

text \<open>Schema, provenance and rendering are always required.\<close>

record validation_policy =
  vp_semantic :: applicability
  vp_visual :: applicability

datatype figure_kind = Methodology_figure | Evidence_graph_view

record research_artifact_ir =
  ir_artifact_id :: ident
  ir_artifact_kind :: figure_kind
  ir_title :: string
  ir_author_target :: string
  ir_publication_critical :: bool
  ir_research_bindings :: "research_binding list"
  ir_nodes :: "figure_node list"
  ir_edges :: "figure_edge list"
  ir_groups :: "figure_group list"
  ir_annotations :: "figure_annotation list"
  ir_presentation :: figure_theme
  ir_renderer_hints :: renderer_identity
  ir_validation_policy :: validation_policy
  ir_supersedes :: "ident option"

definition figure_references :: "research_artifact_ir \<Rightarrow> (string, research_artifact_ir) result" where
  "figure_references f =
    (let ids = map fn_id (ir_nodes f) @ map fe_id (ir_edges f) @ map fg_id (ir_groups f) @ map fa_id (ir_annotations f);
         nodes = set (map fn_id (ir_nodes f));
         bindings = map rb_binding_id (ir_research_bindings f);
         members = concat (map fg_members (ir_groups f)) in
     guard (\<not> distinct ids) ''duplicate figure element ID''
    (guard (\<not> distinct bindings) ''duplicate binding ID''
    (guard (list_ex (\<lambda>e. fe_source e \<notin> nodes \<or> fe_target e \<notin> nodes) (ir_edges f)) ''edge endpoint is absent''
    (guard (\<not> set (map fn_binding_id (ir_nodes f) @ map fe_binding_id (ir_edges f)
              @ map fa_binding_id (ir_annotations f)) \<subseteq> set bindings) ''element binding is absent''
    (guard (\<not> distinct members \<or> \<not> set members \<subseteq> nodes) ''groups overlap or name absent nodes''
    (guard (ir_publication_critical f
          \<and> (vp_semantic (ir_validation_policy f) \<noteq> Apply_REQUIRED
             \<or> vp_visual (ir_validation_policy f) \<noteq> Apply_REQUIRED))
       ''publication-critical figures require semantic and visual checks''
    (guard (ir_publication_critical f
          \<and> \<not> {Ar_caption, Ar_manuscript_reference} \<subseteq> set (map fa_role (ir_annotations f)))
       ''publication-critical figures require caption and manuscript bindings''
    (guard (ir_supersedes f = Some (ir_artifact_id f)) ''artifact cannot supersede itself'' (Inr f)))))))))"

section \<open>The receipt\<close>

record output_digest =
  out_path :: string
  out_sha256 :: sha256

definition output_confined :: "output_digest \<Rightarrow> (string, output_digest) result" where
  "output_confined d =
     guard (list_ex (\<lambda>p. p \<in> {''.'', ''..''}) (split_on slash (out_path d))) ''output path is not normalized'' (Inr d)"

datatype validation_status =
  Vs_PASS | Vs_FAIL | Vs_UNAVAILABLE | Vs_NOT_APPLICABLE | Vs_OPTIONAL_SKIPPED

record validation_results =
  vr_schema :: validation_status
  vr_provenance :: validation_status
  vr_semantic :: validation_status
  vr_render :: validation_status
  vr_visual :: validation_status

record visual_reviewer =
  vis_tool_id :: string
  vis_version :: string
  vis_identity_digest :: sha256
  vis_evidence_artifact_id :: ident
  vis_evidence_event_id :: ident
  vis_evidence_event_sha256 :: sha256

record research_artifact_receipt =
  rar_artifact_id :: ident
  rar_artifact_kind :: figure_kind
  rar_ir_sha256 :: sha256
  rar_renderer :: renderer_identity
  rar_inputs :: "research_binding list"
  rar_outputs :: "output_digest list"
  rar_validation_policy :: validation_policy
  rar_validation :: validation_results
  rar_qualification :: bool
  rar_publication_critical :: bool
  rar_visual_reviewer :: "visual_reviewer option"
  rar_reason_codes :: "string list"

section \<open>Create-only files\<close>

text \<open>
  \<open>publish_once\<close>; the parts of the path are opened one after the other without following links.
\<close>

definition output_name :: "string \<Rightarrow> bool" where
  "output_name s =
    (s \<noteq> [] \<and> \<not> list_ex (\<lambda>p. p \<in> {[], ''.'', ''..''}) (split_on slash s)
   \<and> CHR 0x5C \<notin> set s \<and> CHR 0x00 \<notin> set s)"

definition MAX_OUTPUT_BYTES :: nat where
  "MAX_OUTPUT_BYTES = 8388608"

definition publish_once :: "fs \<Rightarrow> string \<Rightarrow> string \<Rightarrow> (string, fs) result" where
  "publish_once fs relative value =
    (let parts = split_on slash relative; failed = ''immutable publication failed safely'' in
     guard (\<not> output_name relative) ''invalid immutable output path''
    (guard (MAX_OUTPUT_BYTES < length value) ''immutable output exceeds byte budget''
    (rbind (ensure_directory failed failed fs [] (butlast parts)) (\<lambda>fs.
     guard (is_link fs parts) failed
    (if lexists fs parts
     then guard (read_bytes fs parts \<noteq> Some value) ''immutable output ID conflict'' (Inr fs)
     else Inr (dset parts (File value) fs))))))"

text \<open>\<open>unlink_retained\<close>: the body of a retired artifact is removed, if it is a file; names hold no NUL.\<close>

definition unlink_retained :: "fs \<Rightarrow> string \<Rightarrow> (string, fs) result" where
  "unlink_retained fs relative =
    (let parts = split_on slash relative in
     guard (list_ex (\<lambda>p. p \<in> {[], ''.'', ''..''}) parts \<or> CHR 0x5C \<in> set relative) ''invalid retention path''
    (guard (list_ex (\<lambda>k. \<not> is_dir fs (take k parts)) [1..<length parts]) ''retention path is unavailable or unsafe''
    (if \<not> lexists fs parts then Inr fs
     else guard (\<not> is_file fs parts) ''retention target is not a direct regular file'' (Inr (dpop parts fs)))))"

fun publish_files :: "fs \<Rightarrow> (string \<times> string) list \<Rightarrow> unit step" where
  "publish_files fs [] = (Inr (), fs)"
| "publish_files fs ((p, v) # files) =
    (case publish_once fs p v of Inl m \<Rightarrow> (Inl (PyValueError m), fs) | Inr fs' \<Rightarrow> publish_files fs' files)"

section \<open>The qualification of a figure\<close>

text \<open>
  What the pipeline uses of the library: identifiers derived from the identifier of the command, the
  patterns of secrets, and the dumps of the two models.
\<close>

record figure_env =
  fge_uuid :: "ident \<Rightarrow> string option"
  fge_derived :: "string \<Rightarrow> event_type \<Rightarrow> string"
  fge_secret :: "string \<Rightarrow> bool"
  fge_ir_dump :: "research_artifact_ir \<Rightarrow> json"
  fge_receipt_dump :: "research_artifact_receipt \<Rightarrow> json"

definition figure_phases :: "research_artifact_ir \<Rightarrow> event_type list" where
  "figure_phases f =
     [Artifact_ir_frozen, Artifact_rendered, Artifact_validated, Research_artifact_accepted]
     @ (if falsy (ir_supersedes f) then [] else [Research_artifact_superseded])"

definition receipt_bytes :: "figure_env \<Rightarrow> research_artifact_receipt \<Rightarrow> string" where
  "receipt_bytes G r = canonical_json_bytes (fge_receipt_dump G r)"

text \<open>\<open>identity\<close>: the command's own identifiers stand for the acceptance.\<close>

definition phase_command :: "figure_env \<Rightarrow> command_request \<Rightarrow> string \<Rightarrow> event_type \<Rightarrow> ident" where
  "phase_command G q u t =
    (if t = Research_artifact_accepted then cr_command_id q else ''cmd-'' @ fge_derived G u t)"

definition phase_event :: "figure_env \<Rightarrow> command_request \<Rightarrow> string \<Rightarrow> event_type \<Rightarrow> ident" where
  "phase_event G q u t =
    (if t = Research_artifact_accepted then cr_event_id q else ''evt-'' @ fge_derived G u t)"

definition ir_sha256_of :: "payload \<Rightarrow> sha256 option" where
  "ir_sha256_of p =
    (case p of P_artifact_stage s \<Rightarrow> Some (rst_ir_sha256 s)
     | P_research_artifact_accepted a \<Rightarrow> Some (ra_ir_sha256 a) | _ \<Rightarrow> None)"

definition stage_of ::
  "figure_env \<Rightarrow> store_env \<Rightarrow> research_artifact_ir \<Rightarrow> research_artifact_receipt \<Rightarrow> research_artifact_stage" where
  "stage_of G S f r =
     \<lparr> rst_artifact_id = ir_artifact_id f, rst_ir_sha256 = rar_ir_sha256 r,
       rst_renderer_identity_digest = rnd_identity_digest (rar_renderer r),
       rst_receipt_sha256 = hash S (receipt_bytes G r),
       rst_source_event_sha256 = map rb_ledger_event_sha256 (ir_research_bindings f) \<rparr>"

definition figure_manifest ::
  "command_request \<Rightarrow> replay_state \<Rightarrow> research_artifact_ir \<Rightarrow> sha256 \<Rightarrow> artifact_manifest" where
  "figure_manifest q st f receipt =
     \<lparr> am_schema_version = ''1.0.0'', am_run_id = ry_run_id st, am_artifact_id = ir_artifact_id f,
       am_artifact_kind = ''research-artifact'', am_media_type = ''application/json'',
       am_content_path = ''.arw/artifacts/accepted/'' @ ir_artifact_id f @ ''/receipt.json'',
       am_content_sha256 = receipt, am_producer_id = cr_actor_id q, am_attempt_id = None,
       am_base_revision = ry_revision st, am_consumed_sha256 = [ry_last_event_sha256 st],
       am_created_at = cr_occurred_at q \<rparr>"

text \<open>The checks that precede the files; the answer is the event that was accepted before.\<close>

definition figure_checks ::
  "figure_env \<Rightarrow> store_env \<Rightarrow> command_request \<Rightarrow> replay_state \<Rightarrow> research_artifact_ir \<Rightarrow> research_artifact_receipt
    \<Rightarrow> (string, string \<times> bool) result" where
  "figure_checks G S q st f r =
    (let existing = List.find (\<lambda>e. ev_command_id e = cr_command_id q) (ry_events st);
         accepted = filter (\<lambda>e. ev_event_type e = Research_artifact_accepted) (ry_events st) in
     guard (case existing of None \<Rightarrow> False
          | Some e \<Rightarrow> ev_event_type e \<noteq> Research_artifact_accepted
              \<or> ir_sha256_of (ev_payload e) \<noteq> Some (rar_ir_sha256 r)
              \<or> artifact_sha256_of (ev_payload e) \<noteq> Some (hash S (receipt_bytes G r)))
       ''command ID already binds different research content''
    (require_some (fge_uuid G (cr_command_id q)) ''badly formed hexadecimal UUID string'' (\<lambda>u.
     let commands = map (phase_command G q u) (figure_phases f);
         prior = filter (\<lambda>e. ev_command_id e \<in> set commands) (ry_events st) in
     guard (existing = None \<and> cr_expected_revision q + int (length prior) \<noteq> ry_revision st)
       ''stale qualification revision''
    (guard (list_ex (\<lambda>e. artifact_id_of (ev_payload e) = Some (ir_artifact_id f)
          \<and> ev_command_id e \<noteq> cr_command_id q) accepted)
       ''artifact ID already accepted; use a new ID to supersede''
    (guard (\<not> falsy (ir_supersedes f)
          \<and> \<not> list_ex (\<lambda>e. artifact_id_of (ev_payload e) = ir_supersedes f) accepted)
       ''superseded artifact is not accepted'' (Inr (u, existing \<noteq> None)))))))"

text \<open>The payload of a phase; the acceptance installs its manifest first.\<close>

definition phase_payload ::
  "figure_env \<Rightarrow> store_env \<Rightarrow> fs \<Rightarrow> command_request \<Rightarrow> replay_state \<Rightarrow> research_artifact_ir
    \<Rightarrow> research_artifact_receipt \<Rightarrow> canonical_event option \<Rightarrow> event_type \<Rightarrow> (py_error, fs \<times> payload) result" where
  "phase_payload G S fs q st f r accepting t =
    (let s = stage_of G S f r in
     if t = Research_artifact_accepted then
       manifest_result (rbind (install_artifact_manifest S fs (figure_manifest q st f (rst_receipt_sha256 s)))
         (\<lambda>(fs', d). Inr (fs', P_research_artifact_accepted
           \<lparr> aa_artifact_id = ir_artifact_id f, aa_manifest_sha256 = d, aa_artifact_sha256 = rst_receipt_sha256 s,
             aa_attempt_id = None, aa_narrative_report_sha256 = None, ra_ir_sha256 = rar_ir_sha256 r,
             ra_renderer_identity_digest = rnd_identity_digest (rar_renderer r),
             ra_source_event_sha256 = rst_source_event_sha256 s, ra_supersedes = ir_supersedes f \<rparr>)))
     else if t = Research_artifact_superseded then
       require_some accepting (PyAttributeError ''event_id'') (\<lambda>e. Inr (fs, P_research_artifact_superseded
         \<lparr> rsu_artifact_id = ir_artifact_id f, rsu_supersedes = the (ir_supersedes f),
           rsu_accepting_event_id = ev_event_id e \<rparr>))
     else Inr (fs, P_artifact_stage s))"

text \<open>
  The loop over the phases.  A phase that is recorded is skipped; the state after an append is the
  replay's, whatever its health.
\<close>

fun commit_phases ::
  "figure_env \<Rightarrow> store_env \<Rightarrow> fs \<Rightarrow> command_request \<Rightarrow> string \<Rightarrow> research_artifact_ir \<Rightarrow> research_artifact_receipt
    \<Rightarrow> replay_state \<Rightarrow> canonical_event option \<Rightarrow> event_type list \<Rightarrow> (replay_state \<times> canonical_event option) step" where
  "commit_phases G S fs q u f r st accepting [] = (Inr (st, accepting), fs)"
| "commit_phases G S fs q u f r st accepting (t # ts) =
    (case List.find (\<lambda>e. ev_command_id e = phase_command G q u t) (ry_events st) of
       Some old \<Rightarrow>
         if artifact_id_of (ev_payload old) \<noteq> Some (ir_artifact_id f)
            \<or> ir_sha256_of (ev_payload old) \<notin> {None, Some (rar_ir_sha256 r)}
         then (Inl (PyValueError ''partial operation conflicts with frozen input''), fs)
         else commit_phases G S fs q u f r st
           (if t = Research_artifact_accepted then Some old else accepting) ts
     | None \<Rightarrow>
         on_files fs (phase_payload G S fs q st f r accepting t) (\<lambda>(fs, p).
         on_files fs (build_runtime_event S st t
             (q\<lparr> cr_event_id := phase_event G q u t, cr_command_id := phase_command G q u t \<rparr>) p) (\<lambda>e.
         on_files fs (reduce_events (se_env S) (ry_workflow_definition_id st) (ry_events st @ [e]) None Healthy) (\<lambda>_.
         case append_event S fs st e of
           (Inl x, fs') \<Rightarrow> (Inl x, fs')
         | (Inr st', fs') \<Rightarrow> commit_phases G S fs' q u f r st'
             (if t = Research_artifact_accepted then Some e else accepting) ts))))"

record figure_binding =
  fgb_artifact_id :: ident
  fgb_ir_sha256 :: sha256
  fgb_receipt_sha256 :: sha256
  fgb_event_id :: ident
  fgb_event_sha256 :: sha256

definition figure_binding_json :: "figure_binding \<Rightarrow> json" where
  "figure_binding_json b = JObj
     [(''artifact_id'', JStr (fgb_artifact_id b)), (''ir_sha256'', JStr (fgb_ir_sha256 b)),
      (''receipt_sha256'', JStr (fgb_receipt_sha256 b)), (''event_id'', JStr (fgb_event_id b)),
      (''event_sha256'', JStr (fgb_event_sha256 b))]"

definition binding_file :: "ident \<Rightarrow> string" where
  "binding_file i = ''.arw/artifacts/accepted/'' @ i @ ''/binding.json''"

datatype qualification =
  Unqualified research_artifact_receipt | Qualified research_artifact_receipt figure_binding bool

definition qualify ::
  "figure_env \<Rightarrow> store_env \<Rightarrow> fs \<Rightarrow> command_request \<Rightarrow> replay_state \<Rightarrow> research_artifact_ir
    \<Rightarrow> research_artifact_receipt \<Rightarrow> (string \<times> string) list \<Rightarrow> qualification step" where
  "qualify G S fs q st f r files =
     on_files fs (case figure_checks G S q st f r of Inl m \<Rightarrow> Inl (PyValueError m) | Inr v \<Rightarrow> Inr v) (\<lambda>(u, known).
     case publish_files fs files of (Inl x, fs) \<Rightarrow> (Inl x, fs) | (Inr _, fs) \<Rightarrow>
     (case commit_phases G S fs q u f r st None (figure_phases f) of (Inl x, fs) \<Rightarrow> (Inl x, fs)
      | (Inr (st', accepting), fs) \<Rightarrow>
     on_files fs (require_some accepting (PyAttributeError ''event_id'') Inr) (\<lambda>e.
     let b = \<lparr> fgb_artifact_id = ir_artifact_id f, fgb_ir_sha256 = rar_ir_sha256 r,
               fgb_receipt_sha256 = hash S (receipt_bytes G r), fgb_event_id = ev_event_id e,
               fgb_event_sha256 = ev_event_sha256 e \<rparr> in
     case publish_files fs [(binding_file (ir_artifact_id f), canonical_json_bytes (figure_binding_json b))] of
       (Inl x, fs) \<Rightarrow> (Inl x, fs) | (Inr _, fs) \<Rightarrow> (Inr (Qualified r b known), fs))))"

definition commit_artifact_pipeline ::
  "figure_env \<Rightarrow> store_env \<Rightarrow> fs \<Rightarrow> command_request
    \<Rightarrow> (fs \<Rightarrow> canonical_event list \<Rightarrow> (py_error, research_artifact_ir \<times> research_artifact_receipt \<times> (string \<times> string) list) result)
    \<Rightarrow> py_float \<Rightarrow> qualification step" where
  "commit_artifact_pipeline G S fs q prepare timeout =
     on_files fs (guard (cr_actor_role q \<noteq> Parent_control_plane)
         (PyValueError ''only the parent may qualify research artifacts'')
       (guard (\<not> in_range 0 timeout 30)
         (PyValueError ''qualification lock wait must be between 0 and 30 seconds'') (Inr ()))) (\<lambda>_.
     on_files fs (locked_replay S fs) (\<lambda>(fs, st).
     on_files fs (guard (cr_run_id q \<noteq> ry_run_id st \<or> ry_recovery_health st \<noteq> Healthy)
         (PyValueError ''run identity or recovery health prevents qualification'')
       (rbind (validate_accepted_events S fs [] (ry_events st)) (\<lambda>_. prepare fs (ry_events st)))) (\<lambda>(f, r, files).
     on_files fs (guard (fge_secret G (canonical_json_bytes (fge_ir_dump G f)))
         (PyValueError ''secret-shaped input rejected before durable storage'') (Inr ())) (\<lambda>_.
     if \<not> rar_qualification r
     then (case publish_files fs files of (Inl x, fs') \<Rightarrow> (Inl x, fs') | (Inr _, fs') \<Rightarrow> (Inr (Unqualified r), fs'))
     else qualify G S fs q st f r files))))"

end
