(* ===== verification/Figure_Pipeline.thy ===== *)
theory Figure_Pipeline
  imports Research_Figures Runtime_Commit
begin

text \<open>
  What the qualification of figures guarantees: published files are create-only, and a qualification that
  failed or was committed before does not touch the journal.
\<close>

section \<open>Create-only files\<close>

definition output_content :: "fs \<Rightarrow> string \<Rightarrow> string option" where
  "output_content fs s =
    (if output_name s
     then (case read_bytes fs (split_on slash s) of
             Some b \<Rightarrow> if length b \<le> MAX_OUTPUT_BYTES then Some b else None | None \<Rightarrow> None)
     else None)"

lemma publish_once_cases:
  assumes "publish_once fs s v = Inr fs'"
  obtains t where "ensure_directory ''immutable publication failed safely'' ''immutable publication failed safely'' fs []
      (butlast (split_on slash s)) = Inr t" "output_name s" "length v \<le> MAX_OUTPUT_BYTES"
    "\<not> is_link t (split_on slash s)"
    "if lexists t (split_on slash s) then read_bytes t (split_on slash s) = Some v \<and> fs' = t
     else fs' = dset (split_on slash s) (File v) t"
  using assms by (auto simp: publish_once_def Let_def guard_simps split: if_splits)

lemma publish_once_reads:
  assumes "publish_once fs s v = Inr fs'"
  shows "read_bytes fs' (split_on slash s) = Some v"
    and "p \<noteq> split_on slash s \<Longrightarrow> read_bytes fs' p = read_bytes fs p"
    and "read_bytes fs p = Some b \<Longrightarrow> read_bytes fs' p = Some b"
proof -
  obtain t where t: "ensure_directory ''immutable publication failed safely'' ''immutable publication failed safely'' fs []
      (butlast (split_on slash s)) = Inr t"
    and e: "if lexists t (split_on slash s) then read_bytes t (split_on slash s) = Some v \<and> fs' = t
     else fs' = dset (split_on slash s) (File v) t"
    using assms by (rule publish_once_cases)
  have same: "read_bytes t p = read_bytes fs p" for p using ensure_directory_reads [OF t] .
  show "read_bytes fs' (split_on slash s) = Some v" using e by (auto simp: read_bytes_dset split: if_splits)
  show "read_bytes fs' p = read_bytes fs p" if "p \<noteq> split_on slash s"
    using e that same by (auto simp: read_bytes_dset split: if_splits)
  show "read_bytes fs' p = Some b" if "read_bytes fs p = Some b"
  proof -
    have "read_bytes t p = Some b" using that same by simp
    moreover from this have "lexists t p" by (auto simp: lexists_def read_bytes_iff)
    ultimately show ?thesis using e by (auto simp: read_bytes_dset split: if_splits)
  qed
qed

lemma publish_once_wf:
  assumes "publish_once fs s v = Inr fs'" and "wf_fs fs"
  shows "wf_fs fs'"
proof -
  let ?p = "split_on slash s"
  obtain t where t: "ensure_directory ''immutable publication failed safely'' ''immutable publication failed safely'' fs []
      (butlast ?p) = Inr t"
    and e: "if lexists t ?p then read_bytes t ?p = Some v \<and> fs' = t else fs' = dset ?p (File v) t"
    using assms(1) by (rule publish_once_cases)
  have "wf_fs t \<and> is_dir t (butlast ?p)" using ensure_directory_wf [OF t assms(2)] by (simp add: is_dir_def)
  then show ?thesis using e by (auto simp: lexists_def intro!: wf_fs_dset split: if_splits)
qed

lemma publish_once_present:
  assumes "wf_fs fs" and "output_content fs s = Some v"
  shows "publish_once fs s v = Inr fs"
proof -
  let ?p = "split_on slash s"
  have p: "output_name s" "length v \<le> MAX_OUTPUT_BYTES" "read_bytes fs ?p = Some v"
    using assms(2) by (auto simp: output_content_def split: if_splits option.splits)
  have "is_dir fs (butlast ?p)"
    using file_in_directory [OF assms(1), of "butlast ?p" "last ?p" v] p(3) by simp
  then have "ensure_directory m m' fs [] (butlast ?p) = Inr fs" for m m'
    using ensure_directory_present [OF assms(1), of "[]"] by simp
  moreover have "lexists fs ?p" "\<not> is_link fs ?p" using p(3) by (auto simp: lexists_def is_link_def read_bytes_iff)
  ultimately show ?thesis using p by (simp add: publish_once_def Let_def guard_simps rbind_simps)
qed

interpretation outputs: write_once publish_once output_content
proof
  fix s s' :: fs and k j :: string and v w :: string
  assume wf: "wf_fs s"
  show "publish_once s k v = Inr s" if "output_content s k = Some v" by (rule publish_once_present [OF wf that])
  assume p: "publish_once s k v = Inr s'"
  show "wf_fs s'" by (rule publish_once_wf [OF p wf])
  have ok: "output_name k" "length v \<le> MAX_OUTPUT_BYTES" using p by (auto elim: publish_once_cases)
  show "output_content s' k = Some v" using publish_once_reads(1) [OF p] ok by (simp add: output_content_def)
  show "output_content s' j = output_content s j" if "j \<noteq> k"
  proof -
    have "split_on slash j \<noteq> split_on slash k" using that join_split by metis
    then show ?thesis using publish_once_reads(2) [OF p] by (simp add: output_content_def)
  qed
  show "w = v" if "output_content s k = Some w"
    using publish_once_reads(1,3) [OF p] that by (auto simp: output_content_def split: if_splits option.splits)
qed

lemma publish_files_kept:
  "publish_files fs files = (x, fs') \<Longrightarrow> wf_fs fs \<Longrightarrow> wf_fs fs' \<and> (\<forall>p b. read_bytes fs p = Some b \<longrightarrow> read_bytes fs' p = Some b)
     \<and> (x = Inr () \<longrightarrow> (\<forall>(s, v) \<in> set files. read_bytes fs' (split_on slash s) = Some v))"
proof (induction fs files rule: publish_files.induct)
  case (2 fs s v files)
  show ?case
  proof (cases "publish_once fs s v")
    case (Inr t)
    then have rest: "publish_files t files = (x, fs')" using 2(2) by simp
    have t: "wf_fs t" "read_bytes t (split_on slash s) = Some v"
      "\<And>p b. read_bytes fs p = Some b \<Longrightarrow> read_bytes t p = Some b"
      using publish_once_wf [OF Inr 2(3)] publish_once_reads [OF Inr] by blast+
    from 2(1) [OF Inr rest t(1)] t show ?thesis by auto
  qed (use 2 in auto)
qed simp

section \<open>A qualification that is repeated\<close>

lemma find_command:
  "List.find (\<lambda>e. ev_command_id e = c) es = Some e \<Longrightarrow> e \<in> set es \<and> ev_command_id e = c"
  by (auto simp: find_Some_iff)

lemma phases_recorded:
  assumes "\<forall>t \<in> set ts. \<exists>e \<in> set (ry_events st). ev_command_id e = phase_command G q u t"
    and "commit_phases G S fs q u f r st accepting ts = (x, fs')"
  shows "fs' = fs \<and> (\<forall>st' a. x = Inr (st', a) \<longrightarrow> st' = st
    \<and> (a = accepting \<or> a = List.find (\<lambda>e. ev_command_id e = cr_command_id q) (ry_events st)))"
  using assms
proof (induction ts arbitrary: accepting)
  case (Cons t ts)
  let ?find = "List.find (\<lambda>e. ev_command_id e = phase_command G q u t) (ry_events st)"
  obtain old where old: "?find = Some old"
    using Cons.prems(1) by (cases ?find) (auto simp: find_None_iff)
  have accept: "t = Research_artifact_accepted \<Longrightarrow> Some old = List.find (\<lambda>e. ev_command_id e = cr_command_id q) (ry_events st)"
    using old by (simp add: phase_command_def)
  let ?next = "if t = Research_artifact_accepted then Some old else accepting"
  have "commit_phases G S fs q u f r st accepting (t # ts)
      = (if artifact_id_of (ev_payload old) \<noteq> Some (ir_artifact_id f)
            \<or> ir_sha256_of (ev_payload old) \<notin> {None, Some (rar_ir_sha256 r)}
         then (Inl (PyValueError ''partial operation conflicts with frozen input''), fs)
         else commit_phases G S fs q u f r st ?next ts)"
    by (simp only: commit_phases.simps old option.case)
  with Cons.prems(2) consider "x = Inl (PyValueError ''partial operation conflicts with frozen input'')" "fs' = fs"
    | "commit_phases G S fs q u f r st ?next ts = (x, fs')" by (auto split: if_splits)
  then show ?case
  proof cases
    case 2
    with Cons.IH [of ?next] Cons.prems(1) accept show ?thesis by (cases "t = Research_artifact_accepted") auto
  qed simp
qed auto

lemma checked_figure:
  assumes "figure_checks G S q st f r = Inr (u, known)"
    and "List.find (\<lambda>e. ev_command_id e = cr_command_id q) (ry_events st) = Some e"
  shows "fge_uuid G (cr_command_id q) = Some u \<and> known \<and> ev_event_type e = Research_artifact_accepted
    \<and> ir_sha256_of (ev_payload e) = Some (rar_ir_sha256 r)
    \<and> artifact_sha256_of (ev_payload e) = Some (hash S (receipt_bytes G r))"
  using assms by (auto simp: figure_checks_def Let_def guard_simps)

lemma qualify_recorded:
  assumes "qualify G S fs q st f r files = (x, fs')" and wf: "wf_fs fs" and "fge_uuid G (cr_command_id q) = Some u"
    and recorded: "\<forall>t \<in> set (figure_phases f). \<exists>e \<in> set (ry_events st). ev_command_id e = phase_command G q u t"
  shows "(\<forall>p b. read_bytes fs p = Some b \<longrightarrow> read_bytes fs' p = Some b)
    \<and> (\<forall>y. x = Inr y \<longrightarrow> (\<forall>(s, v) \<in> set files. read_bytes fs' (split_on slash s) = Some v)
        \<and> (\<exists>e b. y = Qualified r b True \<and> e \<in> set (ry_events st)
             \<and> ev_event_type e = Research_artifact_accepted \<and> fgb_event_sha256 b = ev_event_sha256 e
             \<and> fgb_event_id b = ev_event_id e \<and> ir_sha256_of (ev_payload e) = Some (fgb_ir_sha256 b)
             \<and> artifact_sha256_of (ev_payload e) = Some (fgb_receipt_sha256 b)))"
proof (cases "figure_checks G S q st f r")
  case (Inl m)
  then show ?thesis using assms(1) by (auto simp: qualify_def)
next
  case (Inr c)
  obtain u' known where "c = (u', known)" by fastforce
  moreover have "u' = u" using Inr calculation assms(3) by (auto simp: figure_checks_def Let_def guard_simps)
  ultimately have checks: "figure_checks G S q st f r = Inr (u, known)" using Inr by simp
  obtain x1 fs1 where p1: "publish_files fs files = (x1, fs1)" by fastforce
  note k1 = publish_files_kept [OF p1 wf]
  show ?thesis
  proof (cases x1)
    case (Inl e)
    then show ?thesis using assms(1) checks p1 k1 by (auto simp: qualify_def)
  next
    case (Inr u1)
    obtain x2 fs2 where p2: "commit_phases G S fs1 q u f r st None (figure_phases f) = (x2, fs2)" by fastforce
    have "fs2 = fs1" and acc: "\<And>st' a. x2 = Inr (st', a) \<Longrightarrow> st' = st
        \<and> (a = None \<or> a = List.find (\<lambda>e. ev_command_id e = cr_command_id q) (ry_events st))"
      using phases_recorded [OF recorded p2] by auto
    show ?thesis
    proof (cases "\<exists>st' e. x2 = Inr (st', Some e)")
      case False
      then show ?thesis using assms(1) checks p1 p2 k1 Inr \<open>fs2 = fs1\<close>
        by (auto simp: qualify_def require_some_simps split: sum.splits option.splits)
    next
      case True
      then obtain st' e where x2: "x2 = Inr (st', Some e)" by blast
      have find: "List.find (\<lambda>e. ev_command_id e = cr_command_id q) (ry_events st) = Some e" using acc [OF x2] by simp
      note e = checked_figure [OF checks find] find_command [OF find]
      let ?b = "\<lparr> fgb_artifact_id = ir_artifact_id f, fgb_ir_sha256 = rar_ir_sha256 r,
               fgb_receipt_sha256 = hash S (receipt_bytes G r), fgb_event_id = ev_event_id e,
               fgb_event_sha256 = ev_event_sha256 e \<rparr>"
      obtain x3 fs3 where p3: "publish_files fs1 [(binding_file (ir_artifact_id f),
          canonical_json_bytes (figure_binding_json ?b))] = (x3, fs3)" by fastforce
      note k3 = publish_files_kept [OF p3, THEN conjunct2, THEN conjunct1]
      have "fs' = fs3" "x = (case x3 of Inl y \<Rightarrow> Inl y | Inr _ \<Rightarrow> Inr (Qualified r ?b known))"
        using assms(1) checks p1 p2 p3 Inr x2 \<open>fs2 = fs1\<close>
        by (auto simp: qualify_def require_some_simps Let_def split: sum.splits)
      with k1 k3 e Inr show ?thesis by (auto split: sum.splits)
    qed
  qed
qed

text \<open>
  C12.  The journal is written only for a figure that is new and passes.  Let a run be replayed, its
  initialisation be sealed, and a figure be prepared that failed its qualification or whose operation
  is already recorded, every phase under its command.  Whatever comes of the request, no file that
  existed is changed or removed, the journal and the manifests among them; if it succeeds, the prepared
  files are there with exactly the given content; and if it reports an acceptance, the figure did
  pass, the request was the parent's, and the event it names is the one in the journal, with this
  figure's digest and receipt.
\<close>

theorem qualification_is_written_once:
  assumes st: "replay_unlocked S fs None = Inr st" "seal_initialization S fs st = Inr fs" "wf_fs fs"
    and prepared: "prepare fs (ry_events st) = Inr (f, r, files)"
    and old: "\<not> rar_qualification r \<or> (\<exists>u. fge_uuid G (cr_command_id q) = Some u
      \<and> (\<forall>t \<in> set (figure_phases f). \<exists>e \<in> set (ry_events st). ev_command_id e = phase_command G q u t))"
    and run: "commit_artifact_pipeline G S fs q prepare timeout = (x, fs')"
  shows "(\<forall>p b. read_bytes fs p = Some b \<longrightarrow> read_bytes fs' p = Some b)
    \<and> (\<forall>y. x = Inr y \<longrightarrow> (\<forall>(s, v) \<in> set files. read_bytes fs' (split_on slash s) = Some v)
        \<and> cr_actor_role q = Parent_control_plane \<and> ry_recovery_health st = Healthy)
    \<and> (\<forall>r' b known. x = Inr (Qualified r' b known) \<longrightarrow> r' = r \<and> rar_qualification r \<and> known
        \<and> (\<exists>e \<in> set (ry_events st). ev_event_type e = Research_artifact_accepted
             \<and> ev_event_sha256 e = fgb_event_sha256 b \<and> ev_event_id e = fgb_event_id b
             \<and> ir_sha256_of (ev_payload e) = Some (fgb_ir_sha256 b)
             \<and> artifact_sha256_of (ev_payload e) = Some (fgb_receipt_sha256 b)))"
proof -
  have lock: "locked_replay S fs = Inr (fs, st)" using st by (simp add: locked_replay_def)
  let ?run = "if \<not> rar_qualification r
     then (case publish_files fs files of (Inl x, fs') \<Rightarrow> (Inl x, fs') | (Inr _, fs') \<Rightarrow> (Inr (Unqualified r), fs'))
     else qualify G S fs q st f r files"
  consider m where "x = Inl m" "fs' = fs"
    | "cr_actor_role q = Parent_control_plane" "ry_recovery_health st = Healthy" "?run = (x, fs')"
    using run by (auto simp: commit_artifact_pipeline_def on_files_def lock prepared rbind_def guard_def split: sum.splits if_splits)
  then show ?thesis
  proof cases
    case 2
    show ?thesis
    proof (cases "rar_qualification r")
      case True
      then obtain u where u: "fge_uuid G (cr_command_id q) = Some u"
        "\<forall>t \<in> set (figure_phases f). \<exists>e \<in> set (ry_events st). ev_command_id e = phase_command G q u t"
        using old by blast
      have "qualify G S fs q st f r files = (x, fs')" using 2(3) True by simp
      from qualify_recorded [OF this st(3) u] True 2 show ?thesis by fastforce
    next
      case False
      obtain x1 fs1 where p: "publish_files fs files = (x1, fs1)" by fastforce
      have "fs1 = fs'" "x = (case x1 of Inl e \<Rightarrow> Inl e | Inr _ \<Rightarrow> Inr (Unqualified r))"
        using 2(3) False p by (auto split: sum.splits)
      with publish_files_kept [OF p st(3)] False 2 show ?thesis by (auto split: sum.splits)
    qed
  qed simp
qed

end
