(* ===== verification/Runtime_Witnesses.thy ===== *)
theory Runtime_Witnesses
  imports Runtime_Rollback Figure_Pipeline Journal_Witnesses
begin

text \<open>The properties of commands applied to the sample run.\<close>

section \<open>The state before a command\<close>

text \<open>Without a Passport the state does not depend on the clock.\<close>

lemma reduced_at_any_time:
  assumes "reduce_events E w es None h = Inr rt" and "rd_fresh_until (rt_locals rt) = None"
  shows "reduce_events E w es now h = Inr rt"
proof -
  have "finish_state E w r now h s = finish_state E w r None h s" if "rd_fresh_until s = None" for r s
    using that by (simp add: finish_state_def expired_now_def falsy_def split: option.split)
  moreover obtain s where "reduce_loop E w (ev_run_id (hd es)) initial_state es = Inr s" "rt_locals rt = s"
    using assms(1) by (rule reduce_eventsE)
  ultimately show ?thesis using assms by (simp add: reduce_events_def guard_simps)
qed

lemma logged_loop:
  "\<exists>s. reduce_loop sample_env PHASE4_WORKFLOW_ID ''run'' initial_state [first_event] = Inr s
     \<and> rd_fresh_until s = None \<and> rd_stage s = ''initialized'' \<and> rd_blockers s = [] \<and> rd_proposals s = []
     \<and> rd_revision s = 1"
  "\<exists>s. reduce_loop sample_env PHASE4_WORKFLOW_ID ''run'' initial_state [first_event, second_event] = Inr s
     \<and> rd_fresh_until s = None"
  by (simp_all add: first_event_def second_event_def sample_eval logged_fields logged_checks)

lemma finish_unblocked:
  assumes "finish_state E w r None Healthy s = Inr a" and "rd_blockers s = []" and "rd_proposals s = []"
  shows "rt_blockers a = [] \<and> rt_workflow_definition_id a = w"
  using assms by (auto simp: finish_state_def expired_now_def Let_def guard_simps health_blockers_def add_when_def
      dvalues_def)

lemma logged_states:
  obtains a b where "\<forall>now. reduce_events sample_env PHASE4_WORKFLOW_ID [first_event] now Healthy = Inr a"
    "\<forall>now. reduce_events sample_env PHASE4_WORKFLOW_ID [first_event, second_event] now Healthy = Inr b"
    "rd_stage (rt_locals a) = ''initialized''" "rt_blockers a = []"
    "rt_workflow_definition_id a = PHASE4_WORKFLOW_ID" "rd_revision (rt_locals a) = 1"
proof -
  obtain a where a: "reduce_events sample_env PHASE4_WORKFLOW_ID [first_event] None Healthy = Inr a"
    using logged_reduced(1) by blast
  obtain b where b: "reduce_events sample_env PHASE4_WORKFLOW_ID [first_event, second_event] None Healthy = Inr b"
    using logged_reduced(2) by blast
  have run: "ev_run_id first_event = ''run''" by (simp add: first_event_def logged_fields)
  have "rd_fresh_until (rt_locals b) = None"
    using b by (rule reduce_eventsE) (use logged_loop(2) run in auto)
  moreover have "rd_fresh_until (rt_locals a) = None \<and> rd_stage (rt_locals a) = ''initialized'' \<and> rt_blockers a = []
      \<and> rt_workflow_definition_id a = PHASE4_WORKFLOW_ID \<and> rd_revision (rt_locals a) = 1"
    using a by (rule reduce_eventsE) (use logged_loop(1) run in \<open>auto dest: finish_unblocked\<close>)
  ultimately show ?thesis using that reduced_at_any_time [OF a] reduced_at_any_time [OF b] by blast
qed

lemma logged_seal_none: "seal_initialization logged_env logged_journal st = Inr logged_journal"
  by (simp add: seal_initialization_def validate_initialization_transaction_def lexists_def logged_files_def
      INITIALIZATION_PREPARED_def INITIALIZATION_COMMITTED_def MANIFEST_NAME_def JOURNAL_ROOT_def SEGMENTS_def
      first_segment_def guard_simps rbind_simps)

lemma logged_accepted: "validate_accepted_events logged_env fs [] [first_event] = Inr ()"
  by (simp add: validate_accepted_event_def first_event_def logged_fields rbind_simps harness_receipt_def
      manifest_result_def)

definition logged_request :: "int \<Rightarrow> 'a \<Rightarrow> 'a command_request_scheme" where
  "logged_request n x =
     \<lparr> cr_run_id = ''run'', cr_event_id = ''event.'' @ int_str n, cr_command_id = ''command.'' @ int_str n,
       cr_expected_revision = 1, cr_occurred_at = ''2026-06-01T00:00:00Z'', cr_actor_id = ''parent'',
       cr_actor_role = Parent_control_plane, \<dots> = x \<rparr>"

lemma logged_instant: "\<exists>i. parse_utc_or_raise ''2026-06-01T00:00:00Z'' = Inr i"
proof -
  have "is_ok (parse_utc_or_raise ''2026-06-01T00:00:00Z'')" by code_simp
  then show ?thesis by (auto simp: is_ok_iff)
qed

lemma logged_build:
  "build_runtime_event logged_env st t (logged_request 1 x) p = Inr second_event"
  "build_runtime_event logged_env st t (logged_request 2 x) p = Inr third_event"
  by (simp_all add: build_runtime_event_def logged_request_def draft_def logged_env_def seal_event_def unsigned_def
      first_event_def second_event_def third_event_def logged_fields int_str_eq require_some_simps)

lemma logged_admission:
  assumes "ry_run_id st = ''run''" "ry_segmented st" "ry_recovery_health st = Healthy" "ry_events st = [first_event]"
    "ry_event_ids st = {''event.'' @ int_str 0}" "ry_command_ids st = {''command.'' @ int_str 0}"
    "ry_revision st = 1" "rt_blockers state = []" "n \<noteq> 0" "t \<in> {Lifecycle_transitioned, Passport_accepted}"
  shows "admission logged_env fs t (logged_request n x) st state = Inr None"
proof -
  let ?c = "if t = Lifecycle_transitioned then Cat_lifecycle else Cat_passport"
  have c: "event_category t = Inr ?c" "actor_can_commit Parent_control_plane ?c"
    using assms(10) by (auto simp: event_category_def event_families category_of_prefix_def actor_can_commit_def)
  show ?thesis
    using assms(9) by (simp add: admission_def logged_request_def rbind_simps int_str_eq c assms(1-8)
        logged_accepted del: validate_accepted_events.simps)
qed

section \<open>An accepted transition\<close>

lemma logged_append:
  assumes "replay_unlocked logged_env logged_journal None = Inr st" "ry_events st = [first_event]"
    "ry_segmented st" "ry_recovery_health st = Healthy" "sg_path (last (ry_segments st)) = first_segment"
    "ry_run_id st = ''run''" "ry_revision st = 1" "ry_event_count st = 1" "ry_last_event_sha256 st = sealed 0"
    "ry_event_ids st = {''event.'' @ int_str 0}" "ry_command_ids st = {''command.'' @ int_str 0}"
    "ry_workflow_definition_id st = PHASE4_WORKFLOW_ID"
  obtains fs' st' where "append_runtime_event_unlocked logged_env logged_journal st second_event = Inr (fs', st')"
    "ry_events st' = [first_event, second_event]" "ry_workflow_definition_id st' = PHASE4_WORKFLOW_ID"
proof -
  obtain rt where e: "\<forall>fs. file_checks logged_env fs logged_run (ry_events st) second_event = Inr ()"
    "\<forall>fs. runtime_checks logged_env fs logged_run (tip logged_env st) second_event = Inr rt"
    "ev_event_id second_event \<notin> ry_event_ids st" "ev_command_id second_event \<notin> ry_command_ids st"
    "ev_event_sha256 second_event = hash logged_env (canonical_event_bytes (event_wire logged_env second_event))"
    "ev_event_type second_event \<noteq> Recovery_completed" by (rule second_admissible [OF assms(2,10,11)])
  have blind: "\<forall>x \<in> set (ry_events st). \<not> binds_path first_segment x" using logged_blind(2) assms(2) by simp
  have json: "json_ok (se_float logged_env) (JObj (event_wire logged_env second_event))"
    using logged_library(1) [of second_event] by (simp add: logged_env_fields)
  let ?b = "event_bytes logged_env first_event" and ?x = "event_bytes logged_env second_event"
  obtain t new k where t: "ry_events st = rl_events t" and
    app: "append_runtime_event_unlocked logged_env logged_journal st second_event = Inr (dset first_segment (File (?b @ ?x)) logged_journal, concluded logged_run
      (add_scan (scan_of logged_env (view k first_segment (?b @ ?x) False) (length ?b + length ?x) (new @ [second_event]) None)
        (accept_event t second_event rt), False))"
    using append_extends [OF assms(1,3,4) assms(5) [symmetric] logged_blind(1) blind logged_manifest logged_bytes
      refl json logged_library(2,4) [of second_event] second_extends(1) [OF assms(6-9)] e(6,5,3,4)
      e(1,2) [rule_format]] by blast
  have "workflow_of logged_run = PHASE4_WORKFLOW_ID"
    by (simp add: workflow_of_def logged_run_def falsy_def PHASE4_WORKFLOW_ID_def)
  with that [OF app] t assms(2) show ?thesis by (simp add: concluded_fields segment_fields accept_event_def)
qed

definition logged_transition :: transition_request where
  "logged_transition = logged_request 1
     \<lparr> trq_transition_id = ''prepare'', trq_from_stage = ''initialized'' \<rparr>"

lemma transition_accepted:
  assumes "replay_unlocked logged_env logged_journal None = Inr st"
  shows "\<exists>oc fs'. execute_transition logged_env logged_journal logged_transition (\<lambda>_ _. None) = (Inr oc, fs')
    \<and> co_accepted oc \<and> co_event oc = Some second_event"
proof -
  obtain st' where st: "replay_unlocked logged_env logged_journal None = Inr st'" "ry_events st' = [first_event]"
    "ry_segmented st'" "ry_recovery_health st' = Healthy" "sg_path (last (ry_segments st')) = first_segment"
    "ry_run_id st' = ''run''" "ry_revision st' = 1" "ry_event_count st' = 1" "ry_last_event_sha256 st' = sealed 0"
    "ry_event_ids st' = {''event.'' @ int_str 0}" "ry_command_ids st' = {''command.'' @ int_str 0}"
    "ry_workflow_definition_id st' = PHASE4_WORKFLOW_ID" by (rule logged_replay)
  have "st' = st" using assms st(1) by simp
  note st = st [unfolded this]
  obtain a b where r: "\<forall>now. reduce_events sample_env PHASE4_WORKFLOW_ID [first_event] now Healthy = Inr a"
    "\<forall>now. reduce_events sample_env PHASE4_WORKFLOW_ID [first_event, second_event] now Healthy = Inr b"
    and a: "rd_stage (rt_locals a) = ''initialized''" "rt_blockers a = []"
    "rt_workflow_definition_id a = PHASE4_WORKFLOW_ID" "rd_revision (rt_locals a) = 1" by (rule logged_states)
  obtain fs' st2 where app: "append_runtime_event_unlocked logged_env logged_journal st second_event = Inr (fs', st2)"
    "ry_events st2 = [first_event, second_event]" "ry_workflow_definition_id st2 = PHASE4_WORKFLOW_ID"
    by (rule logged_append [OF st])
  obtain i where i: "parse_utc_or_raise ''2026-06-01T00:00:00Z'' = Inr i" using logged_instant by blast
  have lock: "locked_replay logged_env logged_journal = Inr (logged_journal, st)"
    using st(1) logged_seal_none by (simp add: locked_replay_def rbind_simps)
  have adm: "admission logged_env logged_journal Lifecycle_transitioned logged_transition st a = Inr None"
    unfolding logged_transition_def
    using st(6,3,4,2,10,11,7) a(2) by (rule logged_admission) simp_all
  have fields: "cr_occurred_at logged_transition = ''2026-06-01T00:00:00Z''"
    "trq_from_stage logged_transition = ''initialized''" "trq_transition_id logged_transition = ''prepare''"
    by (simp_all add: logged_transition_def logged_request_def)
  have check: "\<exists>t. transition_check logged_env logged_transition (\<lambda>_ _. None) a st = Pass t"
    by (simp add: transition_check_def fields a sample_moves)
  have build: "build_runtime_event logged_env st Lifecycle_transitioned logged_transition p = Inr second_event" for p
    unfolding logged_transition_def by (rule logged_build)
  have same: "same_state b b" by (simp add: same_state_def Let_def)
  have env: "se_env logged_env = sample_env" by (simp add: logged_env_fields)
  from check obtain t where "transition_check logged_env logged_transition (\<lambda>_ _. None) a st = Pass t" ..
  then show ?thesis
    by (simp add: execute_transition_def execute_def fields i lock env st(2,4,12) r adm plain_command_def Let_def
        build rbind_simps commit_def append_event_def app same)
qed


section \<open>A checkpoint that is rejected after its Passport was installed\<close>

definition logged_checkpoint :: checkpoint_request where
  "logged_checkpoint = logged_request 2 \<lparr> ckq_checkpoint_kind = Ck_explicit, ckq_fresh_until = None \<rparr>"

text \<open>The library reads the candidate back as an event of a later revision.\<close>

lemma third_refused:
  "reduce_events sample_env PHASE4_WORKFLOW_ID [first_event, third_event] now Healthy
     = Inl (ReducerError ''event revision is not contiguous'')"
proof -
  have "case prov_run ''run'' prov_init [first_event, third_event] of Inl _ \<Rightarrow> False | Inr s \<Rightarrow> pv_context s = None"
    by (simp add: first_event_def third_event_def sample_eval logged_fields logged_checks
      prov_run_def prov_step_def prov_stage_step_def prov_branch_def prov_init_def)
  then obtain p where p: "prov_run ''run'' prov_init [first_event, third_event] = Inr p" "pv_context p = None"
    by (auto split: sum.splits)
  have first: "ev_event_type first_event = Run_initialized" "ev_run_id first_event = ''run''"
    by (simp_all add: first_event_def logged_fields)
  obtain x where x: "project_execution_provenance [first_event, third_event] = Inr x" "xp_context x = None"
    using projection_total [of "[first_event, third_event]" p] p first by auto
  have "reduce_loop sample_env PHASE4_WORKFLOW_ID ''run'' initial_state [first_event, third_event]
      = Inl (ReducerError ''event revision is not contiguous'')"
    by (simp add: first_event_def third_event_def sample_eval logged_fields logged_checks)
  with x first show ?thesis
    by (simp add: reduce_events_def sample_workflow raise_again_def context_check_def rbind_simps)
qed

lemma logged_install:
  assumes "mp_based_on_revision m = 1"
  shows "\<exists>f d. install_material_passport logged_env logged_journal m = Inr (f, d)"
proof -
  have v: "se_passport_dump logged_env m = JInt 1" using assms by (simp add: logged_env_def)
  have "length (canonical_json_bytes (JInt 1)) = 2" by code_simp
  then have len: "\<not> MAX_MANIFEST_BYTES < length (canonical_json_bytes (JInt 1))" by (simp add: MAX_MANIFEST_BYTES_def)
  have "dget logged_journal (''passports'' # p) = None" for p
    by (simp add: logged_files_def MANIFEST_NAME_def JOURNAL_ROOT_def SEGMENTS_def first_segment_def)
  then show ?thesis
    by (simp add: install_def v Let_def publish_def guard_simps rbind_simps PASSPORT_STORE_def len is_link_def
        is_dir_def lexists_def)
qed

theorem rejected_checkpoint_keeps_accepted_passports_witness:
  "\<exists>oc fs'. create_checkpoint logged_env logged_journal logged_checkpoint = (Inr oc, fs')
     \<and> map_option rj_code (co_rejection oc) = Some ''invalid-command''
     \<and> read_bytes fs' first_segment = read_bytes logged_journal first_segment"
proof -
  obtain st where st: "replay_unlocked logged_env logged_journal None = Inr st" "ry_events st = [first_event]"
    "ry_segmented st" "ry_recovery_health st = Healthy" "sg_path (last (ry_segments st)) = first_segment"
    "ry_run_id st = ''run''" "ry_revision st = 1" "ry_event_count st = 1" "ry_last_event_sha256 st = sealed 0"
    "ry_event_ids st = {''event.'' @ int_str 0}" "ry_command_ids st = {''command.'' @ int_str 0}"
    "ry_workflow_definition_id st = PHASE4_WORKFLOW_ID" by (rule logged_replay)
  obtain a b where r: "\<forall>now. reduce_events sample_env PHASE4_WORKFLOW_ID [first_event] now Healthy = Inr a"
    "\<forall>now. reduce_events sample_env PHASE4_WORKFLOW_ID [first_event, second_event] now Healthy = Inr b"
    and a: "rd_stage (rt_locals a) = ''initialized''" "rt_blockers a = []"
    "rt_workflow_definition_id a = PHASE4_WORKFLOW_ID" "rd_revision (rt_locals a) = 1" by (rule logged_states)
  obtain i where i: "parse_utc_or_raise ''2026-06-01T00:00:00Z'' = Inr i" using logged_instant by blast
  have lock: "locked_replay logged_env logged_journal = Inr (logged_journal, st)"
    using st(1) logged_seal_none by (simp add: locked_replay_def rbind_simps)
  have adm: "admission logged_env logged_journal Passport_accepted logged_checkpoint st a = Inr None"
    unfolding logged_checkpoint_def
    using st(6,3,4,2,10,11,7) a(2) by (rule logged_admission) simp_all
  have fields: "cr_occurred_at logged_checkpoint = ''2026-06-01T00:00:00Z''"
    "ckq_checkpoint_kind logged_checkpoint = Ck_explicit"
    by (simp_all add: logged_checkpoint_def logged_request_def)
  have build: "build_runtime_event logged_env st Passport_accepted logged_checkpoint p = Inr third_event" for p
    unfolding logged_checkpoint_def by (rule logged_build)
  have env: "se_env logged_env = sample_env" by (simp add: logged_env_fields)
  obtain f d where inst: "install_material_passport logged_env logged_journal
      (passport_of logged_checkpoint a (PHASE4_WORKFLOW (hash logged_env))) = Inr (f, d)"
    using logged_install [of "passport_of logged_checkpoint a (PHASE4_WORKFLOW (hash logged_env))"] a(4)
    by (auto simp: passport_based)
  have run: "create_checkpoint logged_env logged_journal logged_checkpoint
      = (Inr (rejection_of a ''invalid-command'' ''event revision is not contiguous''), discard_orphan PASSPORT_STORE d f)"
    by (simp add: create_checkpoint_def execute_def fields i lock env st(2,4,12) r adm checkpoint_command_def Let_def
        coherent_boundary_def a sample_workflow inst [unfolded env] build rbind_simps third_refused reject_def)
  have library: "\<forall>m. json_ok (se_float logged_env) (se_passport_dump logged_env m)"
    "\<forall>m m'. norm (se_passport_dump logged_env m) = norm (se_passport_dump logged_env m')
       \<longrightarrow> mp_based_on_revision m = mp_based_on_revision m'" by (simp_all add: logged_env_def)
  have "butlast first_segment \<noteq> PASSPORT_STORE" by (simp add: first_segment_def SEGMENTS_def PASSPORT_STORE_def)
  with rejected_checkpoint_keeps_accepted_passports [OF st(1) logged_seal_none run _ library] run
  show ?thesis by (auto simp: rejection_of_def)
qed

section \<open>A figure that fails its qualification\<close>

definition sample_policy :: validation_policy where
  "sample_policy = \<lparr> vp_semantic = Apply_OPTIONAL, vp_visual = Apply_OPTIONAL \<rparr>"

definition sample_renderer :: renderer_identity where
  "sample_renderer = \<lparr> rnd_name = ''renderer'', rnd_version = ''1'', rnd_identity_digest = ''renderer'',
     rnd_normalization_policy = ''none'' \<rparr>"

definition sample_figure :: research_artifact_ir where
  "sample_figure =
     \<lparr> ir_artifact_id = ''figure'', ir_artifact_kind = Evidence_graph_view, ir_title = ''Evidence'',
       ir_author_target = ''authors'', ir_publication_critical = False, ir_research_bindings = [], ir_nodes = [],
       ir_edges = [], ir_groups = [], ir_annotations = [], ir_presentation = Theme_blue,
       ir_renderer_hints = sample_renderer, ir_validation_policy = sample_policy, ir_supersedes = None \<rparr>"

definition failing_receipt :: research_artifact_receipt where
  "failing_receipt =
     \<lparr> rar_artifact_id = ''figure'', rar_artifact_kind = Evidence_graph_view, rar_ir_sha256 = ''ir'',
       rar_renderer = sample_renderer, rar_inputs = [], rar_outputs = [], rar_validation_policy = sample_policy,
       rar_validation = \<lparr> vr_schema = Vs_PASS, vr_provenance = Vs_PASS, vr_semantic = Vs_OPTIONAL_SKIPPED,
         vr_render = Vs_FAIL, vr_visual = Vs_OPTIONAL_SKIPPED \<rparr>,
       rar_qualification = False, rar_publication_critical = False, rar_visual_reviewer = None,
       rar_reason_codes = [''render''] \<rparr>"

definition sample_figure_env :: figure_env where
  "sample_figure_env = \<lparr> fge_uuid = Some, fge_derived = (\<lambda>u t. u), fge_secret = (\<lambda>_. False),
     fge_ir_dump = (\<lambda>_. JNull), fge_receipt_dump = (\<lambda>_. JNull) \<rparr>"

lemma logged_tree: "wf_fs logged_journal"
  by (simp add: wf_fs_def dkeys_def is_dir_def logged_get)
    (simp add: logged_files_def MANIFEST_NAME_def JOURNAL_ROOT_def SEGMENTS_def first_segment_def)

lemma sample_output: "output_name ''out/figure.svg''" "split_on slash ''out/figure.svg'' = [''out'', ''figure.svg'']"
  "\<not> MAX_OUTPUT_BYTES < length ''svg''"
  by (simp_all add: output_name_def slash_def MAX_OUTPUT_BYTES_def)

lemma sample_published: "\<exists>fs'. publish_once logged_journal ''out/figure.svg'' ''svg'' = Inr fs'"
proof -
  let ?t = "dset [''out''] Dir logged_journal"
  have none: "dget logged_journal (''out'' # p) = None" for p
    by (simp add: logged_files_def MANIFEST_NAME_def JOURNAL_ROOT_def SEGMENTS_def first_segment_def)
  have made: "ensure_directory m m logged_journal [] [''out''] = Inr ?t" for m
    by (simp add: none is_link_def lexists_def Let_def)
  have free: "\<not> is_link ?t [''out'', ''figure.svg'']" "\<not> lexists ?t [''out'', ''figure.svg'']"
    by (simp_all add: none is_link_def lexists_def)
  show ?thesis unfolding publish_once_def Let_def sample_output using sample_output
    by (simp add: made free del: ensure_directory.simps split_on.simps)
qed

theorem qualification_is_written_once_witness:
  "\<exists>y fs'. commit_artifact_pipeline sample_figure_env logged_env logged_journal (logged_request 1 ())
       (\<lambda>_ _. Inr (sample_figure, failing_receipt, [(''out/figure.svg'', ''svg'')])) (Finite 5) = (Inr y, fs')
     \<and> read_bytes fs' [''out'', ''figure.svg''] = Some ''svg''
     \<and> read_bytes fs' first_segment = Some (event_bytes logged_env first_event)"
proof -
  let ?prepare = "\<lambda>_ _. Inr (sample_figure, failing_receipt, [(''out/figure.svg'', ''svg'')])"
  obtain st where st: "replay_unlocked logged_env logged_journal None = Inr st" "ry_events st = [first_event]"
    "ry_recovery_health st = Healthy" "ry_run_id st = ''run''" by (rule logged_replay)
  have lock: "locked_replay logged_env logged_journal = Inr (logged_journal, st)"
    using st(1) logged_seal_none by (simp add: locked_replay_def rbind_simps)
  have fail: "\<not> rar_qualification failing_receipt" by (simp add: failing_receipt_def)
  from sample_published obtain fs' where "publish_once logged_journal ''out/figure.svg'' ''svg'' = Inr fs'" ..
  then have run: "commit_artifact_pipeline sample_figure_env logged_env logged_journal (logged_request 1 ()) ?prepare
      (Finite 5) = (Inr (Unqualified failing_receipt), fs')"
    using st logged_accepted [of logged_journal] fail
    by (simp add: commit_artifact_pipeline_def lock logged_request_def sample_figure_env_def rbind_simps guard_simps
        del: validate_accepted_events.simps)
  have "\<not> rar_qualification failing_receipt \<or> (\<exists>u. fge_uuid sample_figure_env (cr_command_id (logged_request 1 ())) = Some u
      \<and> (\<forall>t \<in> set (figure_phases sample_figure). \<exists>e \<in> set (ry_events st).
           ev_command_id e = phase_command sample_figure_env (logged_request 1 ()) u t))" using fail ..
  note kept = qualification_is_written_once [where prepare = ?prepare, OF st(1) logged_seal_none logged_tree refl this run]
  have "read_bytes fs' first_segment = Some (event_bytes logged_env first_event)"
    by (rule kept [THEN conjunct1, THEN spec, THEN spec, THEN mp, OF logged_bytes])
  moreover have "read_bytes fs' (split_on slash ''out/figure.svg'') = Some ''svg''"
    using kept [THEN conjunct2, THEN conjunct1, THEN spec, THEN mp, OF refl, THEN conjunct1]
    by (simp del: split_on.simps)
  ultimately show ?thesis
    unfolding sample_output(2) by (intro exI [of _ "Unqualified failing_receipt"] exI [of _ fs'] conjI run)
qed

end
