(* ===== verification/Scheduler.thy ===== *)
theory Scheduler
  imports Contracts Files Floats
begin

text \<open>
  The scheduler of worker attempts (\<^verbatim>\<open>kernel/execution/scheduler.py\<close>) with the values it works on
  (\<^verbatim>\<open>kernel/execution/execution.py\<close>).  Attempts run concurrently under a bound; the outcomes are
  returned in the frozen order of the assignments.  What a host does is not the program's: it is the
  argument \<open>host_script\<close>, and the order in which attempts end is any order the semaphore allows.
\<close>

section \<open>Policies and dispatches\<close>

record execution_policy =
  xpo_max_concurrency :: int
  xpo_attempt_timeout_s :: py_float
  xpo_cancel_grace_s :: py_float
  xpo_max_attempts_per_assignment :: int
  xpo_proposal_max_bytes :: int

definition execution_policy_valid :: "execution_policy \<Rightarrow> (string, execution_policy) result" where
  "execution_policy_valid p =
     guard (xpo_max_concurrency p < 1) ''max_concurrency must be positive''
    (guard (64 < xpo_max_concurrency p) ''max_concurrency exceeds the scheduler safety bound''
    (guard (up_to (xpo_attempt_timeout_s p) 0) ''attempt_timeout_s must be a finite positive value''
    (guard (below (xpo_cancel_grace_s p) 0) ''cancel_grace_s must be a finite non-negative value''
    (guard (xpo_max_attempts_per_assignment p \<notin> {1, 2}) ''max_attempts_per_assignment must be one or two''
    (guard (\<not> (1 \<le> xpo_proposal_max_bytes p \<and> xpo_proposal_max_bytes p \<le> 1048576))
       ''proposal_max_bytes must be between one byte and 1048576'' (Inr p))))))"

definition DEFAULT_EXECUTION_POLICY :: execution_policy where
  "DEFAULT_EXECUTION_POLICY =
     \<lparr> xpo_max_concurrency = 4, xpo_attempt_timeout_s = Finite 300, xpo_cancel_grace_s = Finite 15,
       xpo_max_attempts_per_assignment = 2, xpo_proposal_max_bytes = 1048576 \<rparr>"

text \<open>The key is given in two or in three parts; the third echoes the assignment.\<close>

record dispatch_spec =
  dsp_assignment_id :: ident
  dsp_attempt_id :: ident
  dsp_acceptance_key :: "int \<times> int \<times> ident option"
  dsp_assignment_path :: path
  dsp_attempt_root :: path
  dsp_policy_snapshot :: execution_policy
  dsp_timeout_seconds :: "py_float option"
  dsp_cancellation_grace_seconds :: "py_float option"
  dsp_proposal_max_bytes :: "int option"
  dsp_attempt_number :: int
  dsp_proposal_nonce :: "ident option"

definition dispatch_spec_valid :: "dispatch_spec \<Rightarrow> (string, dispatch_spec) result" where
  "dispatch_spec_valid s = (case dsp_acceptance_key s of (layer, ordinal, echo) \<Rightarrow>
     guard (dsp_assignment_id s = [] \<or> dsp_attempt_id s = []) ''assignment_id and attempt_id are required''
    (guard (layer < 0 \<or> ordinal < 0) ''acceptance_key values must be non-negative integers''
    (guard (echo \<noteq> None \<and> echo \<noteq> Some (dsp_assignment_id s)) ''acceptance_key assignment ID must echo assignment_id''
    (guard (dsp_attempt_number s < 1) ''attempt_number must be positive''
    (guard (case dsp_timeout_seconds s of None \<Rightarrow> False | Some t \<Rightarrow> up_to t 0)
       ''timeout_seconds must be finite and positive''
    (guard (case dsp_cancellation_grace_seconds s of None \<Rightarrow> False | Some t \<Rightarrow> below t 0)
       ''cancellation_grace_seconds must be finite and non-negative''
    (guard (case dsp_proposal_max_bytes s of None \<Rightarrow> False
              | Some n \<Rightarrow> \<not> (1 \<le> n \<and> n \<le> xpo_proposal_max_bytes (dsp_policy_snapshot s)))
       ''proposal_max_bytes exceeds the frozen policy snapshot'' (Inr s))))))))"

definition frozen_order_key :: "dispatch_spec \<Rightarrow> accept_key" where
  "frozen_order_key s = (case dsp_acceptance_key s of (layer, ordinal, _) \<Rightarrow> (layer, ordinal, dsp_assignment_id s))"

definition effective_timeout_seconds :: "dispatch_spec \<Rightarrow> py_float" where
  "effective_timeout_seconds s =
    (case dsp_timeout_seconds s of Some t \<Rightarrow> t | None \<Rightarrow> xpo_attempt_timeout_s (dsp_policy_snapshot s))"

definition effective_cancellation_grace_seconds :: "dispatch_spec \<Rightarrow> py_float" where
  "effective_cancellation_grace_seconds s =
    (case dsp_cancellation_grace_seconds s of Some t \<Rightarrow> t | None \<Rightarrow> xpo_cancel_grace_s (dsp_policy_snapshot s))"

definition effective_proposal_max_bytes :: "dispatch_spec \<Rightarrow> int" where
  "effective_proposal_max_bytes s =
    (case dsp_proposal_max_bytes s of Some n \<Rightarrow> n | None \<Rightarrow> xpo_proposal_max_bytes (dsp_policy_snapshot s))"

definition for_retry :: "(int \<Rightarrow> string) \<Rightarrow> dispatch_spec \<Rightarrow> int \<Rightarrow> (string, dispatch_spec) result" where
  "for_retry str s n =
    (let retry = ''.retry-'' @ str n; i = dsp_attempt_id s @ retry;
         base = (case dsp_proposal_nonce s of Some b \<Rightarrow> if b = [] then dsp_attempt_id s else b
                 | None \<Rightarrow> dsp_attempt_id s) in
     guard (n \<le> dsp_attempt_number s) ''retry attempt number must increase''
       (dispatch_spec_valid (s\<lparr> dsp_attempt_id := i, dsp_attempt_root := butlast (dsp_attempt_root s) @ [i],
          dsp_attempt_number := n, dsp_proposal_nonce := Some (base @ retry) \<rparr>)))"

text \<open>What a host reports; the fields are observations, none of them is authority.\<close>

record host_result =
  hrs_attempt_id :: ident
  hrs_host_agent_id :: ident
  hrs_proposal_path :: path
  hrs_transcript_reference :: "string option"
  hrs_observation_sha256 :: "sha256 option"
  hrs_output_bytes :: "int option"

definition host_result_valid :: "host_result \<Rightarrow> (string, host_result) result" where
  "host_result_valid r =
     guard (hrs_attempt_id r = [] \<or> hrs_host_agent_id r = []) ''host results require attempt and host identities''
    (guard (case hrs_output_bytes r of None \<Rightarrow> False | Some n \<Rightarrow> n < 0) ''output_bytes cannot be negative'' (Inr r))"

section \<open>Errors and retries\<close>

datatype error_class = Permission_error | Timeout_error | Cancelled_error | Other_error

record host_error =
  her_class :: error_class
  her_type :: string
  her_message :: string
  her_reason :: "string option"
  her_result :: "host_result option"

definition SCHEDULER_RETRYABLE_FAILURES :: "string set" where
  "SCHEDULER_RETRYABLE_FAILURES = {''timeout'', ''process_failure'', ''repairable_envelope''}"

definition SCHEDULER_NON_RETRYABLE_FAILURES :: "string set" where
  "SCHEDULER_NON_RETRYABLE_FAILURES =
     {''permission_denied'', ''stale_inputs'', ''superseded'', ''cancelled'', ''scientific_disagreement'',
      ''identity_mismatch'', ''policy_violation'', ''digest_mismatch''}"

definition retry_is_eligible :: "string option \<Rightarrow> int \<Rightarrow> execution_policy \<Rightarrow> bool" where
  "retry_is_eligible reason n p =
    (reason \<in> Some ` SCHEDULER_RETRYABLE_FAILURES \<and> n < xpo_max_attempts_per_assignment p)"

definition failure_reason :: "host_error \<Rightarrow> string" where
  "failure_reason e =
    (case her_reason e of
       Some (c # cs) \<Rightarrow> c # cs
     | _ \<Rightarrow> (case her_class e of
         Permission_error \<Rightarrow> ''permission_denied'' | Timeout_error \<Rightarrow> ''timeout''
       | Cancelled_error \<Rightarrow> ''cancelled'' | Other_error \<Rightarrow> ''process_failure''))"

definition host_error_text :: "host_error \<Rightarrow> string" where
  "host_error_text e = (if her_message e = [] then her_type e else her_type e @ '': '' @ her_message e)"

section \<open>One attempt\<close>

datatype attempt_end =
  End_completed | End_failed | End_timed_out | End_cancelled | End_force_terminated | End_interrupted

datatype observation_class = Ob_observed | Ob_rejected_stale

record attempt_outcome =
  ao_assignment_id :: ident
  ao_attempt_id :: ident
  ao_attempt_number :: int
  ao_status :: attempt_end
  ao_result :: "host_result option"
  ao_failure_reason :: "string option"
  ao_error :: "string option"
  ao_retry_eligible :: bool
  ao_cancellation_requested :: bool
  ao_force_termination_requested :: bool
  ao_classification :: observation_class
  ao_late_result :: bool

text \<open>
  What a host does with a dispatch: what the task is when the attempt times out, whether the parent
  records the cancellation, how the requests end, and what the task is after the grace period and when
  it is gathered after the forced end.
\<close>

datatype answer = Answered host_result | Raised host_error | Running

record host_script =
  hs_in_time :: answer
  hs_validation :: "host_error option"
  hs_cancel_record :: "host_error option"
  hs_cancel_request :: "host_error option"
  hs_in_grace :: answer
  hs_force_request :: "host_error option"
  hs_gathered :: "host_result option"

record scheduler =
  sch_policy :: execution_policy
  sch_cancel_observer :: bool
  sch_result_validator :: bool

datatype host_call = Call_dispatch | Call_record_cancel | Call_request_cancel | Call_force_terminate

text \<open>The outcome with the defaults of the class.\<close>

definition outcome_of ::
  "dispatch_spec \<Rightarrow> attempt_end \<Rightarrow> host_result option \<Rightarrow> string option \<Rightarrow> string option \<Rightarrow> bool \<Rightarrow> attempt_outcome" where
  "outcome_of s st r reason err retry =
     \<lparr> ao_assignment_id = dsp_assignment_id s, ao_attempt_id = dsp_attempt_id s,
       ao_attempt_number = dsp_attempt_number s, ao_status = st, ao_result = r, ao_failure_reason = reason,
       ao_error = err, ao_retry_eligible = retry, ao_cancellation_requested = False,
       ao_force_termination_requested = False, ao_classification = Ob_observed, ao_late_result = False \<rparr>"

definition retry_after :: "dispatch_spec \<Rightarrow> string \<Rightarrow> bool" where
  "retry_after s reason = retry_is_eligible (Some reason) (dsp_attempt_number s) (dsp_policy_snapshot s)"

text \<open>A task that has ended by the time limit, with a \<open>TimeoutError\<close> of its own, stays as it is.\<close>

definition grace_answer :: "host_script \<Rightarrow> answer" where
  "grace_answer h = (case hs_in_time h of Running \<Rightarrow> hs_in_grace h | a \<Rightarrow> a)"

definition force_termination ::
  "dispatch_spec \<Rightarrow> host_script \<Rightarrow> host_error \<Rightarrow> attempt_outcome" where
  "force_termination s h first =
    (let late = (case grace_answer h of Running \<Rightarrow> hs_gathered h | _ \<Rightarrow> None);
         details = ''initial timeout: '' @ host_error_text first
           @ (case hs_cancel_request h of None \<Rightarrow> []
              | Some e \<Rightarrow> ''; cooperative cancellation failed: '' @ host_error_text e)
           @ (case hs_force_request h of None \<Rightarrow> []
              | Some e \<Rightarrow> ''; force termination failed: '' @ host_error_text e) in
     (outcome_of s (if hs_force_request h = None then End_force_terminated else End_interrupted) late
        (Some ''timeout'') (Some details) (retry_after s ''timeout''))
       \<lparr> ao_cancellation_requested := True, ao_force_termination_requested := hs_force_request h = None,
         ao_classification := Ob_rejected_stale, ao_late_result := late \<noteq> None \<rparr>)"

definition cancel_after_timeout ::
  "scheduler \<Rightarrow> dispatch_spec \<Rightarrow> host_script \<Rightarrow> host_error \<Rightarrow> attempt_outcome \<times> host_call list" where
  "cancel_after_timeout c s h first =
    (let seen = (if sch_cancel_observer c then [Call_record_cancel] else []) in
     case (if sch_cancel_observer c then hs_cancel_record h else None) of
       Some e \<Rightarrow>
         ((outcome_of s End_interrupted None (Some ''cancelled'')
             (Some (''parent cancellation record failed: '' @ host_error_text e)) False)
            \<lparr> ao_classification := Ob_rejected_stale \<rparr>, seen)
     | None \<Rightarrow>
         let cancelled = (\<lambda>r err. (outcome_of s End_cancelled r (Some ''timeout'') err (retry_after s ''timeout''))
               \<lparr> ao_cancellation_requested := True, ao_classification := Ob_rejected_stale \<rparr>);
             forced = (force_termination s h first, seen @ [Call_request_cancel, Call_force_terminate]) in
         (case grace_answer h of
            Running \<Rightarrow> forced
          | Raised e \<Rightarrow>
              if her_class e = Timeout_error then forced
              else (cancelled None (Some (host_error_text e)), seen @ [Call_request_cancel])
          | Answered r \<Rightarrow>
              ((cancelled (Some r) (map_option host_error_text (hs_cancel_request h)))\<lparr> ao_late_result := True \<rparr>,
               seen @ [Call_request_cancel])))"

definition TIMED_OUT :: host_error where
  "TIMED_OUT = \<lparr> her_class = Timeout_error, her_type = ''TimeoutError'', her_message = [], her_reason = None,
                 her_result = None \<rparr>"

definition failed_by :: "dispatch_spec \<Rightarrow> host_error \<Rightarrow> host_result option \<Rightarrow> attempt_outcome" where
  "failed_by s e r = outcome_of s End_failed r (Some (failure_reason e)) (Some (host_error_text e))
     (retry_after s (failure_reason e))"

text \<open>
  \<open>except asyncio.TimeoutError\<close> also catches a \<open>TimeoutError\<close> that the host raises itself.
\<close>

definition run_attempt ::
  "scheduler \<Rightarrow> dispatch_spec \<Rightarrow> host_script \<Rightarrow> attempt_outcome \<times> host_call list" where
  "run_attempt c s h =
    (case hs_in_time h of
       Running \<Rightarrow> apsnd (Cons Call_dispatch) (cancel_after_timeout c s h TIMED_OUT)
     | Raised e \<Rightarrow>
         if her_class e = Timeout_error then apsnd (Cons Call_dispatch) (cancel_after_timeout c s h e)
         else (failed_by s e (her_result e), [Call_dispatch])
     | Answered r \<Rightarrow>
         if hrs_attempt_id r \<noteq> dsp_attempt_id s then
           ((outcome_of s End_failed (Some r) (Some ''identity_mismatch'')
               (Some ''host result attempt_id does not match dispatch spec'') False)
              \<lparr> ao_classification := Ob_rejected_stale, ao_late_result := True \<rparr>, [Call_dispatch])
         else (case (if sch_result_validator c then hs_validation h else None) of
             Some e \<Rightarrow> (failed_by s e (Some r), [Call_dispatch])
           | None \<Rightarrow> (outcome_of s End_completed (Some r) None None False, [Call_dispatch])))"

section \<open>The pool\<close>

text \<open>
  \<open>_collect\<close>: a task per dispatch; the semaphore admits them in the order they were created, up to the
  bound, and they end in any order.
\<close>

record pool =
  pl_waiting :: "dispatch_spec list"
  pl_running :: "dispatch_spec list"
  pl_completed :: "(ident, attempt_outcome) dict"

datatype pool_move = Admit | End nat

fun pool_step ::
  "int \<Rightarrow> (dispatch_spec \<Rightarrow> attempt_outcome) \<Rightarrow> pool \<Rightarrow> pool_move \<Rightarrow> pool option" where
  "pool_step n f p Admit =
    (case pl_waiting p of
       [] \<Rightarrow> None
     | s # ss \<Rightarrow> if int (length (pl_running p)) < n
         then Some (p\<lparr> pl_waiting := ss, pl_running := pl_running p @ [s] \<rparr>) else None)"
| "pool_step n f p (End i) =
    (if i < length (pl_running p)
     then let s = pl_running p ! i in
       Some (p\<lparr> pl_running := take i (pl_running p) @ drop (Suc i) (pl_running p),
                pl_completed := dset (dsp_assignment_id s) (f s) (pl_completed p) \<rparr>)
     else None)"

definition pool_of :: "dispatch_spec list \<Rightarrow> pool" where
  "pool_of specs = \<lparr> pl_waiting = specs, pl_running = [], pl_completed = [] \<rparr>"

definition pool_done :: "pool \<Rightarrow> bool" where
  "pool_done p = (pl_waiting p = [] \<and> pl_running p = [])"

inductive reachable_pool ::
  "int \<Rightarrow> (dispatch_spec \<Rightarrow> attempt_outcome) \<Rightarrow> dispatch_spec list \<Rightarrow> pool \<Rightarrow> bool" for n f specs where
  created: "reachable_pool n f specs (pool_of specs)"
| moved: "reachable_pool n f specs p \<Longrightarrow> pool_step n f p m = Some q \<Longrightarrow> reachable_pool n f specs q"

section \<open>The schedule\<close>

record scheduled_outcome =
  so_assignment_id :: ident
  so_acceptance_key :: accept_key
  so_status :: attempt_end
  so_result :: "host_result option"
  so_attempts :: "attempt_outcome list"
  so_retry_reason :: "string option"
  so_retry_eligible :: bool
  so_classification :: observation_class
  so_late_result :: bool
  so_error :: "string option"
  so_cancellation_requested :: bool
  so_force_termination_requested :: bool

definition scheduled_of :: "dispatch_spec \<Rightarrow> attempt_outcome \<Rightarrow> scheduled_outcome" where
  "scheduled_of s a =
     \<lparr> so_assignment_id = dsp_assignment_id s, so_acceptance_key = frozen_order_key s,
       so_status = ao_status a, so_result = ao_result a, so_attempts = [a],
       so_retry_reason = ao_failure_reason a, so_retry_eligible = ao_retry_eligible a,
       so_classification = ao_classification a, so_late_result = ao_late_result a, so_error = ao_error a,
       so_cancellation_requested = ao_cancellation_requested a,
       so_force_termination_requested = ao_force_termination_requested a \<rparr>"

definition validate_specs :: "scheduler \<Rightarrow> dispatch_spec list \<Rightarrow> (py_error, unit) result" where
  "validate_specs c specs =
     guard (\<not> distinct (map dsp_assignment_id specs)) (PyValueError ''assignment IDs must be unique in one schedule'')
    (guard (\<not> distinct (map frozen_order_key specs)) (PyValueError ''frozen acceptance keys must be unique'')
    (guard (list_ex (\<lambda>s. xpo_max_attempts_per_assignment (sch_policy c)
          < xpo_max_attempts_per_assignment (dsp_policy_snapshot s)) specs)
       (PyValueError ''spec policy permits more attempts than the scheduler policy'') (Inr ())))"

text \<open>The outcomes of a finished pool in the frozen order.\<close>

definition schedule_result ::
  "dispatch_spec list \<Rightarrow> (ident, attempt_outcome) dict \<Rightarrow> (py_error, scheduled_outcome list) result" where
  "schedule_result specs completed =
     fold_result (\<lambda>os s. require_some (dget completed (dsp_assignment_id s)) (PyKeyError (dsp_assignment_id s))
         (\<lambda>a. Inr (os @ [scheduled_of s a]))) [] (sort_key frozen_order_key specs)"

end
