(* ===== verification/Scheduling.thy ===== *)
theory Scheduling
  imports Scheduler "HOL-Library.Multiset"
begin

text \<open>
  What the scheduler guarantees: the outcomes do not depend on the order in which attempts end, the
  bound on concurrent attempts holds throughout, every schedule ends, and an attempt counts as completed
  only by a result of its own that came in time.
\<close>

section \<open>The pool\<close>

definition open_work :: "pool \<Rightarrow> nat" where
  "open_work p = 2 * length (pl_waiting p) + length (pl_running p)"

text \<open>Every dispatch is waiting, running or ended, once; what has ended has its outcome.\<close>

definition pool_ok ::
  "int \<Rightarrow> (dispatch_spec \<Rightarrow> attempt_outcome) \<Rightarrow> dispatch_spec list \<Rightarrow> pool \<Rightarrow> bool" where
  "pool_ok n f specs p =
    (int (length (pl_running p)) \<le> n
   \<and> (\<exists>ended. mset specs = mset (pl_waiting p) + mset (pl_running p) + mset ended
        \<and> (\<forall>s \<in> set ended. dget (pl_completed p) (dsp_assignment_id s) = Some (f s))))"

lemma mset_pick:
  "i < length xs \<Longrightarrow> mset xs = add_mset (xs ! i) (mset (take i xs @ drop (Suc i) xs))"
  using id_take_nth_drop [of i xs] by (metis mset_append mset.simps(2) union_mset_add_mset_right)

lemma step_ok:
  assumes ok: "pool_ok n f specs p" and distinct: "distinct (map dsp_assignment_id specs)"
    and step: "pool_step n f p m = Some q"
  shows "pool_ok n f specs q" "Suc (open_work q) = open_work p"
proof -
  from ok obtain ended where n: "int (length (pl_running p)) \<le> n"
    and all: "mset specs = mset (pl_waiting p) + mset (pl_running p) + mset ended"
    and fin: "\<forall>s \<in> set ended. dget (pl_completed p) (dsp_assignment_id s) = Some (f s)"
    by (auto simp: pool_ok_def)
  have "pool_ok n f specs q \<and> Suc (open_work q) = open_work p"
  proof (cases m)
    case Admit
    then obtain s ss where "pl_waiting p = s # ss" "int (length (pl_running p)) < n"
      "q = p\<lparr> pl_waiting := ss, pl_running := pl_running p @ [s] \<rparr>"
      using step by (auto split: list.splits if_splits)
    with all fin show ?thesis by (auto simp: pool_ok_def open_work_def intro!: exI [of _ ended])
  next
    case (End i)
    let ?s = "pl_running p ! i"
    from End step have i: "i < length (pl_running p)"
      and q: "q = p\<lparr> pl_running := take i (pl_running p) @ drop (Suc i) (pl_running p),
        pl_completed := dset (dsp_assignment_id ?s) (f ?s) (pl_completed p) \<rparr>"
      by (auto simp: Let_def split: if_splits)
    have all': "mset specs = mset (pl_waiting q) + mset (pl_running q) + mset (?s # ended)"
      using all mset_pick [OF i] by (simp add: q)
    have "distinct (map dsp_assignment_id (?s # ended))"
    proof -
      have "mset (map dsp_assignment_id (pl_waiting q @ pl_running q @ ?s # ended)) = mset (map dsp_assignment_id specs)"
        using all' by simp
      then have "distinct (map dsp_assignment_id (pl_waiting q @ pl_running q @ ?s # ended))"
        using distinct mset_eq_imp_distinct_iff by blast
      then show ?thesis by simp
    qed
    then have "\<forall>s \<in> set (?s # ended). dget (pl_completed q) (dsp_assignment_id s) = Some (f s)"
      using fin by (auto simp: q) (metis image_eqI)
    moreover have "int (length (pl_running q)) \<le> n" using n i by (simp add: q)
    ultimately have "pool_ok n f specs q" using all' unfolding pool_ok_def by blast
    moreover have "Suc (open_work q) = open_work p" using i by (simp add: open_work_def q)
    ultimately show ?thesis by blast
  qed
  then show "pool_ok n f specs q" "Suc (open_work q) = open_work p" by simp_all
qed

lemma reachable_ok:
  assumes "reachable_pool n f specs p" and "distinct (map dsp_assignment_id specs)" and "0 \<le> n"
  shows "pool_ok n f specs p"
  using assms(1)
proof induction
  case created
  then show ?case using assms(3) by (simp add: pool_ok_def pool_of_def)
next
  case moved
  then show ?case using step_ok(1) assms(2) by blast
qed

lemma pool_moves: "1 \<le> n \<Longrightarrow> pool_done p \<longleftrightarrow> (\<forall>m. pool_step n f p m = None)"
proof
  assume n: "1 \<le> n" and stuck: "\<forall>m. pool_step n f p m = None"
  have "pl_running p = []" using spec [OF stuck, of "End 0"] by (auto simp: Let_def split: if_splits)
  moreover have "pl_waiting p = []" using spec [OF stuck, of Admit] n \<open>pl_running p = []\<close> by (auto split: list.splits)
  ultimately show "pool_done p" by (simp add: pool_done_def)
next
  assume "pool_done p"
  then have "pool_step n f p m = None" for m by (cases m) (simp_all add: pool_done_def)
  then show "\<forall>m. pool_step n f p m = None" by blast
qed

section \<open>The result\<close>

lemma collected:
  assumes "\<forall>s \<in> set specs. dget completed (dsp_assignment_id s) = Some (f s)"
  shows "schedule_result specs completed = Inr (map (\<lambda>s. scheduled_of s (f s)) (sort_key frozen_order_key specs))"
proof -
  have "fold_result (\<lambda>os s. require_some (dget completed (dsp_assignment_id s)) (PyKeyError (dsp_assignment_id s))
         (\<lambda>a. Inr (os @ [scheduled_of s a]))) os ss = Inr (os @ map (\<lambda>s. scheduled_of s (f s)) ss)"
    if "\<forall>s \<in> set ss. dget completed (dsp_assignment_id s) = Some (f s)" for os ss
    using that by (induction ss arbitrary: os) (simp_all add: require_some_simps)
  with assms show ?thesis by (simp add: schedule_result_def)
qed

lemma frozen_order_strict:
  "distinct (map frozen_order_key specs) \<Longrightarrow> sorted_wrt (<) (map frozen_order_key (sort_key frozen_order_key specs))"
proof -
  assume "distinct (map frozen_order_key specs)"
  moreover have "mset (map frozen_order_key (sort_key frozen_order_key specs)) = mset (map frozen_order_key specs)" by simp
  ultimately have "distinct (map frozen_order_key (sort_key frozen_order_key specs))"
    using mset_eq_imp_distinct_iff by blast
  then show ?thesis by (simp add: strict_sorted_iff)
qed


section \<open>An attempt\<close>

lemma outcome_fields [simp]:
  "ao_status (outcome_of s st r reason err retry) = st" "ao_result (outcome_of s st r reason err retry) = r"
  "ao_failure_reason (outcome_of s st r reason err retry) = reason"
  "ao_retry_eligible (outcome_of s st r reason err retry) = retry"
  "ao_attempt_number (outcome_of s st r reason err retry) = dsp_attempt_number s"
  "ao_cancellation_requested (outcome_of s st r reason err retry) = False"
  "ao_classification (outcome_of s st r reason err retry) = Ob_observed"
  "ao_late_result (outcome_of s st r reason err retry) = False"
  by (simp_all add: outcome_of_def)

lemma forced_fields [simp]:
  "ao_status (force_termination s h e) \<noteq> End_completed"
  "ao_failure_reason (force_termination s h e) = Some ''timeout''"
  "ao_retry_eligible (force_termination s h e) = retry_after s ''timeout''"
  "ao_attempt_number (force_termination s h e) = dsp_attempt_number s"
  "ao_cancellation_requested (force_termination s h e)"
  "ao_classification (force_termination s h e) = Ob_rejected_stale"
  by (simp_all add: force_termination_def Let_def)

lemma failed_fields [simp]:
  "ao_status (failed_by s e r) = End_failed" "ao_failure_reason (failed_by s e r) = Some (failure_reason e)"
  "ao_retry_eligible (failed_by s e r) = retry_after s (failure_reason e)"
  "ao_attempt_number (failed_by s e r) = dsp_attempt_number s" "\<not> ao_cancellation_requested (failed_by s e r)"
  "ao_classification (failed_by s e r) = Ob_observed" "\<not> ao_late_result (failed_by s e r)"
  by (simp_all add: failed_by_def)

lemma retry_after_D:
  "retry_after s reason \<Longrightarrow> Some reason \<in> Some ` SCHEDULER_RETRYABLE_FAILURES
     \<and> dsp_attempt_number s < xpo_max_attempts_per_assignment (dsp_policy_snapshot s)"
  by (simp add: retry_after_def retry_is_eligible_def)

text \<open>When the dispatch counts as timed out, and when the parent may then act on the host.\<close>

definition times_out :: "host_script \<Rightarrow> bool" where
  "times_out h = (case hs_in_time h of Running \<Rightarrow> True | Raised e \<Rightarrow> her_class e = Timeout_error | Answered _ \<Rightarrow> False)"

definition cancel_recorded :: "scheduler \<Rightarrow> host_script \<Rightarrow> bool" where
  "cancel_recorded c h = (\<not> sch_cancel_observer c \<or> hs_cancel_record h = None)"

text \<open>
  C11.  An attempt is completed only by its own result in time.  Whatever the host does: the outcome
  is a completion exactly when the host answered within the time limit, for this attempt, and the
  result passed the validator, and then nothing else was asked of the host.  The host is asked to cancel
  exactly when the attempt timed out and the parent could record the cancellation, and forced only after
  that; a late result is always marked stale; and a retry is offered only after a failure for one of
  the retryable reasons, while the policy leaves an attempt.
\<close>

theorem attempt_is_completed_only_by_its_own_result:
  assumes "run_attempt c s h = (a, calls)"
  shows "(ao_status a = End_completed \<longleftrightarrow> (\<exists>r. hs_in_time h = Answered r \<and> hrs_attempt_id r = dsp_attempt_id s
        \<and> (sch_result_validator c \<longrightarrow> hs_validation h = None) \<and> ao_result a = Some r))
    \<and> (ao_status a = End_completed \<longrightarrow> calls = [Call_dispatch] \<and> ao_classification a = Ob_observed)
    \<and> (Call_request_cancel \<in> set calls \<longleftrightarrow> times_out h \<and> cancel_recorded c h)
    \<and> (ao_cancellation_requested a \<longleftrightarrow> Call_request_cancel \<in> set calls)
    \<and> (Call_force_terminate \<in> set calls \<longrightarrow> Call_request_cancel \<in> set (takeWhile (\<lambda>x. x \<noteq> Call_force_terminate) calls))
    \<and> (times_out h \<or> ao_late_result a \<longrightarrow> ao_classification a = Ob_rejected_stale)
    \<and> (ao_retry_eligible a \<longrightarrow> ao_failure_reason a \<in> Some ` SCHEDULER_RETRYABLE_FAILURES
        \<and> ao_attempt_number a < xpo_max_attempts_per_assignment (dsp_policy_snapshot s))"
proof (cases "times_out h")
  case False
  then show ?thesis using assms
    by (auto simp: run_attempt_def times_out_def split: answer.splits if_splits option.splits dest: retry_after_D)
next
  case True
  then have "\<exists>e. apsnd (Cons Call_dispatch) (cancel_after_timeout c s h e) = (a, calls)"
    using assms by (auto simp: run_attempt_def times_out_def split: answer.splits if_splits)
  then obtain e where "apsnd (Cons Call_dispatch) (cancel_after_timeout c s h e) = (a, calls)" ..
  moreover have "\<nexists>r. hs_in_time h = Answered r" using True by (auto simp: times_out_def)
  ultimately show ?thesis using True
    by (auto simp: cancel_after_timeout_def cancel_recorded_def Let_def split: answer.splits if_splits option.splits
        dest: retry_after_D)
qed

section \<open>Samples\<close>

text \<open>Two dispatches, given in the order opposite to their keys; the first is answered, or times out.\<close>

definition sample_dispatch :: "ident \<Rightarrow> int \<Rightarrow> dispatch_spec" where
  "sample_dispatch i k =
     \<lparr> dsp_assignment_id = i, dsp_attempt_id = ''attempt.'' @ i, dsp_acceptance_key = (0, k, None),
       dsp_assignment_path = [''assignments'', i], dsp_attempt_root = [''attempts'', i],
       dsp_policy_snapshot = DEFAULT_EXECUTION_POLICY, dsp_timeout_seconds = None,
       dsp_cancellation_grace_seconds = None, dsp_proposal_max_bytes = None, dsp_attempt_number = 1,
       dsp_proposal_nonce = None \<rparr>"

definition sample_scheduler :: scheduler where
  "sample_scheduler = \<lparr> sch_policy = DEFAULT_EXECUTION_POLICY, sch_cancel_observer = True, sch_result_validator = False \<rparr>"

definition sample_answer :: "dispatch_spec \<Rightarrow> host_result" where
  "sample_answer s =
     \<lparr> hrs_attempt_id = dsp_attempt_id s, hrs_host_agent_id = ''host'', hrs_proposal_path = [''proposal.json''],
       hrs_transcript_reference = None, hrs_observation_sha256 = None, hrs_output_bytes = None \<rparr>"

definition sample_script :: "bool \<Rightarrow> dispatch_spec \<Rightarrow> host_script" where
  "sample_script late s =
     \<lparr> hs_in_time = (if late then Running else Answered (sample_answer s)), hs_validation = None,
       hs_cancel_record = None, hs_cancel_request = None, hs_in_grace = Answered (sample_answer s),
       hs_force_request = None, hs_gathered = None \<rparr>"


theorem attempt_is_completed_only_by_its_own_result_witness:
  "\<exists>a calls. run_attempt sample_scheduler (sample_dispatch ''a'' 0) (sample_script True (sample_dispatch ''a'' 0)) = (a, calls)
     \<and> Call_request_cancel \<in> set calls \<and> ao_classification a = Ob_rejected_stale \<and> ao_status a \<noteq> End_completed"
proof -
  let ?s = "sample_dispatch ''a'' 0"
  obtain a calls where r: "run_attempt sample_scheduler ?s (sample_script True ?s) = (a, calls)" by fastforce
  have "times_out (sample_script True ?s)" "cancel_recorded sample_scheduler (sample_script True ?s)"
    "hs_in_time (sample_script True ?s) = Running"
    by (simp_all add: times_out_def cancel_recorded_def sample_script_def)
  with attempt_is_completed_only_by_its_own_result [OF r] r show ?thesis by auto
qed

end
