(* ===== verification/Spec2Isabelle.thy ===== *)
theory Spec2Isabelle
  imports Roles Panels Workflows Exec_Provenance Reducer_Outcome Json_Lines Journal_Witnesses Reducer_Types Runtime_Witnesses Scheduling
begin

text \<open>
  A model of the kernel of the academic research workbench (\<^verbatim>\<open>src/arw/kernel\<close>), the part of the program
  that decides what a research run may record.

  \<^bold>\<open>The program.\<close>  A run is a directory: an immutable manifest, a journal of hash-chained events in
  numbered segments, and content-addressed manifests of artifacts and Passports.  Nothing else is
  authoritative.  A command replays the journal under the writer lock, reduces the events to the state of
  the run, checks its request against that state, builds one event, reduces the history with the
  candidate, appends the event and replays again.  The reducer is the judge: an event is legal when it
  does not raise.  What can go wrong, a torn write, a foreign byte, a stale request, a missing approval, is
  either a rejection, an exception, or a classified damage from which one recovery command continues.

  \<^bold>\<open>Conventions.\<close>  A Python function that may raise returns a sum, the exception on the left, and every
  early return and \<open>raise\<close> is a branch (\<open>Prelude\<close>: \<open>guard\<close>, \<open>rbind\<close>, \<open>require_some\<close>).  A frozen class is
  a record, a tagged union a datatype, an insertion-ordered dictionary an association list, an unbounded
  integer an \<open>int\<close>, and the bytes of a file a list of characters below 256.  A loop over a list whose body
  may raise is \<open>fold_result\<close>; the locale \<open>checked_loop\<close> holds what all of them share, and is interpreted by
  the two loops of the kernel.  Methods that write return the files beside their result, also when
  they raise (\<open>'a step\<close>).

  \<^bold>\<open>Theories and sources.\<close>

  \<^item> \<open>Json\<close>, \<open>Canonical\<close>, \<open>Json_Lines\<close>: canonical JSON, the strict reader and the seal of an event
    (\<^verbatim>\<open>core/canonical.py\<close>), with the encoder and the scanner of the Python library written out; that a
    canonical text is one line and that no cut of a record reads as a value.
  \<^item> \<open>Paths\<close>, \<open>Utc\<close>: the three path validators and the parser of timestamps.
  \<^item> \<open>Event_Types\<close>, \<open>Workflows\<close>: the event vocabulary, the registered workflows, the transition rules and
    the authority table (\<^verbatim>\<open>ledger/workflows.py\<close>).
  \<^item> \<open>Contracts\<close>, \<open>Roles\<close>, \<open>Panels\<close>: assignments, attempts, proposals, roles, panels, reports, gates,
    authorities and hooks with their validators (\<^verbatim>\<open>state/orchestration_models.py\<close>).
  \<^item> \<open>Payloads\<close>, \<open>Events\<close>, \<open>Event_Model\<close>, \<open>Event_Rules\<close>: the payload classes, the canonical event, its
    validator, and the rules over the earlier events (\<^verbatim>\<open>state/models.py\<close>, \<^verbatim>\<open>state/research_artifact.py\<close>,
    \<^verbatim>\<open>state/learning_event_rules.py\<close>, \<^verbatim>\<open>state/memory_event_rules.py\<close>).
  \<^item> \<open>Exec_Provenance\<close>: the projection of execution facts (\<^verbatim>\<open>ledger/execution_provenance.py\<close>).
  \<^item> \<open>Reducer_State\<close>, \<open>Reducer_Steps\<close>, \<open>Reducer\<close>: the locals of \<open>reduce_events\<close> as the record
    \<open>run_state\<close>, one \<open>step_\<close> function per branch of its loop, the dispatch, and the projection after the
    loop (\<^verbatim>\<open>ledger/reducer.py\<close>).
  \<^item> \<open>Files\<close>, \<open>Manifests\<close>, \<open>Recovery\<close>: the run directory as a map from paths to nodes, the manifest
    stores, the checks of accepted events against their manifests, and the evidence of a recovery
    (\<^verbatim>\<open>ledger/manifests.py\<close>, \<^verbatim>\<open>ledger/recovery.py\<close>).
  \<^item> \<open>Journal\<close>, \<open>Initialization\<close>: reading the manifest, finding the segments, the replay with the
    classification of damage (record \<open>replay\<close> for its locals, \<open>replay_state\<close> for its result), appending, the
    publication of a recovery segment, and the seal of an initialization (\<^verbatim>\<open>ledger/journal.py\<close>).
  \<^item> \<open>Runtime\<close>, \<open>Commands\<close>: the transaction \<open>_execute\<close>, with what a command brings to it as the record
    \<open>command\<close>, the commands built on it, checkpoints, the Passport pointer and recovery
    (\<^verbatim>\<open>execution/runtime.py\<close>).
  \<^item> \<open>Research_Figures\<close>: figures, receipts, create-only files, and the qualification that commits a
    figure in four or five events (\<^verbatim>\<open>state/research_artifact.py\<close>, \<^verbatim>\<open>ledger/research_records.py\<close>).
  \<^item> \<open>Floats\<close>, \<open>Scheduler\<close>: dispatches, one attempt of a worker, and the pool of attempts as a step
    function on the states the semaphore allows (\<^verbatim>\<open>execution/scheduler.py\<close>, the specifications of
    \<^verbatim>\<open>execution/execution.py\<close>).

  \<^bold>\<open>What is shown.\<close>

  \<^item> Commands (\<open>Runtime_Commit\<close>, \<open>Runtime_Rollback\<close>): an accepted command was admissible, adds exactly
    one event and is never accepted a second time; a rejected checkpoint removes no accepted Passport.
  \<^item> The journal: what a replay returns is one hash chain whose canonical bytes are the segments
    (\<open>Journal_Chain\<close>, \<open>Journal_Bytes\<close>); its head pins the history (\<open>Journal_Head\<close>); an append adds exactly the
    event, a refused event blocks, a torn one is classified (\<open>Journal_Append\<close>, \<open>Journal_Tip\<close>,
    \<open>Journal_Write\<close>, \<open>Journal_Torn\<close>); a prefix is the history up to there, offsets are in bounds and the
    search for segments ends (\<open>Journal_Prefix\<close>, \<open>Journal_Names\<close>).
  \<^item> The reducer: frame lemmas for every branch (\<open>Reducer_Frames\<close>), the position in the ledger and the
    stages (\<open>Reducer_Ledger\<close>), the lists of the state as logs of the events through the locales
    \<open>event_log\<close> and \<open>unique_log\<close> (\<open>Reducer_Logs\<close>), and on these what an accepted decision, report,
    claim anchor, Passport and completion rest on (\<open>Reducer_Safety\<close>, \<open>Reducer_Evidence\<close>,
    \<open>Reducer_Outcome\<close>); that only the documented exceptions leave it (\<open>Reducer_Types\<close>).
  \<^item> The stores: what was installed stays readable (locales \<open>write_once\<close>, \<open>content_store\<close>); a
    qualification that failed or was recorded before touches nothing that exists (\<open>Figure_Pipeline\<close>).
  \<^item> The scheduler (\<open>Scheduling\<close>): the result does not depend on the interleaving, the bound on running
    attempts holds, every schedule ends, and only a result of its own in time completes an attempt.
  \<^item> The vocabulary: round trip of canonical JSON, seals, confined paths, chronological timestamps, the
    authority table, the transition graph, the role catalog, panels and their gates, artifact
    stages and the promotion of heuristics.

  The samples are a complete orchestration run (\<open>Samples\<close>), a journal holding the start of one
  (\<open>Journal_Samples\<close>) and commands on that journal; \<open>Witnesses\<close>, \<open>Journal_Witnesses\<close> and
  \<open>Runtime_Witnesses\<close> apply the properties to them.

  \<^bold>\<open>Parameters and bounds.\<close>  The digest, the rendering of floats and the dump and validation of
  records by the validation library are fields of \<open>env\<close> and \<open>store_env\<close>.  Where a property needs more of
  them it says so: that the digest does not collide on the events at hand, or that the library reads a
  record back as it was dumped.  \<open>store_env\<close> also holds the checks that lead into packages outside the
  model: experiment contracts and provenance, narrative reports and host observations.  The only fuel is
  that of \<open>prefix_slots\<close>, the search for segments by number, which runs for as many steps as the tree
  has entries; \<open>search_for_segments_ends\<close> shows that more fuel finds no more segments.  All other
  functions are total.  What hosts and the compiler of figures do is an argument of the scheduler
  (\<open>host_script\<close>) and of the qualification.

  \<^bold>\<open>Not modelled.\<close>

  \<^item> Patterns and length limits of single fields, which the validation library checks before a model
    exists.  A record of the model need not satisfy them.
  \<^item> Locks, \<open>fsync\<close>, crashes inside a system call and the failpoints of the tests.  A command has
    the journal to itself; the states that an interrupted append leaves are the subject of
    \<open>torn_append_is_classified\<close>.  Symbolic links are refused by every reader, so they have no target here.
  \<^item> The creation of a run (\<open>initialize_run\<close>) and the probe command of the first journal format.
  \<^item> \<open>accept_artifact\<close>, whose check runs through the writing, narrative and submission services, and
    the rendering of the execution projection.
  \<^item> The packages around the kernel's ledger: orchestration and the host adapters (they drive workers,
    and commit through the commands above), submission, claim graph, narrative and accepted references,
    the policy locks and scans, exports, the command line, the servers, and the vendored skills with
    their scripts.  They read accepted history or call the commands; the journal's writers are those
    above and \<open>initialize_run\<close>.
\<close>

end
